(* ===== verification/Prelude.thy ===== *)
theory Prelude
  imports Main
begin

text \<open>
  Shared vocabulary of the development: the computation type in which repository functions,
  services and handlers are written, the rules that execute such computations, and the
  compositional rules for relations between the state before and after a computation.

  A computation takes the state and returns a result and a state. The result is \<open>Inl e\<close>
  where the source returns \<open>Err(e)\<close> (through an early return or the question mark operator)
  and \<open>Inr x\<close> where it returns \<open>Ok(x)\<close>. The state is returned in both cases, because the
  source commits some of its work before it reports an error (a failed login, for example).
  A transaction is the combinator that drops the state of a failed body.
\<close>

section \<open>Collections\<close>

named_theorems ok_iff
  \<open>a computation returns \<open>Ok\<close> exactly when its parts do; rewrites executions into conjunctions\<close>
named_theorems keeps_intro
  \<open>a relation between initial and final state holds for a computation because it holds for its parts\<close>

section \<open>Computations with state and error\<close>

type_synonym ('s, 'e, 'a) comp = "'s \<Rightarrow> ('e + 'a) \<times> 's"

definition ret :: "'a \<Rightarrow> ('s, 'e, 'a) comp" where
  "ret x = (\<lambda>s. (Inr x, s))"

definition throw :: "'e \<Rightarrow> ('s, 'e, 'a) comp" where
  "throw e = (\<lambda>s. (Inl e, s))"

definition bind :: "('s, 'e, 'a) comp \<Rightarrow> ('a \<Rightarrow> ('s, 'e, 'b) comp) \<Rightarrow> ('s, 'e, 'b) comp" where
  "bind m k = (\<lambda>s. case m s of (Inl e, t) \<Rightarrow> (Inl e, t) | (Inr x, t) \<Rightarrow> k x t)"

definition gets :: "('s \<Rightarrow> 'a) \<Rightarrow> ('s, 'e, 'a) comp" where
  "gets f = (\<lambda>s. (Inr (f s), s))"

definition modify :: "('s \<Rightarrow> 's) \<Rightarrow> ('s, 'e, unit) comp" where
  "modify f = (\<lambda>s. (Inr (), f s))"

definition map_err :: "('e \<Rightarrow> 'f) \<Rightarrow> ('s, 'e, 'a) comp \<Rightarrow> ('s, 'f, 'a) comp" where
  "map_err f m = (\<lambda>s. case m s of (Inl e, t) \<Rightarrow> (Inl (f e), t) | (Inr x, t) \<Rightarrow> (Inr x, t))"

definition lift :: "'e + 'a \<Rightarrow> ('s, 'e, 'a) comp" where
  "lift r = (\<lambda>s. (r, s))"

definition ensure :: "bool \<Rightarrow> 'e \<Rightarrow> ('s, 'e, unit) comp" where
  "ensure b e = (if b then ret () else throw e)"

definition ok_or :: "'a option \<Rightarrow> 'e \<Rightarrow> ('s, 'e, 'a) comp" where
  "ok_or r e = (case r of None \<Rightarrow> throw e | Some x \<Rightarrow> ret x)"

fun for_each :: "'x list \<Rightarrow> ('x \<Rightarrow> ('s, 'e, unit) comp) \<Rightarrow> ('s, 'e, unit) comp" where
  "for_each [] f = ret ()"
| "for_each (x # xs) f = bind (f x) (\<lambda>_. for_each xs f)"

text \<open>
  \<open>pool.begin()\<close> to \<open>transaction.commit()\<close>: a body that fails leaves nothing behind.
\<close>

definition transaction :: "('s, 'e, 'a) comp \<Rightarrow> ('s, 'e, 'a) comp" where
  "transaction m = (\<lambda>s. case m s of (Inl e, _) \<Rightarrow> (Inl e, s) | (Inr x, t) \<Rightarrow> (Inr x, t))"

section \<open>Executing computations\<close>

lemma ret_ok [ok_iff]: "ret x s = (Inr y, t) \<longleftrightarrow> y = x \<and> t = s"
  by (auto simp: ret_def)

lemma throw_ok [ok_iff]: "throw e s = (Inr y, t) \<longleftrightarrow> False"
  by (simp add: throw_def)

lemma bind_ok [ok_iff]:
  "bind m k s = (Inr y, t) \<longleftrightarrow> (\<exists>x u. m s = (Inr x, u) \<and> k x u = (Inr y, t))"
  by (auto simp: bind_def split: prod.splits sum.splits)

lemma gets_ok [ok_iff]: "gets f s = (Inr y, t) \<longleftrightarrow> y = f s \<and> t = s"
  by (auto simp: gets_def)

lemma modify_ok [ok_iff]: "modify f s = (Inr y, t) \<longleftrightarrow> t = f s"
  by (auto simp: modify_def)

lemma map_err_ok [ok_iff]: "map_err f m s = (Inr y, t) \<longleftrightarrow> m s = (Inr y, t)"
  by (auto simp: map_err_def split: prod.splits sum.splits)

lemma lift_ok [ok_iff]: "lift r s = (Inr y, t) \<longleftrightarrow> r = Inr y \<and> t = s"
  by (auto simp: lift_def)

lemma ensure_ok [ok_iff]: "ensure b e s = (Inr y, t) \<longleftrightarrow> b \<and> t = s"
  by (auto simp: ensure_def ret_def throw_def)

lemma ok_or_ok [ok_iff]: "ok_or r e s = (Inr y, t) \<longleftrightarrow> r = Some y \<and> t = s"
  by (auto simp: ok_or_def ret_def throw_def split: option.splits)

lemma for_each_Nil_ok [ok_iff]: "for_each [] f s = (Inr y, t) \<longleftrightarrow> t = s"
  by (auto simp: ret_def)

lemma for_each_Cons_ok [ok_iff]:
  "for_each (x # xs) f s = (Inr y, t) \<longleftrightarrow>
     (\<exists>u. f x s = (Inr (), u) \<and> for_each xs f u = (Inr y, t))"
  by (auto simp: bind_ok)

lemma transaction_ok [ok_iff]: "transaction m s = (Inr y, t) \<longleftrightarrow> m s = (Inr y, t)"
  by (auto simp: transaction_def split: prod.splits sum.splits)

lemma if_ok [ok_iff]:
  "(if b then m else n) s = (Inr y, t) \<longleftrightarrow> (if b then m s = (Inr y, t) else n s = (Inr y, t))"
  by simp

lemma not_isl_ok: "\<not> isl (fst (m s)) \<longleftrightarrow> (\<exists>x t. m s = (Inr x, t))"
  by (metis fst_conv isl_def obj_sumE prod.collapse sum.disc(2))

text \<open>Evaluation of closed computations: the same combinators applied to a state.\<close>

lemmas comp_defs =
  ret_def throw_def bind_def gets_def modify_def map_err_def lift_def ensure_def ok_or_def
  transaction_def

text \<open>A failed transaction leaves the state as it was.\<close>

lemma transaction_err: "transaction m s = (Inl e, t) \<Longrightarrow> t = s"
  by (auto simp: transaction_def split: prod.splits sum.splits)

section \<open>Relations between the state before and after\<close>

definition within :: "('s \<Rightarrow> 's \<Rightarrow> bool) \<Rightarrow> ('s, 'e, 'a) comp \<Rightarrow> bool" where
  "within R m \<longleftrightarrow> (\<forall>s. R s (snd (m s)))"

text \<open>
  The contract a relation between states has to meet so that it can be established piecewise:
  it is a preorder. Every relation the components promise of their operations (the audit log
  only grows, a table is not touched, the department hierarchy stays a forest, some super
  administrator stays active) is an interpretation.
\<close>

locale state_preorder =
  fixes R :: "'s \<Rightarrow> 's \<Rightarrow> bool"
  assumes refl: "R s s"
    and trans: "R s t \<Longrightarrow> R t u \<Longrightarrow> R s u"
begin

lemma within_ret [keeps_intro]: "within R (ret x)"
  by (simp add: within_def ret_def refl)

lemma within_throw [keeps_intro]: "within R (throw e)"
  by (simp add: within_def throw_def refl)

lemma within_gets [keeps_intro]: "within R (gets f)"
  by (simp add: within_def gets_def refl)

lemma within_lift [keeps_intro]: "within R (lift r)"
  by (simp add: within_def lift_def refl)

lemma within_ensure [keeps_intro]: "within R (ensure b e)"
  by (simp add: within_def ensure_def ret_def throw_def refl)

lemma within_ok_or [keeps_intro]: "within R (ok_or r e)"
  by (simp add: within_def ok_or_def ret_def throw_def refl split: option.splits)

lemma within_modify: "(\<And>s. R s (f s)) \<Longrightarrow> within R (modify f)"
  by (simp add: within_def modify_def)

lemma within_map_err [keeps_intro]: "within R m \<Longrightarrow> within R (map_err f m)"
  by (simp add: within_def map_err_def split: prod.splits sum.splits)
    (metis snd_conv)

lemma within_bind [keeps_intro]:
  assumes m: "within R m" and k: "\<And>x. within R (k x)"
  shows "within R (bind m k)"
proof -
  have "R s (snd (bind m k s))" for s
  proof -
    obtain r t where mt: "m s = (r, t)" by (cases "m s")
    with m have st: "R s t" by (auto simp: within_def dest: spec [of _ s])
    show ?thesis
    proof (cases r)
      case (Inl e)
      with mt st show ?thesis by (simp add: bind_def)
    next
      case (Inr x)
      from k [of x] have "R t (snd (k x t))" by (simp add: within_def)
      with st have "R s (snd (k x t))" by (rule trans)
      with mt Inr show ?thesis by (simp add: bind_def)
    qed
  qed
  then show ?thesis by (simp add: within_def)
qed

lemma within_for_each [keeps_intro]: "(\<And>x. within R (f x)) \<Longrightarrow> within R (for_each xs f)"
  by (induction xs) (auto intro: keeps_intro)

lemma within_if [keeps_intro]: "within R m \<Longrightarrow> within R n \<Longrightarrow> within R (if b then m else n)"
  by simp

lemma within_option [keeps_intro]:
  "within R m \<Longrightarrow> (\<And>x. within R (k x)) \<Longrightarrow> within R (case r of None \<Rightarrow> m | Some x \<Rightarrow> k x)"
  by (cases r) auto

lemma within_let [keeps_intro]: "(\<And>x. within R (k x)) \<Longrightarrow> within R (let x = v in k x)"
  by simp

text \<open>
  Inside a transaction only the effect of a successful body matters. The relation need not
  hold after each statement of the body.
\<close>

lemma within_transaction_body:
  assumes "\<And>s x t. m s = (Inr x, t) \<Longrightarrow> R s t"
  shows "within R (transaction m)"
  using assms refl
  by (auto simp: within_def transaction_def split: prod.splits sum.splits)

lemma within_ok: "within R m \<Longrightarrow> m s = (r, t) \<Longrightarrow> R s t"
  by (auto simp: within_def dest: spec [of _ s])

lemma within_transaction [keeps_intro]: "within R m \<Longrightarrow> within R (transaction m)"
  by (rule within_transaction_body) (rule within_ok)

end

text \<open>An invariant is the preorder of implication.\<close>

definition keeping :: "('s \<Rightarrow> bool) \<Rightarrow> 's \<Rightarrow> 's \<Rightarrow> bool" where
  "keeping P s t \<longleftrightarrow> (P s \<longrightarrow> P t)"

interpretation keeping: state_preorder "keeping P" for P
  by unfold_locales (auto simp: keeping_def)

text \<open>A field (or any view) that is not changed is the preorder of equality under the view.\<close>

definition same :: "('s \<Rightarrow> 'v) \<Rightarrow> 's \<Rightarrow> 's \<Rightarrow> bool" where
  "same f s t \<longleftrightarrow> f t = f s"

interpretation same: state_preorder "same f" for f
  by unfold_locales (auto simp: same_def)

lemma keeping_ok: "within (keeping P) m \<Longrightarrow> m s = (r, t) \<Longrightarrow> P s \<Longrightarrow> P t"
  using keeping.within_ok [of P m s r t] by (simp add: keeping_def)

lemma same_ok: "within (same f) m \<Longrightarrow> m s = (r, t) \<Longrightarrow> f t = f s"
  using same.within_ok [of f m s r t] by (simp add: same_def)

section \<open>Reads, postconditions and atomicity\<close>

text \<open>A computation that only reads, and one that leaves the state alone whenever it fails.\<close>

definition reads :: "('s, 'e, 'a) comp \<Rightarrow> bool" where
  "reads m \<longleftrightarrow> within (same (\<lambda>s. s)) m"

definition atomic :: "('s, 'e, 'a) comp \<Rightarrow> bool" where
  "atomic m \<longleftrightarrow> (\<forall>s e t. m s = (Inl e, t) \<longrightarrow> t = s)"

definition total :: "('s, 'e, 'a) comp \<Rightarrow> bool" where
  "total m \<longleftrightarrow> (\<forall>s e t. m s \<noteq> (Inl e, t))"

text \<open>The state after the computation satisfies \<open>P\<close>, whatever it returns.\<close>

definition post :: "('s \<Rightarrow> bool) \<Rightarrow> ('s, 'e, 'a) comp \<Rightarrow> 's \<Rightarrow> bool" where
  "post P m s \<longleftrightarrow> P (snd (m s))"

named_theorems atomic_intro \<open>a failing computation leaves the state alone because its parts do\<close>

lemma reads_state: "reads m \<Longrightarrow> m s = (r, t) \<Longrightarrow> t = s"
  by (auto simp: reads_def within_def same_def dest: spec [of _ s])

named_theorems reads_intro \<open>a computation only reads because its parts do\<close>

lemma reads_basic [reads_intro]:
  "reads (ret x)" "reads (throw e)" "reads (gets f)" "reads (lift r)" "reads (ensure b e2)"
  "reads (ok_or v e3)"
  unfolding reads_def by (intro keeps_intro)+

lemma reads_map_err [reads_intro]: "reads m \<Longrightarrow> reads (map_err f m)"
  unfolding reads_def by (intro keeps_intro)

lemma reads_bind [reads_intro]: "reads m \<Longrightarrow> (\<And>x. reads (k x)) \<Longrightarrow> reads (bind m k)"
  unfolding reads_def by (intro keeps_intro)

lemma reads_if [reads_intro]: "reads m \<Longrightarrow> reads n \<Longrightarrow> reads (if b then m else n)"
  by simp

lemma reads_option [reads_intro]:
  "reads m \<Longrightarrow> (\<And>x. reads (k x)) \<Longrightarrow> reads (case v of None \<Rightarrow> m | Some x \<Rightarrow> k x)"
  by (cases v) simp_all

lemma reads_for_each [reads_intro]: "(\<And>x. reads (k x)) \<Longrightarrow> reads (for_each xs k)"
  unfolding reads_def by (intro keeps_intro)

lemma post_bind_read:
  assumes "reads m" and "P s" and "\<And>x. m s = (Inr x, s) \<Longrightarrow> post P (k x) s"
  shows "post P (bind m k) s"
proof -
  obtain r t where m: "m s = (r, t)" by (cases "m s")
  with assms(1) have "t = s" by (rule reads_state)
  with m assms(2,3) show ?thesis by (cases r) (auto simp: post_def bind_def)
qed

lemma post_bind:
  assumes "post P m s" and "\<And>x t. m s = (Inr x, t) \<Longrightarrow> P t \<Longrightarrow> post P (k x) t"
  shows "post P (bind m k) s"
proof -
  obtain r t where m: "m s = (r, t)" by (cases "m s")
  with assms show ?thesis by (cases r) (auto simp: post_def bind_def)
qed

lemma post_transaction:
  "P s \<Longrightarrow> (\<And>x t. m s = (Inr x, t) \<Longrightarrow> P t) \<Longrightarrow> post P (transaction m) s"
  by (auto simp: post_def transaction_def split: prod.splits sum.splits)

lemma post_bind_transaction:
  assumes "P s" and "\<And>x t. P t \<Longrightarrow> post P (k x) t" and "\<And>x t. m s = (Inr x, t) \<Longrightarrow> P t"
  shows "post P (bind (transaction m) k) s"
  by (rule post_bind [OF post_transaction]) (use assms in auto)

lemma post_reads: "reads m \<Longrightarrow> P s \<Longrightarrow> post P m s"
  using reads_state [of m s "fst (m s)" "snd (m s)"] by (simp add: post_def)

lemma post_keeping: "(\<And>s. P s \<Longrightarrow> post P m s) \<Longrightarrow> within (keeping P) m"
  by (simp add: within_def keeping_def post_def)

lemma keeping_post: "within (keeping P) m \<Longrightarrow> P s \<Longrightarrow> post P m s"
  by (simp add: within_def keeping_def post_def)

lemma ok_bind_read:
  assumes "bind m k s = (Inr y, t)" and "reads m"
    and "\<And>x. m s = (Inr x, s) \<Longrightarrow> k x s = (Inr y, t) \<Longrightarrow> thesis"
  shows thesis
  using assms by (auto simp: bind_ok dest: reads_state)

lemma ok_bind_transaction:
  assumes "bind (transaction m) k s = (Inr y, t)" and "\<And>x. reads (k x)"
    and "\<And>x. m s = (Inr x, t) \<Longrightarrow> thesis"
  shows thesis
  using assms by (auto simp: bind_ok transaction_ok dest: reads_state)

lemma atomic_reads: "reads m \<Longrightarrow> atomic m"
  by (auto simp: atomic_def dest: reads_state)

lemma atomic_transaction [atomic_intro]: "atomic (transaction m)"
  by (auto simp: atomic_def dest: transaction_err)

lemma atomic_bind_read:
  assumes "reads m" and "\<And>x. atomic (k x)"
  shows "atomic (bind m k)"
proof -
  have "t = s" if "bind m k s = (Inl e, t)" for s e t
  proof (cases "m s")
    case (Pair r u)
    with assms(1) have "u = s" by (rule reads_state)
    with that Pair assms(2) show ?thesis
      by (cases r) (auto simp: bind_def atomic_def)
  qed
  then show ?thesis by (simp add: atomic_def)
qed

lemma atomic_bind_total:
  assumes "atomic m" and "\<And>x. total (k x)"
  shows "atomic (bind m k)"
  using assms by (auto simp: atomic_def total_def bind_def split: prod.splits sum.splits)

lemma total_gets [atomic_intro]: "total (gets f)"
  and total_ret [atomic_intro]: "total (ret x)"
  and total_bind [atomic_intro]: "total m \<Longrightarrow> (\<And>x. total (k x)) \<Longrightarrow> total (bind m k)"
  by (auto simp: total_def gets_def ret_def bind_def split: prod.splits sum.splits)

lemma atomic_simple [atomic_intro]:
  "atomic (ret x)" "atomic (throw e)" "atomic (ensure b e)" "atomic (ok_or r e)" "atomic (gets f)"
  by (auto simp: atomic_def ret_def throw_def ensure_def ok_or_def gets_def split: option.splits)

lemma atomic_if [atomic_intro]: "atomic m \<Longrightarrow> atomic n \<Longrightarrow> atomic (if b then m else n)"
  by simp

section \<open>Invariants of transaction bodies\<close>

text \<open>
  Inside a transaction a failed body is undone, so an invariant has to hold only where the body
  succeeds.
\<close>

definition committed :: "('s \<Rightarrow> bool) \<Rightarrow> ('s, 'e, 'a) comp \<Rightarrow> bool" where
  "committed P m \<longleftrightarrow> (\<forall>s x t. P s \<longrightarrow> m s = (Inr x, t) \<longrightarrow> P t)"

named_theorems commit_intro \<open>a successful body keeps an invariant because its parts do\<close>

lemma committed_within: "within (keeping P) m \<Longrightarrow> committed P m"
  by (auto simp: committed_def dest: keeping_ok)

lemma committed_bind [commit_intro]:
  "committed P m \<Longrightarrow> (\<And>x. committed P (k x)) \<Longrightarrow> committed P (bind m k)"
  unfolding committed_def bind_ok by blast

lemma committed_map_err [commit_intro]: "committed P m \<Longrightarrow> committed P (map_err f m)"
  by (auto simp: committed_def ok_iff)

lemma committed_if [commit_intro]: "committed P m \<Longrightarrow> committed P n \<Longrightarrow> committed P (if b then m else n)"
  by simp

lemma committed_option [commit_intro]:
  "committed P m \<Longrightarrow> (\<And>x. committed P (k x)) \<Longrightarrow> committed P (case v of None \<Rightarrow> m | Some x \<Rightarrow> k x)"
  by (cases v) simp_all

lemma committed_for_each [commit_intro]:
  "(\<And>x. committed P (f x)) \<Longrightarrow> committed P (for_each xs f)"
  by (induction xs) (simp_all add: committed_bind, simp add: committed_def ret_def)

lemma committed_ok: "committed P m \<Longrightarrow> m s = (Inr x, t) \<Longrightarrow> P s \<Longrightarrow> P t"
  by (auto simp: committed_def)

lemma within_committed: "committed P m \<Longrightarrow> within (keeping P) (transaction m)"
  by (rule keeping.within_transaction_body) (auto simp: keeping_def committed_def)

section \<open>Lists\<close>

lemma find_SomeD: "find P xs = Some x \<Longrightarrow> x \<in> set xs \<and> P x"
  by (induction xs) (auto split: if_splits)

lemma find_None_iff': "find P xs = None \<longleftrightarrow> (\<forall>x \<in> set xs. \<not> P x)"
  by (induction xs) auto

lemma distinct_map_unique:
  "distinct (map f xs) \<Longrightarrow> x \<in> set xs \<Longrightarrow> y \<in> set xs \<Longrightarrow> f x = f y \<Longrightarrow> x = y"
  by (auto simp: distinct_map dest: inj_onD)

text \<open>\<open>BTreeSet\<close> against \<open>Vec\<close>: equal sizes mean no duplicates.\<close>

lemma card_set_length [simp]: "card (set xs) = length xs \<longleftrightarrow> distinct xs"
  by (metis card_distinct distinct_card)

end
