(* ===== verification/Errors.thy ===== *)
theory Errors
  imports Text
begin

text \<open>
  The error contract of the API (\<open>backend/src/error.rs\<close>): the error values the services
  return, their HTTP status and code, the response body, and the translation of database
  errors. The message texts of the source are Chinese literals; each is named by a constructor
  whose name translates it, grouped by the component that sends it. \<open>Internal\<close> carries the cause that is logged and never
  sent.
\<close>

section \<open>Data\<close>

datatype user_message =
    UserNotFound | StatusFilterInvalid | SortFieldInvalid | SortDirectionInvalid
  | ScopeForbidsCreatingUsers | UsernameLength | UsernameCharacters | PasswordLength
  | DisplayNameLength | UserStatusInvalid | DepartmentDirectoryPermissionMissing
  | CannotMoveOwnDepartment | CannotDeactivateSelf | CannotDeleteSelf

datatype user_batch_message =
    AuthenticatedUserRequired | BatchEmpty | BatchDuplicates | BatchContainsSelf
  | RoleListDuplicates | RoleListContainsInactive | SuperAdminGrantPermissionMissing
  | RoleExceedsActorPermissions | LastSuperAdmin

datatype role_message =
    RoleNotFound | RoleCodeInvalid | RoleNameEmpty | RoleCategoryEmpty | RoleColorInvalid
  | DataScopeInvalid | DataScopeExceedsActor | RolePermissionAssignForbidden
  | SuperAdminRoleNotDeactivatable | SuperAdminRoleScopeFixed | SuperAdminRoleNotDeletable
  | SuperAdminRolePermissionsFixed | RoleHasMembers

datatype permission_message =
    PermissionListDuplicates | PermissionListUnknown | RolePermissionDependency
  | DepartmentPermissionDependency | PermissionExceedsActor

datatype department_message =
    DepartmentNotFound | DepartmentNotFoundOrOutOfScope | ScopeForbidsCreatingDepartments
  | NothingToUpdate | RootDepartmentFixed | RootDepartmentNotDeletable | DepartmentCycle
  | DepartmentHasChildren | DepartmentHasMembers | DepartmentOccupied | DepartmentCodeTaken
  | DepartmentCodeInvalid | DepartmentNameLength | DepartmentStatusInvalid

datatype department_link_message =
    DepartmentSelfParent | ParentNotFoundOrOutOfScope | ParentInactive
  | TargetDepartmentNotFoundOrOutOfScope | TargetDepartmentInactive

datatype auth_message =
    CurrentPasswordEmpty | NewPasswordSame | CurrentPasswordWrong | BootstrapUsernameInvalid
  | BootstrapPasswordLength | StepUpScopeInvalid | StepUpRequired | StepUpTokenInvalid
  | ModuleInvalid | ModuleLocked | CursorInvalid

datatype mfa_message =
    TotpNotEnrolled | TotpCodeWrong | TotpCodeUsed | TotpCodeRequired | PasskeyNameLength
  | PasskeyRegistrationFailed | PasskeyNotFound

datatype message =
    MissingPermission string
  | UniqueConstraintConflict
  | RelatedDataMissingOrReferenced
  | LoginExpiredText
  | CsrfText
  | RateLimitedText
  | ServerErrorText
  | UserMsg user_message
  | BatchMsg user_batch_message
  | RoleMsg role_message
  | PermMsg permission_message
  | DeptMsg department_message
  | LinkMsg department_link_message
  | AuthMsg auth_message
  | MfaMsg mfa_message

text \<open>The database errors the code distinguishes; \<open>sqlx::Error\<close> as the source uses it.\<close>

datatype sqlx_error =
    UniqueViolation
  | ForeignKeyViolation
  | CheckViolation
  | StringTooLong
  | StatementTimeout
  | NegativeOffset
  | RowNotFound
  | Protocol string

datatype internal_cause =
    DbCause sqlx_error
  | InvalidDataScope
  | MissingSuperAdminRole
  | InvalidStoredHash
  | HashFailure
  | CryptoFailure
  | StateDecodeFailure
  | TotpFailure
  | WebauthnFailure
  | CounterOverflow

datatype api_error =
    Unauthorized
  | Forbidden message
  | NotFound message
  | Conflict message
  | Validation message
  | CsrfInvalid
  | RateLimited nat
  | Internal internal_cause

datatype status_code =
    OK_200 | CREATED_201 | NO_CONTENT_204 | UNAUTHORIZED_401 | FORBIDDEN_403 | NOT_FOUND_404
  | CONFLICT_409 | UNPROCESSABLE_ENTITY_422 | TOO_MANY_REQUESTS_429
  | INTERNAL_SERVER_ERROR_500

record error_body =
  eb_code :: string
  eb_message :: message
  eb_trace_id :: string

record error_reply =
  er_status :: status_code
  er_body :: error_body
  er_retry_after :: "nat option"

section \<open>Responses\<close>

fun error_status :: "api_error \<Rightarrow> status_code" where
  "error_status Unauthorized = UNAUTHORIZED_401"
| "error_status (Forbidden _) = FORBIDDEN_403"
| "error_status (NotFound _) = NOT_FOUND_404"
| "error_status (Conflict _) = CONFLICT_409"
| "error_status (Validation _) = UNPROCESSABLE_ENTITY_422"
| "error_status CsrfInvalid = FORBIDDEN_403"
| "error_status (RateLimited _) = TOO_MANY_REQUESTS_429"
| "error_status (Internal _) = INTERNAL_SERVER_ERROR_500"

fun error_code :: "api_error \<Rightarrow> string" where
  "error_code Unauthorized = ''UNAUTHORIZED''"
| "error_code (Forbidden _) = ''FORBIDDEN''"
| "error_code (NotFound _) = ''NOT_FOUND''"
| "error_code (Conflict _) = ''CONFLICT''"
| "error_code (Validation _) = ''VALIDATION_ERROR''"
| "error_code CsrfInvalid = ''CSRF_INVALID''"
| "error_code (RateLimited _) = ''RATE_LIMITED''"
| "error_code (Internal _) = ''INTERNAL_ERROR''"

text \<open>The text of an error as it is sent: internal causes are replaced.\<close>

fun error_message :: "api_error \<Rightarrow> message" where
  "error_message Unauthorized = LoginExpiredText"
| "error_message (Forbidden m) = m"
| "error_message (NotFound m) = m"
| "error_message (Conflict m) = m"
| "error_message (Validation m) = m"
| "error_message CsrfInvalid = CsrfText"
| "error_message (RateLimited _) = RateLimitedText"
| "error_message (Internal _) = ServerErrorText"

definition error_response ::
    "status_code \<Rightarrow> string \<Rightarrow> message \<Rightarrow> string \<Rightarrow> error_reply" where
  "error_response status code msg trace_id =
     \<lparr>er_status = status,
      er_body = \<lparr>eb_code = code, eb_message = msg, eb_trace_id = trace_id\<rparr>,
      er_retry_after = None\<rparr>"

definition trace_id_or_unavailable :: "string option \<Rightarrow> string" where
  "trace_id_or_unavailable t = (case t of None \<Rightarrow> ''unavailable'' | Some x \<Rightarrow> x)"

definition into_response :: "string option \<Rightarrow> api_error \<Rightarrow> error_reply" where
  "into_response current_trace_id e =
     (let response =
        error_response (error_status e) (error_code e) (error_message e)
          (trace_id_or_unavailable current_trace_id)
      in case e of RateLimited retry_after_secs \<Rightarrow> response\<lparr>er_retry_after := Some retry_after_secs\<rparr>
         | _ \<Rightarrow> response)"

definition internal_error_response :: "string option \<Rightarrow> error_reply" where
  "internal_error_response current_trace_id =
     error_response INTERNAL_SERVER_ERROR_500 ''INTERNAL_ERROR'' ServerErrorText
       (trace_id_or_unavailable current_trace_id)"

definition db_error :: "sqlx_error \<Rightarrow> api_error" where
  "db_error e =
     (case e of UniqueViolation \<Rightarrow> Conflict UniqueConstraintConflict
      | ForeignKeyViolation \<Rightarrow> Validation RelatedDataMissingOrReferenced
      | _ \<Rightarrow> Internal (DbCause e))"

section \<open>Facts\<close>

text \<open>What is sent for an internal error does not depend on its cause.\<close>

lemma into_response_internal:
  "into_response t (Internal c) = internal_error_response t"
  by (simp add: into_response_def internal_error_response_def)

lemma into_response_retry_after:
  "er_retry_after (into_response t e) = Some n \<longleftrightarrow> e = RateLimited n"
  by (cases e) (auto simp: into_response_def error_response_def)

lemma into_response_status:
  "er_status (into_response t e) = error_status e"
  by (cases e) (auto simp: into_response_def error_response_def)

end
