(* ===== verification/Access.thy ===== *)
theory Access
  imports Errors
begin

text \<open>
  The authenticated actor and its row-level data scope (\<open>backend/src/access.rs\<close>), and the
  typed permission codes of \<open>backend/src/permissions.rs\<close>. The scopes are ordered by breadth;
  the order is the library's \<open>linorder\<close>, and \<open>can_grant\<close> is shown to be exactly this order.
\<close>

section \<open>Data scopes\<close>

datatype data_scope = All | Organization | DepartmentAndChildren | Department | SelfOnly

fun as_str :: "data_scope \<Rightarrow> string" where
  "as_str All = ''all''"
| "as_str Organization = ''organization''"
| "as_str DepartmentAndChildren = ''department_and_children''"
| "as_str Department = ''department''"
| "as_str SelfOnly = ''self''"

definition from_database :: "string \<Rightarrow> data_scope option" where
  "from_database value =
     (if value = ''all'' then Some All
      else if value = ''organization'' then Some Organization
      else if value = ''department_and_children'' then Some DepartmentAndChildren
      else if value = ''department'' then Some Department
      else if value = ''self'' then Some SelfOnly
      else None)"

fun can_grant :: "data_scope \<Rightarrow> data_scope \<Rightarrow> bool" where
  "can_grant All requested = True"
| "can_grant Organization requested = (requested \<noteq> All)"
| "can_grant DepartmentAndChildren requested =
     (requested \<in> {DepartmentAndChildren, Department, SelfOnly})"
| "can_grant Department requested = (requested \<in> {Department, SelfOnly})"
| "can_grant SelfOnly requested = (requested = SelfOnly)"

section \<open>Actors\<close>

record actor_context =
  user_id :: int
  session_id :: int
  organization_id :: int
  department_id :: "int option"
  data_scope :: data_scope
  permission_codes :: "string set"

definition has_permission :: "actor_context \<Rightarrow> string \<Rightarrow> bool" where
  "has_permission actor code \<longleftrightarrow> code \<in> permission_codes actor"

definition can_create_peer :: "actor_context \<Rightarrow> bool" where
  "can_create_peer actor \<longleftrightarrow> data_scope actor \<noteq> SelfOnly"

section \<open>Permission codes\<close>

definition UserRead :: string where "UserRead = ''user:directory:read''"
definition UserWrite :: string where "UserWrite = ''user:write''"
definition UserRoleWrite :: string where "UserRoleWrite = ''user:roles:write''"
definition UserDeactivate :: string where "UserDeactivate = ''user:admin:deactivate''"
definition RoleRead :: string where "RoleRead = ''role:directory:read''"
definition RoleWrite :: string where "RoleWrite = ''role:write''"
definition RolePermissionWrite :: string where "RolePermissionWrite = ''role:permissions:write''"
definition PermissionRead :: string where "PermissionRead = ''permission:directory:read''"
definition DashboardRead :: string where "DashboardRead = ''dashboard:analytics:read''"
definition AuditLogRead :: string where "AuditLogRead = ''audit:logs:read''"
definition DepartmentRead :: string where "DepartmentRead = ''organization:department:read''"
definition DepartmentWrite :: string where "DepartmentWrite = ''organization:department:write''"

section \<open>The order of scopes\<close>

fun breadth :: "data_scope \<Rightarrow> nat" where
  "breadth All = 4"
| "breadth Organization = 3"
| "breadth DepartmentAndChildren = 2"
| "breadth Department = 1"
| "breadth SelfOnly = 0"

lemma breadth_inj: "breadth a = breadth b \<Longrightarrow> a = b"
  by (cases a; cases b) auto

instantiation data_scope :: linorder
begin

definition less_eq_data_scope :: "data_scope \<Rightarrow> data_scope \<Rightarrow> bool" where
  "less_eq_data_scope a b \<longleftrightarrow> breadth a \<le> breadth b"

definition less_data_scope :: "data_scope \<Rightarrow> data_scope \<Rightarrow> bool" where
  "less_data_scope a b \<longleftrightarrow> breadth a < breadth b"

instance
  by standard (auto simp: less_eq_data_scope_def less_data_scope_def intro: breadth_inj)

end

lemma can_grant_iff_le: "can_grant actor_scope requested \<longleftrightarrow> requested \<le> actor_scope"
  by (cases actor_scope; cases requested) (auto simp: less_eq_data_scope_def)

lemma from_database_as_str [simp]: "from_database (as_str s) = Some s"
  by (cases s) (simp_all add: from_database_def)

lemma from_database_Some: "from_database v = Some s \<longleftrightarrow> v = as_str s"
  by (cases s) (auto simp: from_database_def split: if_splits)

lemma as_str_inj: "as_str a = as_str b \<longleftrightarrow> a = b"
  by (metis from_database_as_str option.inject)

end
