(* ===== verification/Database.thy ===== *)
theory Database
  imports Access
begin

text \<open>
  The PostgreSQL state behind the repositories: one record per table of
  \<open>backend/migrations\<close>, the row types that \<open>backend/src/models.rs\<close> reads from them, the record
  of all tables, and the meaning of the statements the repositories issue (filtering, updating
  and deleting rows, sequences, the length and uniqueness constraints). Timestamps are
  microseconds, the resolution of \<open>timestamptz\<close>. A row type that a query returns is a record
  whose fields are the selected columns; where the table has more columns the table's record
  extends it, and the selection is the record's \<open>truncate\<close>.
\<close>

type_synonym time = int

definition secs :: "int \<Rightarrow> time" where
  "secs n = n * 1000000"

definition days :: "int \<Rightarrow> time" where
  "days n = secs (n * 86400)"

datatype json =
    JNull | JBool bool | JInt int | JStr string | JTime time
  | JArr "json list" | JObj "(string \<times> json) list"

definition json_opt :: "('a \<Rightarrow> json) \<Rightarrow> 'a option \<Rightarrow> json" where
  "json_opt f v = (case v of None \<Rightarrow> JNull | Some x \<Rightarrow> f x)"

section \<open>Rows\<close>

record user_row =
  u_id :: int
  u_username :: string
  u_password_hash :: string
  u_display_name :: string
  u_email :: "string option"
  u_status :: string
  u_organization_id :: int
  u_department_id :: "int option"
  u_token_version :: int
  u_last_login_at :: "time option"
  u_created_at :: time

record users_rec = user_row +
  u_updated_at :: time
  u_deleted_at :: "time option"

record role_columns =
  r_id :: int
  r_code :: string
  r_name :: string
  r_category :: string
  r_icon :: "string option"
  r_color :: string
  r_description :: "string option"
  r_data_scope :: string
  r_is_active :: bool

record role_row = role_columns +
  r_members :: int

record role_with_permissions_row = role_row +
  r_permission_group_ids :: "int list"

record roles_rec = role_columns +
  r_updated_at :: time

record permission_group_row =
  pg_id :: int
  pg_code :: string
  pg_name :: string
  pg_icon :: "string option"

record permission_groups_rec = permission_group_row +
  pg_sort_order :: int

record permission_row =
  p_id :: int
  p_group_id :: int
  p_code :: string
  p_name :: string
  p_type :: string
  p_description :: "string option"

record permissions_rec = permission_row +
  p_sort_order :: int

record organizations_rec =
  o_id :: int
  o_code :: string
  o_status :: string

record departments_rec =
  d_id :: int
  d_organization_id :: int
  d_parent_id :: "int option"
  d_code :: string
  d_name :: string
  d_status :: string
  d_created_at :: time
  d_updated_at :: time

record department_row = departments_rec +
  d_depth :: int
  d_member_count :: int
  d_child_count :: int

record auth_sessions_rec =
  s_id :: int
  s_user_id :: int
  s_session_token_hash :: string
  s_csrf_token_hash :: string
  s_token_version :: int
  s_idle_timeout_secs :: int
  s_persistent :: bool
  s_expires_at :: time
  s_last_seen_at :: time
  s_revoked_at :: "time option"
  s_created_at :: time

record login_attempts_rec =
  la_identifier_hash :: string
  la_failure_count :: int
  la_window_started_at :: time
  la_locked_until :: "time option"
  la_updated_at :: time

record audit_archive_row =
  al_id :: int
  al_actor_user_id :: "int option"
  al_action :: string
  al_target_type :: string
  al_target_id :: "int option"
  al_details :: json
  al_trace_id :: "string option"
  al_organization_id :: "int option"
  al_department_id :: "int option"
  al_created_at :: time

record mfa_settings_rec =
  ms_user_id :: int
  ms_webauthn_user_id :: string
  ms_totp_secret_ciphertext :: "byte list option"
  ms_totp_enabled_at :: "time option"
  ms_recovery_codes_issued_at :: "time option"
  ms_updated_at :: time
  ms_last_reauth_totp_counter :: "int option"
  ms_last_reauth_totp_used_at :: "time option"

record recovery_code_row =
  rc_id :: int
  rc_code_hash :: string

record recovery_codes_rec = recovery_code_row +
  rc_user_id :: int
  rc_used_at :: "time option"

record passkey_row =
  pk_id :: int
  pk_name :: string
  pk_credential :: json
  pk_last_used_at :: "time option"
  pk_created_at :: time

record passkeys_rec = passkey_row +
  pk_user_id :: int
  pk_credential_id :: string

record challenge_row =
  c_id :: int
  c_user_id :: int
  c_kind :: string
  c_persistent :: bool
  c_state :: json
  c_attempt_count :: int
  c_max_attempts :: int

record challenges_rec = challenge_row +
  c_token_hash :: string
  c_expires_at :: time
  c_consumed_at :: "time option"

record step_up_tokens_rec =
  st_token_hash :: string
  st_session_id :: int
  st_user_id :: int
  st_scope :: string
  st_expires_at :: time
  st_consumed_at :: "time option"

record module_unlocks_rec =
  mu_session_id :: int
  mu_user_id :: int
  mu_module_scope :: string
  mu_issued_at :: time
  mu_expires_at :: time

section \<open>The database\<close>

record db =
  users :: "users_rec list"
  roles :: "roles_rec list"
  permission_groups :: "permission_groups_rec list"
  permissions :: "permissions_rec list"
  user_roles :: "(int \<times> int) list"
  role_permissions :: "(int \<times> int) list"
  organizations :: "organizations_rec list"
  departments :: "departments_rec list"
  auth_sessions :: "auth_sessions_rec list"
  auth_login_attempts :: "login_attempts_rec list"
  audit_logs :: "audit_archive_row list"
  user_mfa_settings :: "mfa_settings_rec list"
  user_mfa_recovery_codes :: "recovery_codes_rec list"
  user_passkeys :: "passkeys_rec list"
  auth_mfa_challenges :: "challenges_rec list"
  auth_step_up_tokens :: "step_up_tokens_rec list"
  auth_module_unlocks :: "module_unlocks_rec list"
  users_seq :: int
  roles_seq :: int
  departments_seq :: int
  sessions_seq :: int
  audit_seq :: int
  recovery_seq :: int
  passkeys_seq :: int
  challenges_seq :: int

type_synonym 'a repo = "(db, sqlx_error, 'a) comp"
type_synonym 'a svc = "(db, api_error, 'a) comp"

text \<open>
  What a request finds outside the database: the database clock and the process clock, the
  trace id, the random bytes drawn while it runs (\<open>random E i j\<close> is byte \<open>j\<close> of draw \<open>i\<close>, draws
  counted in program order), the
  functions of the cryptographic crates (\<open>argon2_verify p h\<close> is \<open>None\<close> where \<open>h\<close> is not an
  encoded hash), and the database's pattern matching and collation of text. These are
  parameters of the model.
\<close>

record env =
  now :: time
  utc_now :: time
  trace_id :: "string option"
  random :: "nat \<Rightarrow> nat \<Rightarrow> byte"
  sha256 :: "string \<Rightarrow> byte list"
  argon2_hash :: "string \<Rightarrow> byte list \<Rightarrow> string option"
  argon2_verify :: "string \<Rightarrow> string \<Rightarrow> bool option"
  ilike :: "string \<Rightarrow> string \<Rightarrow> bool"
  text_le :: "string \<Rightarrow> string \<Rightarrow> bool"

section \<open>Statements\<close>

definition update_where :: "('r \<Rightarrow> bool) \<Rightarrow> ('r \<Rightarrow> 'r) \<Rightarrow> 'r list \<Rightarrow> 'r list" where
  "update_where P f rs = map (\<lambda>r. if P r then f r else r) rs"

definition delete_where :: "('r \<Rightarrow> bool) \<Rightarrow> 'r list \<Rightarrow> 'r list" where
  "delete_where P rs = filter (\<lambda>r. \<not> P r) rs"

definition rows_affected :: "('r \<Rightarrow> bool) \<Rightarrow> 'r list \<Rightarrow> nat" where
  "rows_affected P rs = length (filter P rs)"

text \<open>SQL equality: not true when either side is null.\<close>

definition sql_eq :: "'a option \<Rightarrow> 'a option \<Rightarrow> bool" where
  "sql_eq a b \<longleftrightarrow> a \<noteq> None \<and> a = b"

definition coalesce :: "'a option \<Rightarrow> 'a \<Rightarrow> 'a" where
  "coalesce v d = (case v of None \<Rightarrow> d | Some x \<Rightarrow> x)"

definition before :: "time option \<Rightarrow> time \<Rightarrow> bool" where
  "before v t \<longleftrightarrow> (case v of None \<Rightarrow> False | Some x \<Rightarrow> x < t)"

definition varchar :: "nat \<Rightarrow> string \<Rightarrow> bool" where
  "varchar n s \<longleftrightarrow> chars_count s \<le> n"

definition varchar_opt :: "nat \<Rightarrow> string option \<Rightarrow> bool" where
  "varchar_opt n s \<longleftrightarrow> (case s of None \<Rightarrow> True | Some x \<Rightarrow> varchar n x)"

text \<open>\<open>ORDER BY\<close> under a given order, stable, and \<open>LIMIT\<close> with \<open>OFFSET\<close>.\<close>

fun insert_by :: "('a \<Rightarrow> 'a \<Rightarrow> bool) \<Rightarrow> 'a \<Rightarrow> 'a list \<Rightarrow> 'a list" where
  "insert_by le x [] = [x]"
| "insert_by le x (y # ys) = (if le x y then x # y # ys else y # insert_by le x ys)"

definition sort_by :: "('a \<Rightarrow> 'a \<Rightarrow> bool) \<Rightarrow> 'a list \<Rightarrow> 'a list" where
  "sort_by le xs = foldr (insert_by le) xs []"

definition limit_offset :: "int \<Rightarrow> int \<Rightarrow> 'a list \<Rightarrow> sqlx_error + 'a list" where
  "limit_offset limit offset xs =
     (if offset < 0 then Inl NegativeOffset else Inr (take (nat limit) (drop (nat offset) xs)))"

section \<open>Facts about statements\<close>

lemma set_insert_by [simp]: "set (insert_by le x xs) = insert x (set xs)"
  by (induction xs) auto

lemma set_sort_by [simp]: "set (sort_by le xs) = set xs"
  by (induction xs) (auto simp: sort_by_def)

lemma length_insert_by [simp]: "length (insert_by le x xs) = Suc (length xs)"
  by (induction xs) auto

lemma length_sort_by [simp]: "length (sort_by le xs) = length xs"
  by (induction xs) (auto simp: sort_by_def)

text \<open>A sorted result is sorted, keeps its keys distinct, and sorting commutes with selection.\<close>

lemma sorted_insert_by:
  assumes "\<And>x y. le x y \<or> le y x" and "\<And>x y z. le x y \<Longrightarrow> le y z \<Longrightarrow> le x z" and "sorted_wrt le xs"
  shows "sorted_wrt le (insert_by le x xs)"
  using assms(3) by (induction xs) (use assms(1,2) in auto)

lemma sorted_sort_by:
  assumes "\<And>x y. le x y \<or> le y x" and "\<And>x y z. le x y \<Longrightarrow> le y z \<Longrightarrow> le x z"
  shows "sorted_wrt le (sort_by le xs)"
  by (induction xs) (use sorted_insert_by [of le, OF assms] in \<open>auto simp: sort_by_def\<close>)

lemma filter_insert_by:
  assumes "\<And>x y z. le x y \<Longrightarrow> le y z \<Longrightarrow> le x z" and "sorted_wrt le ys"
  shows "filter P (insert_by le x ys) = (if P x then insert_by le x (filter P ys) else filter P ys)"
  using assms(2)
proof (induction ys)
  case (Cons y ys)
  have first: "insert_by le x zs = x # zs" if "\<And>z. z \<in> set zs \<Longrightarrow> le x z" for zs
    using that by (cases zs) auto
  show ?case
  proof (cases "le x y")
    case True
    have "le x z" if "z \<in> set (filter P (y # ys))" for z
      using that Cons.prems True assms(1) [of x y z] by (auto split: if_splits)
    from first [OF this] True show ?thesis by simp
  next
    case False
    with Cons show ?thesis by simp
  qed
qed simp

lemma filter_sort_by:
  assumes "\<And>x y. le x y \<or> le y x" and "\<And>x y z. le x y \<Longrightarrow> le y z \<Longrightarrow> le x z"
  shows "filter P (sort_by le xs) = sort_by le (filter P xs)"
proof (induction xs)
  case (Cons x xs)
  have "filter P (insert_by le x (sort_by le xs)) =
      (if P x then insert_by le x (filter P (sort_by le xs)) else filter P (sort_by le xs))"
    by (rule filter_insert_by [OF assms(2) sorted_sort_by [OF assms]])
  with Cons show ?case by (simp add: sort_by_def)
qed (simp add: sort_by_def)

lemma distinct_sort_by: "distinct (map f xs) \<Longrightarrow> distinct (map f (sort_by le xs))"
proof (induction xs)
  case (Cons x xs)
  have "distinct (map f (insert_by le x ys)) \<longleftrightarrow> distinct (map f (x # ys))" for ys
    by (induction ys) auto
  with Cons show ?case using set_sort_by [of le xs] by (simp add: sort_by_def)
qed (simp add: sort_by_def)

lemma set_update_where:
  "set (update_where P f rs) = {r \<in> set rs. \<not> P r} \<union> f ` {r \<in> set rs. P r}"
  by (auto simp: update_where_def)

text \<open>An update that makes every matching row stop matching.\<close>

lemma update_where_none_left:
  assumes "x \<in> set (update_where P f rs)" and "\<And>r. P r \<Longrightarrow> \<not> Q (f r)"
    and "\<And>r. r \<in> set rs \<Longrightarrow> Q r \<Longrightarrow> P r"
  shows "\<not> Q x"
  using assms by (fastforce simp: update_where_def)

lemma map_update_where [simp]:
  "(\<And>r. P r \<Longrightarrow> key (f r) = key r) \<Longrightarrow> map key (update_where P f rs) = map key rs"
  by (auto simp: update_where_def)

lemma length_update_where [simp]: "length (update_where P f rs) = length rs"
  by (simp add: update_where_def)

lemma set_delete_where [simp]: "set (delete_where P rs) = {r \<in> set rs. \<not> P r}"
  by (auto simp: delete_where_def)

lemma rows_affected_pos: "0 < rows_affected P rs \<longleftrightarrow> (\<exists>r \<in> set rs. P r)"
  by (auto simp: rows_affected_def filter_empty_conv)

lemma rows_affected_0: "rows_affected P rs = 0 \<longleftrightarrow> (\<forall>r \<in> set rs. \<not> P r)"
  by (auto simp: rows_affected_def filter_empty_conv)

lemma update_where_none: "rows_affected P rs = 0 \<Longrightarrow> update_where P f rs = rs"
  by (auto simp: rows_affected_0 update_where_def intro: map_idI)

lemma sql_eq_Some [simp]: "sql_eq (Some a) b \<longleftrightarrow> b = Some a" "sql_eq b (Some a) \<longleftrightarrow> b = Some a"
  by (auto simp: sql_eq_def)

lemma coalesce_simps [simp]: "coalesce None d = d" "coalesce (Some x) d = x"
  by (simp_all add: coalesce_def)

lemma delete_where_all: "\<forall>r \<in> set rs. \<not> P r \<Longrightarrow> delete_where P rs = rs"
  by (simp add: delete_where_def filter_id_conv)

section \<open>Relations between database states\<close>

text \<open>
  A promise about every state change of an operation, over the database. The repository
  theories extend this contract with one rule per writing function: the function respects the
  relation when the relation does not object to updates of the tables that the function writes.
\<close>

named_theorems frame_intro
  \<open>a repository function respects a relation that ignores the tables it writes\<close>

locale db_relation = state_preorder R for R :: "db \<Rightarrow> db \<Rightarrow> bool"
begin

lemma within_insert:
  "(\<And>s g h. R s (seq_upd g (tab_upd h s))) \<Longrightarrow> within R (modify (\<lambda>s. seq_upd g (tab_upd (h s) s)))"
  by (rule within_modify) simp

end

interpretation keeping_db: db_relation "keeping P" for P
  by unfold_locales

interpretation same_db: db_relation "same f" for f
  by unfold_locales

section \<open>Tables with a generated key\<close>

text \<open>
  \<open>BIGSERIAL PRIMARY KEY\<close>: keys are distinct and below the sequence. The interface is the
  table's record field with its update function and the sequence's; the lemmas say what the
  three kinds of statement keep, and that a key identifies a row.
\<close>

definition primary_key :: "('r \<Rightarrow> int) \<Rightarrow> 'r list \<Rightarrow> int \<Rightarrow> bool" where
  "primary_key key rs n \<longleftrightarrow> distinct (map key rs) \<and> (\<forall>r \<in> set rs. key r < n)"

locale id_table =
  fixes rows :: "'s \<Rightarrow> 'r list"
    and rows_upd :: "('r list \<Rightarrow> 'r list) \<Rightarrow> 's \<Rightarrow> 's"
    and nextval :: "'s \<Rightarrow> int"
    and nextval_upd :: "(int \<Rightarrow> int) \<Rightarrow> 's \<Rightarrow> 's"
    and key :: "'r \<Rightarrow> int"
  assumes rows_rows_upd: "rows (rows_upd f s) = f (rows s)"
    and rows_nextval_upd: "rows (nextval_upd g s) = rows s"
    and nextval_rows_upd: "nextval (rows_upd f s) = nextval s"
    and nextval_nextval_upd: "nextval (nextval_upd g s) = g (nextval s)"
begin

lemmas table_simps = rows_rows_upd rows_nextval_upd nextval_rows_upd nextval_nextval_upd

lemma pk_insert:
  assumes "primary_key key (rows s) (nextval s)" and "key r = nextval s"
  shows "primary_key key (rows (nextval_upd (\<lambda>n. n + 1) (rows_upd (\<lambda>rs. rs @ [r]) s)))
    (nextval (nextval_upd (\<lambda>n. n + 1) (rows_upd (\<lambda>rs. rs @ [r]) s)))"
  using assms by (auto simp: primary_key_def table_simps)

lemma pk_update:
  assumes "primary_key key (rows s) (nextval s)" and "\<And>r. P r \<Longrightarrow> key (f r) = key r"
  shows "primary_key key (rows (rows_upd (update_where P f) s)) (nextval (rows_upd (update_where P f) s))"
  using assms by (auto simp: primary_key_def table_simps set_update_where)

lemma pk_delete:
  assumes "primary_key key (rows s) (nextval s)"
  shows "primary_key key (rows (rows_upd (delete_where P) s)) (nextval (rows_upd (delete_where P) s))"
  using assms by (auto simp: primary_key_def table_simps delete_where_def distinct_map_filter)

lemma pk_unique:
  assumes "primary_key key (rows s) (nextval s)"
    and "r \<in> set (rows s)" and "r' \<in> set (rows s)" and "key r = key r'"
  shows "r = r'"
  using assms by (auto simp: primary_key_def dest: distinct_map_unique)

lemma pk_fresh:
  assumes "primary_key key (rows s) (nextval s)" and "r \<in> set (rows s)"
  shows "key r \<noteq> nextval s"
  using assms by (auto simp: primary_key_def)

end

interpretation users_tab: id_table users users_update users_seq users_seq_update u_id
  by unfold_locales simp_all

interpretation roles_tab: id_table roles roles_update roles_seq roles_seq_update r_id
  by unfold_locales simp_all

interpretation departments_tab:
  id_table departments departments_update departments_seq departments_seq_update d_id
  by unfold_locales simp_all

interpretation sessions_tab:
  id_table auth_sessions auth_sessions_update sessions_seq sessions_seq_update s_id
  by unfold_locales simp_all

interpretation audit_tab: id_table audit_logs audit_logs_update audit_seq audit_seq_update al_id
  by unfold_locales simp_all

interpretation challenges_tab:
  id_table auth_mfa_challenges auth_mfa_challenges_update challenges_seq challenges_seq_update c_id
  by unfold_locales simp_all

interpretation recovery_tab:
  id_table user_mfa_recovery_codes user_mfa_recovery_codes_update recovery_seq
    recovery_seq_update rc_id
  by unfold_locales simp_all

interpretation passkeys_tab:
  id_table user_passkeys user_passkeys_update passkeys_seq passkeys_seq_update pk_id
  by unfold_locales simp_all

end
