(* ===== verification/Hierarchy.thy ===== *)
theory Hierarchy
  imports Database
begin

text \<open>
  The department hierarchy and the two recursive queries over it. \<open>visible_departments\<close> is the
  common table expression with \<open>UNION\<close> that the user, audit and dashboard queries use: it
  removes duplicates and always ends. \<open>tree_levels\<close> is the one with \<open>UNION ALL\<close> of
  \<open>repositories/departments.rs\<close>: it ends on a forest and runs until the statement timeout on a
  cyclic hierarchy, so it is a partial function. Both are shown to compute reachability.
\<close>

section \<open>Queries\<close>

definition children_of :: "departments_rec list \<Rightarrow> int \<Rightarrow> int \<Rightarrow> departments_rec list" where
  "children_of ds org p =
     filter (\<lambda>c. d_organization_id c = org \<and> d_parent_id c = Some p) ds"

definition new_children :: "departments_rec list \<Rightarrow> int \<Rightarrow> int list \<Rightarrow> int list \<Rightarrow> int list" where
  "new_children ds org seen work =
     remdups (filter (\<lambda>i. i \<notin> set seen) (map d_id (concat (map (children_of ds org) work))))"

function visible_loop :: "departments_rec list \<Rightarrow> int \<Rightarrow> int list \<Rightarrow> int list \<Rightarrow> int list" where
  "visible_loop ds org seen work =
     (if new_children ds org seen work = [] then seen
      else visible_loop ds org (seen @ new_children ds org seen work)
             (new_children ds org seen work))"
  by pat_completeness auto
termination
proof (relation "measure (\<lambda>(ds, org, seen, work). card (set (map d_id ds) - set seen))")
  fix ds :: "departments_rec list" and org :: int and seen work :: "int list"
  assume ne: "new_children ds org seen work \<noteq> []"
  then obtain i where i: "i \<in> set (new_children ds org seen work)"
    by (cases "new_children ds org seen work") auto
  then have "i \<in> set (map d_id ds) - set seen"
    by (auto simp: new_children_def children_of_def)
  moreover have "set (map d_id ds) - set (seen @ new_children ds org seen work)
      \<subseteq> set (map d_id ds) - set seen" by auto
  ultimately have "set (map d_id ds) - set (seen @ new_children ds org seen work)
      \<subset> set (map d_id ds) - set seen" using i by auto
  then show "((ds, org, seen @ new_children ds org seen work, new_children ds org seen work),
      ds, org, seen, work)
      \<in> measure (\<lambda>(ds, org, seen, work). card (set (map d_id ds) - set seen))"
    by (simp add: psubset_card_mono)
qed simp

declare visible_loop.simps [simp del]

definition visible_departments :: "departments_rec list \<Rightarrow> int \<Rightarrow> int option \<Rightarrow> int list" where
  "visible_departments ds org dept =
     (let start = map d_id (filter (\<lambda>d. sql_eq (Some (d_id d)) dept \<and> d_organization_id d = org) ds)
      in visible_loop ds org (remdups start) (remdups start))"

definition next_level ::
    "('x \<Rightarrow> departments_rec \<Rightarrow> 'x) \<Rightarrow> departments_rec list \<Rightarrow> int \<Rightarrow>
     (departments_rec \<times> 'x) list \<Rightarrow> (departments_rec \<times> 'x) list" where
  "next_level step ds org work =
     concat (map (\<lambda>(p, x). map (\<lambda>c. (c, step x c)) (children_of ds org (d_id p))) work)"

partial_function (option) tree_levels ::
    "('x \<Rightarrow> departments_rec \<Rightarrow> 'x) \<Rightarrow> departments_rec list \<Rightarrow> int \<Rightarrow>
     (departments_rec \<times> 'x) list \<Rightarrow> (departments_rec \<times> 'x) list option" where
  "tree_levels step ds org work =
     (if work = [] then Some []
      else Option.bind (tree_levels step ds org (next_level step ds org work))
             (\<lambda>rest. Some (work @ rest)))"

declare tree_levels.simps [code]

section \<open>Reachability\<close>

definition child_rel :: "departments_rec list \<Rightarrow> int \<Rightarrow> (int \<times> int) set" where
  "child_rel ds org =
     {(p, c). \<exists>d \<in> set ds. d_organization_id d = org \<and> d_parent_id d = Some p \<and> d_id d = c}"

definition parent_rel :: "departments_rec list \<Rightarrow> (int \<times> int) set" where
  "parent_rel ds = {(p, c). \<exists>d \<in> set ds. d_parent_id d = Some p \<and> d_id d = c}"

definition forest :: "departments_rec list \<Rightarrow> bool" where
  "forest ds \<longleftrightarrow> acyclic (parent_rel ds)"

text \<open>The foreign key \<open>(parent_id, organization_id) REFERENCES departments (id, organization_id)\<close>.\<close>

definition parents_exist :: "departments_rec list \<Rightarrow> bool" where
  "parents_exist ds \<longleftrightarrow>
     (\<forall>d \<in> set ds. \<forall>p. d_parent_id d = Some p \<longrightarrow>
        (\<exists>q \<in> set ds. d_id q = p \<and> d_organization_id q = d_organization_id d))"

lemma child_rel_subset: "child_rel ds org \<subseteq> parent_rel ds"
  by (auto simp: child_rel_def parent_rel_def)

lemma finite_child_rel [simp]: "finite (child_rel ds org)"
proof -
  have "child_rel ds org \<subseteq> (\<lambda>d. (the (d_parent_id d), d_id d)) ` set ds"
    by (force simp: child_rel_def)
  then show ?thesis by (rule finite_subset) simp
qed

lemma children_of_iff:
  "c \<in> set (children_of ds org p) \<longleftrightarrow>
     c \<in> set ds \<and> d_organization_id c = org \<and> d_parent_id c = Some p"
  by (auto simp: children_of_def)

lemma new_children_set:
  "set (new_children ds org seen work) = child_rel ds org `` set work - set seen"
  by (force simp: new_children_def children_of_iff child_rel_def)

lemma closed_Image_rtrancl: "E `` S \<subseteq> S \<Longrightarrow> E\<^sup>* `` S = S"
  using Image_closed_trancl [of E S] by blast

lemma visible_loop_set:
  assumes "set work \<subseteq> set seen" and "child_rel ds org `` (set seen - set work) \<subseteq> set seen"
  shows "set (visible_loop ds org seen work) = (child_rel ds org)\<^sup>* `` set seen"
  using assms
proof (induction ds org seen work rule: visible_loop.induct)
  case (1 ds org seen work)
  let ?E = "child_rel ds org" and ?n = "new_children ds org seen work"
  have n: "set ?n = ?E `` set work - set seen" by (rule new_children_set)
  show ?case
  proof (cases "?n = []")
    case True
    with n have "?E `` set work \<subseteq> set seen" by auto
    with "1.prems" have "?E `` set seen \<subseteq> set seen" by blast
    then have "?E\<^sup>* `` set seen = set seen" by (rule closed_Image_rtrancl)
    with True show ?thesis by (subst visible_loop.simps) simp
  next
    case False
    have "set (visible_loop ds org (seen @ ?n) ?n) = ?E\<^sup>* `` set (seen @ ?n)"
    proof (rule "1.IH" [OF False])
      show "?E `` (set (seen @ ?n) - set ?n) \<subseteq> set (seen @ ?n)"
        unfolding set_append n using "1.prems" by blast
    qed simp
    also have "\<dots> = ?E\<^sup>* `` set seen"
      using n "1.prems"(1) by (auto intro: converse_rtrancl_into_rtrancl)
    finally show ?thesis using False by (subst visible_loop.simps) simp
  qed
qed

lemma visible_departments_set:
  "set (visible_departments ds org dept) =
     (child_rel ds org)\<^sup>* `` {i. dept = Some i \<and> (\<exists>d \<in> set ds. d_id d = i \<and> d_organization_id d = org)}"
proof -
  let ?start = "map d_id (filter (\<lambda>d. sql_eq (Some (d_id d)) dept \<and> d_organization_id d = org) ds)"
  have "set (visible_departments ds org dept) = (child_rel ds org)\<^sup>* `` set (remdups ?start)"
    unfolding visible_departments_def Let_def by (rule visible_loop_set) auto
  moreover have "set ?start =
      {i. dept = Some i \<and> (\<exists>d \<in> set ds. d_id d = i \<and> d_organization_id d = org)}"
    by auto
  ultimately show ?thesis by simp
qed

section \<open>Levels of a forest\<close>

text \<open>The number of descendants bounds the levels below a department.\<close>

definition below :: "departments_rec list \<Rightarrow> int \<Rightarrow> int \<Rightarrow> nat" where
  "below ds org i = card ((child_rel ds org)\<^sup>+ `` {i})"

lemma finite_descendants: "finite ((child_rel ds org)\<^sup>+ `` S)"
proof -
  have "finite (Range ((child_rel ds org)\<^sup>+))" by (simp add: finite_Range)
  moreover have "(child_rel ds org)\<^sup>+ `` S \<subseteq> Range ((child_rel ds org)\<^sup>+)" by blast
  ultimately show ?thesis by (rule finite_subset [rotated])
qed

lemma below_decreases:
  assumes "forest ds" and edge: "(p, c) \<in> child_rel ds org"
  shows "below ds org c < below ds org p"
proof -
  let ?E = "child_rel ds org"
  have "acyclic ?E" using assms(1) child_rel_subset by (auto simp: forest_def intro: acyclic_subset)
  then have "c \<notin> ?E\<^sup>+ `` {c}" by (auto simp: acyclic_def)
  moreover have "c \<in> ?E\<^sup>+ `` {p}" using edge by auto
  moreover have "?E\<^sup>+ `` {c} \<subseteq> ?E\<^sup>+ `` {p}" using edge by (auto intro: trancl_trans)
  ultimately have "?E\<^sup>+ `` {c} \<subset> ?E\<^sup>+ `` {p}" by blast
  then show ?thesis unfolding below_def by (rule psubset_card_mono [OF finite_descendants])
qed

lemma next_level_rows:
  "fst ` set (next_level step ds org work) =
     {c \<in> set ds. d_organization_id c = org \<and> (\<exists>w \<in> fst ` set work. d_parent_id c = Some (d_id w))}"
  by (force simp: next_level_def children_of_iff)

lemma next_level_edge:
  assumes "c \<in> fst ` set (next_level step ds org work)"
  shows "\<exists>w \<in> fst ` set work. (d_id w, d_id c) \<in> child_rel ds org"
  using assms unfolding next_level_rows child_rel_def by auto

lemma tree_levels_spec:
  assumes "forest ds" and dist: "distinct (map d_id ds)"
    and "\<And>w. w \<in> fst ` set work \<Longrightarrow> below ds org (d_id w) < n"
  shows "\<exists>rows. tree_levels step ds org work = Some rows \<and>
    fst ` set rows = fst ` set work \<union>
      {d \<in> set ds. \<exists>w \<in> fst ` set work. (d_id w, d_id d) \<in> (child_rel ds org)\<^sup>+}"
  using assms(3)
proof (induction n arbitrary: work)
  case 0
  then have "work = []" by (cases work) auto
  then show ?case by (subst tree_levels.simps) simp
next
  case (Suc n)
  let ?E = "child_rel ds org" and ?next = "next_level step ds org work"
  have "\<exists>rows. tree_levels step ds org ?next = Some rows \<and> fst ` set rows = fst ` set ?next \<union>
      {d \<in> set ds. \<exists>w \<in> fst ` set ?next. (d_id w, d_id d) \<in> ?E\<^sup>+}"
  proof (rule Suc.IH)
    fix c assume "c \<in> fst ` set ?next"
    then obtain w where "w \<in> fst ` set work" and "(d_id w, d_id c) \<in> ?E"
      using next_level_edge by meson
    with Suc.prems [of w] below_decreases [OF assms(1), of "d_id w" "d_id c" org]
    show "below ds org (d_id c) < n" by linarith
  qed
  then obtain rest where rest: "tree_levels step ds org ?next = Some rest"
    and rest_rows: "fst ` set rest = fst ` set ?next \<union>
      {d \<in> set ds. \<exists>w \<in> fst ` set ?next. (d_id w, d_id d) \<in> ?E\<^sup>+}" by blast
  have "fst ` set rest = {d \<in> set ds. \<exists>w \<in> fst ` set work. (d_id w, d_id d) \<in> ?E\<^sup>+}"
  proof (intro set_eqI iffI)
    fix d assume "d \<in> fst ` set rest"
    then consider "d \<in> fst ` set ?next"
      | c where "d \<in> set ds" "c \<in> fst ` set ?next" "(d_id c, d_id d) \<in> ?E\<^sup>+"
      unfolding rest_rows by blast
    then show "d \<in> {d \<in> set ds. \<exists>w \<in> fst ` set work. (d_id w, d_id d) \<in> ?E\<^sup>+}"
    proof cases
      case 1
      then show ?thesis
        using next_level_edge [OF 1] by (auto simp: next_level_rows)
    next
      case 2
      then show ?thesis using next_level_edge [OF 2(2)] by (auto intro: trancl_into_trancl2)
    qed
  next
    fix d assume "d \<in> {d \<in> set ds. \<exists>w \<in> fst ` set work. (d_id w, d_id d) \<in> ?E\<^sup>+}"
    then obtain w where d: "d \<in> set ds" and w: "w \<in> fst ` set work"
      and path: "(d_id w, d_id d) \<in> ?E\<^sup>+" by blast
    from path obtain i where first: "(d_id w, i) \<in> ?E" and tail: "(i, d_id d) \<in> ?E\<^sup>*"
      by (meson tranclD)
    from first obtain c where c: "c \<in> set ds" "d_organization_id c = org"
      "d_parent_id c = Some (d_id w)" "d_id c = i" by (auto simp: child_rel_def)
    with w have c_next: "c \<in> fst ` set ?next" unfolding next_level_rows by blast
    show "d \<in> fst ` set rest"
    proof (cases "i = d_id d")
      case True
      with c d dist have "c = d" by (auto dest: distinct_map_unique)
      with c_next show ?thesis unfolding rest_rows by blast
    next
      case False
      with tail have "(i, d_id d) \<in> ?E\<^sup>+" by (meson rtranclD)
      with c(4) c_next d show ?thesis unfolding rest_rows by blast
    qed
  qed
  moreover have "tree_levels step ds org work = Some (work @ rest)" if "work \<noteq> []"
    using that rest by (subst tree_levels.simps) simp
  moreover have "tree_levels step ds org [] = Some []" by (subst tree_levels.simps) simp
  ultimately show ?case by (cases "work = []") (auto simp: image_Un)
qed

text \<open>
  On a forest the query with \<open>UNION ALL\<close> returns, and it returns the starting rows and every
  department below one of them.
\<close>

lemma tree_levels_forest:
  assumes "forest ds" and "distinct (map d_id ds)"
  obtains rows where "tree_levels step ds org work = Some rows"
    and "fst ` set rows = fst ` set work \<union>
      {d \<in> set ds. \<exists>w \<in> fst ` set work. (d_id w, d_id d) \<in> (child_rel ds org)\<^sup>+}"
proof -
  let ?n = "Suc (Max ((\<lambda>w. below ds org (d_id w)) ` fst ` set work))"
  have "below ds org (d_id w) < ?n" if "w \<in> fst ` set work" for w
    using that by (simp add: le_imp_less_Suc)
  with tree_levels_spec [OF assms, of work org ?n step] that show ?thesis by blast
qed

end
