(* ===== verification/Repo_Audit.thy ===== *)
theory Repo_Audit
  imports Hierarchy
begin

text \<open>
  \<open>backend/src/repositories/audit_logs.rs\<close>: recording an audit entry, the paged query and the
  retention batch. The table is append-only: a trigger of the migrations refuses updates, and
  deletions outside the maintenance setting that only \<open>delete_archived\<close> switches on.
\<close>

section \<open>Recording\<close>

definition user_organization :: "db \<Rightarrow> int \<Rightarrow> int option" where
  "user_organization db i = map_option u_organization_id (find (\<lambda>u. u_id u = i) (users db))"

definition user_department :: "db \<Rightarrow> int \<Rightarrow> int option" where
  "user_department db i = Option.bind (find (\<lambda>u. u_id u = i) (users db)) u_department_id"

definition audit_subject ::
    "(int \<Rightarrow> int option) \<Rightarrow> int option \<Rightarrow> string \<Rightarrow> int option \<Rightarrow> int option" where
  "audit_subject column actor_user_id target_type target_id =
     (case Option.bind actor_user_id column of
        Some v \<Rightarrow> Some v
      | None \<Rightarrow> if target_type = ''user'' then Option.bind target_id column else None)"

definition audit_row ::
    "env \<Rightarrow> db \<Rightarrow> int option \<Rightarrow> string \<Rightarrow> string \<Rightarrow> int option \<Rightarrow> json \<Rightarrow> audit_archive_row" where
  "audit_row E db actor_user_id action target_type target_id details =
     \<lparr>al_id = audit_seq db, al_actor_user_id = actor_user_id, al_action = action,
      al_target_type = target_type, al_target_id = target_id, al_details = details,
      al_trace_id = trace_id E,
      al_organization_id = audit_subject (user_organization db) actor_user_id target_type target_id,
      al_department_id = audit_subject (user_department db) actor_user_id target_type target_id,
      al_created_at = now E\<rparr>"

definition user_exists :: "db \<Rightarrow> int \<Rightarrow> bool" where
  "user_exists db i \<longleftrightarrow> i \<in> u_id ` set (users db)"

definition audit_record ::
    "env \<Rightarrow> int option \<Rightarrow> string \<Rightarrow> string \<Rightarrow> int option \<Rightarrow> json \<Rightarrow> unit repo" where
  "audit_record E actor_user_id action target_type target_id details =
     bind (gets (\<lambda>db. db)) (\<lambda>db.
     bind (ensure (case actor_user_id of None \<Rightarrow> True | Some i \<Rightarrow> user_exists db i)
             ForeignKeyViolation) (\<lambda>_.
     modify (\<lambda>db. audit_seq_update (\<lambda>n. n + 1)
       (audit_logs_update
          (\<lambda>rs. rs @ [audit_row E db actor_user_id action target_type target_id details]) db))))"

section \<open>Reading\<close>

record audit_log_row =
  ar_id :: int
  ar_actor_user_id :: "int option"
  ar_actor_username :: "string option"
  ar_action :: string
  ar_target_type :: string
  ar_target_id :: "int option"
  ar_details :: json
  ar_trace_id :: "string option"
  ar_created_at :: time

definition actor_username :: "db \<Rightarrow> audit_archive_row \<Rightarrow> string option" where
  "actor_username db a =
     Option.bind (al_actor_user_id a) (\<lambda>i. map_option u_username (find (\<lambda>u. u_id u = i) (users db)))"

definition audit_in_scope :: "actor_context \<Rightarrow> db \<Rightarrow> audit_archive_row \<Rightarrow> bool" where
  "audit_in_scope actor db a \<longleftrightarrow>
     data_scope actor = All \<or>
     sql_eq (al_organization_id a) (Some (organization_id actor)) \<and>
       (data_scope actor = Organization \<or>
        data_scope actor = SelfOnly \<and> sql_eq (al_actor_user_id a) (Some (user_id actor)) \<or>
        data_scope actor = Department \<and> sql_eq (al_department_id a) (department_id actor) \<or>
        data_scope actor = DepartmentAndChildren \<and>
          (case al_department_id a of None \<Rightarrow> False
           | Some d \<Rightarrow> d \<in> set (visible_departments (departments db) (organization_id actor)
                              (department_id actor))))"

definition audit_matches ::
    "env \<Rightarrow> db \<Rightarrow> string option \<Rightarrow> string option \<Rightarrow> audit_archive_row \<Rightarrow> bool" where
  "audit_matches E db keyword action a \<longleftrightarrow>
     (case keyword of None \<Rightarrow> True
      | Some k \<Rightarrow>
          ilike E (al_action a) (''%'' @ k @ ''%'') \<or> ilike E (al_target_type a) (''%'' @ k @ ''%'') \<or>
          (case actor_username db a of None \<Rightarrow> False | Some n \<Rightarrow> ilike E n (''%'' @ k @ ''%'')) \<or>
          sql_eq (al_trace_id a) (Some k)) \<and>
     (case action of None \<Rightarrow> True | Some x \<Rightarrow> al_action a = x)"

text \<open>\<open>(created_at, id) < (cursor)\<close> and \<open>ORDER BY created_at DESC, id DESC\<close>.\<close>

definition before_cursor :: "(time \<times> int) option \<Rightarrow> audit_archive_row \<Rightarrow> bool" where
  "before_cursor cursor a \<longleftrightarrow>
     (case cursor of None \<Rightarrow> True
      | Some (t, i) \<Rightarrow> al_created_at a < t \<or> al_created_at a = t \<and> al_id a < i)"

definition newest_first :: "audit_archive_row \<Rightarrow> audit_archive_row \<Rightarrow> bool" where
  "newest_first a b \<longleftrightarrow>
     al_created_at b < al_created_at a \<or> al_created_at a = al_created_at b \<and> al_id b \<le> al_id a"

definition audit_log_columns :: "db \<Rightarrow> audit_archive_row \<Rightarrow> audit_log_row" where
  "audit_log_columns db a =
     \<lparr>ar_id = al_id a, ar_actor_user_id = al_actor_user_id a,
      ar_actor_username = actor_username db a, ar_action = al_action a,
      ar_target_type = al_target_type a, ar_target_id = al_target_id a,
      ar_details = al_details a, ar_trace_id = al_trace_id a, ar_created_at = al_created_at a\<rparr>"

text \<open>
  The limit and the offset are computed in \<open>i64\<close>; the release profile wraps around, and the
  database refuses a negative offset.
\<close>

definition audit_list ::
    "env \<Rightarrow> actor_context \<Rightarrow> string option \<Rightarrow> string option \<Rightarrow> int \<Rightarrow> int \<Rightarrow>
     (time \<times> int) option \<Rightarrow> db \<Rightarrow> sqlx_error + audit_log_row list" where
  "audit_list E actor keyword action page page_size cursor db =
     (let rows = sort_by newest_first
        (filter (\<lambda>a. audit_in_scope actor db a \<and> audit_matches E db keyword action a \<and>
                     before_cursor cursor a) (audit_logs db));
          offset = (if cursor \<noteq> None then 0 else wrap_i64 (wrap_i64 (page - 1) * page_size))
      in case limit_offset (page_size + 1) offset rows of
           Inl e \<Rightarrow> Inl e
         | Inr rs \<Rightarrow> Inr (map (audit_log_columns db) rs))"

definition audit_count ::
    "env \<Rightarrow> actor_context \<Rightarrow> string option \<Rightarrow> string option \<Rightarrow> db \<Rightarrow> int" where
  "audit_count E actor keyword action db =
     int (length (filter (\<lambda>a. audit_in_scope actor db a \<and> audit_matches E db keyword action a)
                    (audit_logs db)))"

section \<open>Retention\<close>

definition archive_batch :: "time \<Rightarrow> int \<Rightarrow> db \<Rightarrow> audit_archive_row list" where
  "archive_batch cutoff batch_size db =
     take (nat batch_size) (sort_key al_id (filter (\<lambda>a. al_created_at a < cutoff) (audit_logs db)))"

definition delete_archived :: "int list \<Rightarrow> time \<Rightarrow> nat repo" where
  "delete_archived ids cutoff =
     (if ids = [] then ret 0
      else transaction (
        bind (gets (\<lambda>db. rows_affected (\<lambda>a. al_id a \<in> set ids \<and> al_created_at a < cutoff)
                           (audit_logs db))) (\<lambda>affected.
        bind (modify (audit_logs_update
                (delete_where (\<lambda>a. al_id a \<in> set ids \<and> al_created_at a < cutoff)))) (\<lambda>_.
        bind (ensure (affected = length ids) (Protocol ''audit archive delete mismatch'')) (\<lambda>_.
        ret affected)))))"

section \<open>The log only grows\<close>

text \<open>The entries before a state change are a prefix of the entries after it.\<close>

definition audit_grows :: "db \<Rightarrow> db \<Rightarrow> bool" where
  "audit_grows s t \<longleftrightarrow> (\<exists>es. audit_logs t = audit_logs s @ es)"

interpretation audit_grows: db_relation audit_grows
proof
  show "audit_grows s s" for s by (simp add: audit_grows_def)
  show "audit_grows s u" if "audit_grows s t" "audit_grows t u" for s t u
    using that by (auto simp: audit_grows_def)
qed

lemma audit_record_ok:
  "audit_record E actor_user_id action target_type target_id details s = (Inr r, t) \<longleftrightarrow>
     (\<forall>i. actor_user_id = Some i \<longrightarrow> user_exists s i) \<and>
     t = audit_seq_update (\<lambda>n. n + 1)
       (audit_logs_update
          (\<lambda>rs. rs @ [audit_row E s actor_user_id action target_type target_id details]) s)"
  by (auto simp: audit_record_def ok_iff split: option.splits)

lemma audit_record_grows [keeps_intro]: "within audit_grows (audit_record E a b c d e)"
  unfolding audit_record_def
  by (auto intro!: keeps_intro audit_grows.within_modify simp: audit_grows_def)

context db_relation
begin

lemma within_audit_record [frame_intro]:
  assumes "\<And>s f g. R s (audit_seq_update g (audit_logs_update f s))"
  shows "within R (audit_record E a b c d e)"
  unfolding audit_record_def by (intro keeps_intro within_modify assms)

end

lemma archive_batch_old: "a \<in> set (archive_batch cutoff n db) \<Longrightarrow> al_created_at a < cutoff"
  by (auto simp: archive_batch_def dest!: in_set_takeD)

end
