(* ===== verification/Repo_Users.thy ===== *)
theory Repo_Users
  imports Repo_Audit
begin

text \<open>
  \<open>backend/src/repositories/users.rs\<close>: the queries on users inside the actor's data scope, the
  paged directory, and the statements that write users and their role assignments, with the
  length, check, uniqueness and foreign key constraints of the migrations.
\<close>

section \<open>Parameters\<close>

datatype user_sort =
    UsernameAsc | UsernameDesc | DisplayNameAsc | DisplayNameDesc | EmailAsc | EmailDesc
  | StatusAsc | StatusDesc | LastLoginAtAsc | LastLoginAtDesc | CreatedAtAsc | CreatedAtDesc

record user_list_params =
  lp_keyword :: "string option"
  lp_status :: "string option"
  lp_role :: "string option"
  lp_sort :: user_sort
  lp_page :: int
  lp_page_size :: int

record new_user =
  nu_username :: string
  nu_password_hash :: string
  nu_display_name :: string
  nu_email :: "string option"
  nu_status :: string
  nu_organization_id :: int
  nu_department_id :: "int option"

record user_with_roles_row =
  ur_id :: int
  ur_username :: string
  ur_display_name :: string
  ur_email :: "string option"
  ur_status :: string
  ur_department_id :: "int option"
  ur_last_login_at :: "time option"
  ur_created_at :: time
  ur_roles :: "string list"

section \<open>Queries\<close>

abbreviation live :: "users_rec \<Rightarrow> bool" where
  "live u \<equiv> u_deleted_at u = None"

definition repo_users_find_by_username :: "string \<Rightarrow> db \<Rightarrow> user_row option" where
  "repo_users_find_by_username username db =
     map_option user_row.truncate (find (\<lambda>u. u_username u = username \<and> live u) (users db))"

definition repo_users_find_by_id :: "int \<Rightarrow> db \<Rightarrow> user_row option" where
  "repo_users_find_by_id i db =
     map_option user_row.truncate (find (\<lambda>u. u_id u = i \<and> live u) (users db))"

text \<open>The condition the scoped queries repeat.\<close>

definition user_in_scope :: "actor_context \<Rightarrow> db \<Rightarrow> users_rec \<Rightarrow> bool" where
  "user_in_scope actor db u \<longleftrightarrow>
     data_scope actor = All \<or>
     u_organization_id u = organization_id actor \<and>
       (data_scope actor = Organization \<or>
        data_scope actor = SelfOnly \<and> u_id u = user_id actor \<or>
        data_scope actor = Department \<and> sql_eq (u_department_id u) (department_id actor) \<or>
        data_scope actor = DepartmentAndChildren \<and>
          (case u_department_id u of None \<Rightarrow> False
           | Some d \<Rightarrow> d \<in> set (visible_departments (departments db) (organization_id actor)
                              (department_id actor))))"

definition repo_users_find_by_id_for_actor :: "actor_context \<Rightarrow> int \<Rightarrow> db \<Rightarrow> user_row option" where
  "repo_users_find_by_id_for_actor actor i db =
     map_option user_row.truncate
       (find (\<lambda>u. u_id u = i \<and> live u \<and> user_in_scope actor db u) (users db))"

definition active_role_names :: "db \<Rightarrow> int \<Rightarrow> string list" where
  "active_role_names db i =
     map r_name (filter (\<lambda>r. (i, r_id r) \<in> set (user_roles db) \<and> r_is_active r) (roles db))"

definition user_matches :: "env \<Rightarrow> db \<Rightarrow> user_list_params \<Rightarrow> users_rec \<Rightarrow> bool" where
  "user_matches E db p u \<longleftrightarrow>
     (case lp_keyword p of None \<Rightarrow> True
      | Some k \<Rightarrow>
          ilike E (u_username u) (''%'' @ k @ ''%'') \<or>
          ilike E (u_display_name u) (''%'' @ k @ ''%'') \<or>
          (case u_email u of None \<Rightarrow> False | Some e \<Rightarrow> ilike E e (''%'' @ k @ ''%''))) \<and>
     (case lp_status p of None \<Rightarrow> True | Some s \<Rightarrow> u_status u = s) \<and>
     (case lp_role p of None \<Rightarrow> True | Some n \<Rightarrow> n \<in> set (active_role_names db (u_id u)))"

definition then_by :: "('k \<Rightarrow> 'k \<Rightarrow> bool) \<Rightarrow> 'k \<Rightarrow> 'k \<Rightarrow> bool \<Rightarrow> bool" where
  "then_by le a b rest = (if a = b then rest else le a b)"

fun nulls_last :: "('k \<Rightarrow> 'k \<Rightarrow> bool) \<Rightarrow> 'k option \<Rightarrow> 'k option \<Rightarrow> bool" where
  "nulls_last le (Some x) (Some y) = le x y"
| "nulls_last le (Some x) None = True"
| "nulls_last le None b = (b = None)"

fun user_order :: "env \<Rightarrow> user_sort \<Rightarrow> users_rec \<Rightarrow> users_rec \<Rightarrow> bool" where
  "user_order E UsernameAsc u v =
     then_by (text_le E) (u_username u) (u_username v) (u_id u \<le> u_id v)"
| "user_order E UsernameDesc u v =
     then_by (\<lambda>a b. text_le E b a) (u_username u) (u_username v) (u_id u \<le> u_id v)"
| "user_order E DisplayNameAsc u v =
     then_by (text_le E) (u_display_name u) (u_display_name v) (u_id u \<le> u_id v)"
| "user_order E DisplayNameDesc u v =
     then_by (\<lambda>a b. text_le E b a) (u_display_name u) (u_display_name v) (u_id u \<le> u_id v)"
| "user_order E EmailAsc u v =
     then_by (nulls_last (text_le E)) (u_email u) (u_email v) (u_id u \<le> u_id v)"
| "user_order E EmailDesc u v =
     then_by (nulls_last (\<lambda>a b. text_le E b a)) (u_email u) (u_email v) (u_id u \<le> u_id v)"
| "user_order E StatusAsc u v =
     then_by (text_le E) (u_status u) (u_status v) (u_id u \<le> u_id v)"
| "user_order E StatusDesc u v =
     then_by (\<lambda>a b. text_le E b a) (u_status u) (u_status v) (u_id u \<le> u_id v)"
| "user_order E LastLoginAtAsc u v =
     then_by (nulls_last (\<le>)) (u_last_login_at u) (u_last_login_at v) (u_id u \<le> u_id v)"
| "user_order E LastLoginAtDesc u v =
     then_by (nulls_last (\<ge>)) (u_last_login_at u) (u_last_login_at v) (u_id u \<le> u_id v)"
| "user_order E CreatedAtAsc u v =
     then_by (\<le>) (u_created_at u) (u_created_at v) (u_id u \<le> u_id v)"
| "user_order E CreatedAtDesc u v =
     then_by (\<ge>) (u_created_at u) (u_created_at v) (u_id u \<le> u_id v)"

definition user_with_roles :: "env \<Rightarrow> db \<Rightarrow> users_rec \<Rightarrow> user_with_roles_row" where
  "user_with_roles E db u =
     \<lparr>ur_id = u_id u, ur_username = u_username u, ur_display_name = u_display_name u,
      ur_email = u_email u, ur_status = u_status u, ur_department_id = u_department_id u,
      ur_last_login_at = u_last_login_at u, ur_created_at = u_created_at u,
      ur_roles = sort_by (text_le E) (remdups (active_role_names db (u_id u)))\<rparr>"

definition users_selected :: "env \<Rightarrow> actor_context \<Rightarrow> user_list_params \<Rightarrow> db \<Rightarrow> users_rec list" where
  "users_selected E actor p db =
     filter (\<lambda>u. live u \<and> user_in_scope actor db u \<and> user_matches E db p u) (users db)"

definition repo_users_list ::
    "env \<Rightarrow> actor_context \<Rightarrow> user_list_params \<Rightarrow> db \<Rightarrow> sqlx_error + user_with_roles_row list" where
  "repo_users_list E actor p db =
     (case limit_offset (lp_page_size p) (wrap_i64 (wrap_i64 (lp_page p - 1) * lp_page_size p))
             (sort_by (user_order E (lp_sort p)) (users_selected E actor p db)) of
        Inl e \<Rightarrow> Inl e
      | Inr us \<Rightarrow> Inr (map (user_with_roles E db) us))"

definition repo_users_count :: "env \<Rightarrow> actor_context \<Rightarrow> user_list_params \<Rightarrow> db \<Rightarrow> int" where
  "repo_users_count E actor p db = int (length (users_selected E actor p db))"

definition repo_users_list_role_options :: "env \<Rightarrow> actor_context \<Rightarrow> db \<Rightarrow> string list" where
  "repo_users_list_role_options E actor db =
     sort_by (text_le E) (remdups (concat (map (\<lambda>u. active_role_names db (u_id u))
       (filter (\<lambda>u. live u \<and> user_in_scope actor db u) (users db)))))"

definition repo_users_role_names_by_user :: "int \<Rightarrow> db \<Rightarrow> string list" where
  "repo_users_role_names_by_user i db =
     map r_name (sort_key r_id (filter (\<lambda>r. (i, r_id r) \<in> set (user_roles db)) (roles db)))"

definition repo_users_role_ids_by_user :: "int \<Rightarrow> db \<Rightarrow> int list" where
  "repo_users_role_ids_by_user i db = sort (map snd (filter (\<lambda>p. fst p = i) (user_roles db)))"

section \<open>The guard of the last super administrator\<close>

definition active_user :: "users_rec \<Rightarrow> bool" where
  "active_user u \<longleftrightarrow> live u \<and> u_status u = ''active''"

definition active_members :: "db \<Rightarrow> int \<Rightarrow> int set" where
  "active_members db role_id =
     u_id ` set (filter (\<lambda>u. active_user u \<and> (u_id u, role_id) \<in> set (user_roles db)) (users db))"

definition super_admin_role :: "db \<Rightarrow> int option" where
  "super_admin_role db = map_option r_id (find (\<lambda>r. r_code r = ''super_admin'') (roles db))"

definition repo_users_super_admin_guard_state :: "int \<Rightarrow> db \<Rightarrow> bool \<times> nat" where
  "repo_users_super_admin_guard_state i db =
     (case super_admin_role db of None \<Rightarrow> (False, 0)
      | Some role_id \<Rightarrow> (i \<in> active_members db role_id, card (active_members db role_id)))"

section \<open>Statements\<close>

definition user_statuses :: "string list" where
  "user_statuses = [''active'', ''inactive'', ''suspended'']"

text \<open>Column types, then checks, then unique indexes, then foreign keys.\<close>

definition user_constraints :: "db \<Rightarrow> users_rec list \<Rightarrow> users_rec \<Rightarrow> unit repo" where
  "user_constraints db others u =
     bind (ensure (varchar 64 (u_username u) \<and> varchar 255 (u_password_hash u) \<and>
                   varchar 128 (u_display_name u) \<and> varchar_opt 255 (u_email u) \<and>
                   varchar 16 (u_status u)) StringTooLong) (\<lambda>_.
     bind (ensure (u_status u \<in> set user_statuses) CheckViolation) (\<lambda>_.
     bind (ensure (live u \<longrightarrow> u_username u \<notin> u_username ` set (filter live others))
             UniqueViolation) (\<lambda>_.
     ensure (u_organization_id u \<in> o_id ` set (organizations db) \<and>
             (case u_department_id u of None \<Rightarrow> True
              | Some d \<Rightarrow> (d, u_organization_id u) \<in>
                           (\<lambda>x. (d_id x, d_organization_id x)) ` set (departments db)))
       ForeignKeyViolation)))"

definition new_user_rec :: "env \<Rightarrow> db \<Rightarrow> new_user \<Rightarrow> users_rec" where
  "new_user_rec E db user =
     \<lparr>u_id = users_seq db, u_username = nu_username user,
      u_password_hash = nu_password_hash user, u_display_name = nu_display_name user,
      u_email = nu_email user, u_status = nu_status user,
      u_organization_id = nu_organization_id user, u_department_id = nu_department_id user,
      u_token_version = 0, u_last_login_at = None, u_created_at = now E, u_updated_at = now E,
      u_deleted_at = None\<rparr>"

definition repo_users_create :: "env \<Rightarrow> new_user \<Rightarrow> user_row repo" where
  "repo_users_create E user =
     bind (gets (\<lambda>db. db)) (\<lambda>db.
     let u = new_user_rec E db user in
     bind (user_constraints db (users db) u) (\<lambda>_.
     bind (modify (\<lambda>db. users_seq_update (\<lambda>n. n + 1) (users_update (\<lambda>us. us @ [u]) db))) (\<lambda>_.
     ret (user_row.truncate u))))"

text \<open>
  \<open>UPDATE users SET ... WHERE id = $1 AND deleted_at IS NULL RETURNING ...\<close>: the constraints
  are checked on the new row.
\<close>

definition update_user :: "int \<Rightarrow> (users_rec \<Rightarrow> users_rec) \<Rightarrow> user_row option repo" where
  "update_user i f =
     bind (gets (\<lambda>db. db)) (\<lambda>db.
     case find (\<lambda>u. u_id u = i \<and> live u) (users db) of
       None \<Rightarrow> ret None
     | Some u \<Rightarrow>
         bind (user_constraints db (filter (\<lambda>v. u_id v \<noteq> i) (users db)) (f u)) (\<lambda>_.
         bind (modify (users_update (update_where (\<lambda>u. u_id u = i \<and> live u) f))) (\<lambda>_.
         ret (Some (user_row.truncate (f u))))))"

definition repo_users_activate_bootstrap_account ::
    "env \<Rightarrow> int \<Rightarrow> string \<Rightarrow> string \<Rightarrow> string option \<Rightarrow> user_row repo" where
  "repo_users_activate_bootstrap_account E i password_hash display_name email =
     bind (update_user i (\<lambda>u. u\<lparr>u_password_hash := password_hash, u_display_name := display_name,
             u_email := email, u_status := ''active'', u_token_version := u_token_version u + 1,
             u_updated_at := now E\<rparr>)) (\<lambda>row.
     ok_or row RowNotFound)"

definition repo_users_update_profile ::
    "env \<Rightarrow> int \<Rightarrow> string option \<Rightarrow> bool \<Rightarrow> string option \<Rightarrow> string option \<Rightarrow> int option \<Rightarrow>
     user_row option repo" where
  "repo_users_update_profile E i display_name email_is_set email status dept =
     update_user i (\<lambda>u. u\<lparr>u_display_name := coalesce display_name (u_display_name u),
       u_email := (if email_is_set then email else u_email u),
       u_status := coalesce status (u_status u),
       u_department_id := (case dept of None \<Rightarrow> u_department_id u | Some d \<Rightarrow> Some d),
       u_updated_at := now E\<rparr>)"

definition repo_users_update_password :: "env \<Rightarrow> int \<Rightarrow> string \<Rightarrow> user_row option repo" where
  "repo_users_update_password E i password_hash =
     update_user i (\<lambda>u. u\<lparr>u_password_hash := password_hash,
       u_token_version := u_token_version u + 1, u_updated_at := now E\<rparr>)"

definition repo_users_soft_delete :: "env \<Rightarrow> int \<Rightarrow> bool repo" where
  "repo_users_soft_delete E i =
     bind (gets (\<lambda>db. rows_affected (\<lambda>u. u_id u = i \<and> live u) (users db))) (\<lambda>affected.
     bind (modify (users_update (update_where (\<lambda>u. u_id u = i \<and> live u)
             (\<lambda>u. u\<lparr>u_deleted_at := Some (now E), u_updated_at := now E\<rparr>)))) (\<lambda>_.
     bind (if affected > 0 then modify (user_roles_update (delete_where (\<lambda>p. fst p = i)))
           else ret ()) (\<lambda>_.
     ret (affected > 0))))"

definition repo_users_update_last_login :: "env \<Rightarrow> int \<Rightarrow> unit repo" where
  "repo_users_update_last_login E i =
     modify (users_update (update_where (\<lambda>u. u_id u = i) (\<lambda>u. u\<lparr>u_last_login_at := Some (now E)\<rparr>)))"

definition insert_user_role :: "int \<Rightarrow> int \<Rightarrow> unit repo" where
  "insert_user_role i role_id =
     bind (gets (\<lambda>db. db)) (\<lambda>db.
     bind (ensure ((i, role_id) \<notin> set (user_roles db)) UniqueViolation) (\<lambda>_.
     bind (ensure (user_exists db i \<and> role_id \<in> r_id ` set (roles db)) ForeignKeyViolation) (\<lambda>_.
     modify (user_roles_update (\<lambda>ps. ps @ [(i, role_id)])))))"

definition repo_users_assign_roles :: "int \<Rightarrow> int list \<Rightarrow> unit repo" where
  "repo_users_assign_roles i role_ids =
     bind (modify (user_roles_update (delete_where (\<lambda>p. fst p = i)))) (\<lambda>_.
     for_each role_ids (insert_user_role i))"

section \<open>Execution\<close>

lemma user_constraints_ok [ok_iff]:
  "user_constraints db others u s = (Inr r, t) \<longleftrightarrow>
     varchar 64 (u_username u) \<and> varchar 255 (u_password_hash u) \<and>
     varchar 128 (u_display_name u) \<and> varchar_opt 255 (u_email u) \<and> varchar 16 (u_status u) \<and>
     u_status u \<in> set user_statuses \<and>
     (live u \<longrightarrow> u_username u \<notin> u_username ` set (filter live others)) \<and>
     u_organization_id u \<in> o_id ` set (organizations db) \<and>
     (\<forall>d. u_department_id u = Some d \<longrightarrow>
        (d, u_organization_id u) \<in> (\<lambda>x. (d_id x, d_organization_id x)) ` set (departments db)) \<and>
     t = s"
  by (auto simp: user_constraints_def ok_iff split: option.splits)

lemma update_user_ok:
  "update_user i f s = (Inr r, t) \<longleftrightarrow>
     (case find (\<lambda>u. u_id u = i \<and> live u) (users s) of
        None \<Rightarrow> r = None \<and> t = s
      | Some u \<Rightarrow>
          user_constraints s (filter (\<lambda>v. u_id v \<noteq> i) (users s)) (f u) s = (Inr (), s) \<and>
          r = Some (user_row.truncate (f u)) \<and>
          t = users_update (update_where (\<lambda>u. u_id u = i \<and> live u) f) s)"
  by (auto simp: update_user_def ok_iff split: option.splits)

text \<open>A successful update, seen from the table only.\<close>

lemma update_user_table:
  "update_user i f s = (Inr r, t) \<Longrightarrow>
     t = users_update (update_where (\<lambda>u. u_id u = i \<and> live u) f) s"
proof -
  assume a: "update_user i f s = (Inr r, t)"
  show ?thesis
  proof (cases "find (\<lambda>u. u_id u = i \<and> live u) (users s)")
    case None
    then have "update_where (\<lambda>u. u_id u = i \<and> live u) f (users s) = users s"
      by (intro update_where_none) (auto simp: rows_affected_0 find_None_iff')
    with a None show ?thesis by (simp add: update_user_ok)
  next
    case (Some u)
    with a show ?thesis by (simp add: update_user_ok)
  qed
qed

lemma soft_delete_ok [ok_iff]:
  "repo_users_soft_delete E i s = (Inr r, t) \<longleftrightarrow>
     r = (\<exists>u \<in> set (users s). u_id u = i \<and> live u) \<and>
     t = (if r then user_roles_update (delete_where (\<lambda>p. fst p = i)) else (\<lambda>s. s))
           (users_update (update_where (\<lambda>u. u_id u = i \<and> live u)
             (\<lambda>u. u\<lparr>u_deleted_at := Some (now E), u_updated_at := now E\<rparr>)) s)"
  by (auto simp: repo_users_soft_delete_def ok_iff rows_affected_pos)

lemma insert_user_role_ok [ok_iff]:
  "insert_user_role i role_id s = (Inr r, t) \<longleftrightarrow>
     (i, role_id) \<notin> set (user_roles s) \<and> user_exists s i \<and> role_id \<in> r_id ` set (roles s) \<and>
     t = user_roles_update (\<lambda>ps. ps @ [(i, role_id)]) s"
  by (auto simp: insert_user_role_def ok_iff)

lemma insert_user_roles_table:
  "for_each role_ids (insert_user_role i) s = (Inr r, t) \<Longrightarrow>
     t = user_roles_update (\<lambda>ps. ps @ map (Pair i) role_ids) s \<and> distinct role_ids \<and>
     (\<forall>x \<in> set role_ids. (i, x) \<notin> set (user_roles s) \<and> x \<in> r_id ` set (roles s))"
proof (induction role_ids arbitrary: s)
  case Nil
  then show ?case by (simp add: ret_def)
next
  case (Cons x xs)
  then obtain u where 1: "insert_user_role i x s = (Inr (), u)"
    and 2: "for_each xs (insert_user_role i) u = (Inr r, t)"
    by (auto simp: ok_iff simp del: for_each.simps)
  from Cons.IH [OF 2] 1 show ?case by (auto simp: ok_iff)
qed

lemma assign_roles_table:
  assumes "repo_users_assign_roles i role_ids s = (Inr r, t)"
  shows "t = user_roles_update (\<lambda>ps. delete_where (\<lambda>p. fst p = i) ps @ map (Pair i) role_ids) s
    \<and> distinct role_ids \<and> set role_ids \<subseteq> r_id ` set (roles s)"
proof -
  let ?s = "user_roles_update (delete_where (\<lambda>p. fst p = i)) s"
  have "for_each role_ids (insert_user_role i) ?s = (Inr r, t)"
    using assms by (auto simp: repo_users_assign_roles_def ok_iff simp del: for_each.simps)
  from insert_user_roles_table [OF this] show ?thesis by auto
qed

section \<open>What the functions write\<close>

context db_relation
begin

lemma within_user_constraints [frame_intro]: "within R (user_constraints db us u)"
  unfolding user_constraints_def by (intro keeps_intro)

lemma within_users_create [frame_intro]:
  assumes "\<And>s f g. R s (users_seq_update g (users_update f s))"
  shows "within R (repo_users_create E user)"
  unfolding repo_users_create_def
  by (intro keeps_intro frame_intro within_modify assms)

lemma within_update_user [frame_intro]:
  assumes "\<And>s g. R s (users_update g s)"
  shows "within R (update_user i f)"
  unfolding update_user_def by (intro keeps_intro frame_intro within_modify assms)

lemma within_activate_bootstrap_account [frame_intro]:
  assumes "\<And>s g. R s (users_update g s)"
  shows "within R (repo_users_activate_bootstrap_account E i h d e)"
  unfolding repo_users_activate_bootstrap_account_def
  by (intro keeps_intro within_update_user assms)

lemma within_update_profile [frame_intro]:
  assumes "\<And>s g. R s (users_update g s)"
  shows "within R (repo_users_update_profile E i d b e st dp)"
  unfolding repo_users_update_profile_def by (intro within_update_user assms)

lemma within_update_password [frame_intro]:
  assumes "\<And>s g. R s (users_update g s)"
  shows "within R (repo_users_update_password E i h)"
  unfolding repo_users_update_password_def by (intro within_update_user assms)

lemma within_soft_delete [frame_intro]:
  assumes "\<And>s g. R s (users_update g s)" and "\<And>s g. R s (user_roles_update g s)"
  shows "within R (repo_users_soft_delete E i)"
  unfolding repo_users_soft_delete_def by (intro keeps_intro within_modify assms)

lemma within_update_last_login [frame_intro]:
  assumes "\<And>s g. R s (users_update g s)"
  shows "within R (repo_users_update_last_login E i)"
  unfolding repo_users_update_last_login_def by (intro within_modify assms)

lemma within_assign_roles [frame_intro]:
  assumes "\<And>s g. R s (user_roles_update g s)"
  shows "within R (repo_users_assign_roles i role_ids)"
  unfolding repo_users_assign_roles_def insert_user_role_def
  by (intro keeps_intro within_modify assms)

end

end
