(* ===== verification/Repo_Roles.thy ===== *)
theory Repo_Roles
  imports Repo_Users
begin

text \<open>
  \<open>backend/src/repositories/roles.rs\<close> and \<open>backend/src/repositories/permissions.rs\<close>: roles with
  their members and permission groups, role writes, permission assignment, the permission
  directory, the effective permissions of a user and the dashboard counts.
\<close>

section \<open>Roles\<close>

record new_role =
  nr_code :: string
  nr_name :: string
  nr_category :: string
  nr_icon :: "string option"
  nr_color :: "string option"
  nr_description :: "string option"
  nr_data_scope :: string

datatype nullable_text_update = Unchanged | Set "string option"

fun is_set :: "nullable_text_update \<Rightarrow> bool" where
  "is_set Unchanged = False"
| "is_set (Set _) = True"

fun text_value :: "nullable_text_update \<Rightarrow> string option" where
  "text_value Unchanged = None"
| "text_value (Set None) = None"
| "text_value (Set (Some v)) = Some v"

record role_update =
  ru_name :: "string option"
  ru_category :: "string option"
  ru_icon :: nullable_text_update
  ru_color :: "string option"
  ru_description :: nullable_text_update
  ru_data_scope :: "string option"
  ru_is_active :: "bool option"

definition role_members :: "db \<Rightarrow> int \<Rightarrow> int" where
  "role_members db role_id =
     int (length (filter (\<lambda>(i, r). r = role_id \<and> (\<exists>u \<in> set (users db). u_id u = i \<and> live u))
                    (user_roles db)))"

definition role_permission_rows :: "db \<Rightarrow> int \<Rightarrow> permissions_rec list" where
  "role_permission_rows db role_id =
     filter (\<lambda>p. (role_id, p_id p) \<in> set (role_permissions db)) (permissions db)"

definition role_row_of :: "db \<Rightarrow> roles_rec \<Rightarrow> role_row" where
  "role_row_of db r = role_columns.extend (role_columns.truncate r)
     \<lparr>r_members = role_members db (r_id r)\<rparr>"

definition repo_roles_list_all :: "db \<Rightarrow> role_with_permissions_row list" where
  "repo_roles_list_all db =
     map (\<lambda>r. role_columns.extend (role_columns.truncate r)
            \<lparr>r_members = role_members db (r_id r),
             r_permission_group_ids = sort (remdups (map p_group_id (role_permission_rows db (r_id r))))\<rparr>)
       (sort_key r_id (roles db))"

definition repo_roles_find_by_id :: "int \<Rightarrow> db \<Rightarrow> role_row option" where
  "repo_roles_find_by_id i db = map_option (role_row_of db) (find (\<lambda>r. r_id r = i) (roles db))"

definition role_colors :: "string list" where
  "role_colors = [''primary'', ''warning'', ''success'', ''danger'', ''neutral'']"

definition data_scopes :: "string list" where
  "data_scopes = [''all'', ''organization'', ''department_and_children'', ''department'', ''self'']"

definition role_columns_ok :: "('a) role_columns_scheme \<Rightarrow> unit repo" where
  "role_columns_ok r =
     bind (ensure (varchar 64 (r_code r) \<and> varchar 128 (r_name r) \<and> varchar 64 (r_category r) \<and>
                   varchar_opt 64 (r_icon r) \<and> varchar 16 (r_color r) \<and>
                   varchar 32 (r_data_scope r)) StringTooLong) (\<lambda>_.
     ensure (r_color r \<in> set role_colors \<and> r_data_scope r \<in> set data_scopes) CheckViolation)"

definition new_role_rec :: "env \<Rightarrow> db \<Rightarrow> new_role \<Rightarrow> string \<Rightarrow> roles_rec" where
  "new_role_rec E db role color =
     \<lparr>r_id = roles_seq db, r_code = nr_code role, r_name = nr_name role,
      r_category = nr_category role, r_icon = nr_icon role, r_color = color,
      r_description = nr_description role, r_data_scope = nr_data_scope role,
      r_is_active = True, r_updated_at = now E\<rparr>"

text \<open>An explicit null for the color violates its not-null constraint.\<close>

definition repo_roles_create :: "env \<Rightarrow> new_role \<Rightarrow> int repo" where
  "repo_roles_create E role =
     bind (gets (\<lambda>db. db)) (\<lambda>db.
     bind (ok_or (nr_color role) CheckViolation) (\<lambda>color.
     let r = new_role_rec E db role color in
     bind (role_columns_ok r) (\<lambda>_.
     bind (ensure (r_code r \<notin> r_code ` set (roles db)) UniqueViolation) (\<lambda>_.
     bind (modify (\<lambda>db. roles_seq_update (\<lambda>n. n + 1) (roles_update (\<lambda>rs. rs @ [r]) db))) (\<lambda>_.
     ret (r_id r))))))"

definition repo_roles_id_by_code :: "string \<Rightarrow> db \<Rightarrow> int option" where
  "repo_roles_id_by_code code db =
     map_option r_id (find (\<lambda>r. r_code r = code \<and> r_is_active r) (roles db))"

definition repo_roles_active_ids_by_ids :: "int list \<Rightarrow> db \<Rightarrow> int list" where
  "repo_roles_active_ids_by_ids role_ids db =
     sort (map r_id (filter (\<lambda>r. r_id r \<in> set role_ids \<and> r_is_active r) (roles db)))"

definition apply_role_update :: "env \<Rightarrow> role_update \<Rightarrow> roles_rec \<Rightarrow> roles_rec" where
  "apply_role_update E role r =
     r\<lparr>r_name := coalesce (ru_name role) (r_name r),
       r_category := coalesce (ru_category role) (r_category r),
       r_icon := (if is_set (ru_icon role) then text_value (ru_icon role) else r_icon r),
       r_color := coalesce (ru_color role) (r_color r),
       r_description := (if is_set (ru_description role) then text_value (ru_description role)
                         else r_description r),
       r_data_scope := coalesce (ru_data_scope role) (r_data_scope r),
       r_is_active := coalesce (ru_is_active role) (r_is_active r),
       r_updated_at := now E\<rparr>"

definition repo_roles_update :: "env \<Rightarrow> int \<Rightarrow> role_update \<Rightarrow> bool repo" where
  "repo_roles_update E i role =
     bind (gets (\<lambda>db. find (\<lambda>r. r_id r = i) (roles db))) (\<lambda>row.
     case row of
       None \<Rightarrow> ret False
     | Some r \<Rightarrow>
         bind (role_columns_ok (apply_role_update E role r)) (\<lambda>_.
         bind (modify (roles_update (update_where (\<lambda>r. r_id r = i) (apply_role_update E role)))) (\<lambda>_.
         ret True)))"

text \<open>Deleting a role cascades to its assignments and its permissions.\<close>

definition repo_roles_delete_if_unassigned :: "int \<Rightarrow> bool repo" where
  "repo_roles_delete_if_unassigned i =
     bind (gets (\<lambda>db. i \<in> r_id ` set (roles db) \<and> role_members db i = 0)) (\<lambda>deletable.
     if deletable then
       bind (modify (roles_update (delete_where (\<lambda>r. r_id r = i)))) (\<lambda>_.
       bind (modify (user_roles_update (delete_where (\<lambda>p. snd p = i)))) (\<lambda>_.
       bind (modify (role_permissions_update (delete_where (\<lambda>p. fst p = i)))) (\<lambda>_.
       ret True)))
     else ret False)"

definition repo_roles_permission_ids_by_role :: "int \<Rightarrow> db \<Rightarrow> int list" where
  "repo_roles_permission_ids_by_role i db =
     sort (map snd (filter (\<lambda>p. fst p = i) (role_permissions db)))"

definition repo_roles_permission_group_ids_by_role :: "int \<Rightarrow> db \<Rightarrow> int list" where
  "repo_roles_permission_group_ids_by_role i db =
     sort (remdups (filter (\<lambda>g. g \<in> pg_id ` set (permission_groups db))
       (map p_group_id (role_permission_rows db i))))"

definition insert_role_permission :: "int \<Rightarrow> int \<Rightarrow> unit repo" where
  "insert_role_permission role_id permission_id =
     bind (gets (\<lambda>db. db)) (\<lambda>db.
     bind (ensure ((role_id, permission_id) \<notin> set (role_permissions db)) UniqueViolation) (\<lambda>_.
     bind (ensure (role_id \<in> r_id ` set (roles db) \<and> permission_id \<in> p_id ` set (permissions db))
             ForeignKeyViolation) (\<lambda>_.
     modify (role_permissions_update (\<lambda>ps. ps @ [(role_id, permission_id)])))))"

definition repo_roles_assign_permissions :: "int \<Rightarrow> int list \<Rightarrow> unit repo" where
  "repo_roles_assign_permissions role_id permission_ids =
     bind (modify (role_permissions_update (delete_where (\<lambda>p. fst p = role_id)))) (\<lambda>_.
     for_each permission_ids (insert_role_permission role_id))"

section \<open>Permissions\<close>

record dashboard_stats_row =
  ds_total_users :: int
  ds_active_users :: int
  ds_total_roles :: int
  ds_total_permissions :: int
  ds_suspended_users :: int

definition role_codes :: "db \<Rightarrow> int set \<Rightarrow> string set" where
  "role_codes db role_ids =
     p_code ` {p \<in> set (permissions db). \<exists>r \<in> role_ids. (r, p_id p) \<in> set (role_permissions db)}"

definition active_role_ids :: "db \<Rightarrow> int \<Rightarrow> int set" where
  "active_role_ids db i =
     r_id ` set (filter (\<lambda>r. (i, r_id r) \<in> set (user_roles db) \<and> r_is_active r) (roles db))"

definition repo_permissions_auth_context :: "int \<Rightarrow> db \<Rightarrow> bool \<times> int \<times> string set" where
  "repo_permissions_auth_context i db =
     (case find (\<lambda>u. u_id u = i \<and> active_user u) (users db) of
        None \<Rightarrow> (False, - 1, {})
      | Some u \<Rightarrow> (True, u_token_version u, role_codes db (active_role_ids db i)))"

definition repo_permissions_codes_by_ids :: "int list \<Rightarrow> db \<Rightarrow> string set" where
  "repo_permissions_codes_by_ids permission_ids db =
     p_code ` set (filter (\<lambda>p. p_id p \<in> set permission_ids) (permissions db))"

definition repo_permissions_codes_by_role_ids :: "int list \<Rightarrow> db \<Rightarrow> string set" where
  "repo_permissions_codes_by_role_ids role_ids db = role_codes db (set role_ids)"

definition repo_permissions_list_groups :: "db \<Rightarrow> permission_group_row list" where
  "repo_permissions_list_groups db =
     map permission_group_row.truncate
       (sort_by (\<lambda>a b. then_by (\<le>) (pg_sort_order a) (pg_sort_order b) (pg_id a \<le> pg_id b))
          (permission_groups db))"

definition repo_permissions_list_permissions :: "db \<Rightarrow> permission_row list" where
  "repo_permissions_list_permissions db =
     map permission_row.truncate
       (sort_by (\<lambda>a b. then_by (\<le>) (p_sort_order a) (p_sort_order b) (p_id a \<le> p_id b))
          (permissions db))"

definition repo_permissions_permission_codes_by_user :: "int \<Rightarrow> db \<Rightarrow> string set" where
  "repo_permissions_permission_codes_by_user i db =
     (if \<exists>u \<in> set (users db). u_id u = i \<and> active_user u
      then role_codes db (active_role_ids db i) else {})"

definition repo_permissions_stats :: "actor_context \<Rightarrow> db \<Rightarrow> dashboard_stats_row" where
  "repo_permissions_stats actor db =
     (let visible = filter (\<lambda>u. live u \<and> user_in_scope actor db u) (users db)
      in \<lparr>ds_total_users = int (length visible),
          ds_active_users = int (length (filter (\<lambda>u. u_status u = ''active'') visible)),
          ds_total_roles = int (length (roles db)),
          ds_total_permissions = int (length (permissions db)),
          ds_suspended_users = int (length (filter (\<lambda>u. u_status u = ''suspended'') visible))\<rparr>)"

section \<open>Execution\<close>

lemma role_columns_ok_ok [ok_iff]:
  "role_columns_ok r s = (Inr y, t) \<longleftrightarrow>
     varchar 64 (r_code r) \<and> varchar 128 (r_name r) \<and> varchar 64 (r_category r) \<and>
     varchar_opt 64 (r_icon r) \<and> varchar 16 (r_color r) \<and> varchar 32 (r_data_scope r) \<and>
     r_color r \<in> set role_colors \<and> r_data_scope r \<in> set data_scopes \<and> t = s"
  by (auto simp: role_columns_ok_def ok_iff)

lemma roles_update_table:
  "repo_roles_update E i role s = (Inr r, t) \<Longrightarrow>
     t = roles_update (update_where (\<lambda>r. r_id r = i) (apply_role_update E role)) s"
proof -
  assume a: "repo_roles_update E i role s = (Inr r, t)"
  show ?thesis
  proof (cases "find (\<lambda>r. r_id r = i) (roles s)")
    case None
    then have "update_where (\<lambda>r. r_id r = i) (apply_role_update E role) (roles s) = roles s"
      by (intro update_where_none) (auto simp: rows_affected_0 find_None_iff')
    with a None show ?thesis by (auto simp: repo_roles_update_def ok_iff)
  next
    case (Some x)
    with a show ?thesis by (auto simp: repo_roles_update_def ok_iff)
  qed
qed

lemma apply_role_update_id [simp]: "r_id (apply_role_update E role r) = r_id r"
  and apply_role_update_code [simp]: "r_code (apply_role_update E role r) = r_code r"
  by (simp_all add: apply_role_update_def)

lemma insert_role_permission_ok [ok_iff]:
  "insert_role_permission role_id p s = (Inr r, t) \<longleftrightarrow>
     (role_id, p) \<notin> set (role_permissions s) \<and> role_id \<in> r_id ` set (roles s) \<and>
     p \<in> p_id ` set (permissions s) \<and>
     t = role_permissions_update (\<lambda>ps. ps @ [(role_id, p)]) s"
  by (auto simp: insert_role_permission_def ok_iff)

lemma insert_role_permissions_table:
  "for_each ids (insert_role_permission role_id) s = (Inr r, t) \<Longrightarrow>
     t = role_permissions_update (\<lambda>ps. ps @ map (Pair role_id) ids) s"
proof (induction ids arbitrary: s)
  case Nil
  then show ?case by (simp add: ret_def)
next
  case (Cons x xs)
  then obtain u where 1: "insert_role_permission role_id x s = (Inr (), u)"
    and 2: "for_each xs (insert_role_permission role_id) u = (Inr r, t)"
    by (auto simp: ok_iff simp del: for_each.simps)
  from Cons.IH [OF 2] 1 show ?case by (auto simp: ok_iff)
qed

lemma assign_permissions_table:
  assumes "repo_roles_assign_permissions role_id ids s = (Inr r, t)"
  shows "t = role_permissions_update
     (\<lambda>ps. delete_where (\<lambda>p. fst p = role_id) ps @ map (Pair role_id) ids) s"
proof -
  let ?s = "role_permissions_update (delete_where (\<lambda>p. fst p = role_id)) s"
  have "for_each ids (insert_role_permission role_id) ?s = (Inr r, t)"
    using assms by (auto simp: repo_roles_assign_permissions_def ok_iff simp del: for_each.simps)
  from insert_role_permissions_table [OF this] show ?thesis by auto
qed

text \<open>The two queries for a user's effective permissions agree on active users.\<close>

lemma permission_codes_by_user_auth_context:
  "repo_permissions_permission_codes_by_user i db = snd (snd (repo_permissions_auth_context i db))"
  by (auto simp: repo_permissions_permission_codes_by_user_def repo_permissions_auth_context_def
      find_None_iff' split: option.splits dest: find_SomeD)

lemma role_codes_mono: "A \<subseteq> B \<Longrightarrow> role_codes db A \<subseteq> role_codes db B"
  by (auto simp: role_codes_def)

lemma role_codes_Un: "role_codes db (A \<union> B) = role_codes db A \<union> role_codes db B"
  by (auto simp: role_codes_def)

section \<open>What the functions write\<close>

context db_relation
begin

lemma within_role_columns_ok [frame_intro]: "within R (role_columns_ok r)"
  unfolding role_columns_ok_def by (intro keeps_intro)

lemma within_roles_create [frame_intro]:
  assumes "\<And>s f g. R s (roles_seq_update g (roles_update f s))"
  shows "within R (repo_roles_create E role)"
  unfolding repo_roles_create_def by (intro keeps_intro frame_intro within_modify assms)

lemma within_roles_update [frame_intro]:
  assumes "\<And>s g. R s (roles_update g s)"
  shows "within R (repo_roles_update E i role)"
  unfolding repo_roles_update_def by (intro keeps_intro frame_intro within_modify assms)

lemma within_delete_if_unassigned [frame_intro]:
  assumes "\<And>s g. R s (roles_update g s)" and "\<And>s g. R s (user_roles_update g s)"
    and "\<And>s g. R s (role_permissions_update g s)"
  shows "within R (repo_roles_delete_if_unassigned i)"
  unfolding repo_roles_delete_if_unassigned_def by (intro keeps_intro within_modify assms)

lemma within_assign_permissions [frame_intro]:
  assumes "\<And>s g. R s (role_permissions_update g s)"
  shows "within R (repo_roles_assign_permissions role_id ids)"
  unfolding repo_roles_assign_permissions_def insert_role_permission_def
  by (intro keeps_intro within_modify assms)

end

end
