(* ===== verification/Repo_Sessions.thy ===== *)
theory Repo_Sessions
  imports Repo_Roles
begin

text \<open>
  \<open>backend/src/repositories/auth_sessions.rs\<close> (server-side sessions and login throttling),
  \<open>step_up.rs\<close> (re-authentication grants), \<open>module_unlock.rs\<close> (module unlocks) and
  \<open>organizations.rs\<close> (the default assignment).
\<close>

section \<open>Sessions\<close>

record session_auth_context =
  sc_session_id :: int
  sc_user_id :: int
  sc_csrf_token_hash :: string
  sc_organization_id :: int
  sc_department_id :: "int option"
  sc_data_scope :: string
  sc_permission_codes :: "string set"

record new_session =
  ns_user_id :: int
  ns_session_token_hash :: string
  ns_csrf_token_hash :: string
  ns_token_version :: int
  ns_idle_timeout_secs :: int
  ns_persistent :: bool
  ns_expires_at :: time

definition user_active_roles :: "db \<Rightarrow> int \<Rightarrow> roles_rec list" where
  "user_active_roles db i = filter (\<lambda>r. (i, r_id r) \<in> set (user_roles db) \<and> r_is_active r) (roles db)"

definition effective_scope :: "roles_rec list \<Rightarrow> string" where
  "effective_scope rs =
     (if list_ex (\<lambda>r. r_code r = ''super_admin'' \<or> r_data_scope r = ''all'') rs then ''all''
      else if list_ex (\<lambda>r. r_data_scope r = ''organization'') rs then ''organization''
      else if list_ex (\<lambda>r. r_data_scope r = ''department_and_children'') rs
        then ''department_and_children''
      else if list_ex (\<lambda>r. r_data_scope r = ''department'') rs then ''department''
      else ''self'')"

definition session_open :: "env \<Rightarrow> auth_sessions_rec \<Rightarrow> bool" where
  "session_open E s \<longleftrightarrow>
     s_revoked_at s = None \<and> s_expires_at s > now E \<and>
     s_last_seen_at s + secs (s_idle_timeout_secs s) > now E"

definition is_active_super_admin :: "db \<Rightarrow> int \<Rightarrow> bool" where
  "is_active_super_admin db i \<longleftrightarrow> list_ex (\<lambda>r. r_code r = ''super_admin'') (user_active_roles db i)"

definition totp_enrolled :: "db \<Rightarrow> int \<Rightarrow> bool" where
  "totp_enrolled db i \<longleftrightarrow>
     list_ex (\<lambda>m. ms_user_id m = i \<and> ms_totp_enabled_at m \<noteq> None) (user_mfa_settings db)"

definition session_user_ok :: "db \<Rightarrow> auth_sessions_rec \<Rightarrow> users_rec \<Rightarrow> bool" where
  "session_user_ok db s u \<longleftrightarrow>
     u_id u = s_user_id s \<and> s_token_version s = u_token_version u \<and> active_user u \<and>
     (\<not> is_active_super_admin db (u_id u) \<or> totp_enrolled db (u_id u))"

definition select_auth_context :: "env \<Rightarrow> string \<Rightarrow> db \<Rightarrow> session_auth_context option" where
  "select_auth_context E session_token_hash db =
     (case find (\<lambda>s. s_session_token_hash s = session_token_hash \<and> session_open E s)
             (auth_sessions db) of
        None \<Rightarrow> None
      | Some s \<Rightarrow>
          (case find (session_user_ok db s) (users db) of
             None \<Rightarrow> None
           | Some u \<Rightarrow> Some
               \<lparr>sc_session_id = s_id s, sc_user_id = s_user_id s,
                sc_csrf_token_hash = s_csrf_token_hash s,
                sc_organization_id = u_organization_id u, sc_department_id = u_department_id u,
                sc_data_scope = effective_scope (user_active_roles db (u_id u)),
                sc_permission_codes = role_codes db (active_role_ids db (u_id u))\<rparr>))"

definition repo_sessions_auth_context ::
    "env \<Rightarrow> string \<Rightarrow> session_auth_context option repo" where
  "repo_sessions_auth_context E session_token_hash =
     bind (gets (select_auth_context E session_token_hash)) (\<lambda>context.
     bind (case context of None \<Rightarrow> ret ()
           | Some c \<Rightarrow> modify (auth_sessions_update (update_where
               (\<lambda>s. s_id s = sc_session_id c \<and> s_last_seen_at s < now E - secs 60)
               (\<lambda>s. s\<lparr>s_last_seen_at := now E\<rparr>)))) (\<lambda>_.
     ret context))"

definition new_session_rec :: "env \<Rightarrow> db \<Rightarrow> new_session \<Rightarrow> auth_sessions_rec" where
  "new_session_rec E db session =
     \<lparr>s_id = sessions_seq db, s_user_id = ns_user_id session,
      s_session_token_hash = ns_session_token_hash session,
      s_csrf_token_hash = ns_csrf_token_hash session,
      s_token_version = ns_token_version session,
      s_idle_timeout_secs = ns_idle_timeout_secs session,
      s_persistent = ns_persistent session, s_expires_at = ns_expires_at session,
      s_last_seen_at = now E, s_revoked_at = None, s_created_at = now E\<rparr>"

definition repo_sessions_create :: "env \<Rightarrow> new_session \<Rightarrow> int repo" where
  "repo_sessions_create E session =
     bind (gets (\<lambda>db. db)) (\<lambda>db.
     bind (ensure (varchar 64 (ns_session_token_hash session) \<and>
                   varchar 64 (ns_csrf_token_hash session)) StringTooLong) (\<lambda>_.
     bind (ensure (ns_idle_timeout_secs session > 0) CheckViolation) (\<lambda>_.
     bind (ensure (ns_session_token_hash session \<notin> s_session_token_hash ` set (auth_sessions db))
             UniqueViolation) (\<lambda>_.
     bind (ensure (user_exists db (ns_user_id session)) ForeignKeyViolation) (\<lambda>_.
     bind (modify (\<lambda>db. sessions_seq_update (\<lambda>n. n + 1)
             (auth_sessions_update (\<lambda>ss. ss @ [new_session_rec E db session]) db))) (\<lambda>_.
     ret (sessions_seq db)))))))"

text \<open>\<open>UPDATE auth_sessions SET revoked_at = now() WHERE ...\<close>, returning the rows affected.\<close>

definition revoke_where :: "env \<Rightarrow> (db \<Rightarrow> auth_sessions_rec \<Rightarrow> bool) \<Rightarrow> nat repo" where
  "revoke_where E P =
     bind (gets (\<lambda>db. db)) (\<lambda>db.
     bind (modify (auth_sessions_update (update_where (P db) (\<lambda>s. s\<lparr>s_revoked_at := Some (now E)\<rparr>)))) (\<lambda>_.
     ret (rows_affected (P db) (auth_sessions db))))"

definition repo_sessions_revoke :: "env \<Rightarrow> int \<Rightarrow> int \<Rightarrow> bool repo" where
  "repo_sessions_revoke E sid uid =
     bind (revoke_where E (\<lambda>_ s. s_id s = sid \<and> s_user_id s = uid \<and> s_revoked_at s = None)) (\<lambda>n.
     ret (n > 0))"

definition repo_sessions_revoke_all_for_user :: "env \<Rightarrow> int \<Rightarrow> nat repo" where
  "repo_sessions_revoke_all_for_user E uid =
     revoke_where E (\<lambda>_ s. s_user_id s = uid \<and> s_revoked_at s = None)"

definition newer_session :: "auth_sessions_rec \<Rightarrow> auth_sessions_rec \<Rightarrow> bool" where
  "newer_session a b \<longleftrightarrow>
     s_created_at b < s_created_at a \<or> s_created_at a = s_created_at b \<and> s_id b \<le> s_id a"

definition unrevoked_sessions :: "db \<Rightarrow> int \<Rightarrow> auth_sessions_rec list" where
  "unrevoked_sessions db uid =
     filter (\<lambda>s. s_user_id s = uid \<and> s_revoked_at s = None) (auth_sessions db)"

definition repo_sessions_enforce_user_limit :: "env \<Rightarrow> int \<Rightarrow> int \<Rightarrow> nat repo" where
  "repo_sessions_enforce_user_limit E uid max_sessions =
     revoke_where E (\<lambda>db s. s_user_id s = uid \<and> s_revoked_at s = None \<and>
       s_id s \<notin> s_id ` set (take (nat max_sessions)
                                  (sort_by newer_session (unrevoked_sessions db uid))))"

text \<open>Deleting a session cascades to the grants bound to it.\<close>

definition delete_sessions :: "(auth_sessions_rec \<Rightarrow> bool) \<Rightarrow> db \<Rightarrow> db" where
  "delete_sessions P db =
     (let gone = s_id ` set (filter P (auth_sessions db))
      in auth_module_unlocks_update (delete_where (\<lambda>m. mu_session_id m \<in> gone))
           (auth_step_up_tokens_update (delete_where (\<lambda>t. st_session_id t \<in> gone))
              (auth_sessions_update (delete_where P) db)))"

definition session_prunable :: "env \<Rightarrow> auth_sessions_rec \<Rightarrow> bool" where
  "session_prunable E s \<longleftrightarrow>
     s_expires_at s < now E - days 7 \<or> before (s_revoked_at s) (now E - days 7)"

definition attempt_prunable :: "env \<Rightarrow> login_attempts_rec \<Rightarrow> bool" where
  "attempt_prunable E a \<longleftrightarrow> la_updated_at a < now E - days 30"

definition repo_sessions_prune :: "env \<Rightarrow> nat repo" where
  "repo_sessions_prune E =
     bind (gets (\<lambda>db. rows_affected (session_prunable E) (auth_sessions db))) (\<lambda>sessions.
     bind (modify (delete_sessions (session_prunable E))) (\<lambda>_.
     bind (gets (\<lambda>db. rows_affected (attempt_prunable E) (auth_login_attempts db))) (\<lambda>attempts.
     bind (modify (auth_login_attempts_update (delete_where (attempt_prunable E)))) (\<lambda>_.
     ret (sessions + attempts)))))"

section \<open>Login throttling\<close>

definition repo_sessions_locked_until :: "env \<Rightarrow> string \<Rightarrow> db \<Rightarrow> time option" where
  "repo_sessions_locked_until E identifier_hash db =
     Option.bind (find (\<lambda>a. la_identifier_hash a = identifier_hash \<and>
                           (case la_locked_until a of None \<Rightarrow> False | Some t \<Rightarrow> t > now E))
                    (auth_login_attempts db)) la_locked_until"

definition next_failure ::
    "env \<Rightarrow> int \<Rightarrow> int \<Rightarrow> int \<Rightarrow> login_attempts_rec \<Rightarrow> login_attempts_rec" where
  "next_failure E max_failures window_secs lockout_secs a =
     (let expired = la_window_started_at a \<le> now E - secs window_secs;
          count = (if expired then 1 else la_failure_count a + 1)
      in a\<lparr>la_failure_count := count,
           la_window_started_at := (if expired then now E else la_window_started_at a),
           la_locked_until := (if count \<ge> max_failures then Some (now E + secs lockout_secs) else None),
           la_updated_at := now E\<rparr>)"

definition first_failure :: "env \<Rightarrow> string \<Rightarrow> login_attempts_rec" where
  "first_failure E identifier_hash =
     \<lparr>la_identifier_hash = identifier_hash, la_failure_count = 1, la_window_started_at = now E,
      la_locked_until = None, la_updated_at = now E\<rparr>"

definition repo_sessions_record_login_failure ::
    "env \<Rightarrow> string \<Rightarrow> int \<Rightarrow> int \<Rightarrow> int \<Rightarrow> time option repo" where
  "repo_sessions_record_login_failure E identifier_hash max_failures window_secs lockout_secs =
     bind (gets (\<lambda>db. find (\<lambda>a. la_identifier_hash a = identifier_hash) (auth_login_attempts db))) (\<lambda>row.
     case row of
       None \<Rightarrow>
         bind (ensure (varchar 64 identifier_hash) StringTooLong) (\<lambda>_.
         bind (modify (auth_login_attempts_update (\<lambda>as. as @ [first_failure E identifier_hash]))) (\<lambda>_.
         ret None))
     | Some a \<Rightarrow>
         bind (modify (auth_login_attempts_update (update_where
                 (\<lambda>a. la_identifier_hash a = identifier_hash)
                 (next_failure E max_failures window_secs lockout_secs)))) (\<lambda>_.
         ret (la_locked_until (next_failure E max_failures window_secs lockout_secs a))))"

definition repo_sessions_clear_login_failures :: "string \<Rightarrow> unit repo" where
  "repo_sessions_clear_login_failures identifier_hash =
     modify (auth_login_attempts_update (delete_where (\<lambda>a. la_identifier_hash a = identifier_hash)))"

section \<open>Step-up grants\<close>

definition repo_step_up_create :: "string \<Rightarrow> int \<Rightarrow> int \<Rightarrow> string \<Rightarrow> time \<Rightarrow> unit repo" where
  "repo_step_up_create token_hash sid uid scope expires_at =
     bind (gets (\<lambda>db. db)) (\<lambda>db.
     bind (ensure (varchar 64 token_hash \<and> varchar 64 scope) StringTooLong) (\<lambda>_.
     bind (ensure (token_hash \<notin> st_token_hash ` set (auth_step_up_tokens db)) UniqueViolation) (\<lambda>_.
     bind (ensure (sid \<in> s_id ` set (auth_sessions db) \<and> user_exists db uid) ForeignKeyViolation) (\<lambda>_.
     modify (auth_step_up_tokens_update (\<lambda>ts. ts @
       [\<lparr>st_token_hash = token_hash, st_session_id = sid, st_user_id = uid, st_scope = scope,
         st_expires_at = expires_at, st_consumed_at = None\<rparr>]))))))"

definition step_up_usable :: "env \<Rightarrow> string \<Rightarrow> int \<Rightarrow> int \<Rightarrow> string \<Rightarrow> step_up_tokens_rec \<Rightarrow> bool" where
  "step_up_usable E token_hash sid uid scope t \<longleftrightarrow>
     st_token_hash t = token_hash \<and> st_session_id t = sid \<and> st_user_id t = uid \<and>
     st_scope t = scope \<and> st_consumed_at t = None \<and> st_expires_at t > now E"

definition repo_step_up_consume :: "env \<Rightarrow> string \<Rightarrow> int \<Rightarrow> int \<Rightarrow> string \<Rightarrow> bool repo" where
  "repo_step_up_consume E token_hash sid uid scope =
     bind (gets (\<lambda>db. rows_affected (step_up_usable E token_hash sid uid scope)
                        (auth_step_up_tokens db))) (\<lambda>affected.
     bind (modify (auth_step_up_tokens_update (update_where
             (step_up_usable E token_hash sid uid scope)
             (\<lambda>t. t\<lparr>st_consumed_at := Some (now E)\<rparr>)))) (\<lambda>_.
     ret (affected = 1)))"

definition repo_step_up_prune :: "env \<Rightarrow> nat repo" where
  "repo_step_up_prune E =
     (let P = (\<lambda>t. st_expires_at t < now E - days 1 \<or> before (st_consumed_at t) (now E - days 1))
      in bind (gets (\<lambda>db. rows_affected P (auth_step_up_tokens db))) (\<lambda>n.
         bind (modify (auth_step_up_tokens_update (delete_where P))) (\<lambda>_.
         ret n)))"

section \<open>Module unlocks\<close>

definition repo_unlock_active_expires_at :: "env \<Rightarrow> int \<Rightarrow> int \<Rightarrow> string \<Rightarrow> db \<Rightarrow> time option" where
  "repo_unlock_active_expires_at E sid uid module db =
     map_option mu_expires_at
       (find (\<lambda>m. mu_session_id m = sid \<and> mu_user_id m = uid \<and> mu_module_scope m = module \<and>
                  mu_expires_at m > now E) (auth_module_unlocks db))"

definition repo_unlock_upsert :: "env \<Rightarrow> int \<Rightarrow> int \<Rightarrow> string \<Rightarrow> time \<Rightarrow> unit repo" where
  "repo_unlock_upsert E sid uid module expires_at =
     bind (gets (\<lambda>db. db)) (\<lambda>db.
     bind (ensure (varchar 32 module) StringTooLong) (\<lambda>_.
     bind (ensure (module \<in> {''users'', ''roles''}) CheckViolation) (\<lambda>_.
     bind (ensure (sid \<in> s_id ` set (auth_sessions db) \<and> user_exists db uid) ForeignKeyViolation) (\<lambda>_.
     modify (auth_module_unlocks_update (\<lambda>ms.
       if \<exists>m \<in> set ms. mu_session_id m = sid \<and> mu_module_scope m = module
       then update_where (\<lambda>m. mu_session_id m = sid \<and> mu_module_scope m = module)
              (\<lambda>m. m\<lparr>mu_user_id := uid, mu_issued_at := now E, mu_expires_at := expires_at\<rparr>) ms
       else ms @ [\<lparr>mu_session_id = sid, mu_user_id = uid, mu_module_scope = module,
                   mu_issued_at = now E, mu_expires_at = expires_at\<rparr>]))))))"

definition repo_unlock_prune :: "env \<Rightarrow> nat repo" where
  "repo_unlock_prune E =
     bind (gets (\<lambda>db. rows_affected (\<lambda>m. mu_expires_at m < now E) (auth_module_unlocks db))) (\<lambda>n.
     bind (modify (auth_module_unlocks_update (delete_where (\<lambda>m. mu_expires_at m < now E)))) (\<lambda>_.
     ret n))"

section \<open>Organizations\<close>

definition repo_organizations_default_assignment :: "db \<Rightarrow> sqlx_error + int \<times> int option" where
  "repo_organizations_default_assignment db =
     (case find (\<lambda>org. o_code org = ''default'' \<and> o_status org = ''active'') (organizations db) of
        None \<Rightarrow> Inl RowNotFound
      | Some org \<Rightarrow> Inr (o_id org,
          map_option d_id (find (\<lambda>d. d_organization_id d = o_id org \<and> d_code d = ''root'' \<and>
                                   d_status d = ''active'') (departments db))))"

section \<open>Execution\<close>

lemma revoke_where_ok [ok_iff]:
  "revoke_where E P s = (Inr n, t) \<longleftrightarrow>
     n = rows_affected (P s) (auth_sessions s) \<and>
     t = auth_sessions_update (update_where (P s) (\<lambda>x. x\<lparr>s_revoked_at := Some (now E)\<rparr>)) s"
  by (auto simp: revoke_where_def ok_iff)

lemma record_login_failure_ok:
  "repo_sessions_record_login_failure E h mx w l s = (Inr r, t) \<longleftrightarrow>
     (case find (\<lambda>a. la_identifier_hash a = h) (auth_login_attempts s) of
        None \<Rightarrow> varchar 64 h \<and> r = None \<and>
          t = auth_login_attempts_update (\<lambda>as. as @ [first_failure E h]) s
      | Some a \<Rightarrow> r = la_locked_until (next_failure E mx w l a) \<and>
          t = auth_login_attempts_update
                (update_where (\<lambda>a. la_identifier_hash a = h) (next_failure E mx w l)) s)"
  by (auto simp: repo_sessions_record_login_failure_def ok_iff split: option.splits)

lemma next_failure_hash [simp]:
  "la_identifier_hash (next_failure E mx w l a) = la_identifier_hash a"
  by (simp add: next_failure_def Let_def)

text \<open>
  What the session query promises: the session is the one with the presented token, it is
  neither revoked nor expired nor idle, and its user may use it.
\<close>

lemma select_auth_context_Some:
  assumes "select_auth_context E h db = Some c"
  obtains s u where "s \<in> set (auth_sessions db)" and "s_session_token_hash s = h"
    and "session_open E s" and "u \<in> set (users db)" and "session_user_ok db s u"
    and "sc_session_id c = s_id s" and "sc_user_id c = u_id u"
    and "sc_csrf_token_hash c = s_csrf_token_hash s"
    and "sc_organization_id c = u_organization_id u" and "sc_department_id c = u_department_id u"
    and "sc_data_scope c = effective_scope (user_active_roles db (u_id u))"
    and "sc_permission_codes c = role_codes db (active_role_ids db (u_id u))"
  using assms
  by (auto simp: select_auth_context_def session_user_ok_def split: option.splits
      dest!: find_SomeD)

definition broadest_scope :: "roles_rec list \<Rightarrow> data_scope" where
  "broadest_scope rs =
     (if list_ex (\<lambda>r. r_code r = ''super_admin'' \<or> r_data_scope r = as_str All) rs then All
      else if list_ex (\<lambda>r. r_data_scope r = as_str Organization) rs then Organization
      else if list_ex (\<lambda>r. r_data_scope r = as_str DepartmentAndChildren) rs
        then DepartmentAndChildren
      else if list_ex (\<lambda>r. r_data_scope r = as_str Department) rs then Department
      else SelfOnly)"

lemma effective_scope_broadest: "effective_scope rs = as_str (broadest_scope rs)"
  by (simp add: effective_scope_def broadest_scope_def)

text \<open>After the limit is enforced the kept sessions are the newest ones, at most the maximum.\<close>

lemma kept_ids_unrevoked:
  assumes "primary_key s_id (auth_sessions s) (sessions_seq s)"
    and "repo_sessions_enforce_user_limit E uid mx s = (Inr n, t)"
  shows "length (unrevoked_sessions t uid) \<le> nat mx"
proof -
  let ?top = "take (nat mx) (sort_by newer_session (unrevoked_sessions s uid))"
  have t: "t = auth_sessions_update (update_where (\<lambda>x. s_user_id x = uid \<and> s_revoked_at x = None \<and>
      s_id x \<notin> s_id ` set ?top) (\<lambda>x. x\<lparr>s_revoked_at := Some (now E)\<rparr>)) s"
    using assms(2) by (simp add: repo_sessions_enforce_user_limit_def ok_iff)
  have sub: "s_id x \<in> s_id ` set ?top" if "x \<in> set (unrevoked_sessions t uid)" for x
  proof -
    from that have x: "s_user_id x = uid" "s_revoked_at x = None" "x \<in> set (auth_sessions t)"
      by (simp_all add: unrevoked_sessions_def)
    then have "x \<in> set (update_where (\<lambda>x. s_user_id x = uid \<and> s_revoked_at x = None \<and>
      s_id x \<notin> s_id ` set ?top) (\<lambda>x. x\<lparr>s_revoked_at := Some (now E)\<rparr>) (auth_sessions s))"
      by (simp add: t)
    then have "\<not> (s_user_id x = uid \<and> s_revoked_at x = None \<and> s_id x \<notin> s_id ` set ?top)"
      by (rule update_where_none_left) simp_all
    with x show ?thesis by simp
  qed
  have "primary_key s_id (auth_sessions t) (sessions_seq t)"
    unfolding t by (rule sessions_tab.pk_update [OF assms(1)]) simp
  then have "distinct (map s_id (unrevoked_sessions t uid))"
    by (simp add: primary_key_def unrevoked_sessions_def distinct_map_filter)
  then have "length (unrevoked_sessions t uid) = card (s_id ` set (unrevoked_sessions t uid))"
    by (metis distinct_card length_map list.set_map)
  also have "\<dots> \<le> card (s_id ` set ?top)"
    by (rule card_mono) (use sub in auto)
  also have "\<dots> \<le> length ?top"
    by (metis card_length length_map list.set_map)
  also have "\<dots> \<le> nat mx" by simp
  finally show ?thesis .
qed

text \<open>A grant is spent by its use.\<close>

lemma step_up_consume_ok:
  "repo_step_up_consume E h sid uid scope s = (Inr b, t) \<longleftrightarrow>
     b = (rows_affected (step_up_usable E h sid uid scope) (auth_step_up_tokens s) = 1) \<and>
     t = auth_step_up_tokens_update (update_where (step_up_usable E h sid uid scope)
           (\<lambda>x. x\<lparr>st_consumed_at := Some (now E)\<rparr>)) s"
  by (auto simp: repo_step_up_consume_def ok_iff)

lemma step_up_consumed:
  assumes "repo_step_up_consume E h sid uid scope s = (Inr b, t)"
  shows "x \<in> set (auth_step_up_tokens t) \<Longrightarrow> \<not> step_up_usable E h sid uid scope x"
proof -
  assume "x \<in> set (auth_step_up_tokens t)"
  then have "x \<in> set (update_where (step_up_usable E h sid uid scope)
      (\<lambda>x. x\<lparr>st_consumed_at := Some (now E)\<rparr>) (auth_step_up_tokens s))"
    using assms by (simp add: step_up_consume_ok)
  then show ?thesis
    by (rule update_where_none_left) (simp_all add: step_up_usable_def)
qed

section \<open>What the functions write\<close>

context db_relation
begin

lemma within_sessions_auth_context [frame_intro]:
  assumes "\<And>s g. R s (auth_sessions_update g s)"
  shows "within R (repo_sessions_auth_context E h)"
  unfolding repo_sessions_auth_context_def by (intro keeps_intro within_modify assms)

lemma within_sessions_create [frame_intro]:
  assumes "\<And>s f g. R s (sessions_seq_update g (auth_sessions_update f s))"
  shows "within R (repo_sessions_create E session)"
  unfolding repo_sessions_create_def by (intro keeps_intro within_modify assms)

lemma within_revoke_where [frame_intro]:
  assumes "\<And>s g. R s (auth_sessions_update g s)"
  shows "within R (revoke_where E P)"
  unfolding revoke_where_def by (intro keeps_intro within_modify assms)

lemma within_sessions_revoke [frame_intro]:
  assumes "\<And>s g. R s (auth_sessions_update g s)"
  shows "within R (repo_sessions_revoke E i j)"
  unfolding repo_sessions_revoke_def by (intro keeps_intro within_revoke_where assms)

lemma within_revoke_all_for_user [frame_intro]:
  assumes "\<And>s g. R s (auth_sessions_update g s)"
  shows "within R (repo_sessions_revoke_all_for_user E i)"
  unfolding repo_sessions_revoke_all_for_user_def by (intro within_revoke_where assms)

lemma within_enforce_user_limit [frame_intro]:
  assumes "\<And>s g. R s (auth_sessions_update g s)"
  shows "within R (repo_sessions_enforce_user_limit E i mx)"
  unfolding repo_sessions_enforce_user_limit_def by (intro within_revoke_where assms)

lemma within_sessions_prune [frame_intro]:
  assumes "\<And>s g. R s (auth_sessions_update g s)" and "\<And>s g. R s (auth_login_attempts_update g s)"
    and "\<And>s g. R s (auth_step_up_tokens_update g s)" and "\<And>s g. R s (auth_module_unlocks_update g s)"
  shows "within R (repo_sessions_prune E)"
  unfolding repo_sessions_prune_def delete_sessions_def Let_def
  by (intro keeps_intro within_modify assms) (blast intro: trans assms)

lemma within_record_login_failure [frame_intro]:
  assumes "\<And>s g. R s (auth_login_attempts_update g s)"
  shows "within R (repo_sessions_record_login_failure E h mx w l)"
  unfolding repo_sessions_record_login_failure_def by (intro keeps_intro within_modify assms)

lemma within_clear_login_failures [frame_intro]:
  assumes "\<And>s g. R s (auth_login_attempts_update g s)"
  shows "within R (repo_sessions_clear_login_failures h)"
  unfolding repo_sessions_clear_login_failures_def by (intro within_modify assms)

lemma within_step_up_create [frame_intro]:
  assumes "\<And>s g. R s (auth_step_up_tokens_update g s)"
  shows "within R (repo_step_up_create h i j sc e)"
  unfolding repo_step_up_create_def by (intro keeps_intro within_modify assms)

lemma within_step_up_consume [frame_intro]:
  assumes "\<And>s g. R s (auth_step_up_tokens_update g s)"
  shows "within R (repo_step_up_consume E h i j sc)"
  unfolding repo_step_up_consume_def by (intro keeps_intro within_modify assms)

lemma within_step_up_prune [frame_intro]:
  assumes "\<And>s g. R s (auth_step_up_tokens_update g s)"
  shows "within R (repo_step_up_prune E)"
  unfolding repo_step_up_prune_def Let_def by (intro keeps_intro within_modify assms)

lemma within_unlock_upsert [frame_intro]:
  assumes "\<And>s g. R s (auth_module_unlocks_update g s)"
  shows "within R (repo_unlock_upsert E i j m e)"
  unfolding repo_unlock_upsert_def by (intro keeps_intro within_modify assms)

lemma within_unlock_prune [frame_intro]:
  assumes "\<And>s g. R s (auth_module_unlocks_update g s)"
  shows "within R (repo_unlock_prune E)"
  unfolding repo_unlock_prune_def by (intro keeps_intro within_modify assms)

end

end
