(* ===== verification/Repo_Departments.thy ===== *)
theory Repo_Departments
  imports Repo_Sessions
begin

text \<open>
  \<open>backend/src/repositories/departments.rs\<close>: the visible part of the department hierarchy, the
  cycle test, and the statements that write departments. The recursive queries use \<open>UNION ALL\<close>;
  on a cyclic hierarchy they are stopped by the statement timeout.
\<close>

section \<open>Queries\<close>

record new_department =
  nd_parent_id :: int
  nd_code :: string
  nd_name :: string
  nd_status :: string

record department_update =
  du_parent_id :: "int option"
  du_code :: "string option"
  du_name :: "string option"
  du_status :: "string option"

definition visible_roots :: "actor_context \<Rightarrow> db \<Rightarrow> departments_rec list" where
  "visible_roots actor db =
     filter (\<lambda>d. d_organization_id d = organization_id actor \<and>
                 (data_scope actor \<in> {All, Organization} \<and> d_parent_id d = None \<or>
                  data_scope actor \<in> {DepartmentAndChildren, Department, SelfOnly} \<and>
                    sql_eq (Some (d_id d)) (department_id actor)))
       (departments db)"

text \<open>Each row of the recursive query carries its depth and its path.\<close>

definition tree_step :: "int \<times> int list \<Rightarrow> departments_rec \<Rightarrow> int \<times> int list" where
  "tree_step x c = (fst x + 1, snd x @ [d_id c])"

definition visible_tree ::
    "actor_context \<Rightarrow> db \<Rightarrow> sqlx_error + (departments_rec \<times> int \<times> int list) list" where
  "visible_tree actor db =
     (let roots = map (\<lambda>d. (d, 0, [d_id d])) (visible_roots actor db)
      in if data_scope actor \<in> {All, Organization, DepartmentAndChildren}
         then (case tree_levels tree_step (departments db) (organization_id actor) roots of
                 None \<Rightarrow> Inl StatementTimeout
               | Some rows \<Rightarrow> Inr rows)
         else Inr roots)"

definition department_row_of :: "db \<Rightarrow> departments_rec \<times> int \<times> int list \<Rightarrow> department_row" where
  "department_row_of db x =
     departments_rec.extend (fst x)
       \<lparr>d_depth = fst (snd x),
        d_member_count = int (length (filter (\<lambda>u. u_department_id u = Some (d_id (fst x)) \<and> live u)
                                       (users db))),
        d_child_count = int (length (filter (\<lambda>c. d_parent_id c = Some (d_id (fst x)))
                                      (departments db)))\<rparr>"

fun path_le :: "int list \<Rightarrow> int list \<Rightarrow> bool" where
  "path_le [] ys = True"
| "path_le (x # xs) [] = False"
| "path_le (x # xs) (y # ys) = (x < y \<or> x = y \<and> path_le xs ys)"

definition repo_departments_list :: "actor_context \<Rightarrow> db \<Rightarrow> sqlx_error + department_row list" where
  "repo_departments_list actor db =
     (case visible_tree actor db of Inl e \<Rightarrow> Inl e
      | Inr rows \<Rightarrow> Inr (map (department_row_of db)
          (sort_by (\<lambda>a b. path_le (snd (snd a)) (snd (snd b))) rows)))"

definition repo_departments_find_by_id ::
    "actor_context \<Rightarrow> int \<Rightarrow> db \<Rightarrow> sqlx_error + department_row option" where
  "repo_departments_find_by_id actor i db =
     (case visible_tree actor db of Inl e \<Rightarrow> Inl e
      | Inr rows \<Rightarrow> Inr (map_option (department_row_of db) (find (\<lambda>x. d_id (fst x) = i) rows)))"

definition repo_departments_code_exists :: "int \<Rightarrow> string \<Rightarrow> int option \<Rightarrow> db \<Rightarrow> bool" where
  "repo_departments_code_exists org code exclude_id db =
     list_ex (\<lambda>d. d_organization_id d = org \<and> d_code d = code \<and>
                  (case exclude_id of None \<Rightarrow> True | Some x \<Rightarrow> d_id d \<noteq> x)) (departments db)"

definition repo_departments_parent_would_create_cycle ::
    "int \<Rightarrow> int \<Rightarrow> int \<Rightarrow> db \<Rightarrow> sqlx_error + bool" where
  "repo_departments_parent_would_create_cycle org dept parent db =
     (case tree_levels (\<lambda>x _. x) (departments db) org
             (map (\<lambda>d. (d, ())) (filter (\<lambda>d. d_id d = dept \<and> d_organization_id d = org) (departments db))) of
        None \<Rightarrow> Inl StatementTimeout
      | Some rows \<Rightarrow> Inr (list_ex (\<lambda>x. d_id (fst x) = parent) rows))"

section \<open>Statements\<close>

definition department_constraints :: "db \<Rightarrow> departments_rec list \<Rightarrow> departments_rec \<Rightarrow> unit repo" where
  "department_constraints db others d =
     bind (ensure (varchar 64 (d_code d) \<and> varchar 128 (d_name d) \<and> varchar 16 (d_status d))
             StringTooLong) (\<lambda>_.
     bind (ensure (d_status d \<in> {''active'', ''inactive''}) CheckViolation) (\<lambda>_.
     bind (ensure ((d_organization_id d, d_code d) \<notin>
                   (\<lambda>x. (d_organization_id x, d_code x)) ` set others) UniqueViolation) (\<lambda>_.
     ensure (d_organization_id d \<in> o_id ` set (organizations db) \<and>
             (case d_parent_id d of None \<Rightarrow> True
              | Some p \<Rightarrow> (p, d_organization_id d) \<in>
                           (\<lambda>x. (d_id x, d_organization_id x)) ` set (departments db)))
       ForeignKeyViolation)))"

definition new_department_rec :: "env \<Rightarrow> db \<Rightarrow> int \<Rightarrow> new_department \<Rightarrow> departments_rec" where
  "new_department_rec E db org department =
     \<lparr>d_id = departments_seq db, d_organization_id = org, d_parent_id = Some (nd_parent_id department),
      d_code = nd_code department, d_name = nd_name department, d_status = nd_status department,
      d_created_at = now E, d_updated_at = now E\<rparr>"

definition repo_departments_create :: "env \<Rightarrow> int \<Rightarrow> new_department \<Rightarrow> int repo" where
  "repo_departments_create E org department =
     bind (gets (\<lambda>db. db)) (\<lambda>db.
     let d = new_department_rec E db org department in
     bind (department_constraints db (departments db) d) (\<lambda>_.
     bind (modify (\<lambda>db. departments_seq_update (\<lambda>n. n + 1)
             (departments_update (\<lambda>ds. ds @ [d]) db))) (\<lambda>_.
     ret (d_id d))))"

definition apply_department_update ::
    "env \<Rightarrow> department_update \<Rightarrow> departments_rec \<Rightarrow> departments_rec" where
  "apply_department_update E department d =
     d\<lparr>d_parent_id := (case du_parent_id department of None \<Rightarrow> d_parent_id d | Some p \<Rightarrow> Some p),
       d_code := coalesce (du_code department) (d_code d),
       d_name := coalesce (du_name department) (d_name d),
       d_status := coalesce (du_status department) (d_status d),
       d_updated_at := now E\<rparr>"

definition repo_departments_update :: "env \<Rightarrow> int \<Rightarrow> int \<Rightarrow> department_update \<Rightarrow> bool repo" where
  "repo_departments_update E org i department =
     bind (gets (\<lambda>db. db)) (\<lambda>db.
     case find (\<lambda>d. d_id d = i \<and> d_organization_id d = org) (departments db) of
       None \<Rightarrow> ret False
     | Some d \<Rightarrow>
         bind (department_constraints db (filter (\<lambda>x. d_id x \<noteq> i) (departments db))
                 (apply_department_update E department d)) (\<lambda>_.
         bind (modify (departments_update (update_where
                 (\<lambda>d. d_id d = i \<and> d_organization_id d = org)
                 (apply_department_update E department)))) (\<lambda>_.
         ret True)))"

text \<open>
  The deletion clears the department of soft-deleted users first. The audit log's foreign key
  \<open>audit_logs.department_id REFERENCES departments (id)\<close> has no cascade.
\<close>

definition repo_departments_delete_if_empty :: "env \<Rightarrow> int \<Rightarrow> int \<Rightarrow> bool repo" where
  "repo_departments_delete_if_empty E org i =
     bind (modify (users_update (update_where
             (\<lambda>u. u_department_id u = Some i \<and> u_deleted_at u \<noteq> None)
             (\<lambda>u. u\<lparr>u_department_id := None, u_updated_at := now E\<rparr>)))) (\<lambda>_.
     bind (gets (\<lambda>db. db)) (\<lambda>db.
     let gone = (\<lambda>d. d_id d = i \<and> d_organization_id d = org \<and> d_parent_id d \<noteq> None \<and>
                     \<not> list_ex (\<lambda>c. d_parent_id c = Some (d_id d)) (departments db) \<and>
                     \<not> list_ex (\<lambda>u. u_department_id u = Some (d_id d) \<and> live u) (users db))
     in if rows_affected gone (departments db) = 0 then ret False
        else
          bind (ensure (\<not> list_ex (\<lambda>a. al_department_id a = Some i) (audit_logs db))
                  ForeignKeyViolation) (\<lambda>_.
          bind (modify (departments_update (delete_where gone))) (\<lambda>_.
          ret True))))"

section \<open>Execution\<close>

lemma department_constraints_ok [ok_iff]:
  "department_constraints db others d s = (Inr r, t) \<longleftrightarrow>
     varchar 64 (d_code d) \<and> varchar 128 (d_name d) \<and> varchar 16 (d_status d) \<and>
     d_status d \<in> {''active'', ''inactive''} \<and>
     (d_organization_id d, d_code d) \<notin> (\<lambda>x. (d_organization_id x, d_code x)) ` set others \<and>
     d_organization_id d \<in> o_id ` set (organizations db) \<and>
     (\<forall>p. d_parent_id d = Some p \<longrightarrow>
        (p, d_organization_id d) \<in> (\<lambda>x. (d_id x, d_organization_id x)) ` set (departments db)) \<and>
     t = s"
  by (auto simp: department_constraints_def ok_iff split: option.splits)

lemma departments_create_ok:
  "repo_departments_create E org department s = (Inr r, t) \<longleftrightarrow>
     department_constraints s (departments s) (new_department_rec E s org department) s = (Inr (), s) \<and>
     r = departments_seq s \<and>
     t = departments_seq_update (\<lambda>n. n + 1)
       (departments_update (\<lambda>ds. ds @ [new_department_rec E s org department]) s)"
  by (auto simp: repo_departments_create_def Let_def ok_iff new_department_rec_def)

lemma departments_update_ok:
  "repo_departments_update E org i department s = (Inr r, t) \<longleftrightarrow>
     (case find (\<lambda>d. d_id d = i \<and> d_organization_id d = org) (departments s) of
        None \<Rightarrow> \<not> r \<and> t = s
      | Some d \<Rightarrow> r \<and>
          department_constraints s (filter (\<lambda>x. d_id x \<noteq> i) (departments s))
            (apply_department_update E department d) s = (Inr (), s) \<and>
          t = departments_update (update_where (\<lambda>d. d_id d = i \<and> d_organization_id d = org)
                (apply_department_update E department)) s)"
  by (auto simp: repo_departments_update_def ok_iff split: option.splits)

lemma apply_department_update_keys [simp]:
  "d_id (apply_department_update E department d) = d_id d"
  "d_organization_id (apply_department_update E department d) = d_organization_id d"
  by (simp_all add: apply_department_update_def)

text \<open>Deletion, seen from the departments: a department without children is removed, or nothing.\<close>

lemma delete_if_empty_departments:
  assumes "repo_departments_delete_if_empty E org i s = (Inr r, t)"
  shows "\<exists>P. departments t = delete_where P (departments s) \<and>
    (\<forall>d. P d \<longrightarrow> (\<forall>c \<in> set (departments s). d_parent_id c \<noteq> Some (d_id d)))"
  using assms
proof (cases "departments t = departments s")
  case True
  then show ?thesis by (intro exI [of _ "\<lambda>_. False"]) (simp add: delete_where_def)
next
  case False
  with assms show ?thesis
    by (auto simp: repo_departments_delete_if_empty_def ok_iff Let_def list_ex_iff
        split: if_splits intro!: exI [of _ "\<lambda>d. d_id d = i \<and> d_organization_id d = org \<and>
          d_parent_id d \<noteq> None \<and> \<not> list_ex (\<lambda>c. d_parent_id c = Some (d_id d)) (departments s) \<and>
          \<not> list_ex (\<lambda>u. u_department_id u = Some (d_id d) \<and> live u)
            (update_where (\<lambda>u. u_department_id u = Some i \<and> u_deleted_at u \<noteq> None)
             (\<lambda>u. u\<lparr>u_department_id := None, u_updated_at := now E\<rparr>) (users s))"])
qed

section \<open>What the functions write\<close>

context db_relation
begin

lemma within_departments_create [frame_intro]:
  assumes "\<And>s f g. R s (departments_seq_update g (departments_update f s))"
  shows "within R (repo_departments_create E org d)"
  unfolding repo_departments_create_def department_constraints_def
  by (intro keeps_intro within_modify assms)

lemma within_departments_update [frame_intro]:
  assumes "\<And>s g. R s (departments_update g s)"
  shows "within R (repo_departments_update E org i d)"
  unfolding repo_departments_update_def department_constraints_def
  by (intro keeps_intro within_modify assms)

lemma within_delete_if_empty [frame_intro]:
  assumes "\<And>s g. R s (departments_update g s)" and "\<And>s g. R s (users_update g s)"
  shows "within R (repo_departments_delete_if_empty E org i)"
  unfolding repo_departments_delete_if_empty_def Let_def by (intro keeps_intro within_modify assms)

end

end
