(* ===== verification/Session.thy ===== *)
theory Session
  imports Repo_Departments
begin

text \<open>
  \<open>backend/src/auth.rs\<close>: tokens, the session and CSRF cookies, the client address behind
  trusted proxies (with the address parser of Rust's standard library), the CSRF check, and the
  extractors that authenticate a request and require a permission. Cookies reach the code as a
  parsed jar; the membership test of a proxy network (\<open>IpNet::contains\<close>) is a parameter.
\<close>

section \<open>Configuration and tokens\<close>

record 'net auth_session_config =
  session_ttl_secs :: int
  session_idle_timeout_secs :: int
  persistent_session_ttl_secs :: int
  persistent_session_idle_timeout_secs :: int
  max_sessions_per_user :: int
  login_max_failures :: int
  login_ip_max_failures :: int
  login_account_ip_max_failures :: int
  login_failure_window_secs :: int
  login_lockout_secs :: int
  trusted_proxy_cidrs :: "'net list"
  secure_cookies :: bool

definition hex :: "byte list \<Rightarrow> string" where
  "hex bytes = concat (map hex_byte bytes)"

definition random_bytes :: "env \<Rightarrow> nat \<Rightarrow> nat \<Rightarrow> byte list" where
  "random_bytes E draw n = map (random E draw) [0..<n]"

definition random_token :: "env \<Rightarrow> nat \<Rightarrow> string" where
  "random_token E draw = hex (random_bytes E draw 32)"

definition password_salt :: "env \<Rightarrow> nat \<Rightarrow> byte list" where
  "password_salt E draw = random_bytes E draw 16"

definition token_hash :: "env \<Rightarrow> string \<Rightarrow> string" where
  "token_hash E token = hex (sha256 E token)"

section \<open>Addresses\<close>

datatype ip_addr = V4 "8 word list" | V6 "16 word list"

text \<open>
  The address parser of the standard library reads from a byte string and returns the rest.
  \<open>read_number\<close> takes the radix, the largest number of digits, the bound of the result type and
  whether leading zeros are allowed.
\<close>

definition to_digit :: "nat \<Rightarrow> char \<Rightarrow> nat option" where
  "to_digit radix c =
     (let n = of_char c :: nat;
          d = (if 48 \<le> n \<and> n \<le> 57 then n - 48
               else if 97 \<le> n \<and> n \<le> 122 then n - 87
               else if 65 \<le> n \<and> n \<le> 90 then n - 55 else radix)
      in if d < radix then Some d else None)"

fun span_digits :: "nat \<Rightarrow> string \<Rightarrow> nat list \<times> string" where
  "span_digits radix [] = ([], [])"
| "span_digits radix (c # cs) =
     (case to_digit radix c of
        None \<Rightarrow> ([], c # cs)
      | Some d \<Rightarrow> (let (ds, rest) = span_digits radix cs in (d # ds, rest)))"

definition read_number ::
    "nat \<Rightarrow> nat option \<Rightarrow> nat \<Rightarrow> bool \<Rightarrow> string \<Rightarrow> (nat \<times> string) option" where
  "read_number radix max_digits bound allow_zero_prefix s =
     (let (ds, rest) = span_digits radix s;
          n = fold (\<lambda>d n. radix * n + d) ds 0
      in if ds = [] \<or> (case max_digits of None \<Rightarrow> False | Some m \<Rightarrow> length ds > m) \<or> n \<ge> bound \<or>
            (\<not> allow_zero_prefix \<and> hd ds = 0 \<and> length ds > 1)
         then None else Some (n, rest))"

definition read_given_char :: "char \<Rightarrow> string \<Rightarrow> string option" where
  "read_given_char c s = (case s of [] \<Rightarrow> None | x # xs \<Rightarrow> if x = c then Some xs else None)"

definition read_separator ::
    "char \<Rightarrow> nat \<Rightarrow> (string \<Rightarrow> ('a \<times> string) option) \<Rightarrow> string \<Rightarrow> ('a \<times> string) option" where
  "read_separator sep index inner s =
     (if index > 0 then Option.bind (read_given_char sep s) inner else inner s)"

fun read_octets :: "nat \<Rightarrow> nat \<Rightarrow> string \<Rightarrow> (8 word list \<times> string) option" where
  "read_octets index 0 s = Some ([], s)"
| "read_octets index (Suc left) s =
     Option.bind (read_separator CHR ''.'' index (read_number 10 (Some 3) 256 False) s)
       (\<lambda>(n, rest). Option.bind (read_octets (Suc index) left rest)
         (\<lambda>(os, rest'). Some (of_nat n # os, rest')))"

definition read_ipv4_addr :: "string \<Rightarrow> (8 word list \<times> string) option" where
  "read_ipv4_addr s = read_octets 0 4 s"

definition octet_groups :: "8 word list \<Rightarrow> 16 word list" where
  "octet_groups os =
     (case os of [a, b, c, d] \<Rightarrow>
        [of_nat (256 * unat a + unat b), of_nat (256 * unat c + unat d)] | _ \<Rightarrow> [])"

text \<open>\<open>read_groups\<close>: the groups read, whether they end in an IPv4 part, and the rest.\<close>

fun read_groups :: "nat \<Rightarrow> nat \<Rightarrow> string \<Rightarrow> 16 word list \<times> bool \<times> string" where
  "read_groups index 0 s = ([], False, s)"
| "read_groups index (Suc left) s =
     (case (if left > 0 then read_separator CHR '':'' index read_ipv4_addr s else None) of
        Some (os, rest) \<Rightarrow> (octet_groups os, True, rest)
      | None \<Rightarrow>
          (case read_separator CHR '':'' index (read_number 16 (Some 4) 65536 True) s of
             None \<Rightarrow> ([], False, s)
           | Some (n, rest) \<Rightarrow>
               (let (gs, v4, rest') = read_groups (Suc index) left rest
                in (of_nat n # gs, v4, rest'))))"

definition read_ipv6_addr :: "string \<Rightarrow> (16 word list \<times> string) option" where
  "read_ipv6_addr s =
     (let (head, head_ipv4, rest) = read_groups 0 8 s
      in if length head = 8 then Some (head, rest)
         else if head_ipv4 then None
         else Option.bind (read_given_char CHR '':'' rest) (\<lambda>rest.
              Option.bind (read_given_char CHR '':'' rest) (\<lambda>rest.
              let (tail, _, rest) = read_groups 0 (7 - length head) rest
              in Some (head @ replicate (8 - length head - length tail) 0 @ tail, rest))))"

definition read_ip_addr :: "string \<Rightarrow> (ip_addr \<times> string) option" where
  "read_ip_addr s =
     (case read_ipv4_addr s of Some (os, rest) \<Rightarrow> Some (V4 os, rest)
      | None \<Rightarrow> map_option (\<lambda>(gs, rest). (V6 gs, rest)) (read_ipv6_addr s))"

definition read_port :: "string \<Rightarrow> string option" where
  "read_port s =
     Option.bind (read_given_char CHR '':'' s) (\<lambda>s. map_option snd (read_number 10 None 65536 True s))"

definition read_scope_id :: "string \<Rightarrow> string" where
  "read_scope_id s =
     (case Option.bind (read_given_char CHR ''%'' s) (read_number 10 None 4294967296 True) of
        None \<Rightarrow> s | Some (_, rest) \<Rightarrow> rest)"

definition read_socket_addr :: "string \<Rightarrow> (ip_addr \<times> string) option" where
  "read_socket_addr s =
     (case Option.bind (read_ipv4_addr s) (\<lambda>(os, rest). map_option (Pair (V4 os)) (read_port rest)) of
        Some r \<Rightarrow> Some r
      | None \<Rightarrow>
          Option.bind (read_given_char CHR ''['' s) (\<lambda>s.
          Option.bind (read_ipv6_addr s) (\<lambda>(gs, rest).
          Option.bind (read_given_char CHR '']'' (read_scope_id rest)) (\<lambda>rest.
          map_option (Pair (V6 gs)) (read_port rest)))))"

definition parse_with :: "(string \<Rightarrow> ('a \<times> string) option) \<Rightarrow> string \<Rightarrow> 'a option" where
  "parse_with p s = (case p s of Some (x, []) \<Rightarrow> Some x | _ \<Rightarrow> None)"

definition canonical_ip :: "ip_addr \<Rightarrow> ip_addr" where
  "canonical_ip ip =
     (case ip of
        V6 [g0, g1, g2, g3, g4, g5, g6, g7] \<Rightarrow>
          if [g0, g1, g2, g3, g4] = [0, 0, 0, 0, 0] \<and> g5 = 65535
          then V4 [of_nat (unat g6 div 256), of_nat (unat g6 mod 256),
                   of_nat (unat g7 div 256), of_nat (unat g7 mod 256)]
          else ip
      | _ \<Rightarrow> ip)"

definition parse_forwarded_ip :: "string \<Rightarrow> ip_addr option" where
  "parse_forwarded_ip value =
     (let value = trim value
      in map_option canonical_ip
           (case parse_with read_ip_addr value of Some ip \<Rightarrow> Some ip
            | None \<Rightarrow> parse_with read_socket_addr value))"

definition is_trusted_proxy :: "('net \<Rightarrow> ip_addr \<Rightarrow> bool) \<Rightarrow> ip_addr \<Rightarrow> 'net list \<Rightarrow> bool" where
  "is_trusted_proxy contains ip cidrs = list_ex (\<lambda>network. contains network ip) cidrs"

section \<open>Requests\<close>

datatype http_method = GET | HEAD | OPTIONS | POST | PUT | PATCH | DELETE

record cookie =
  ck_name :: string
  ck_value :: string
  ck_path :: string
  ck_http_only :: bool
  ck_same_site_strict :: bool
  ck_secure :: bool
  ck_max_age :: "int option"

type_synonym cookie_jar = "string \<Rightarrow> cookie option"

record request =
  rq_method :: http_method
  rq_headers :: "string \<Rightarrow> string option"
  rq_jar :: cookie_jar

text \<open>
  Header names are matched case-insensitively; the model stores them in lower case.
  \<open>HeaderValue::to_str\<close> refuses values with bytes that are not visible ASCII.
\<close>

definition visible_ascii :: "char \<Rightarrow> bool" where
  "visible_ascii c \<longleftrightarrow> (let n = of_char c :: nat in 32 \<le> n \<and> n < 127 \<or> n = 9)"

definition header_str :: "request \<Rightarrow> string \<Rightarrow> string option" where
  "header_str rq name =
     (case rq_headers rq name of None \<Rightarrow> None
      | Some v \<Rightarrow> if list_all visible_ascii v then Some v else None)"

definition max_forwarded_for_length :: nat where "max_forwarded_for_length = 1024"
definition max_forwarded_for_hops :: nat where "max_forwarded_for_hops = 16"

fun walk_proxies :: "(ip_addr \<Rightarrow> bool) \<Rightarrow> ip_addr \<Rightarrow> ip_addr list \<Rightarrow> ip_addr" where
  "walk_proxies trusted candidate [] = candidate"
| "walk_proxies trusted candidate (ip # ips) =
     (if trusted candidate then walk_proxies trusted ip ips else candidate)"

fun collect_options :: "'a option list \<Rightarrow> 'a list option" where
  "collect_options [] = Some []"
| "collect_options (None # xs) = None"
| "collect_options (Some x # xs) = map_option (Cons x) (collect_options xs)"

definition resolve_client_ip ::
    "('net \<Rightarrow> ip_addr \<Rightarrow> bool) \<Rightarrow> ip_addr \<Rightarrow> request \<Rightarrow> 'net list \<Rightarrow> ip_addr" where
  "resolve_client_ip contains peer_ip rq cidrs =
     (let peer_ip = canonical_ip peer_ip
      in if \<not> is_trusted_proxy contains peer_ip cidrs then peer_ip
         else (case header_str rq ''x-forwarded-for'' of None \<Rightarrow> peer_ip
           | Some value \<Rightarrow>
               if length value > max_forwarded_for_length then peer_ip
               else (case collect_options (map parse_forwarded_ip (split_on CHR '','' value)) of
                       None \<Rightarrow> peer_ip
                     | Some forwarded \<Rightarrow>
                         if forwarded = [] \<or> length forwarded > max_forwarded_for_hops then peer_ip
                         else walk_proxies (\<lambda>ip. is_trusted_proxy contains ip cidrs) peer_ip
                                (rev forwarded))))"

section \<open>Cookies\<close>

definition session_cookie_name :: "bool \<Rightarrow> string" where
  "session_cookie_name secure = (if secure then ''__Host-arc_session'' else ''arc_session'')"

definition csrf_cookie_name :: "bool \<Rightarrow> string" where
  "csrf_cookie_name secure = (if secure then ''__Host-arc_csrf'' else ''arc_csrf'')"

definition set_session_cookies ::
    "cookie_jar \<Rightarrow> string \<Rightarrow> string \<Rightarrow> bool \<Rightarrow> int \<Rightarrow> bool \<Rightarrow> cookie_jar" where
  "set_session_cookies jar session_token csrf_token persistent ttl_secs secure =
     (let max_age = (if persistent then Some ttl_secs else None);
          session = \<lparr>ck_name = session_cookie_name secure, ck_value = session_token, ck_path = ''/'',
                     ck_http_only = True, ck_same_site_strict = True, ck_secure = secure,
                     ck_max_age = max_age\<rparr>;
          csrf = \<lparr>ck_name = csrf_cookie_name secure, ck_value = csrf_token, ck_path = ''/'',
                  ck_http_only = False, ck_same_site_strict = True, ck_secure = secure,
                  ck_max_age = max_age\<rparr>
      in jar(session_cookie_name secure \<mapsto> session, csrf_cookie_name secure \<mapsto> csrf))"

definition clear_session_cookies :: "cookie_jar \<Rightarrow> bool \<Rightarrow> cookie_jar" where
  "clear_session_cookies jar secure =
     jar(session_cookie_name secure := None, csrf_cookie_name secure := None)"

definition cookie_token :: "request \<Rightarrow> string \<Rightarrow> string option" where
  "cookie_token rq name =
     (case rq_jar rq name of None \<Rightarrow> None
      | Some c \<Rightarrow> if length (ck_value c) = 64 then Some (ck_value c) else None)"

section \<open>Authentication\<close>

definition validate_csrf :: "env \<Rightarrow> request \<Rightarrow> string \<Rightarrow> bool \<Rightarrow> api_error + unit" where
  "validate_csrf E rq expected_hash secure =
     (if rq_method rq \<in> {GET, HEAD, OPTIONS} then Inr ()
      else (case header_str rq ''x-csrf-token'' of None \<Rightarrow> Inl CsrfInvalid
        | Some header_token \<Rightarrow>
            if length header_token \<noteq> 64 then Inl CsrfInvalid
            else (case cookie_token rq (csrf_cookie_name secure) of None \<Rightarrow> Inl CsrfInvalid
              | Some token \<Rightarrow>
                  if header_token \<noteq> token \<or> token_hash E header_token \<noteq> expected_hash
                  then Inl CsrfInvalid else Inr ())))"

definition authenticate :: "env \<Rightarrow> bool \<Rightarrow> request \<Rightarrow> actor_context svc" where
  "authenticate E secure rq =
     bind (ok_or (cookie_token rq (session_cookie_name secure)) Unauthorized) (\<lambda>session_token.
     bind (map_err db_error (repo_sessions_auth_context E (token_hash E session_token))) (\<lambda>row.
     bind (ok_or row Unauthorized) (\<lambda>context.
     bind (lift (validate_csrf E rq (sc_csrf_token_hash context) secure)) (\<lambda>_.
     bind (ok_or (from_database (sc_data_scope context)) (Internal InvalidDataScope)) (\<lambda>scope.
     ret \<lparr>user_id = sc_user_id context, session_id = sc_session_id context,
          organization_id = sc_organization_id context,
          department_id = sc_department_id context, data_scope = scope,
          permission_codes = sc_permission_codes context\<rparr>)))))"

definition require_permission :: "env \<Rightarrow> bool \<Rightarrow> string \<Rightarrow> request \<Rightarrow> actor_context svc" where
  "require_permission E secure code rq =
     bind (authenticate E secure rq) (\<lambda>actor.
     bind (ensure (has_permission actor code) (Forbidden (MissingPermission code))) (\<lambda>_.
     ret actor))"

definition require_code :: "actor_context \<Rightarrow> string \<Rightarrow> unit svc" where
  "require_code actor code = ensure (has_permission actor code) (Forbidden (MissingPermission code))"

section \<open>Facts\<close>

lemma length_hex_byte [simp]: "length (hex_byte b) = 2"
  by (simp add: hex_byte_def)

lemma length_hex [simp]: "length (hex bs) = 2 * length bs"
  by (induction bs) (simp_all add: hex_def)

lemma length_random_token [simp]: "length (random_token E draw) = 64"
  by (simp add: random_token_def random_bytes_def)

lemma hex_Cons: "hex (b # bs) = hex_byte b @ hex bs"
  by (simp add: hex_def)

lemma hex_inj: "hex xs = hex ys \<Longrightarrow> xs = ys"
proof (induction xs arbitrary: ys)
  case Nil
  then have "length (hex ys) = 0" by (metis length_hex list.size(3) mult_0_right)
  then show ?case by simp
next
  case (Cons x xs)
  have "length ys = Suc (length xs)" using arg_cong [OF Cons.prems, of length] by simp
  then obtain y ys' where ys: "ys = y # ys'" by (cases ys) auto
  with Cons.prems have "hex_byte x = hex_byte y \<and> hex xs = hex ys'"
    by (simp add: hex_Cons append_eq_append_conv)
  with Cons.IH ys show ?case by (auto dest: hex_byte_inj)
qed

text \<open>Equal stored hashes mean equal digests.\<close>

lemma token_hash_inj: "token_hash E a = token_hash E b \<longleftrightarrow> sha256 E a = sha256 E b"
  by (auto simp: token_hash_def dest: hex_inj)

lemma validate_csrf_ok:
  "validate_csrf E rq h secure = Inr () \<longleftrightarrow>
     rq_method rq \<in> {GET, HEAD, OPTIONS} \<or>
     (\<exists>token. length token = 64 \<and> header_str rq ''x-csrf-token'' = Some token \<and>
        cookie_token rq (csrf_cookie_name secure) = Some token \<and> token_hash E token = h)"
  by (auto simp: validate_csrf_def split: option.splits)

lemma sessions_auth_context_ok:
  "repo_sessions_auth_context E h s = (Inr c, t) \<longleftrightarrow>
     c = select_auth_context E h s \<and>
     t = (case c of None \<Rightarrow> s
          | Some c \<Rightarrow> auth_sessions_update (update_where
              (\<lambda>x. s_id x = sc_session_id c \<and> s_last_seen_at x < now E - secs 60)
              (\<lambda>x. x\<lparr>s_last_seen_at := now E\<rparr>)) s)"
  by (cases "select_auth_context E h s") (auto simp: repo_sessions_auth_context_def ok_iff)

lemma authenticate_ok:
  "authenticate E secure rq s = (Inr actor, t) \<longleftrightarrow>
     (\<exists>token c. cookie_token rq (session_cookie_name secure) = Some token \<and>
        repo_sessions_auth_context E (token_hash E token) s = (Inr (Some c), t) \<and>
        validate_csrf E rq (sc_csrf_token_hash c) secure = Inr () \<and>
        as_str (data_scope actor) = sc_data_scope c \<and>
        user_id actor = sc_user_id c \<and> session_id actor = sc_session_id c \<and>
        organization_id actor = sc_organization_id c \<and> department_id actor = sc_department_id c \<and>
        permission_codes actor = sc_permission_codes c)"
  by (cases actor) (auto simp: authenticate_def ok_iff from_database_Some)

lemma require_permission_ok:
  "require_permission E secure code rq s = (Inr actor, t) \<longleftrightarrow>
     authenticate E secure rq s = (Inr actor, t) \<and> code \<in> permission_codes actor"
  by (auto simp: require_permission_def ok_iff has_permission_def)

text \<open>The walk stops at the nearest hop that is not a trusted proxy, or at the last one.\<close>

lemma walk_proxies_spec:
  "\<exists>pre post. ip # ips = pre @ walk_proxies trusted ip ips # post \<and>
     (\<forall>p \<in> set pre. trusted p) \<and> (post = [] \<or> \<not> trusted (walk_proxies trusted ip ips))"
proof (induction ips arbitrary: ip)
  case Nil
  show ?case by (intro exI [of _ "[]"]) simp
next
  case (Cons x xs)
  show ?case
  proof (cases "trusted ip")
    case True
    obtain pre post where "x # xs = pre @ walk_proxies trusted x xs # post"
      and "\<forall>p \<in> set pre. trusted p" and "post = [] \<or> \<not> trusted (walk_proxies trusted x xs)"
      using Cons.IH [of x] by blast
    moreover have "walk_proxies trusted ip (x # xs) = walk_proxies trusted x xs"
      using True by simp
    ultimately show ?thesis using True by (metis append_Cons set_ConsD)
  next
    case False
    then show ?thesis by (intro exI [of _ "[]"] exI [of _ "x # xs"]) auto
  qed
qed

section \<open>What authentication writes\<close>

context db_relation
begin

lemma within_authenticate [frame_intro]:
  assumes "\<And>s g. R s (auth_sessions_update g s)"
  shows "within R (authenticate E secure rq)"
  unfolding authenticate_def by (intro keeps_intro within_sessions_auth_context assms)

lemma within_require_permission [frame_intro]:
  assumes "\<And>s g. R s (auth_sessions_update g s)"
  shows "within R (require_permission E secure code rq)"
  unfolding require_permission_def by (intro keeps_intro within_authenticate assms)

lemma within_require_code [frame_intro]: "within R (require_code actor code)"
  unfolding require_code_def by (intro keeps_intro)

end

end
