(* ===== verification/Svc_Auth.thy ===== *)
theory Svc_Auth
  imports Session
begin

text \<open>
  \<open>backend/src/services/auth.rs\<close> without the entry point \<open>login\<close> (in theory \<open>Svc_Login\<close>, because
  it calls the MFA service): password policy and hashing, throttling keys, the creation of a
  session, failed logins, logout, password change and the bootstrap of the super administrator.
\<close>

section \<open>Responses\<close>

record user_response =
  us_id :: int
  us_username :: string
  us_display_name :: string
  us_email :: "string option"
  us_status :: string
  us_department_id :: "int option"
  us_roles :: "string list"
  us_last_login_at :: "time option"
  us_created_at :: time

definition user_response_of :: "user_row \<Rightarrow> string list \<Rightarrow> user_response" where
  "user_response_of row names =
     \<lparr>us_id = u_id row, us_username = u_username row, us_display_name = u_display_name row,
      us_email = u_email row, us_status = u_status row, us_department_id = u_department_id row,
      us_roles = names, us_last_login_at = u_last_login_at row, us_created_at = u_created_at row\<rparr>"

datatype login_status = Authenticated | MfaRequired | MfaEnrollmentRequired

datatype mfa_method = Totp | Passkey | RecoveryCode

record login_response =
  lr_status :: login_status
  lr_expires_at :: "time option"
  lr_user :: "user_response option"
  lr_challenge_token :: "string option"
  lr_methods :: "mfa_method list"
  lr_totp_secret :: "string option"
  lr_totp_uri :: "string option"
  lr_totp_qr_code :: "string option"
  lr_recovery_codes :: "string list"

record login_session_outcome =
  lo_response :: login_response
  lo_session_token :: string
  lo_csrf_token :: string
  lo_persistent :: bool
  lo_ttl_secs :: int

record login_throttle_keys =
  account :: string
  source_ip :: string
  account_ip :: string

section \<open>Throttling keys\<close>

text \<open>\<open>IpAddr\<close> printed by the standard library: the longest run of zero groups is compressed.\<close>

fun join :: "string \<Rightarrow> string list \<Rightarrow> string" where
  "join sep [] = ''''"
| "join sep [x] = x"
| "join sep (x # y # ys) = x @ sep @ join sep (y # ys)"

fun show_hex :: "nat \<Rightarrow> string" where
  "show_hex n = (if n < 16 then [hex_digit n] else show_hex (n div 16) @ [hex_digit (n mod 16)])"

declare show_hex.simps [simp del]

definition show_groups :: "16 word list \<Rightarrow> string" where
  "show_groups gs = join '':'' (map (\<lambda>g. show_hex (unat g)) gs)"

text \<open>The first longest run of zeros, as start and length.\<close>

fun zero_runs :: "nat \<Rightarrow> 16 word list \<Rightarrow> (nat \<times> nat) \<Rightarrow> (nat \<times> nat) \<Rightarrow> nat \<times> nat" where
  "zero_runs i [] current longest = longest"
| "zero_runs i (g # gs) current longest =
     (if g = 0 then
        let current = (if snd current = 0 then (i, 1) else (fst current, snd current + 1))
        in zero_runs (Suc i) gs current (if snd current > snd longest then current else longest)
      else zero_runs (Suc i) gs (0, 0) longest)"

definition show_ip :: "ip_addr \<Rightarrow> string" where
  "show_ip ip =
     (case ip of
        V4 os \<Rightarrow> join ''.'' (map (\<lambda>b. show_nat (unat b)) os)
      | V6 gs \<Rightarrow>
          (case canonical_ip ip of
             V4 os \<Rightarrow> ''::ffff:'' @ join ''.'' (map (\<lambda>b. show_nat (unat b)) os)
           | V6 _ \<Rightarrow>
               (let (start, len) = zero_runs 0 gs (0, 0) (0, 0)
                in if len > 1
                   then show_groups (take start gs) @ ''::'' @ show_groups (drop (start + len) gs)
                   else show_groups gs)))"

definition login_throttle_keys_new :: "env \<Rightarrow> string \<Rightarrow> ip_addr \<Rightarrow> login_throttle_keys" where
  "login_throttle_keys_new E username client_ip =
     (let username = to_ascii_lowercase username
      in \<lparr>account = token_hash E (''account:'' @ username),
          source_ip = token_hash E (''source_ip:'' @ show_ip client_ip),
          account_ip = token_hash E (''account_ip:'' @ username @ '':'' @ show_ip client_ip)\<rparr>)"

definition throttle_keys_all :: "login_throttle_keys \<Rightarrow> string list" where
  "throttle_keys_all k = [account k, source_ip k, account_ip k]"

section \<open>Passwords\<close>

definition min_password_length :: nat where "min_password_length = 12"
definition max_password_length :: nat where "max_password_length = 128"
definition bootstrap_password_length :: nat where "bootstrap_password_length = 16"

definition dummy_password_hash :: string where
  "dummy_password_hash =
     ''$argon2id$v=19$m=19456,t=2,p=1$pDDhKh46fVQNqRy3OeXTTw$+5qvGkvmKsilvsRWsskXT4k6fmmE4q35ntz6ME1UNBE''"

definition validate_password :: "string \<Rightarrow> unit svc" where
  "validate_password password =
     ensure (min_password_length \<le> chars_count password \<and> chars_count password \<le> max_password_length)
       (Validation (UserMsg PasswordLength))"

definition hash_password :: "env \<Rightarrow> nat \<Rightarrow> string \<Rightarrow> string svc" where
  "hash_password E draw password =
     ok_or (argon2_hash E password (password_salt E draw)) (Internal HashFailure)"

definition verify_password_hash :: "env \<Rightarrow> string \<Rightarrow> string \<Rightarrow> bool svc" where
  "verify_password_hash E password encoded_hash =
     ok_or (argon2_verify E password encoded_hash) (Internal InvalidStoredHash)"

definition verify_login_password :: "env \<Rightarrow> string \<Rightarrow> string \<Rightarrow> bool" where
  "verify_login_password E password encoded_hash = (argon2_verify E password encoded_hash = Some True)"

definition verify_current_password :: "env \<Rightarrow> int \<Rightarrow> string \<Rightarrow> unit svc" where
  "verify_current_password E uid password =
     bind (gets (repo_users_find_by_id uid)) (\<lambda>row.
     bind (ok_or row Unauthorized) (\<lambda>row.
     bind (verify_password_hash E password (u_password_hash row)) (\<lambda>password_matches.
     ensure password_matches (Validation (AuthMsg CurrentPasswordWrong)))))"

section \<open>Sessions\<close>

definition later :: "time option \<Rightarrow> time option \<Rightarrow> time option" where
  "later latest current =
     (case current of None \<Rightarrow> latest
      | Some c \<Rightarrow> (case latest of None \<Rightarrow> Some c | Some l \<Rightarrow> if c > l then Some c else latest))"

definition locked_until :: "env \<Rightarrow> login_throttle_keys \<Rightarrow> db \<Rightarrow> time option" where
  "locked_until E keys db =
     fold (\<lambda>key latest. later latest (repo_sessions_locked_until E key db))
       (throttle_keys_all keys) None"

definition record_session_revocation ::
    "env \<Rightarrow> int option \<Rightarrow> int \<Rightarrow> string \<Rightarrow> nat \<Rightarrow> unit svc" where
  "record_session_revocation E actor_user_id target_user_id reason revoked_session_count =
     (if revoked_session_count = 0 then ret ()
      else map_err db_error
        (audit_record E actor_user_id ''auth.session.revoked'' ''user'' (Some target_user_id)
           (JObj [(''reason'', JStr reason),
                  (''revokedSessionCount'', JInt (int revoked_session_count))])))"

definition create_login_session ::
    "env \<Rightarrow> 'net auth_session_config \<Rightarrow> nat \<Rightarrow> bool \<Rightarrow> login_throttle_keys \<Rightarrow> user_row \<Rightarrow>
     login_session_outcome svc" where
  "create_login_session E config draw persistent keys row =
     (let ttl_secs = (if persistent then persistent_session_ttl_secs config else session_ttl_secs config);
          idle_timeout_secs = (if persistent then persistent_session_idle_timeout_secs config
                               else session_idle_timeout_secs config);
          expires_at = utc_now E + secs ttl_secs;
          session_token = random_token E draw;
          csrf_token = random_token E (draw + 1)
      in
      bind (transaction (
        bind (map_err db_error (repo_users_update_last_login E (u_id row))) (\<lambda>_.
        bind (map_err db_error (repo_sessions_clear_login_failures (account keys))) (\<lambda>_.
        bind (map_err db_error (repo_sessions_clear_login_failures (account_ip keys))) (\<lambda>_.
        bind (map_err db_error (repo_sessions_create E
          \<lparr>ns_user_id = u_id row, ns_session_token_hash = token_hash E session_token,
           ns_csrf_token_hash = token_hash E csrf_token, ns_token_version = u_token_version row,
           ns_idle_timeout_secs = idle_timeout_secs, ns_persistent = persistent,
           ns_expires_at = expires_at\<rparr>)) (\<lambda>sid.
        bind (map_err db_error (repo_sessions_enforce_user_limit E (u_id row)
          (max_sessions_per_user config))) (\<lambda>revoked_sessions.
        bind (record_session_revocation E (Some (u_id row)) (u_id row) ''session_limit''
          revoked_sessions) (\<lambda>_.
        bind (map_err db_error (repo_sessions_prune E)) (\<lambda>_.
        map_err db_error (audit_record E (Some (u_id row)) ''auth.login.success'' ''auth_session''
          (Some sid)
          (JObj [(''persistent'', JBool persistent), (''expiresAt'', JTime expires_at),
                 (''revokedBySessionLimit'', JInt (int revoked_sessions)),
                 (''sourceIpFingerprint'', JStr (take 12 (source_ip keys)))]))))))))))) (\<lambda>_.
      bind (gets (repo_users_role_names_by_user (u_id row))) (\<lambda>names.
      ret \<lparr>lo_response =
             \<lparr>lr_status = Authenticated, lr_expires_at = Some expires_at,
              lr_user = Some (user_response_of row names), lr_challenge_token = None,
              lr_methods = [], lr_totp_secret = None, lr_totp_uri = None, lr_totp_qr_code = None,
              lr_recovery_codes = []\<rparr>,
           lo_session_token = session_token, lo_csrf_token = csrf_token,
           lo_persistent = persistent, lo_ttl_secs = ttl_secs\<rparr>)))"

text \<open>The loop over the three dimensions accumulates the latest lock and the locked dimensions.\<close>

fun record_dimensions ::
    "env \<Rightarrow> 'net auth_session_config \<Rightarrow> (string \<times> string \<times> int) list \<Rightarrow>
     time option \<Rightarrow> string list \<Rightarrow> (time option \<times> string list) svc" where
  "record_dimensions E config [] locked dims = ret (locked, dims)"
| "record_dimensions E config ((dimension, key, max_failures) # rest) locked dims =
     bind (map_err db_error (repo_sessions_record_login_failure E key max_failures
             (login_failure_window_secs config) (login_lockout_secs config))) (\<lambda>current_lock.
     record_dimensions E config rest (later locked current_lock)
       (if current_lock = None then dims else dims @ [dimension]))"

definition throttle_dimensions ::
    "'net auth_session_config \<Rightarrow> login_throttle_keys \<Rightarrow> (string \<times> string \<times> int) list" where
  "throttle_dimensions config keys =
     [(''account'', account keys, login_max_failures config),
      (''source_ip'', source_ip keys, login_ip_max_failures config),
      (''account_ip'', account_ip keys, login_account_ip_max_failures config)]"

definition record_failed_login ::
    "env \<Rightarrow> 'net auth_session_config \<Rightarrow> login_throttle_keys \<Rightarrow> int option \<Rightarrow> time option svc" where
  "record_failed_login E config keys uid =
     transaction (
       bind (record_dimensions E config (throttle_dimensions config keys) None []) (\<lambda>(locked, dims).
       bind (map_err db_error (audit_record E None ''auth.login.failure'' ''user'' uid
         (JObj [(''identifierFingerprint'', JStr (take 12 (account keys))),
                (''sourceIpFingerprint'', JStr (take 12 (source_ip keys))),
                (''locked'', JBool (locked \<noteq> None)),
                (''lockedDimensions'', JArr (map JStr dims))]))) (\<lambda>_.
       ret locked)))"

definition logout :: "env \<Rightarrow> int \<Rightarrow> int \<Rightarrow> unit svc" where
  "logout E uid sid =
     transaction (
       bind (map_err db_error (repo_sessions_revoke E sid uid)) (\<lambda>revoked.
       bind (record_session_revocation E (Some uid) uid ''logout'' (if revoked then 1 else 0)) (\<lambda>_.
       map_err db_error (audit_record E (Some uid) ''auth.logout'' ''auth_session'' (Some sid)
         (JObj [])))))"

definition me :: "int \<Rightarrow> user_response svc" where
  "me uid =
     bind (gets (repo_users_find_by_id uid)) (\<lambda>row.
     bind (ok_or row (NotFound (UserMsg UserNotFound))) (\<lambda>row.
     bind (gets (repo_users_role_names_by_user uid)) (\<lambda>names.
     ret (user_response_of row names))))"

record change_password_request =
  cp_current_password :: string
  cp_new_password :: string

definition change_password :: "env \<Rightarrow> int \<Rightarrow> change_password_request \<Rightarrow> unit svc" where
  "change_password E uid req =
     bind (ensure (cp_current_password req \<noteq> '''') (Validation (AuthMsg CurrentPasswordEmpty))) (\<lambda>_.
     bind (validate_password (cp_new_password req)) (\<lambda>_.
     bind (ensure (cp_current_password req \<noteq> cp_new_password req)
             (Validation (AuthMsg NewPasswordSame))) (\<lambda>_.
     bind (verify_current_password E uid (cp_current_password req)) (\<lambda>_.
     bind (hash_password E 0 (cp_new_password req)) (\<lambda>password_hash.
     transaction (
       bind (map_err db_error (repo_users_update_password E uid password_hash)) (\<lambda>row.
       bind (ok_or row Unauthorized) (\<lambda>_.
       bind (map_err db_error (repo_sessions_revoke_all_for_user E uid)) (\<lambda>revoked_sessions.
       bind (record_session_revocation E (Some uid) uid ''password_change'' revoked_sessions) (\<lambda>_.
       map_err db_error (audit_record E (Some uid) ''user.password.change'' ''user'' (Some uid)
         (JObj [(''revokedExistingSessions'', JBool True),
                (''revokedSessionCount'', JInt (int revoked_sessions))]))))))))))))"

definition svc_permission_codes :: "int \<Rightarrow> string set svc" where
  "svc_permission_codes uid = gets (repo_permissions_permission_codes_by_user uid)"

section \<open>Bootstrap\<close>

definition username_char :: "char \<Rightarrow> bool" where
  "username_char c \<longleftrightarrow> is_ascii_alphanumeric c \<or> c = CHR ''_'' \<or> c = CHR ''-''"

definition bootstrap_super_admin ::
    "env \<Rightarrow> string \<Rightarrow> string \<Rightarrow> string \<Rightarrow> string option \<Rightarrow> user_response svc" where
  "bootstrap_super_admin E username password display_name email =
     (let username = trim username; display_name = trim display_name in
     bind (ensure (3 \<le> length username \<and> length username \<le> 64 \<and> list_all username_char username)
             (Validation (AuthMsg BootstrapUsernameInvalid))) (\<lambda>_.
     bind (validate_password password) (\<lambda>_.
     bind (ensure (bootstrap_password_length \<le> chars_count password)
             (Validation (AuthMsg BootstrapPasswordLength))) (\<lambda>_.
     bind (ensure (display_name \<noteq> '''' \<and> length display_name \<le> 128)
             (Validation (UserMsg DisplayNameLength))) (\<lambda>_.
     bind (gets (repo_roles_id_by_code ''super_admin'')) (\<lambda>role.
     bind (ok_or role (Internal MissingSuperAdminRole)) (\<lambda>role_id.
     bind (gets (repo_users_find_by_username username)) (\<lambda>existing.
     bind (gets repo_organizations_default_assignment) (\<lambda>assignment.
     bind (map_err db_error (lift assignment)) (\<lambda>(org, dept).
     bind (hash_password E 0 password) (\<lambda>password_hash.
     bind (transaction (
       bind (map_err db_error (case existing of
           Some u \<Rightarrow> repo_users_activate_bootstrap_account E (u_id u) password_hash display_name email
         | None \<Rightarrow> repo_users_create E
             \<lparr>nu_username = username, nu_password_hash = password_hash,
              nu_display_name = display_name, nu_email = email, nu_status = ''active'',
              nu_organization_id = org, nu_department_id = dept\<rparr>)) (\<lambda>row.
       bind (map_err db_error (repo_users_assign_roles (u_id row) [role_id])) (\<lambda>_.
       bind (map_err db_error (repo_sessions_revoke_all_for_user E (u_id row))) (\<lambda>revoked_sessions.
       bind (record_session_revocation E None (u_id row) ''bootstrap_reactivation''
         revoked_sessions) (\<lambda>_.
       bind (map_err db_error (audit_record E None ''user.bootstrap_super_admin'' ''user''
         (Some (u_id row)) (JObj [(''username'', JStr username), (''roleId'', JInt role_id)]))) (\<lambda>_.
       ret row))))))) (\<lambda>row.
     bind (gets (repo_users_role_names_by_user (u_id row))) (\<lambda>names.
     ret (user_response_of row names))))))))))))))"

end
