(* ===== verification/Repo_Mfa.thy ===== *)
theory Repo_Mfa
  imports Session
begin

text \<open>
  \<open>backend/src/repositories/mfa.rs\<close> (factors, challenges, recovery codes) and
  \<open>backend/src/mfa.rs\<close> (the encryption of TOTP secrets). The cryptographic and WebAuthn crates
  are parameters: the fields of \<open>mfa_config\<close> are the functions of them that the code calls.
\<close>

section \<open>Crates\<close>

text \<open>
  \<open>cipher_encrypt nonce msg aad\<close> and \<open>cipher_decrypt\<close> are AES-256-GCM under the configured key.
  \<open>totp_check account secret code\<close> is \<open>Totp::check_current\<close>: the matching time step, \<open>None\<close> for a
  wrong code. WebAuthn values stand for their serialised form.
\<close>

record mfa_config =
  cipher_encrypt :: "byte list \<Rightarrow> byte list \<Rightarrow> byte list \<Rightarrow> byte list option"
  cipher_decrypt :: "byte list \<Rightarrow> byte list \<Rightarrow> byte list \<Rightarrow> byte list option"
  totp_builds :: "string \<Rightarrow> byte list \<Rightarrow> bool"
  totp_check :: "string \<Rightarrow> byte list \<Rightarrow> string \<Rightarrow> nat option"
  totp_base32 :: "byte list \<Rightarrow> string"
  totp_url :: "string \<Rightarrow> byte list \<Rightarrow> string option"
  totp_qr :: "string \<Rightarrow> byte list \<Rightarrow> string option"
  argon2_recovery_hash :: "string \<Rightarrow> byte list \<Rightarrow> string option"
  base64_encode :: "byte list \<Rightarrow> string"
  base64_decode :: "string \<Rightarrow> byte list option"
  uuid_v4 :: "byte list \<Rightarrow> string"
  parse_credential :: "json \<Rightarrow> json option"
  start_passkey_auth :: "json list \<Rightarrow> (json \<times> json) option"
  finish_passkey_auth :: "json \<Rightarrow> json \<Rightarrow> json option"
  start_passkey_reg :: "string \<Rightarrow> string \<Rightarrow> string \<Rightarrow> string list \<Rightarrow> (json \<times> json) option"
  finish_passkey_reg :: "json \<Rightarrow> json \<Rightarrow> json option"
  cred_id :: "json \<Rightarrow> string"
  needs_update :: "json \<Rightarrow> bool"
  update_credential :: "json \<Rightarrow> json \<Rightarrow> json"

section \<open>Secrets\<close>

definition nonce_length :: nat where "nonce_length = 12"
definition ciphertext_version :: byte where "ciphertext_version = 1"

definition to_be_bytes :: "int \<Rightarrow> byte list" where
  "to_be_bytes i = map (\<lambda>k. word_of_int (i div 2 ^ (8 * k))) [7, 6, 5, 4, 3, 2, 1, 0]"

definition encrypt_totp_secret ::
    "env \<Rightarrow> mfa_config \<Rightarrow> nat \<Rightarrow> int \<Rightarrow> byte list \<Rightarrow> byte list option" where
  "encrypt_totp_secret E mfa draw uid secret =
     (let nonce = random_bytes E draw nonce_length
      in map_option (\<lambda>ciphertext. ciphertext_version # nonce @ ciphertext)
           (cipher_encrypt mfa nonce secret (to_be_bytes uid)))"

definition decrypt_totp_secret :: "mfa_config \<Rightarrow> int \<Rightarrow> byte list \<Rightarrow> byte list option" where
  "decrypt_totp_secret mfa uid encoded =
     (if length encoded \<le> 1 + nonce_length \<or> encoded ! 0 \<noteq> ciphertext_version then None
      else cipher_decrypt mfa (take nonce_length (drop 1 encoded)) (drop (1 + nonce_length) encoded)
             (to_be_bytes uid))"

section \<open>Queries\<close>

record mfa_summary_row =
  mf_required :: bool
  mf_webauthn_user_id :: "string option"
  mf_totp_enabled :: bool
  mf_recovery_codes_remaining :: int
  mf_passkey_count :: int

definition repo_mfa_summary :: "int \<Rightarrow> db \<Rightarrow> mfa_summary_row" where
  "repo_mfa_summary uid db =
     \<lparr>mf_required = is_active_super_admin db uid,
      mf_webauthn_user_id =
        map_option ms_webauthn_user_id (find (\<lambda>m. ms_user_id m = uid) (user_mfa_settings db)),
      mf_totp_enabled = totp_enrolled db uid,
      mf_recovery_codes_remaining =
        int (length (filter (\<lambda>c. rc_user_id c = uid \<and> rc_used_at c = None)
                       (user_mfa_recovery_codes db))),
      mf_passkey_count = int (length (filter (\<lambda>k. pk_user_id k = uid) (user_passkeys db)))\<rparr>"

definition challenge_open :: "env \<Rightarrow> challenges_rec \<Rightarrow> bool" where
  "challenge_open E c \<longleftrightarrow> c_consumed_at c = None \<and> c_expires_at c > now E"

definition repo_mfa_challenge :: "env \<Rightarrow> string \<Rightarrow> string \<Rightarrow> db \<Rightarrow> challenge_row option" where
  "repo_mfa_challenge E hash expected_kind db =
     map_option challenge_row.truncate
       (find (\<lambda>c. c_token_hash c = hash \<and> c_kind c = expected_kind \<and> challenge_open E c)
          (auth_mfa_challenges db))"

text \<open>The same query with a row lock.\<close>

definition repo_mfa_challenge_for_update ::
    "env \<Rightarrow> string \<Rightarrow> string \<Rightarrow> challenge_row option repo" where
  "repo_mfa_challenge_for_update E hash expected_kind =
     gets (repo_mfa_challenge E hash expected_kind)"

definition repo_mfa_challenge_kind :: "env \<Rightarrow> string \<Rightarrow> db \<Rightarrow> string option" where
  "repo_mfa_challenge_kind E hash db =
     map_option c_kind (find (\<lambda>c. c_token_hash c = hash \<and> challenge_open E c)
                          (auth_mfa_challenges db))"

definition repo_mfa_totp_secret_for_update :: "int \<Rightarrow> db \<Rightarrow> byte list option" where
  "repo_mfa_totp_secret_for_update uid db =
     Option.bind (find (\<lambda>m. ms_user_id m = uid \<and> ms_totp_enabled_at m \<noteq> None) (user_mfa_settings db))
       ms_totp_secret_ciphertext"

definition repo_mfa_recovery_codes :: "int \<Rightarrow> db \<Rightarrow> recovery_code_row list" where
  "repo_mfa_recovery_codes uid db =
     map recovery_code_row.truncate (sort_key rc_id
       (filter (\<lambda>c. rc_user_id c = uid \<and> rc_used_at c = None) (user_mfa_recovery_codes db)))"

definition repo_mfa_list_passkeys :: "int \<Rightarrow> db \<Rightarrow> passkey_row list" where
  "repo_mfa_list_passkeys uid db =
     map passkey_row.truncate
       (sort_by (\<lambda>a b. then_by (\<le>) (pk_created_at a) (pk_created_at b) (pk_id a \<le> pk_id b))
          (filter (\<lambda>k. pk_user_id k = uid) (user_passkeys db)))"

section \<open>Statements\<close>

definition new_settings :: "env \<Rightarrow> int \<Rightarrow> string \<Rightarrow> mfa_settings_rec" where
  "new_settings E uid webauthn_user_id =
     \<lparr>ms_user_id = uid, ms_webauthn_user_id = webauthn_user_id, ms_totp_secret_ciphertext = None,
      ms_totp_enabled_at = None, ms_recovery_codes_issued_at = None, ms_updated_at = now E,
      ms_last_reauth_totp_counter = None, ms_last_reauth_totp_used_at = None\<rparr>"

definition repo_mfa_ensure_settings :: "env \<Rightarrow> int \<Rightarrow> string \<Rightarrow> string repo" where
  "repo_mfa_ensure_settings E uid webauthn_user_id =
     bind (gets (\<lambda>db. db)) (\<lambda>db.
     case find (\<lambda>m. ms_user_id m = uid) (user_mfa_settings db) of
       Some m \<Rightarrow> ret (ms_webauthn_user_id m)
     | None \<Rightarrow>
         bind (ensure (webauthn_user_id \<notin> ms_webauthn_user_id ` set (user_mfa_settings db))
                 UniqueViolation) (\<lambda>_.
         bind (ensure (user_exists db uid) ForeignKeyViolation) (\<lambda>_.
         bind (modify (user_mfa_settings_update (\<lambda>ms. ms @ [new_settings E uid webauthn_user_id]))) (\<lambda>_.
         ret webauthn_user_id))))"

definition repo_mfa_enable_totp :: "env \<Rightarrow> int \<Rightarrow> byte list \<Rightarrow> unit repo" where
  "repo_mfa_enable_totp E uid ciphertext =
     modify (user_mfa_settings_update (update_where (\<lambda>m. ms_user_id m = uid)
       (\<lambda>m. m\<lparr>ms_totp_secret_ciphertext := Some ciphertext, ms_totp_enabled_at := Some (now E),
              ms_updated_at := now E\<rparr>)))"

definition counter_unused :: "int \<Rightarrow> int \<Rightarrow> mfa_settings_rec \<Rightarrow> bool" where
  "counter_unused uid counter m \<longleftrightarrow>
     ms_user_id m = uid \<and>
     (case ms_last_reauth_totp_counter m of None \<Rightarrow> True | Some c \<Rightarrow> c < counter)"

definition repo_mfa_consume_reauth_totp_counter :: "env \<Rightarrow> int \<Rightarrow> int \<Rightarrow> bool repo" where
  "repo_mfa_consume_reauth_totp_counter E uid counter =
     bind (gets (\<lambda>db. rows_affected (counter_unused uid counter) (user_mfa_settings db))) (\<lambda>affected.
     bind (ensure (affected = 0 \<or> counter \<ge> 0) CheckViolation) (\<lambda>_.
     bind (modify (user_mfa_settings_update (update_where (counter_unused uid counter)
       (\<lambda>m. m\<lparr>ms_last_reauth_totp_counter := Some counter,
              ms_last_reauth_totp_used_at := Some (now E), ms_updated_at := now E\<rparr>)))) (\<lambda>_.
     ret (affected > 0))))"

definition challenge_kinds :: "string list" where
  "challenge_kinds = [''login'', ''totp_enrollment'', ''passkey_authentication'', ''passkey_registration'']"

definition login_kinds :: "string list" where
  "login_kinds = [''login'', ''totp_enrollment'', ''passkey_authentication'']"

definition repo_mfa_create_challenge ::
    "string \<Rightarrow> int \<Rightarrow> string \<Rightarrow> bool \<Rightarrow> json \<Rightarrow> time \<Rightarrow> unit repo" where
  "repo_mfa_create_challenge hash uid kind persistent state expires_at =
     bind (gets (\<lambda>db. db)) (\<lambda>db.
     bind (ensure (varchar 64 hash \<and> varchar 32 kind) StringTooLong) (\<lambda>_.
     bind (ensure (kind \<in> set challenge_kinds) CheckViolation) (\<lambda>_.
     bind (ensure (hash \<notin> c_token_hash ` set (auth_mfa_challenges db) \<and>
                   (kind \<in> set login_kinds \<longrightarrow>
                      \<not> list_ex (\<lambda>c. c_user_id c = uid \<and> c_consumed_at c = None \<and>
                                      c_kind c \<in> set login_kinds) (auth_mfa_challenges db)))
             UniqueViolation) (\<lambda>_.
     bind (ensure (user_exists db uid) ForeignKeyViolation) (\<lambda>_.
     modify (\<lambda>db. challenges_seq_update (\<lambda>n. n + 1) (auth_mfa_challenges_update (\<lambda>cs. cs @
       [\<lparr>c_id = challenges_seq db, c_user_id = uid, c_kind = kind, c_persistent = persistent,
         c_state = state, c_attempt_count = 0, c_max_attempts = 5, c_token_hash = hash,
         c_expires_at = expires_at, c_consumed_at = None\<rparr>]) db)))))))"

definition repo_mfa_consume_login_challenges_for_user :: "env \<Rightarrow> int \<Rightarrow> nat repo" where
  "repo_mfa_consume_login_challenges_for_user E uid =
     (let P = (\<lambda>c. c_user_id c = uid \<and> c_consumed_at c = None \<and> c_kind c \<in> set login_kinds)
      in bind (gets (\<lambda>db. rows_affected P (auth_mfa_challenges db))) (\<lambda>n.
         bind (modify (auth_mfa_challenges_update (update_where P
                 (\<lambda>c. c\<lparr>c_consumed_at := Some (now E)\<rparr>)))) (\<lambda>_.
         ret n)))"

definition fail_challenge :: "env \<Rightarrow> challenges_rec \<Rightarrow> challenges_rec" where
  "fail_challenge E c =
     c\<lparr>c_attempt_count := c_attempt_count c + 1,
       c_consumed_at := (if c_attempt_count c + 1 \<ge> c_max_attempts c then Some (now E)
                         else c_consumed_at c)\<rparr>"

definition repo_mfa_record_challenge_failure :: "env \<Rightarrow> int \<Rightarrow> bool repo" where
  "repo_mfa_record_challenge_failure E challenge_id =
     bind (gets (\<lambda>db. find (\<lambda>c. c_id c = challenge_id) (auth_mfa_challenges db))) (\<lambda>row.
     bind (ok_or row RowNotFound) (\<lambda>c.
     bind (modify (auth_mfa_challenges_update (update_where (\<lambda>c. c_id c = challenge_id)
             (fail_challenge E)))) (\<lambda>_.
     ret (c_attempt_count (fail_challenge E c) \<ge> c_max_attempts c))))"

definition repo_mfa_consume_challenge :: "env \<Rightarrow> int \<Rightarrow> unit repo" where
  "repo_mfa_consume_challenge E challenge_id =
     modify (auth_mfa_challenges_update (update_where (\<lambda>c. c_id c = challenge_id)
       (\<lambda>c. c\<lparr>c_consumed_at := Some (now E)\<rparr>)))"

definition challenge_prunable :: "env \<Rightarrow> challenges_rec \<Rightarrow> bool" where
  "challenge_prunable E c \<longleftrightarrow>
     c_expires_at c < now E - days 1 \<or> before (c_consumed_at c) (now E - days 1)"

definition repo_mfa_prune_challenges :: "env \<Rightarrow> nat repo" where
  "repo_mfa_prune_challenges E =
     bind (gets (\<lambda>db. rows_affected (challenge_prunable E) (auth_mfa_challenges db))) (\<lambda>n.
     bind (modify (auth_mfa_challenges_update (delete_where (challenge_prunable E)))) (\<lambda>_.
     ret n))"

definition insert_recovery_code :: "int \<Rightarrow> string \<Rightarrow> unit repo" where
  "insert_recovery_code uid hash =
     bind (gets (\<lambda>db. db)) (\<lambda>db.
     bind (ensure (varchar 255 hash) StringTooLong) (\<lambda>_.
     bind (ensure (user_exists db uid) ForeignKeyViolation) (\<lambda>_.
     modify (\<lambda>db. recovery_seq_update (\<lambda>n. n + 1) (user_mfa_recovery_codes_update (\<lambda>cs. cs @
       [\<lparr>rc_id = recovery_seq db, rc_code_hash = hash, rc_user_id = uid, rc_used_at = None\<rparr>]) db)))))"

definition repo_mfa_replace_recovery_codes :: "env \<Rightarrow> int \<Rightarrow> string list \<Rightarrow> unit repo" where
  "repo_mfa_replace_recovery_codes E uid hashes =
     bind (modify (user_mfa_recovery_codes_update (delete_where (\<lambda>c. rc_user_id c = uid)))) (\<lambda>_.
     bind (for_each hashes (insert_recovery_code uid)) (\<lambda>_.
     modify (user_mfa_settings_update (update_where (\<lambda>m. ms_user_id m = uid)
       (\<lambda>m. m\<lparr>ms_recovery_codes_issued_at := Some (now E), ms_updated_at := now E\<rparr>)))))"

definition recovery_unused :: "int \<Rightarrow> int \<Rightarrow> recovery_codes_rec \<Rightarrow> bool" where
  "recovery_unused uid i c \<longleftrightarrow> rc_id c = i \<and> rc_user_id c = uid \<and> rc_used_at c = None"

definition repo_mfa_consume_recovery_code :: "env \<Rightarrow> int \<Rightarrow> int \<Rightarrow> bool repo" where
  "repo_mfa_consume_recovery_code E uid i =
     bind (gets (\<lambda>db. rows_affected (recovery_unused uid i) (user_mfa_recovery_codes db))) (\<lambda>n.
     bind (modify (user_mfa_recovery_codes_update (update_where (recovery_unused uid i)
             (\<lambda>c. c\<lparr>rc_used_at := Some (now E)\<rparr>)))) (\<lambda>_.
     ret (n > 0)))"

definition repo_mfa_create_passkey :: "env \<Rightarrow> int \<Rightarrow> string \<Rightarrow> string \<Rightarrow> json \<Rightarrow> int repo" where
  "repo_mfa_create_passkey E uid name credential_id credential =
     bind (gets (\<lambda>db. db)) (\<lambda>db.
     bind (ensure (varchar 80 name) StringTooLong) (\<lambda>_.
     bind (ensure (1 \<le> chars_count (rev (dropWhile ((=) CHR '' '') (rev (dropWhile ((=) CHR '' '') name)))))
             CheckViolation) (\<lambda>_.
     bind (ensure (credential_id \<notin> pk_credential_id ` set (user_passkeys db)) UniqueViolation) (\<lambda>_.
     bind (ensure (user_exists db uid) ForeignKeyViolation) (\<lambda>_.
     bind (modify (\<lambda>db. passkeys_seq_update (\<lambda>n. n + 1) (user_passkeys_update (\<lambda>ks. ks @
       [\<lparr>pk_id = passkeys_seq db, pk_name = name, pk_credential = credential,
         pk_last_used_at = None, pk_created_at = now E, pk_user_id = uid,
         pk_credential_id = credential_id\<rparr>]) db))) (\<lambda>_.
     ret (passkeys_seq db)))))))"

definition repo_mfa_update_passkey_after_use :: "env \<Rightarrow> int \<Rightarrow> json \<Rightarrow> unit repo" where
  "repo_mfa_update_passkey_after_use E i credential =
     modify (user_passkeys_update (update_where (\<lambda>k. pk_id k = i)
       (\<lambda>k. k\<lparr>pk_credential := credential, pk_last_used_at := Some (now E)\<rparr>)))"

definition repo_mfa_delete_passkey :: "int \<Rightarrow> int \<Rightarrow> bool repo" where
  "repo_mfa_delete_passkey uid i =
     bind (gets (\<lambda>db. rows_affected (\<lambda>k. pk_id k = i \<and> pk_user_id k = uid) (user_passkeys db))) (\<lambda>n.
     bind (modify (user_passkeys_update (delete_where (\<lambda>k. pk_id k = i \<and> pk_user_id k = uid)))) (\<lambda>_.
     ret (n > 0)))"

section \<open>Facts\<close>

text \<open>A secret that was encrypted for a user decrypts for that user.\<close>

lemma decrypt_encrypt:
  assumes "encrypt_totp_secret E mfa draw uid secret = Some encoded"
    and "cipher_encrypt mfa (random_bytes E draw nonce_length) secret (to_be_bytes uid) = Some c"
    and "c \<noteq> []"
    and "cipher_decrypt mfa (random_bytes E draw nonce_length) c (to_be_bytes uid) = Some secret"
  shows "decrypt_totp_secret mfa uid encoded = Some secret"
proof -
  have len: "length (random_bytes E draw nonce_length) = nonce_length"
    by (simp add: random_bytes_def)
  have "encoded = ciphertext_version # random_bytes E draw nonce_length @ c"
    using assms(1,2) by (simp add: encrypt_totp_secret_def Let_def)
  with assms(3,4) len show ?thesis by (simp add: decrypt_totp_secret_def)
qed

lemma mfa_challenge_Some:
  assumes "repo_mfa_challenge E h kind db = Some c"
  obtains r where "r \<in> set (auth_mfa_challenges db)" and "c = challenge_row.truncate r"
    and "c_token_hash r = h" and "c_kind r = kind" and "challenge_open E r"
  using assms by (auto simp: repo_mfa_challenge_def dest!: find_SomeD)

lemma challenge_row_fields [simp]:
  "c_id (challenge_row.truncate r) = c_id r" "c_user_id (challenge_row.truncate r) = c_user_id r"
  "c_kind (challenge_row.truncate r) = c_kind r"
  "c_persistent (challenge_row.truncate r) = c_persistent r"
  "c_state (challenge_row.truncate r) = c_state r"
  "c_attempt_count (challenge_row.truncate r) = c_attempt_count r"
  "c_max_attempts (challenge_row.truncate r) = c_max_attempts r"
  by (simp_all add: challenge_row.defs)

lemma consume_recovery_code_ok:
  "repo_mfa_consume_recovery_code E uid i s = (Inr b, t) \<longleftrightarrow>
     b = (\<exists>c \<in> set (user_mfa_recovery_codes s). recovery_unused uid i c) \<and>
     t = user_mfa_recovery_codes_update (update_where (recovery_unused uid i)
           (\<lambda>c. c\<lparr>rc_used_at := Some (now E)\<rparr>)) s"
  by (auto simp: repo_mfa_consume_recovery_code_def ok_iff rows_affected_pos)

lemma recovery_code_spent:
  assumes "repo_mfa_consume_recovery_code E uid i s = (Inr b, t)"
    and "c \<in> set (user_mfa_recovery_codes t)"
  shows "\<not> recovery_unused uid i c"
proof -
  have "c \<in> set (update_where (recovery_unused uid i) (\<lambda>c. c\<lparr>rc_used_at := Some (now E)\<rparr>)
      (user_mfa_recovery_codes s))"
    using assms by (simp add: consume_recovery_code_ok)
  then show ?thesis by (rule update_where_none_left) (simp_all add: recovery_unused_def)
qed

lemma consume_counter_ok:
  "repo_mfa_consume_reauth_totp_counter E uid n s = (Inr b, t) \<longleftrightarrow>
     b = (\<exists>m \<in> set (user_mfa_settings s). counter_unused uid n m) \<and> (b \<longrightarrow> n \<ge> 0) \<and>
     t = user_mfa_settings_update (update_where (counter_unused uid n)
           (\<lambda>m. m\<lparr>ms_last_reauth_totp_counter := Some n,
                  ms_last_reauth_totp_used_at := Some (now E), ms_updated_at := now E\<rparr>)) s"
  by (auto simp: repo_mfa_consume_reauth_totp_counter_def ok_iff rows_affected_pos rows_affected_0)

lemma counter_spent:
  assumes "repo_mfa_consume_reauth_totp_counter E uid n s = (Inr b, t)"
    and "m \<in> set (user_mfa_settings t)" and "k \<le> n"
  shows "\<not> counter_unused uid k m"
proof -
  have "m \<in> set (update_where (counter_unused uid n)
      (\<lambda>m. m\<lparr>ms_last_reauth_totp_counter := Some n,
             ms_last_reauth_totp_used_at := Some (now E), ms_updated_at := now E\<rparr>)
      (user_mfa_settings s))"
    using assms(1,2) by (simp add: consume_counter_ok)
  then show ?thesis
    by (rule update_where_none_left) (use assms(3) in \<open>auto simp: counter_unused_def split: option.splits\<close>)
qed

section \<open>What the functions write\<close>

context db_relation
begin

lemma within_challenge_for_update [frame_intro]: "within R (repo_mfa_challenge_for_update E h k)"
  unfolding repo_mfa_challenge_for_update_def by (intro keeps_intro)

lemma within_ensure_settings [frame_intro]:
  assumes "\<And>s g. R s (user_mfa_settings_update g s)"
  shows "within R (repo_mfa_ensure_settings E i w)"
  unfolding repo_mfa_ensure_settings_def by (intro keeps_intro within_modify assms)

lemma within_enable_totp [frame_intro]:
  assumes "\<And>s g. R s (user_mfa_settings_update g s)"
  shows "within R (repo_mfa_enable_totp E i c)"
  unfolding repo_mfa_enable_totp_def by (intro within_modify assms)

lemma within_consume_counter [frame_intro]:
  assumes "\<And>s g. R s (user_mfa_settings_update g s)"
  shows "within R (repo_mfa_consume_reauth_totp_counter E i n)"
  unfolding repo_mfa_consume_reauth_totp_counter_def by (intro keeps_intro within_modify assms)

lemma within_create_challenge [frame_intro]:
  assumes "\<And>s f g. R s (challenges_seq_update g (auth_mfa_challenges_update f s))"
  shows "within R (repo_mfa_create_challenge h i k p st e)"
  unfolding repo_mfa_create_challenge_def by (intro keeps_intro within_modify assms)

lemma within_consume_login_challenges [frame_intro]:
  assumes "\<And>s g. R s (auth_mfa_challenges_update g s)"
  shows "within R (repo_mfa_consume_login_challenges_for_user E i)"
  unfolding repo_mfa_consume_login_challenges_for_user_def Let_def
  by (intro keeps_intro within_modify assms)

lemma within_record_challenge_failure [frame_intro]:
  assumes "\<And>s g. R s (auth_mfa_challenges_update g s)"
  shows "within R (repo_mfa_record_challenge_failure E i)"
  unfolding repo_mfa_record_challenge_failure_def by (intro keeps_intro within_modify assms)

lemma within_consume_challenge [frame_intro]:
  assumes "\<And>s g. R s (auth_mfa_challenges_update g s)"
  shows "within R (repo_mfa_consume_challenge E i)"
  unfolding repo_mfa_consume_challenge_def by (intro within_modify assms)

lemma within_prune_challenges [frame_intro]:
  assumes "\<And>s g. R s (auth_mfa_challenges_update g s)"
  shows "within R (repo_mfa_prune_challenges E)"
  unfolding repo_mfa_prune_challenges_def by (intro keeps_intro within_modify assms)

lemma within_replace_recovery_codes [frame_intro]:
  assumes "\<And>s g. R s (user_mfa_recovery_codes_update g s)"
    and "\<And>s f g. R s (recovery_seq_update g (user_mfa_recovery_codes_update f s))"
    and "\<And>s g. R s (user_mfa_settings_update g s)"
  shows "within R (repo_mfa_replace_recovery_codes E i hs)"
  unfolding repo_mfa_replace_recovery_codes_def insert_recovery_code_def
  by (intro keeps_intro within_modify assms)

lemma within_consume_recovery_code [frame_intro]:
  assumes "\<And>s g. R s (user_mfa_recovery_codes_update g s)"
  shows "within R (repo_mfa_consume_recovery_code E i j)"
  unfolding repo_mfa_consume_recovery_code_def by (intro keeps_intro within_modify assms)

lemma within_create_passkey [frame_intro]:
  assumes "\<And>s f g. R s (passkeys_seq_update g (user_passkeys_update f s))"
  shows "within R (repo_mfa_create_passkey E i n c j)"
  unfolding repo_mfa_create_passkey_def by (intro keeps_intro within_modify assms)

lemma within_update_passkey_after_use [frame_intro]:
  assumes "\<And>s g. R s (user_passkeys_update g s)"
  shows "within R (repo_mfa_update_passkey_after_use E i j)"
  unfolding repo_mfa_update_passkey_after_use_def by (intro within_modify assms)

lemma within_delete_passkey [frame_intro]:
  assumes "\<And>s g. R s (user_passkeys_update g s)"
  shows "within R (repo_mfa_delete_passkey i j)"
  unfolding repo_mfa_delete_passkey_def by (intro keeps_intro within_modify assms)

end

end
