(* ===== verification/Svc_Mfa.thy ===== *)
theory Svc_Mfa
  imports Svc_Auth Repo_Mfa
begin

text \<open>
  \<open>backend/src/services/mfa.rs\<close>: the second factor of a login (TOTP, enrollment, recovery codes,
  passkeys), re-authentication, and the management of factors. A transaction that commits the
  record of a failed attempt before the error is returned yields \<open>Inl locked\<close>, and the error is
  raised after it.
\<close>

section \<open>Challenge state\<close>

definition challenge_ttl_secs :: int where "challenge_ttl_secs = 300"
definition recovery_code_count :: nat where "recovery_code_count = 10"

definition login_context_value :: "login_throttle_keys \<Rightarrow> json" where
  "login_context_value k =
     JObj [(''account'', JStr (account k)), (''source_ip'', JStr (source_ip k)),
           (''account_ip'', JStr (account_ip k))]"

definition json_field :: "string \<Rightarrow> json \<Rightarrow> json option" where
  "json_field k v = (case v of JObj fs \<Rightarrow> map_of fs k | _ \<Rightarrow> None)"

definition json_str :: "string \<Rightarrow> json \<Rightarrow> string option" where
  "json_str k v = (case json_field k v of Some (JStr x) \<Rightarrow> Some x | _ \<Rightarrow> None)"

definition login_context_from :: "json \<Rightarrow> login_throttle_keys option" where
  "login_context_from v =
     Option.bind (json_str ''account'' v) (\<lambda>a.
     Option.bind (json_str ''source_ip'' v) (\<lambda>s.
     Option.bind (json_str ''account_ip'' v) (\<lambda>ai.
     Some \<lparr>account = a, source_ip = s, account_ip = ai\<rparr>)))"

definition enrollment_state :: "login_throttle_keys \<Rightarrow> string \<Rightarrow> json" where
  "enrollment_state login encrypted_secret =
     JObj [(''login'', login_context_value login), (''encrypted_secret'', JStr encrypted_secret)]"

definition enrollment_state_from :: "json \<Rightarrow> (login_throttle_keys \<times> string) option" where
  "enrollment_state_from v =
     Option.bind (Option.bind (json_field ''login'' v) login_context_from) (\<lambda>login.
     Option.bind (json_str ''encrypted_secret'' v) (\<lambda>secret.
     Some (login, secret)))"

definition passkey_auth_state :: "login_throttle_keys \<Rightarrow> json \<Rightarrow> json" where
  "passkey_auth_state login authentication =
     JObj [(''login'', login_context_value login), (''authentication'', authentication)]"

definition passkey_auth_state_from :: "json \<Rightarrow> (login_throttle_keys \<times> json) option" where
  "passkey_auth_state_from v =
     Option.bind (Option.bind (json_field ''login'' v) login_context_from) (\<lambda>login.
     Option.bind (json_field ''authentication'' v) (\<lambda>authentication.
     Some (login, authentication)))"

definition passkey_reg_state :: "string \<Rightarrow> json \<Rightarrow> json" where
  "passkey_reg_state name registration =
     JObj [(''name'', JStr name), (''registration'', registration)]"

definition passkey_reg_state_from :: "json \<Rightarrow> (string \<times> json) option" where
  "passkey_reg_state_from v =
     Option.bind (json_str ''name'' v) (\<lambda>name.
     Option.bind (json_field ''registration'' v) (\<lambda>registration.
     Some (name, registration)))"

section \<open>The start of a login\<close>

definition method_name :: "mfa_method \<Rightarrow> string" where
  "method_name m = (case m of Totp \<Rightarrow> ''Totp'' | Passkey \<Rightarrow> ''Passkey'' | RecoveryCode \<Rightarrow> ''RecoveryCode'')"

definition login_methods :: "mfa_summary_row \<Rightarrow> mfa_method list" where
  "login_methods summary =
     (if mf_totp_enabled summary then [Totp] else []) @
     (if mf_passkey_count summary > 0 then [Passkey] else []) @
     (if mf_recovery_codes_remaining summary > 0 then [RecoveryCode] else [])"

definition mfa_response :: "login_status \<Rightarrow> string \<Rightarrow> mfa_method list \<Rightarrow> login_response" where
  "mfa_response status token methods =
     \<lparr>lr_status = status, lr_expires_at = None, lr_user = None, lr_challenge_token = Some token,
      lr_methods = methods, lr_totp_secret = None, lr_totp_uri = None, lr_totp_qr_code = None,
      lr_recovery_codes = []\<rparr>"

definition begin_enrollment ::
    "env \<Rightarrow> mfa_config \<Rightarrow> user_row \<Rightarrow> bool \<Rightarrow> login_throttle_keys \<Rightarrow> string \<Rightarrow> time \<Rightarrow> login_response svc" where
  "begin_enrollment E mfa user persistent login token expires_at =
     (let secret = random_bytes E 1 20 in
      bind (transaction (
        bind (map_err db_error (repo_mfa_prune_challenges E)) (\<lambda>_.
        bind (map_err db_error (repo_mfa_consume_login_challenges_for_user E (u_id user))) (\<lambda>_.
        bind (ok_or (encrypt_totp_secret E mfa 2 (u_id user) secret) (Internal CryptoFailure)) (\<lambda>encrypted.
        bind (map_err db_error (repo_mfa_ensure_settings E (u_id user)
                (uuid_v4 mfa (random_bytes E 3 16)))) (\<lambda>_.
        bind (map_err db_error (repo_mfa_create_challenge (token_hash E token) (u_id user)
                ''totp_enrollment'' persistent
                (enrollment_state login (base64_encode mfa encrypted)) expires_at)) (\<lambda>_.
        map_err db_error (audit_record E (Some (u_id user)) ''auth.mfa.enrollment.started'' ''user''
          (Some (u_id user)) (JObj [(''factor'', JStr ''totp'')]))))))))) (\<lambda>_.
      bind (ensure (totp_builds mfa (u_username user) secret) (Internal TotpFailure)) (\<lambda>_.
      bind (ok_or (totp_url mfa (u_username user) secret) (Internal TotpFailure)) (\<lambda>uri.
      bind (ok_or (totp_qr mfa (u_username user) secret) (Internal TotpFailure)) (\<lambda>qr.
      ret ((mfa_response MfaEnrollmentRequired token [Totp])
             \<lparr>lr_totp_secret := Some (totp_base32 mfa secret), lr_totp_uri := Some uri,
              lr_totp_qr_code := Some qr\<rparr>))))))"

definition begin_challenge ::
    "env \<Rightarrow> mfa_summary_row \<Rightarrow> user_row \<Rightarrow> bool \<Rightarrow> login_throttle_keys \<Rightarrow> string \<Rightarrow> time \<Rightarrow>
     login_response svc" where
  "begin_challenge E summary user persistent login token expires_at =
     (let methods = login_methods summary in
      bind (transaction (
        bind (map_err db_error (repo_mfa_prune_challenges E)) (\<lambda>_.
        bind (map_err db_error (repo_mfa_consume_login_challenges_for_user E (u_id user))) (\<lambda>_.
        bind (map_err db_error (repo_mfa_create_challenge (token_hash E token) (u_id user)
                ''login'' persistent (login_context_value login) expires_at)) (\<lambda>_.
        map_err db_error (audit_record E (Some (u_id user)) ''auth.mfa.challenge.issued'' ''user''
          (Some (u_id user)) (JObj [(''methods'', JArr (map (JStr \<circ> method_name) methods))]))))))) (\<lambda>_.
      ret (mfa_response MfaRequired token methods)))"

definition begin_login ::
    "env \<Rightarrow> mfa_config \<Rightarrow> user_row \<Rightarrow> bool \<Rightarrow> login_throttle_keys \<Rightarrow> login_response option svc" where
  "begin_login E mfa user persistent login =
     bind (gets (repo_mfa_summary (u_id user))) (\<lambda>summary.
     if \<not> mf_required summary \<and> \<not> mf_totp_enabled summary \<and> mf_passkey_count summary = 0
     then ret None
     else
       (let token = random_token E 0; expires_at = utc_now E + secs challenge_ttl_secs in
        if mf_required summary \<and> \<not> mf_totp_enabled summary
        then bind (begin_enrollment E mfa user persistent login token expires_at) (\<lambda>r. ret (Some r))
        else bind (begin_challenge E summary user persistent login token expires_at) (\<lambda>r. ret (Some r))))"

section \<open>The end of a login\<close>

text \<open>A failed attempt is counted and audited in the transaction that found the challenge.\<close>

definition record_verify_failure :: "env \<Rightarrow> challenge_row \<Rightarrow> string \<Rightarrow> bool svc" where
  "record_verify_failure E challenge factor =
     bind (map_err db_error (repo_mfa_record_challenge_failure E (c_id challenge))) (\<lambda>locked.
     bind (map_err db_error (audit_record E (Some (c_user_id challenge)) ''auth.mfa.verify.failure''
             ''user'' (Some (c_user_id challenge))
             (JObj [(''factor'', JStr factor), (''locked'', JBool locked)]))) (\<lambda>_.
     ret locked))"

definition verify_failure :: "bool \<Rightarrow> api_error" where
  "verify_failure locked = (if locked then RateLimited (nat challenge_ttl_secs) else Unauthorized)"

definition open_challenge :: "env \<Rightarrow> string \<Rightarrow> string \<Rightarrow> challenge_row svc" where
  "open_challenge E challenge_token kind =
     bind (map_err db_error (repo_mfa_challenge_for_update E (token_hash E challenge_token) kind)) (\<lambda>row.
     ok_or row Unauthorized)"

definition totp_valid :: "mfa_config \<Rightarrow> user_row \<Rightarrow> byte list \<Rightarrow> string \<Rightarrow> bool svc" where
  "totp_valid mfa user secret code =
     bind (ensure (totp_builds mfa (u_username user) secret) (Internal TotpFailure)) (\<lambda>_.
     ret (totp_check mfa (u_username user) secret (trim code) \<noteq> None))"

definition verify_totp_login ::
    "env \<Rightarrow> 'net auth_session_config \<Rightarrow> mfa_config \<Rightarrow> string \<Rightarrow> string \<Rightarrow> login_session_outcome svc" where
  "verify_totp_login E config mfa challenge_token code =
     bind (transaction (
       bind (open_challenge E challenge_token ''login'') (\<lambda>challenge.
       bind (ok_or (login_context_from (c_state challenge)) (Internal StateDecodeFailure)) (\<lambda>login.
       bind (gets (repo_mfa_totp_secret_for_update (c_user_id challenge))) (\<lambda>stored.
       bind (ok_or stored Unauthorized) (\<lambda>encrypted.
       bind (ok_or (decrypt_totp_secret mfa (c_user_id challenge) encrypted) (Internal CryptoFailure)) (\<lambda>secret.
       bind (gets (repo_users_find_by_id (c_user_id challenge))) (\<lambda>row.
       bind (ok_or row Unauthorized) (\<lambda>user.
       bind (totp_valid mfa user secret code) (\<lambda>valid.
       if \<not> valid then bind (record_verify_failure E challenge ''totp'') (\<lambda>locked. ret (Inl locked))
       else
         bind (map_err db_error (repo_mfa_consume_challenge E (c_id challenge))) (\<lambda>_.
         bind (map_err db_error (audit_record E (Some (c_user_id challenge)) ''auth.mfa.verify.success''
                 ''user'' (Some (c_user_id challenge)) (JObj [(''factor'', JStr ''totp'')]))) (\<lambda>_.
         ret (Inr (challenge, login, user)))))))))))))) (\<lambda>outcome.
     case outcome of
       Inl locked \<Rightarrow> throw (verify_failure locked)
     | Inr (challenge, login, user) \<Rightarrow>
         create_login_session E config 0 (c_persistent challenge) login user)"

definition generate_recovery_codes :: "env \<Rightarrow> nat \<Rightarrow> string list" where
  "generate_recovery_codes E draw =
     map (\<lambda>i. let raw = to_ascii_uppercase (take 20 (random_token E (draw + i)))
              in join ''-'' (map (\<lambda>k. take 4 (drop (4 * k) raw)) [0..<5])) [0..<recovery_code_count]"

definition hash_recovery_codes :: "env \<Rightarrow> mfa_config \<Rightarrow> nat \<Rightarrow> string list \<Rightarrow> string list svc" where
  "hash_recovery_codes E mfa draw codes =
     ok_or (collect_options (map (\<lambda>(i, code). argon2_recovery_hash mfa code (password_salt E (draw + i)))
              (enumerate 0 codes))) (Internal HashFailure)"

definition verify_totp_enrollment ::
    "env \<Rightarrow> 'net auth_session_config \<Rightarrow> mfa_config \<Rightarrow> string \<Rightarrow> string \<Rightarrow> login_session_outcome svc" where
  "verify_totp_enrollment E config mfa challenge_token code =
     bind (transaction (
       bind (open_challenge E challenge_token ''totp_enrollment'') (\<lambda>challenge.
       bind (ok_or (enrollment_state_from (c_state challenge)) (Internal StateDecodeFailure)) (\<lambda>(login, stored).
       bind (ok_or (base64_decode mfa stored) Unauthorized) (\<lambda>encrypted.
       bind (ok_or (decrypt_totp_secret mfa (c_user_id challenge) encrypted) (Internal CryptoFailure)) (\<lambda>secret.
       bind (gets (repo_users_find_by_id (c_user_id challenge))) (\<lambda>row.
       bind (ok_or row Unauthorized) (\<lambda>user.
       bind (totp_valid mfa user secret code) (\<lambda>valid.
       if \<not> valid
       then bind (record_verify_failure E challenge ''totp_enrollment'') (\<lambda>locked. ret (Inl locked))
       else ret (Inr (encrypted, user))))))))))) (\<lambda>outcome.
     case outcome of
       Inl locked \<Rightarrow> throw (verify_failure locked)
     | Inr (encrypted, user) \<Rightarrow>
         (let recovery_codes = generate_recovery_codes E 0 in
          bind (hash_recovery_codes E mfa 10 recovery_codes) (\<lambda>hashes.
          bind (transaction (
            bind (open_challenge E challenge_token ''totp_enrollment'') (\<lambda>challenge.
            bind (ok_or (enrollment_state_from (c_state challenge)) (Internal StateDecodeFailure)) (\<lambda>(login, _).
            bind (map_err db_error (repo_mfa_enable_totp E (c_user_id challenge) encrypted)) (\<lambda>_.
            bind (map_err db_error (repo_mfa_replace_recovery_codes E (c_user_id challenge) hashes)) (\<lambda>_.
            bind (map_err db_error (repo_mfa_consume_challenge E (c_id challenge))) (\<lambda>_.
            bind (map_err db_error (audit_record E (Some (c_user_id challenge))
                    ''auth.mfa.enrollment.completed'' ''user'' (Some (c_user_id challenge))
                    (JObj [(''factor'', JStr ''totp''),
                           (''recoveryCodeCount'', JInt (int (length recovery_codes)))]))) (\<lambda>_.
            ret (challenge, login))))))))) (\<lambda>(challenge, login).
          bind (create_login_session E config 20 (c_persistent challenge) login user) (\<lambda>result.
          ret (result\<lparr>lo_response := (lo_response result)\<lparr>lr_recovery_codes := recovery_codes\<rparr>\<rparr>))))))"

definition verify_totp ::
    "env \<Rightarrow> 'net auth_session_config \<Rightarrow> mfa_config \<Rightarrow> string \<Rightarrow> string \<Rightarrow> login_session_outcome svc" where
  "verify_totp E config mfa challenge_token code =
     bind (gets (repo_mfa_challenge_kind E (token_hash E challenge_token))) (\<lambda>kind.
     bind (ok_or kind Unauthorized) (\<lambda>kind.
     if kind = ''totp_enrollment'' then verify_totp_enrollment E config mfa challenge_token code
     else verify_totp_login E config mfa challenge_token code))"

fun match_recovery_codes :: "env \<Rightarrow> string \<Rightarrow> recovery_code_row list \<Rightarrow> int option svc" where
  "match_recovery_codes E normalized [] = ret None"
| "match_recovery_codes E normalized (code # codes) =
     bind (ok_or (argon2_verify E normalized (rc_code_hash code)) (Internal InvalidStoredHash)) (\<lambda>matches.
     if matches then ret (Some (rc_id code)) else match_recovery_codes E normalized codes)"

definition matching_recovery_code :: "env \<Rightarrow> string \<Rightarrow> recovery_code_row list \<Rightarrow> int option svc" where
  "matching_recovery_code E recovery_code codes =
     match_recovery_codes E (to_ascii_uppercase (trim recovery_code)) codes"

definition verify_recovery_login ::
    "env \<Rightarrow> 'net auth_session_config \<Rightarrow> string \<Rightarrow> string \<Rightarrow> login_session_outcome svc" where
  "verify_recovery_login E config challenge_token recovery_code =
     bind (gets (repo_mfa_challenge E (token_hash E challenge_token) ''login'')) (\<lambda>row.
     bind (ok_or row Unauthorized) (\<lambda>challenge.
     bind (gets (repo_mfa_recovery_codes (c_user_id challenge))) (\<lambda>codes.
     bind (matching_recovery_code E recovery_code codes) (\<lambda>matching_id.
     bind (transaction (
       bind (open_challenge E challenge_token ''login'') (\<lambda>challenge.
       bind (case matching_id of None \<Rightarrow> ret False
             | Some i \<Rightarrow> map_err db_error (repo_mfa_consume_recovery_code E (c_user_id challenge) i)) (\<lambda>consumed.
       if \<not> consumed
       then bind (record_verify_failure E challenge ''recovery_code'') (\<lambda>locked. ret (Inl locked))
       else
         bind (ok_or (login_context_from (c_state challenge)) (Internal StateDecodeFailure)) (\<lambda>login.
         bind (map_err db_error (repo_mfa_consume_challenge E (c_id challenge))) (\<lambda>_.
         bind (map_err db_error (repo_sessions_revoke_all_for_user E (c_user_id challenge))) (\<lambda>revoked.
         bind (record_session_revocation E (Some (c_user_id challenge)) (c_user_id challenge)
                 ''mfa_recovery_code'' revoked) (\<lambda>_.
         bind (map_err db_error (audit_record E (Some (c_user_id challenge))
                 ''auth.mfa.recovery_code.used'' ''user'' (Some (c_user_id challenge))
                 (JObj [(''revokedSessionCount'', JInt (int revoked))]))) (\<lambda>_.
         ret (Inr (challenge, login))))))))))) (\<lambda>outcome.
     case outcome of
       Inl locked \<Rightarrow> throw (verify_failure locked)
     | Inr (challenge, login) \<Rightarrow>
         bind (gets (repo_users_find_by_id (c_user_id challenge))) (\<lambda>row.
         bind (ok_or row Unauthorized) (\<lambda>user.
         create_login_session E config 0 (c_persistent challenge) login user)))))))"

section \<open>Re-authentication\<close>

definition i64_try_from :: "nat \<Rightarrow> int option" where
  "i64_try_from n = (if int n \<le> i64_max then Some (int n) else None)"

definition matching_totp_counter ::
    "mfa_config \<Rightarrow> string \<Rightarrow> byte list \<Rightarrow> string \<Rightarrow> int option svc" where
  "matching_totp_counter mfa account_name secret code =
     (case totp_check mfa account_name secret (trim code) of
        None \<Rightarrow> ret None
      | Some counter \<Rightarrow>
          bind (ok_or (i64_try_from counter) (Internal CounterOverflow)) (\<lambda>c. ret (Some c)))"

definition verify_totp_code :: "env \<Rightarrow> mfa_config \<Rightarrow> int \<Rightarrow> string \<Rightarrow> unit svc" where
  "verify_totp_code E mfa uid code =
     bind (gets (repo_users_find_by_id uid)) (\<lambda>row.
     bind (ok_or row Unauthorized) (\<lambda>user.
     transaction (
       bind (gets (repo_mfa_totp_secret_for_update uid)) (\<lambda>stored.
       bind (ok_or stored (Forbidden (MfaMsg TotpNotEnrolled))) (\<lambda>encrypted.
       bind (ok_or (decrypt_totp_secret mfa uid encrypted) (Internal CryptoFailure)) (\<lambda>secret.
       bind (ensure (totp_builds mfa (u_username user) secret) (Internal TotpFailure)) (\<lambda>_.
       bind (matching_totp_counter mfa (u_username user) secret code) (\<lambda>matching.
       bind (ok_or matching (Validation (MfaMsg TotpCodeWrong))) (\<lambda>counter.
       bind (map_err db_error (repo_mfa_consume_reauth_totp_counter E uid counter)) (\<lambda>consumed.
       ensure consumed (Validation (MfaMsg TotpCodeUsed))))))))))))"

definition verify_reauthentication ::
    "env \<Rightarrow> mfa_config \<Rightarrow> int \<Rightarrow> string \<Rightarrow> string option \<Rightarrow> unit svc" where
  "verify_reauthentication E mfa uid password code =
     bind (verify_current_password E uid password) (\<lambda>_.
     bind (gets (repo_mfa_summary uid)) (\<lambda>summary.
     if mf_totp_enabled summary \<or> mf_required summary
     then bind (ok_or (case code of None \<Rightarrow> None | Some v \<Rightarrow> if trim v = [] then None else Some v)
                  (Forbidden (MfaMsg TotpCodeRequired))) (verify_totp_code E mfa uid)
     else ret ()))"

definition verify_password_and_totp ::
    "env \<Rightarrow> mfa_config \<Rightarrow> int \<Rightarrow> string \<Rightarrow> string \<Rightarrow> unit svc" where
  "verify_password_and_totp E mfa uid password code =
     bind (verify_current_password E uid password) (\<lambda>_.
     verify_totp_code E mfa uid code)"

section \<open>Factors\<close>

record mfa_passkey_response =
  mp_id :: int
  mp_name :: string
  mp_created_at :: time
  mp_last_used_at :: "time option"

record mfa_status_response =
  mr_required :: bool
  mr_totp_enabled :: bool
  mr_recovery_codes_remaining :: int
  mr_passkeys :: "mfa_passkey_response list"

record mfa_webauthn_challenge_response =
  mw_challenge_token :: string
  mw_public_key :: json

record mfa_passkey_registration_start_request =
  prs_current_password :: string
  prs_totp_code :: string
  prs_name :: string

record mfa_factor_revoke_request =
  fr_current_password :: string
  fr_totp_code :: string

definition mfa_status :: "int \<Rightarrow> mfa_status_response svc" where
  "mfa_status uid =
     bind (gets (repo_mfa_summary uid)) (\<lambda>summary.
     bind (gets (repo_mfa_list_passkeys uid)) (\<lambda>keys.
     ret \<lparr>mr_required = mf_required summary, mr_totp_enabled = mf_totp_enabled summary,
          mr_recovery_codes_remaining = mf_recovery_codes_remaining summary,
          mr_passkeys = map (\<lambda>key. \<lparr>mp_id = pk_id key, mp_name = pk_name key,
            mp_created_at = pk_created_at key, mp_last_used_at = pk_last_used_at key\<rparr>) keys\<rparr>))"

definition start_passkey_authentication ::
    "env \<Rightarrow> mfa_config \<Rightarrow> string \<Rightarrow> mfa_webauthn_challenge_response svc" where
  "start_passkey_authentication E mfa challenge_token =
     transaction (
       bind (open_challenge E challenge_token ''login'') (\<lambda>challenge.
       bind (ok_or (login_context_from (c_state challenge)) (Internal StateDecodeFailure)) (\<lambda>login.
       bind (gets (repo_mfa_list_passkeys (c_user_id challenge))) (\<lambda>passkeys.
       bind (ok_or (start_passkey_auth mfa (map pk_credential passkeys)) (Internal WebauthnFailure))
         (\<lambda>(public_key, authentication).
       let token = random_token E 0 in
       bind (map_err db_error (repo_mfa_consume_challenge E (c_id challenge))) (\<lambda>_.
       bind (map_err db_error (repo_mfa_create_challenge (token_hash E token) (c_user_id challenge)
               ''passkey_authentication'' (c_persistent challenge)
               (passkey_auth_state login authentication) (utc_now E + secs challenge_ttl_secs))) (\<lambda>_.
       ret \<lparr>mw_challenge_token = token, mw_public_key = public_key\<rparr>)))))))"

definition finish_passkey_authentication ::
    "env \<Rightarrow> 'net auth_session_config \<Rightarrow> mfa_config \<Rightarrow> string \<Rightarrow> json \<Rightarrow> login_session_outcome svc" where
  "finish_passkey_authentication E config mfa challenge_token credential =
     bind (transaction (
       bind (open_challenge E challenge_token ''passkey_authentication'') (\<lambda>challenge.
       bind (ok_or (passkey_auth_state_from (c_state challenge)) (Internal StateDecodeFailure))
         (\<lambda>(login, authentication).
       bind (gets (repo_mfa_list_passkeys (c_user_id challenge))) (\<lambda>passkeys.
       case Option.bind (parse_credential mfa credential)
              (\<lambda>c. finish_passkey_auth mfa c authentication) of
         None \<Rightarrow> bind (record_verify_failure E challenge ''passkey'') (\<lambda>locked. ret (Inl locked))
       | Some result \<Rightarrow>
           bind (ok_or (find (\<lambda>row. cred_id mfa (pk_credential row) = cred_id mfa result) passkeys)
                   Unauthorized) (\<lambda>row.
           bind (map_err db_error (repo_mfa_update_passkey_after_use E (pk_id row)
                   (if needs_update mfa result then update_credential mfa (pk_credential row) result
                    else pk_credential row))) (\<lambda>_.
           bind (map_err db_error (repo_mfa_consume_challenge E (c_id challenge))) (\<lambda>_.
           bind (map_err db_error (audit_record E (Some (c_user_id challenge))
                   ''auth.mfa.verify.success'' ''user'' (Some (c_user_id challenge))
                   (JObj [(''factor'', JStr ''passkey'')]))) (\<lambda>_.
           ret (Inr (challenge, login))))))))))) (\<lambda>outcome.
     case outcome of
       Inl locked \<Rightarrow> throw (verify_failure locked)
     | Inr (challenge, login) \<Rightarrow>
         bind (gets (repo_users_find_by_id (c_user_id challenge))) (\<lambda>row.
         bind (ok_or row Unauthorized) (\<lambda>user.
         create_login_session E config 0 (c_persistent challenge) login user)))"

definition start_passkey_registration ::
    "env \<Rightarrow> mfa_config \<Rightarrow> user_response \<Rightarrow> mfa_passkey_registration_start_request \<Rightarrow>
     mfa_webauthn_challenge_response svc" where
  "start_passkey_registration E mfa user req =
     (let name = trim (prs_name req) in
     bind (ensure (name \<noteq> [] \<and> chars_count name \<le> 80) (Validation (MfaMsg PasskeyNameLength))) (\<lambda>_.
     bind (verify_password_and_totp E mfa (us_id user) (prs_current_password req) (prs_totp_code req)) (\<lambda>_.
     bind (gets (repo_mfa_list_passkeys (us_id user))) (\<lambda>existing.
     transaction (
       bind (map_err db_error (repo_mfa_ensure_settings E (us_id user)
               (uuid_v4 mfa (random_bytes E 0 16)))) (\<lambda>webauthn_user_id.
       bind (ok_or (start_passkey_reg mfa webauthn_user_id (us_username user) (us_display_name user)
               (map (\<lambda>key. cred_id mfa (pk_credential key)) existing)) (Internal WebauthnFailure))
         (\<lambda>(public_key, registration).
       let token = random_token E 1 in
       bind (map_err db_error (repo_mfa_create_challenge (token_hash E token) (us_id user)
               ''passkey_registration'' False (passkey_reg_state name registration)
               (utc_now E + secs challenge_ttl_secs))) (\<lambda>_.
       bind (map_err db_error (audit_record E (Some (us_id user)) ''auth.mfa.enrollment.started''
               ''user'' (Some (us_id user)) (JObj [(''factor'', JStr ''passkey'')]))) (\<lambda>_.
       ret \<lparr>mw_challenge_token = token, mw_public_key = public_key\<rparr>)))))))))"

definition finish_passkey_registration ::
    "env \<Rightarrow> mfa_config \<Rightarrow> int \<Rightarrow> string \<Rightarrow> json \<Rightarrow> mfa_status_response svc" where
  "finish_passkey_registration E mfa uid challenge_token credential =
     bind (transaction (
       bind (map_err db_error (repo_mfa_challenge_for_update E (token_hash E challenge_token)
               ''passkey_registration'')) (\<lambda>row.
       bind (ok_or (case row of None \<Rightarrow> None | Some c \<Rightarrow> if c_user_id c = uid then Some c else None)
               Unauthorized) (\<lambda>challenge.
       bind (ok_or (passkey_reg_state_from (c_state challenge)) (Internal StateDecodeFailure))
         (\<lambda>(name, registration).
       bind (ok_or (parse_credential mfa credential) (Internal WebauthnFailure)) (\<lambda>credential.
       bind (ok_or (finish_passkey_reg mfa credential registration)
               (Validation (MfaMsg PasskeyRegistrationFailed))) (\<lambda>passkey.
       bind (map_err db_error (repo_mfa_create_passkey E uid name (cred_id mfa passkey) passkey)) (\<lambda>_.
       bind (map_err db_error (repo_mfa_consume_challenge E (c_id challenge))) (\<lambda>_.
       map_err db_error (audit_record E (Some uid) ''auth.mfa.enrollment.completed'' ''user'' (Some uid)
         (JObj [(''factor'', JStr ''passkey'')])))))))))))
     (\<lambda>_. mfa_status uid)"

definition revoke_passkey ::
    "env \<Rightarrow> mfa_config \<Rightarrow> int \<Rightarrow> int \<Rightarrow> mfa_factor_revoke_request \<Rightarrow> unit svc" where
  "revoke_passkey E mfa uid passkey_id req =
     bind (verify_password_and_totp E mfa uid (fr_current_password req) (fr_totp_code req)) (\<lambda>_.
     transaction (
       bind (map_err db_error (repo_mfa_delete_passkey uid passkey_id)) (\<lambda>deleted.
       bind (ensure deleted (NotFound (MfaMsg PasskeyNotFound))) (\<lambda>_.
       bind (map_err db_error (repo_sessions_revoke_all_for_user E uid)) (\<lambda>revoked.
       bind (record_session_revocation E (Some uid) uid ''mfa_factor_revoked'' revoked) (\<lambda>_.
       map_err db_error (audit_record E (Some uid) ''auth.mfa.factor.revoked'' ''user'' (Some uid)
         (JObj [(''factor'', JStr ''passkey''), (''revokedSessionCount'', JInt (int revoked))]))))))))"

definition regenerate_recovery_codes ::
    "env \<Rightarrow> mfa_config \<Rightarrow> int \<Rightarrow> mfa_factor_revoke_request \<Rightarrow> string list svc" where
  "regenerate_recovery_codes E mfa uid req =
     bind (verify_password_and_totp E mfa uid (fr_current_password req) (fr_totp_code req)) (\<lambda>_.
     let codes = generate_recovery_codes E 0 in
     bind (hash_recovery_codes E mfa 10 codes) (\<lambda>hashes.
     bind (transaction (
       bind (map_err db_error (repo_mfa_replace_recovery_codes E uid hashes)) (\<lambda>_.
       bind (map_err db_error (repo_sessions_revoke_all_for_user E uid)) (\<lambda>revoked.
       bind (record_session_revocation E (Some uid) uid ''mfa_recovery_regenerated'' revoked) (\<lambda>_.
       map_err db_error (audit_record E (Some uid) ''auth.mfa.recovery_codes.generated'' ''user''
         (Some uid) (JObj [(''count'', JInt (int (length codes)))]))))))) (\<lambda>_.
     ret codes)))"

end
