(* ===== verification/Svc_Login.thy ===== *)
theory Svc_Login
  imports Svc_Mfa
begin

text \<open>
  \<open>login\<close> of \<open>backend/src/services/auth.rs\<close>, and the two forms of short-lived authorization bound
  to a session: step-up grants (\<open>services/step_up.rs\<close>) and module unlocks
  (\<open>services/module_unlock.rs\<close>).
\<close>

section \<open>Login\<close>

record login_request =
  lq_username :: string
  lq_password :: string
  lq_remember :: bool

datatype login_outcome =
    LoginAuthenticated login_session_outcome
  | LoginMfaRequired login_response

definition retry_after :: "env \<Rightarrow> time \<Rightarrow> nat" where
  "retry_after E locked = nat (max 1 ((locked - utc_now E) div 1000000))"

definition login ::
    "env \<Rightarrow> 'net auth_session_config \<Rightarrow> mfa_config \<Rightarrow> login_request \<Rightarrow> ip_addr \<Rightarrow> login_outcome svc" where
  "login E config mfa req client_ip =
     (let username = trim (lq_username req);
          throttle_keys = login_throttle_keys_new E username client_ip in
     bind (gets (locked_until E throttle_keys)) (\<lambda>locked.
     case locked of
       Some l \<Rightarrow> throw (RateLimited (retry_after E l))
     | None \<Rightarrow>
       bind (gets (repo_users_find_by_username username)) (\<lambda>row.
       let password_hash = (case row of None \<Rightarrow> dummy_password_hash | Some user \<Rightarrow> u_password_hash user);
           password_valid = (if chars_count (lq_password req) \<le> max_password_length
                             then verify_login_password E (lq_password req) password_hash else False)
       in case row of
            Some user \<Rightarrow>
              if u_status user = ''active'' \<and> password_valid then
                bind (begin_login E mfa user (lq_remember req) throttle_keys) (\<lambda>challenge.
                case challenge of
                  Some response \<Rightarrow> ret (LoginMfaRequired response)
                | None \<Rightarrow>
                    bind (create_login_session E config 0 (lq_remember req) throttle_keys user) (\<lambda>outcome.
                    ret (LoginAuthenticated outcome)))
              else
                bind (record_failed_login E config throttle_keys (Some (u_id user))) (\<lambda>locked.
                throw (case locked of Some l \<Rightarrow> RateLimited (retry_after E l) | None \<Rightarrow> Unauthorized))
          | None \<Rightarrow>
              bind (record_failed_login E config throttle_keys None) (\<lambda>locked.
              throw (case locked of Some l \<Rightarrow> RateLimited (retry_after E l) | None \<Rightarrow> Unauthorized)))))"

section \<open>Step-up grants\<close>

definition step_up_header :: string where "step_up_header = ''x-step-up-token''"
definition password_change_scope :: string where "password_change_scope = ''auth.password.change''"
definition users_sensitive_scope :: string where "users_sensitive_scope = ''users.sensitive''"
definition users_roles_scope :: string where "users_roles_scope = ''users.roles.write''"
definition users_delete_scope :: string where "users_delete_scope = ''users.delete''"
definition roles_sensitive_scope :: string where "roles_sensitive_scope = ''roles.sensitive''"
definition roles_permissions_scope :: string where "roles_permissions_scope = ''roles.permissions.write''"
definition roles_delete_scope :: string where "roles_delete_scope = ''roles.delete''"
definition departments_write_scope :: string where "departments_write_scope = ''departments.write''"
definition departments_delete_scope :: string where "departments_delete_scope = ''departments.delete''"

definition valid_scopes :: "string list" where
  "valid_scopes =
     [password_change_scope, users_sensitive_scope, users_roles_scope, users_delete_scope,
      roles_sensitive_scope, roles_permissions_scope, roles_delete_scope, departments_write_scope,
      departments_delete_scope]"

definition token_ttl_secs :: int where "token_ttl_secs = 300"

record step_up_request =
  su_current_password :: string
  su_totp_code :: "string option"
  su_scope :: string

record step_up_response =
  sr_token :: string
  sr_expires_at :: time

definition is_valid_scope :: "string \<Rightarrow> bool" where
  "is_valid_scope scope \<longleftrightarrow> scope \<in> set valid_scopes"

definition step_up_issue ::
    "env \<Rightarrow> mfa_config \<Rightarrow> int \<Rightarrow> int \<Rightarrow> step_up_request \<Rightarrow> step_up_response svc" where
  "step_up_issue E mfa sid uid req =
     bind (ensure (is_valid_scope (su_scope req)) (Validation (AuthMsg StepUpScopeInvalid))) (\<lambda>_.
     bind (verify_reauthentication E mfa uid (su_current_password req) (su_totp_code req)) (\<lambda>_.
     let token = random_token E 0; expires_at = utc_now E + secs token_ttl_secs in
     bind (transaction (
       bind (map_err db_error (repo_step_up_prune E)) (\<lambda>_.
       bind (map_err db_error (repo_step_up_create (token_hash E token) sid uid (su_scope req) expires_at)) (\<lambda>_.
       map_err db_error (audit_record E (Some uid) ''auth.step_up.success'' ''user'' (Some uid)
         (JObj [(''scope'', JStr (su_scope req))])))))) (\<lambda>_.
     ret \<lparr>sr_token = token, sr_expires_at = expires_at\<rparr>)))"

definition step_up_consume :: "env \<Rightarrow> int \<Rightarrow> int \<Rightarrow> request \<Rightarrow> string \<Rightarrow> unit svc" where
  "step_up_consume E sid uid rq scope =
     bind (ok_or (case header_str rq step_up_header of None \<Rightarrow> None
                  | Some v \<Rightarrow> if length v = 64 then Some v else None)
             (Forbidden (AuthMsg StepUpRequired))) (\<lambda>token.
     transaction (
       bind (map_err db_error (repo_step_up_consume E (token_hash E token) sid uid scope)) (\<lambda>consumed.
       bind (ensure consumed (Forbidden (AuthMsg StepUpTokenInvalid))) (\<lambda>_.
       map_err db_error (audit_record E (Some uid) ''auth.step_up.consumed'' ''user'' (Some uid)
         (JObj [(''scope'', JStr scope)]))))))"

section \<open>Module unlocks\<close>

definition users_module :: string where "users_module = ''users''"
definition roles_module :: string where "roles_module = ''roles''"
definition unlock_ttl_secs :: int where "unlock_ttl_secs = 300"

record module_unlock_request =
  mq_module :: string
  mq_current_password :: string
  mq_totp_code :: "string option"

record module_unlock_status_response =
  mo_module :: string
  mo_unlocked :: bool
  mo_expires_at :: "time option"

definition validate_module :: "string \<Rightarrow> unit svc" where
  "validate_module module =
     ensure (module \<in> {users_module, roles_module}) (Validation (AuthMsg ModuleInvalid))"

definition module_unlock_status ::
    "env \<Rightarrow> int \<Rightarrow> int \<Rightarrow> string \<Rightarrow> module_unlock_status_response svc" where
  "module_unlock_status E sid uid module =
     bind (validate_module module) (\<lambda>_.
     bind (gets (repo_unlock_active_expires_at E sid uid module)) (\<lambda>expires_at.
     ret \<lparr>mo_module = module, mo_unlocked = (expires_at \<noteq> None), mo_expires_at = expires_at\<rparr>))"

definition module_unlock_issue ::
    "env \<Rightarrow> mfa_config \<Rightarrow> int \<Rightarrow> int \<Rightarrow> module_unlock_request \<Rightarrow> module_unlock_status_response svc" where
  "module_unlock_issue E mfa sid uid req =
     bind (validate_module (mq_module req)) (\<lambda>_.
     bind (verify_reauthentication E mfa uid (mq_current_password req) (mq_totp_code req)) (\<lambda>_.
     let expires_at = utc_now E + secs unlock_ttl_secs in
     bind (transaction (
       bind (map_err db_error (repo_unlock_prune E)) (\<lambda>_.
       bind (map_err db_error (repo_unlock_upsert E sid uid (mq_module req) expires_at)) (\<lambda>_.
       map_err db_error (audit_record E (Some uid) ''auth.module_unlock.issued'' ''user'' (Some uid)
         (JObj [(''module'', JStr (mq_module req)), (''expiresAt'', JTime expires_at)])))))) (\<lambda>_.
     ret \<lparr>mo_module = mq_module req, mo_unlocked = True, mo_expires_at = Some expires_at\<rparr>)))"

definition module_unlock_require :: "env \<Rightarrow> int \<Rightarrow> int \<Rightarrow> string \<Rightarrow> unit svc" where
  "module_unlock_require E sid uid module =
     bind (validate_module module) (\<lambda>_.
     bind (gets (repo_unlock_active_expires_at E sid uid module)) (\<lambda>expires_at.
     ensure (expires_at \<noteq> None) (Forbidden (AuthMsg ModuleLocked))))"

end
