(* ===== verification/Svc_Users.thy ===== *)
theory Svc_Users
  imports Svc_Departments
begin

text \<open>
  \<open>backend/src/services/users.rs\<close>: the user directory and the writes on users and their roles,
  with the three guards of the source: the actor's data scope, the grant scope of roles, and the
  last active super administrator. Reads on the pool inside a transaction see the state before
  the transaction; the operations that do so take it as \<open>pool\<close>.
\<close>

section \<open>Requests\<close>

datatype 'a nullable_patch = Missing | Null | Value 'a

definition nullable_patch_of :: "'a nullable_patch \<Rightarrow> bool \<times> 'a option" where
  "nullable_patch_of patch =
     (case patch of Missing \<Rightarrow> (False, None) | Null \<Rightarrow> (True, None) | Value v \<Rightarrow> (True, Some v))"

record page_query =
  pq_page :: "int option"
  pq_page_size :: "int option"
  pq_keyword :: "string option"
  pq_status :: "string option"
  pq_role :: "string option"
  pq_sort_by :: "string option"
  pq_sort_direction :: "string option"

record page_user =
  pu_items :: "user_response list"
  pu_total :: int
  pu_page :: int
  pu_page_size :: int
  pu_role_options :: "string list"

record create_user_request =
  cu_username :: string
  cu_password :: string
  cu_display_name :: string
  cu_email :: "string option"
  cu_status :: "string option"
  cu_department_id :: "int option"
  cu_role_ids :: "int list option"

record update_user_request =
  uu_display_name :: "string option"
  uu_email :: "string nullable_patch"
  uu_status :: "string option"
  uu_department_id :: "int option"
  uu_password :: "string option"

section \<open>Directory\<close>

definition user_with_roles_response :: "user_with_roles_row \<Rightarrow> user_response" where
  "user_with_roles_response row =
     \<lparr>us_id = ur_id row, us_username = ur_username row, us_display_name = ur_display_name row,
      us_email = ur_email row, us_status = ur_status row, us_department_id = ur_department_id row,
      us_roles = ur_roles row, us_last_login_at = ur_last_login_at row,
      us_created_at = ur_created_at row\<rparr>"

definition normalized_filter :: "string option \<Rightarrow> string option" where
  "normalized_filter value =
     (case value of None \<Rightarrow> None
      | Some v \<Rightarrow> if trim v \<noteq> [] \<and> trim v \<noteq> ''all'' then Some (trim v) else None)"

definition user_sort_of :: "string option \<Rightarrow> string option \<Rightarrow> user_sort svc" where
  "user_sort_of by_field sort_direction =
     (let direction = coalesce sort_direction ''desc'';
          field = coalesce by_field ''createdAt'';
          pick = (\<lambda>a d. if direction = ''asc'' then ret a else ret d)
      in if direction \<notin> {''asc'', ''desc''} then throw (Validation (UserMsg SortDirectionInvalid))
         else if field = ''username'' then pick UsernameAsc UsernameDesc
         else if field = ''displayName'' then pick DisplayNameAsc DisplayNameDesc
         else if field = ''email'' then pick EmailAsc EmailDesc
         else if field = ''status'' then pick StatusAsc StatusDesc
         else if field = ''lastLoginAt'' then pick LastLoginAtAsc LastLoginAtDesc
         else if field = ''createdAt'' then pick CreatedAtAsc CreatedAtDesc
         else throw (Validation (UserMsg SortFieldInvalid)))"

definition clamp :: "int \<Rightarrow> int \<Rightarrow> int \<Rightarrow> int" where
  "clamp lo hi x = max lo (min hi x)"

definition svc_users_list :: "env \<Rightarrow> actor_context \<Rightarrow> page_query \<Rightarrow> page_user svc" where
  "svc_users_list E actor q =
     (let requested_page = max 1 (coalesce (pq_page q) 1);
          page_size = clamp 1 100 (coalesce (pq_page_size q) 20);
          status = normalized_filter (pq_status q) in
     bind (ensure (case status of None \<Rightarrow> True | Some v \<Rightarrow> v \<in> set user_statuses)
             (Validation (UserMsg StatusFilterInvalid))) (\<lambda>_.
     bind (user_sort_of (pq_sort_by q) (pq_sort_direction q)) (\<lambda>sort.
     let params = \<lparr>lp_keyword = normalized_filter (pq_keyword q), lp_status = status,
                   lp_role = normalized_filter (pq_role q), lp_sort = sort,
                   lp_page = requested_page, lp_page_size = page_size\<rparr> in
     bind (gets (repo_users_count E actor params)) (\<lambda>total.
     bind (gets (repo_users_list_role_options E actor)) (\<lambda>role_options.
     let last_page = max 1 ((total + page_size - 1) div page_size);
         page = min requested_page last_page in
     bind (query (repo_users_list E actor (params\<lparr>lp_page := page\<rparr>))) (\<lambda>rows.
     ret \<lparr>pu_items = map user_with_roles_response rows, pu_total = total, pu_page = page,
          pu_page_size = page_size, pu_role_options = role_options\<rparr>))))))"

definition svc_users_get :: "actor_context \<Rightarrow> int \<Rightarrow> user_response svc" where
  "svc_users_get actor i =
     bind (gets (repo_users_find_by_id_for_actor actor i)) (\<lambda>row.
     bind (ok_or row (NotFound (UserMsg UserNotFound))) (\<lambda>row.
     bind (gets (repo_users_role_names_by_user i)) (\<lambda>names.
     ret (user_response_of row names))))"

section \<open>Guards\<close>

definition ensure_actor_can_access :: "actor_context option \<Rightarrow> int \<Rightarrow> unit svc" where
  "ensure_actor_can_access actor uid =
     bind (gets (case actor of Some a \<Rightarrow> repo_users_find_by_id_for_actor a uid
                 | None \<Rightarrow> repo_users_find_by_id uid)) (\<lambda>row.
     bind (ok_or row (NotFound (UserMsg UserNotFound))) (\<lambda>_.
     ret ()))"

definition validate_batch_user_ids :: "int list \<Rightarrow> int \<Rightarrow> unit svc" where
  "validate_batch_user_ids user_ids actor_user_id =
     bind (ensure (user_ids \<noteq> []) (Validation (BatchMsg BatchEmpty))) (\<lambda>_.
     bind (ensure (card (set user_ids) = length user_ids) (Validation (BatchMsg BatchDuplicates))) (\<lambda>_.
     ensure (actor_user_id \<notin> set user_ids) (Forbidden (BatchMsg BatchContainsSelf))))"

definition validate_role_grant_scope :: "int option \<Rightarrow> int list \<Rightarrow> bool \<Rightarrow> unit svc" where
  "validate_role_grant_scope actor_user_id role_ids can_grant_super_admin =
     bind (ensure (card (set role_ids) = length role_ids) (Validation (BatchMsg RoleListDuplicates))) (\<lambda>_.
     bind (gets (repo_roles_active_ids_by_ids role_ids)) (\<lambda>active_role_ids.
     bind (ensure (length active_role_ids = card (set role_ids))
             (Validation (BatchMsg RoleListContainsInactive))) (\<lambda>_.
     bind (gets (repo_roles_id_by_code ''super_admin'')) (\<lambda>super_admin_role_id.
     bind (ensure (can_grant_super_admin \<or>
                   (case super_admin_role_id of None \<Rightarrow> True | Some i \<Rightarrow> i \<notin> set role_ids))
             (Forbidden (BatchMsg SuperAdminGrantPermissionMissing))) (\<lambda>_.
     case actor_user_id of
       None \<Rightarrow> ret ()
     | Some uid \<Rightarrow>
         bind (gets (repo_permissions_permission_codes_by_user uid)) (\<lambda>actor_permissions.
         bind (gets (repo_permissions_codes_by_role_ids role_ids)) (\<lambda>requested_permissions.
         ensure (requested_permissions \<subseteq> actor_permissions)
           (Forbidden (BatchMsg RoleExceedsActorPermissions)))))))))"

definition protect_last_super_admin :: "int \<Rightarrow> unit svc" where
  "protect_last_super_admin uid =
     bind (gets (repo_users_super_admin_guard_state uid)) (\<lambda>(is_active_super_admin, active_count).
     if \<not> is_active_super_admin then ret ()
     else ensure (active_count > 1) (Forbidden (BatchMsg LastSuperAdmin)))"

section \<open>Writes\<close>

definition svc_users_create ::
    "env \<Rightarrow> actor_context \<Rightarrow> create_user_request \<Rightarrow> bool \<Rightarrow> bool \<Rightarrow> user_response svc" where
  "svc_users_create E actor req can_grant_super_admin can_assign_department =
     (let username = trim (cu_username req); display_name = trim (cu_display_name req);
          status = coalesce (cu_status req) ''active'' in
     bind (ensure (can_create_peer actor) (Forbidden (UserMsg ScopeForbidsCreatingUsers))) (\<lambda>_.
     bind (ensure (3 \<le> length username \<and> length username \<le> 64) (Validation (UserMsg UsernameLength))) (\<lambda>_.
     bind (ensure (list_all username_char username) (Validation (UserMsg UsernameCharacters))) (\<lambda>_.
     bind (validate_password (cu_password req)) (\<lambda>_.
     bind (ensure (display_name \<noteq> [] \<and> length display_name \<le> 128)
             (Validation (UserMsg DisplayNameLength))) (\<lambda>_.
     bind (ensure (status \<in> set user_statuses) (Validation (UserMsg UserStatusInvalid))) (\<lambda>_.
     bind (hash_password E 0 (cu_password req)) (\<lambda>hash.
     bind (case cu_role_ids req of None \<Rightarrow> ret ()
           | Some role_ids \<Rightarrow>
               validate_role_grant_scope (Some (user_id actor)) role_ids can_grant_super_admin) (\<lambda>_.
     bind (case cu_department_id req of
             Some dept \<Rightarrow>
               bind (ensure can_assign_department
                       (Forbidden (UserMsg DepartmentDirectoryPermissionMissing))) (\<lambda>_.
               bind (validate_assignment actor dept) (\<lambda>_.
               ret (Some dept)))
           | None \<Rightarrow> ret (department_id actor)) (\<lambda>dept.
     bind (transaction (
       bind (map_err db_error (repo_users_create E
               \<lparr>nu_username = username, nu_password_hash = hash, nu_display_name = display_name,
                nu_email = cu_email req, nu_status = status,
                nu_organization_id = organization_id actor, nu_department_id = dept\<rparr>)) (\<lambda>row.
       bind (case cu_role_ids req of None \<Rightarrow> ret ()
             | Some role_ids \<Rightarrow> map_err db_error (repo_users_assign_roles (u_id row) role_ids)) (\<lambda>_.
       bind (map_err db_error (audit_record E (Some (user_id actor)) ''user.create'' ''user''
               (Some (u_id row))
               (JObj [(''username'', JStr username), (''status'', JStr status),
                      (''departmentId'', json_opt JInt dept),
                      (''roleIds'', JArr (map JInt (coalesce (cu_role_ids req) [])))]))) (\<lambda>_.
       ret row))))) (\<lambda>row.
     bind (gets (repo_users_role_names_by_user (u_id row))) (\<lambda>names.
     ret (user_response_of row names)))))))))))))"

definition svc_users_update ::
    "env \<Rightarrow> int \<Rightarrow> actor_context option \<Rightarrow> update_user_request \<Rightarrow> bool \<Rightarrow> bool \<Rightarrow> user_response svc" where
  "svc_users_update E i actor req can_grant_super_admin can_assign_department =
     (let actor_user_id = map_option user_id actor;
          display_name = map_option trim (uu_display_name req);
          status_revokes_sessions = (case uu_status req of None \<Rightarrow> False | Some s \<Rightarrow> s \<noteq> ''active'') in
     bind (ensure_actor_can_access actor i) (\<lambda>_.
     bind (case (actor, uu_department_id req) of
             (Some a, Some dept) \<Rightarrow>
               bind (ensure can_assign_department
                       (Forbidden (UserMsg DepartmentDirectoryPermissionMissing))) (\<lambda>_.
               bind (ensure (\<not> (user_id a = i \<and> department_id a \<noteq> Some dept))
                       (Forbidden (UserMsg CannotMoveOwnDepartment))) (\<lambda>_.
               bind (validate_assignment a dept) (\<lambda>_.
               ret (Some dept))))
           | (None, Some dept) \<Rightarrow> ret (Some dept)
           | (_, None) \<Rightarrow> ret None) (\<lambda>dept.
     bind (ensure (case display_name of None \<Rightarrow> True | Some v \<Rightarrow> v \<noteq> [] \<and> length v \<le> 128)
             (Validation (UserMsg DisplayNameLength))) (\<lambda>_.
     bind (case uu_status req of None \<Rightarrow> ret ()
           | Some status \<Rightarrow>
               bind (ensure (status \<in> set user_statuses) (Validation (UserMsg UserStatusInvalid))) (\<lambda>_.
               bind (ensure (\<not> (status \<noteq> ''active'' \<and> actor_user_id = Some i))
                       (Forbidden (UserMsg CannotDeactivateSelf))) (\<lambda>_.
               if status = ''active'' then
                 bind (gets (repo_users_role_ids_by_user i)) (\<lambda>role_ids.
                 validate_role_grant_scope actor_user_id role_ids can_grant_super_admin)
               else ret ()))) (\<lambda>_.
     bind (map_opt (\<lambda>password. bind (validate_password password) (\<lambda>_. hash_password E 0 password))
             (uu_password req)) (\<lambda>password_hash.
     let (email_is_set, raw_email) = nullable_patch_of (uu_email req);
         email = (case raw_email of None \<Rightarrow> None | Some v \<Rightarrow> if trim v = [] then None else Some (trim v));
         password_reset = (password_hash \<noteq> None) in
     bind (transaction (
       bind (if status_revokes_sessions then protect_last_super_admin i else ret ()) (\<lambda>_.
       bind (case password_hash of None \<Rightarrow> ret ()
             | Some hash \<Rightarrow>
                 bind (map_err db_error (repo_users_update_password E i hash)) (\<lambda>row.
                 bind (ok_or row (NotFound (UserMsg UserNotFound))) (\<lambda>_. ret ()))) (\<lambda>_.
       bind (map_err db_error (repo_users_update_profile E i display_name email_is_set email
               (uu_status req) dept)) (\<lambda>row.
       bind (ok_or row (NotFound (UserMsg UserNotFound))) (\<lambda>row.
       bind (if password_reset \<or> status_revokes_sessions then
               bind (map_err db_error (repo_sessions_revoke_all_for_user E i)) (\<lambda>revoked_sessions.
               record_session_revocation E actor_user_id i
                 (if password_reset then ''admin_password_reset'' else ''account_status_changed'')
                 revoked_sessions)
             else ret ()) (\<lambda>_.
       bind (map_err db_error (audit_record E actor_user_id ''user.update'' ''user'' (Some i)
               (JObj [(''displayNameChanged'', JBool (uu_display_name req \<noteq> None)),
                      (''emailChanged'', JBool (uu_email req \<noteq> Missing)),
                      (''status'', json_opt JStr (uu_status req)),
                      (''departmentId'', json_opt JInt (uu_department_id req)),
                      (''passwordReset'', JBool (uu_password req \<noteq> None))]))) (\<lambda>_.
       ret row)))))))) (\<lambda>row.
     bind (gets (repo_users_role_names_by_user i)) (\<lambda>names.
     ret (user_response_of row names)))))))))"

text \<open>The body that \<open>delete\<close> and \<open>delete_many\<close> run for one user.\<close>

definition delete_one :: "env \<Rightarrow> db \<Rightarrow> int option \<Rightarrow> int \<Rightarrow> unit svc" where
  "delete_one E pool actor_user_id i =
     bind (protect_last_super_admin i) (\<lambda>_.
     let previous_role_ids = repo_users_role_ids_by_user i pool in
     bind (map_err db_error (repo_users_soft_delete E i)) (\<lambda>deleted.
     bind (ensure deleted (NotFound (UserMsg UserNotFound))) (\<lambda>_.
     bind (map_err db_error (repo_sessions_revoke_all_for_user E i)) (\<lambda>revoked_sessions.
     bind (record_session_revocation E actor_user_id i ''account_deleted'' revoked_sessions) (\<lambda>_.
     map_err db_error (audit_record E actor_user_id ''user.delete'' ''user'' (Some i)
       (JObj [(''previousRoleIds'', JArr (map JInt previous_role_ids))])))))))"

definition svc_users_delete :: "env \<Rightarrow> int \<Rightarrow> actor_context option \<Rightarrow> unit svc" where
  "svc_users_delete E i actor =
     bind (ensure_actor_can_access actor i) (\<lambda>_.
     bind (ensure (map_option user_id actor \<noteq> Some i) (Forbidden (UserMsg CannotDeleteSelf))) (\<lambda>_.
     bind (gets (\<lambda>db. db)) (\<lambda>pool.
     transaction (delete_one E pool (map_option user_id actor) i))))"

definition svc_users_delete_many :: "env \<Rightarrow> actor_context option \<Rightarrow> int list \<Rightarrow> unit svc" where
  "svc_users_delete_many E actor user_ids =
     bind (ok_or actor (Forbidden (BatchMsg AuthenticatedUserRequired))) (\<lambda>actor.
     bind (validate_batch_user_ids user_ids (user_id actor)) (\<lambda>_.
     bind (for_each user_ids (ensure_actor_can_access (Some actor))) (\<lambda>_.
     bind (gets (\<lambda>db. db)) (\<lambda>pool.
     transaction (for_each user_ids (delete_one E pool (Some (user_id actor))))))))"

text \<open>The body that \<open>assign_roles\<close> and \<open>assign_roles_many\<close> run for one user.\<close>

definition assign_one ::
    "env \<Rightarrow> int option \<Rightarrow> int option \<Rightarrow> int list \<Rightarrow> db \<Rightarrow> int \<Rightarrow> unit svc" where
  "assign_one E actor_user_id super_admin_role_id role_ids pool i =
     (let previous_role_ids = repo_users_role_ids_by_user i pool in
     bind (if case super_admin_role_id of None \<Rightarrow> False | Some r \<Rightarrow> r \<in> set role_ids then ret ()
           else protect_last_super_admin i) (\<lambda>_.
     bind (map_err db_error (repo_users_assign_roles i role_ids)) (\<lambda>_.
     bind (case super_admin_role_id of None \<Rightarrow> ret ()
           | Some r \<Rightarrow>
               if (r \<in> set previous_role_ids) \<noteq> (r \<in> set role_ids) then
                 map_err db_error (audit_record E actor_user_id ''auth.mfa.policy.changed'' ''user''
                   (Some i) (JObj [(''required'', JBool (r \<in> set role_ids))]))
               else ret ()) (\<lambda>_.
     map_err db_error (audit_record E actor_user_id ''user.roles.update'' ''user'' (Some i)
       (JObj [(''previousRoleIds'', JArr (map JInt previous_role_ids)),
              (''roleIds'', JArr (map JInt role_ids))]))))))"

definition svc_users_assign_roles ::
    "env \<Rightarrow> actor_context option \<Rightarrow> int \<Rightarrow> int list \<Rightarrow> bool \<Rightarrow> unit svc" where
  "svc_users_assign_roles E actor uid role_ids can_grant_super_admin =
     bind (ensure_actor_can_access actor uid) (\<lambda>_.
     bind (gets (repo_roles_id_by_code ''super_admin'')) (\<lambda>super_admin_role_id.
     bind (validate_role_grant_scope (map_option user_id actor) role_ids can_grant_super_admin) (\<lambda>_.
     bind (gets (\<lambda>db. db)) (\<lambda>pool.
     transaction (assign_one E (map_option user_id actor) super_admin_role_id role_ids pool uid)))))"

definition svc_users_assign_roles_many ::
    "env \<Rightarrow> actor_context option \<Rightarrow> int list \<Rightarrow> int list \<Rightarrow> bool \<Rightarrow> unit svc" where
  "svc_users_assign_roles_many E actor user_ids role_ids can_grant_super_admin =
     bind (ok_or actor (Forbidden (BatchMsg AuthenticatedUserRequired))) (\<lambda>actor.
     bind (validate_batch_user_ids user_ids (user_id actor)) (\<lambda>_.
     bind (validate_role_grant_scope (Some (user_id actor)) role_ids can_grant_super_admin) (\<lambda>_.
     bind (for_each user_ids (ensure_actor_can_access (Some actor))) (\<lambda>_.
     bind (gets (repo_roles_id_by_code ''super_admin'')) (\<lambda>super_admin_role_id.
     bind (gets (\<lambda>db. db)) (\<lambda>pool.
     transaction (for_each user_ids
       (assign_one E (Some (user_id actor)) super_admin_role_id role_ids pool))))))))"

end
