(* ===== verification/Svc_Roles.thy ===== *)
theory Svc_Roles
  imports Svc_Users
begin

text \<open>
  \<open>backend/src/services/roles.rs\<close>: role writes under the actor's data scope and permissions, the
  protection of the built-in super administrator role, and the assignment of permissions with
  their dependencies.
\<close>

section \<open>Requests\<close>

record role_response = role_row +
  rr_permission_group_ids :: "int list"

record create_role_request =
  cr_code :: string
  cr_name :: string
  cr_category :: "string option"
  cr_icon :: "string option"
  cr_color :: "string option"
  cr_description :: "string option"
  cr_data_scope :: "string option"
  cr_permission_ids :: "int list option"

record update_role_request =
  uq_name :: "string option"
  uq_category :: "string option"
  uq_icon :: "string nullable_patch"
  uq_color :: "string option"
  uq_description :: "string nullable_patch"
  uq_data_scope :: "string option"
  uq_is_active :: "bool option"

definition nullable_text_update_of :: "string nullable_patch \<Rightarrow> nullable_text_update" where
  "nullable_text_update_of patch =
     (case patch of Missing \<Rightarrow> Unchanged | Null \<Rightarrow> Set None | Value v \<Rightarrow> Set (Some v))"

section \<open>Reads\<close>

definition to_response :: "role_row \<Rightarrow> role_response svc" where
  "to_response row =
     bind (gets (repo_roles_permission_group_ids_by_role (r_id row))) (\<lambda>ids.
     ret (role_row.extend row \<lparr>rr_permission_group_ids = ids\<rparr>))"

definition list_response :: "role_with_permissions_row \<Rightarrow> role_response" where
  "list_response row =
     role_row.extend (role_row.truncate row) \<lparr>rr_permission_group_ids = r_permission_group_ids row\<rparr>"

definition svc_roles_list :: "role_response list svc" where
  "svc_roles_list = bind (gets repo_roles_list_all) (\<lambda>rows. ret (map list_response rows))"

definition svc_roles_get :: "int \<Rightarrow> role_response svc" where
  "svc_roles_get i =
     bind (gets (repo_roles_find_by_id i)) (\<lambda>row.
     bind (ok_or row (NotFound (RoleMsg RoleNotFound))) to_response)"

definition svc_roles_get_permissions :: "int \<Rightarrow> int list svc" where
  "svc_roles_get_permissions i =
     bind (gets (repo_roles_find_by_id i)) (\<lambda>row.
     bind (ok_or row (NotFound (RoleMsg RoleNotFound))) (\<lambda>_.
     gets (repo_roles_permission_ids_by_role i)))"

section \<open>Validation\<close>

definition role_code_char :: "char \<Rightarrow> bool" where
  "role_code_char c \<longleftrightarrow> is_ascii_lowercase c \<or> is_ascii_digit c \<or> c = CHR ''_''"

definition validate_data_scope :: "string \<Rightarrow> data_scope svc" where
  "validate_data_scope scope =
     bind (ensure (scope \<in> set data_scopes) (Validation (RoleMsg DataScopeInvalid))) (\<lambda>_.
     ok_or (from_database scope) (Internal InvalidDataScope))"

definition validate_data_scope_grant :: "data_scope \<Rightarrow> data_scope \<Rightarrow> unit svc" where
  "validate_data_scope_grant actor_data_scope requested_scope =
     ensure (can_grant actor_data_scope requested_scope) (Forbidden (RoleMsg DataScopeExceedsActor))"

definition validate_permission_dependencies :: "int list \<Rightarrow> string set svc" where
  "validate_permission_dependencies permission_ids =
     bind (ensure (card (set permission_ids) = length permission_ids)
             (Validation (PermMsg PermissionListDuplicates))) (\<lambda>_.
     bind (gets (repo_permissions_codes_by_ids permission_ids)) (\<lambda>codes.
     bind (ensure (card codes = card (set permission_ids))
             (Validation (PermMsg PermissionListUnknown))) (\<lambda>_.
     bind (ensure (\<not> (RolePermissionWrite \<in> codes \<and> (RoleRead \<notin> codes \<or> PermissionRead \<notin> codes)))
             (Validation (PermMsg RolePermissionDependency))) (\<lambda>_.
     bind (ensure (\<not> (DepartmentWrite \<in> codes \<and> DepartmentRead \<notin> codes))
             (Validation (PermMsg DepartmentPermissionDependency))) (\<lambda>_.
     ret codes)))))"

definition validate_permission_grant_scope :: "int option \<Rightarrow> string set \<Rightarrow> unit svc" where
  "validate_permission_grant_scope actor_user_id requested_permissions =
     (case actor_user_id of None \<Rightarrow> ret ()
      | Some uid \<Rightarrow>
          bind (gets (repo_permissions_permission_codes_by_user uid)) (\<lambda>actor_permissions.
          ensure (requested_permissions \<subseteq> actor_permissions)
            (Forbidden (PermMsg PermissionExceedsActor))))"

section \<open>Writes\<close>

text \<open>
  \<open>create\<close> reads the actor's permissions on the pool while its transaction holds the new role;
  the new role has no members, so the answer is the one before the transaction.
\<close>

definition on_pool :: "db \<Rightarrow> 'a svc \<Rightarrow> 'a svc" where
  "on_pool pool m = lift (fst (m pool))"

definition svc_roles_create ::
    "env \<Rightarrow> int option \<Rightarrow> data_scope \<Rightarrow> create_role_request \<Rightarrow> bool \<Rightarrow> role_response svc" where
  "svc_roles_create E actor_user_id actor_data_scope req can_assign_permissions =
     (let code = trim (cr_code req); color = coalesce (cr_color req) ''neutral'';
          category = coalesce (cr_category req) ''general'' in
     bind (ensure (3 \<le> length code \<and> length code \<le> 64 \<and> code \<noteq> [] \<and> is_ascii_lowercase (hd code) \<and>
                   list_all role_code_char code) (Validation (RoleMsg RoleCodeInvalid))) (\<lambda>_.
     bind (ensure (trim (cr_name req) \<noteq> []) (Validation (RoleMsg RoleNameEmpty))) (\<lambda>_.
     bind (ensure (color \<in> set role_colors) (Validation (RoleMsg RoleColorInvalid))) (\<lambda>_.
     bind (validate_data_scope (coalesce (cr_data_scope req) ''self'')) (\<lambda>scope.
     bind (validate_data_scope_grant actor_data_scope scope) (\<lambda>_.
     bind (gets (\<lambda>db. db)) (\<lambda>pool.
     bind (transaction (
       bind (map_err db_error (repo_roles_create E
               \<lparr>nr_code = code, nr_name = trim (cr_name req), nr_category = category,
                nr_icon = cr_icon req, nr_color = Some color, nr_description = cr_description req,
                nr_data_scope = as_str scope\<rparr>)) (\<lambda>i.
       bind (case cr_permission_ids req of None \<Rightarrow> ret ()
             | Some permission_ids \<Rightarrow>
                 bind (ensure (permission_ids = [] \<or> can_assign_permissions)
                         (Forbidden (RoleMsg RolePermissionAssignForbidden))) (\<lambda>_.
                 bind (validate_permission_dependencies permission_ids) (\<lambda>permission_codes.
                 bind (on_pool pool (validate_permission_grant_scope actor_user_id permission_codes)) (\<lambda>_.
                 map_err db_error (repo_roles_assign_permissions i permission_ids))))) (\<lambda>_.
       bind (map_err db_error (audit_record E actor_user_id ''role.create'' ''role'' (Some i)
               (JObj [(''code'', JStr code), (''name'', JStr (trim (cr_name req))),
                      (''dataScope'', JStr (as_str scope)),
                      (''permissionIds'', JArr (map JInt (coalesce (cr_permission_ids req) [])))]))) (\<lambda>_.
       ret i))))) (\<lambda>i.
     svc_roles_get i))))))))"

definition svc_roles_update ::
    "env \<Rightarrow> int option \<Rightarrow> data_scope \<Rightarrow> int \<Rightarrow> update_role_request \<Rightarrow> role_response svc" where
  "svc_roles_update E actor_user_id actor_data_scope i req =
     (let name = map_option trim (uq_name req); category = map_option trim (uq_category req) in
     bind (ensure (name \<noteq> Some []) (Validation (RoleMsg RoleNameEmpty))) (\<lambda>_.
     bind (ensure (category \<noteq> Some []) (Validation (RoleMsg RoleCategoryEmpty))) (\<lambda>_.
     bind (if uq_is_active req = Some False then
             bind (gets (repo_roles_find_by_id i)) (\<lambda>row.
             bind (ok_or row (NotFound (RoleMsg RoleNotFound))) (\<lambda>role.
             ensure (r_code role \<noteq> ''super_admin'') (Forbidden (RoleMsg SuperAdminRoleNotDeactivatable))))
           else ret ()) (\<lambda>_.
     bind (case uq_data_scope req of None \<Rightarrow> ret ()
           | Some scope \<Rightarrow>
               bind (validate_data_scope scope) (\<lambda>requested_scope.
               bind (validate_data_scope_grant actor_data_scope requested_scope) (\<lambda>_.
               bind (gets (repo_roles_find_by_id i)) (\<lambda>row.
               bind (ok_or row (NotFound (RoleMsg RoleNotFound))) (\<lambda>role.
               ensure (\<not> (r_code role = ''super_admin'' \<and> scope \<noteq> ''all''))
                 (Forbidden (RoleMsg SuperAdminRoleScopeFixed))))))) (\<lambda>_.
     bind (if uq_is_active req = Some True then
             bind (gets (repo_permissions_codes_by_role_ids [i])) (\<lambda>permission_codes.
             validate_permission_grant_scope actor_user_id permission_codes)
           else ret ()) (\<lambda>_.
     bind (ensure (case uq_color req of None \<Rightarrow> True | Some c \<Rightarrow> c \<in> set role_colors)
             (Validation (RoleMsg RoleColorInvalid))) (\<lambda>_.
     bind (transaction (
       bind (map_err db_error (repo_roles_update E i
               \<lparr>ru_name = name, ru_category = category, ru_icon = nullable_text_update_of (uq_icon req),
                ru_color = uq_color req, ru_description = nullable_text_update_of (uq_description req),
                ru_data_scope = uq_data_scope req, ru_is_active = uq_is_active req\<rparr>)) (\<lambda>updated.
       bind (ensure updated (NotFound (RoleMsg RoleNotFound))) (\<lambda>_.
       map_err db_error (audit_record E actor_user_id ''role.update'' ''role'' (Some i)
         (JObj [(''name'', json_opt JStr (uq_name req)), (''category'', json_opt JStr (uq_category req)),
                (''color'', json_opt JStr (uq_color req)),
                (''dataScope'', json_opt JStr (uq_data_scope req)),
                (''isActive'', json_opt JBool (uq_is_active req))])))))) (\<lambda>_.
     svc_roles_get i))))))))"

definition svc_roles_delete :: "env \<Rightarrow> int option \<Rightarrow> int \<Rightarrow> unit svc" where
  "svc_roles_delete E actor_user_id i =
     bind (gets (repo_roles_find_by_id i)) (\<lambda>row.
     bind (ok_or row (NotFound (RoleMsg RoleNotFound))) (\<lambda>row.
     bind (ensure (r_code row \<noteq> ''super_admin'') (Forbidden (RoleMsg SuperAdminRoleNotDeletable))) (\<lambda>_.
     bind (ensure (r_members row \<le> 0) (Conflict (RoleMsg RoleHasMembers))) (\<lambda>_.
     transaction (
       bind (map_err db_error (repo_roles_delete_if_unassigned i)) (\<lambda>deleted.
       bind (ensure deleted (Conflict (RoleMsg RoleHasMembers))) (\<lambda>_.
       map_err db_error (audit_record E actor_user_id ''role.delete'' ''role'' (Some i) (JObj [])))))))))"

definition svc_roles_assign_permissions :: "env \<Rightarrow> int option \<Rightarrow> int \<Rightarrow> int list \<Rightarrow> unit svc" where
  "svc_roles_assign_permissions E actor_user_id i permission_ids =
     bind (gets (repo_roles_find_by_id i)) (\<lambda>row.
     bind (ok_or row (NotFound (RoleMsg RoleNotFound))) (\<lambda>role.
     bind (ensure (r_code role \<noteq> ''super_admin'') (Forbidden (RoleMsg SuperAdminRolePermissionsFixed))) (\<lambda>_.
     transaction (
       bind (validate_permission_dependencies permission_ids) (\<lambda>permission_codes.
       bind (validate_permission_grant_scope actor_user_id permission_codes) (\<lambda>_.
       bind (gets (repo_roles_permission_ids_by_role i)) (\<lambda>previous_permission_ids.
       bind (map_err db_error (repo_roles_assign_permissions i permission_ids)) (\<lambda>_.
       map_err db_error (audit_record E actor_user_id ''role.permissions.update'' ''role'' (Some i)
         (JObj [(''previousPermissionIds'', JArr (map JInt previous_permission_ids)),
                (''permissionIds'', JArr (map JInt permission_ids))]))))))))))"

end
