(* ===== verification/Svc_Queries.thy ===== *)
theory Svc_Queries
  imports Svc_Users
begin

text \<open>
  The read-only services: \<open>backend/src/services/audit_logs.rs\<close> (paging with a cursor) and
  \<open>backend/src/services/permissions.rs\<close> (the permission tree and the dashboard counts). The
  construction of a timestamp from microseconds (\<open>chrono::DateTime::from_timestamp_micros\<close>) is a
  parameter.
\<close>

section \<open>Audit log\<close>

record audit_log_query =
  aq_page :: "int option"
  aq_page_size :: "int option"
  aq_keyword :: "string option"
  aq_action :: "string option"
  aq_cursor :: "string option"

record page_audit_log =
  pa_items :: "audit_log_row list"
  pa_total :: int
  pa_page :: int
  pa_page_size :: int
  pa_next_cursor :: "string option"

definition parse_cursor :: "(int \<Rightarrow> time option) \<Rightarrow> string \<Rightarrow> (time \<times> int) svc" where
  "parse_cursor from_timestamp_micros cursor =
     bind (ok_or (split_once CHR ''.'' cursor) (Validation (AuthMsg CursorInvalid))) (\<lambda>(timestamp, i).
     bind (ok_or (parse_i64 timestamp) (Validation (AuthMsg CursorInvalid))) (\<lambda>timestamp.
     bind (ok_or (parse_i64 i) (Validation (AuthMsg CursorInvalid))) (\<lambda>i.
     bind (ok_or (from_timestamp_micros timestamp) (Validation (AuthMsg CursorInvalid))) (\<lambda>created_at.
     bind (ensure (i > 0) (Validation (AuthMsg CursorInvalid))) (\<lambda>_.
     ret (created_at, i))))))"

definition encode_cursor :: "audit_log_row \<Rightarrow> string" where
  "encode_cursor row = show_int (ar_created_at row) @ ''.'' @ show_int (ar_id row)"

definition nonempty_filter :: "string option \<Rightarrow> string option" where
  "nonempty_filter value =
     (case value of None \<Rightarrow> None | Some v \<Rightarrow> if trim v \<noteq> [] then Some (trim v) else None)"

definition svc_audit_list ::
    "env \<Rightarrow> (int \<Rightarrow> time option) \<Rightarrow> actor_context \<Rightarrow> audit_log_query \<Rightarrow> page_audit_log svc" where
  "svc_audit_list E from_timestamp_micros actor q =
     (let page = max 1 (coalesce (aq_page q) 1);
          page_size = clamp 1 100 (coalesce (aq_page_size q) 20);
          keyword = nonempty_filter (aq_keyword q); action = nonempty_filter (aq_action q) in
     bind (map_opt (parse_cursor from_timestamp_micros) (aq_cursor q)) (\<lambda>cursor.
     bind (query (audit_list E actor keyword action page page_size cursor)) (\<lambda>rows.
     bind (gets (audit_count E actor keyword action)) (\<lambda>total.
     let has_more = (int (length rows) > page_size);
         rows = (if has_more then butlast rows else rows);
         next_cursor = (if has_more \<and> rows \<noteq> [] then Some (encode_cursor (last rows)) else None) in
     ret \<lparr>pa_items = rows, pa_total = total, pa_page = page, pa_page_size = page_size,
          pa_next_cursor = next_cursor\<rparr>))))"

section \<open>Permissions\<close>

record permission_group_response = permission_group_row +
  gr_permissions :: "permission_row list"

definition push_permission ::
    "permission_row \<Rightarrow> permission_group_response list \<Rightarrow> permission_group_response list" where
  "push_permission p gs =
     (case find (\<lambda>g. pg_id g = p_group_id p) gs of
        None \<Rightarrow> gs
      | Some g \<Rightarrow>
          takeWhile (\<lambda>g. pg_id g \<noteq> p_group_id p) gs @
          [g\<lparr>gr_permissions := gr_permissions g @ [p]\<rparr>] @
          tl (dropWhile (\<lambda>g. pg_id g \<noteq> p_group_id p) gs))"

definition svc_permissions_groups :: "permission_group_response list svc" where
  "svc_permissions_groups =
     bind (gets repo_permissions_list_groups) (\<lambda>group_rows.
     bind (gets repo_permissions_list_permissions) (\<lambda>permission_rows.
     ret (fold push_permission permission_rows
            (map (\<lambda>g. permission_group_row.extend g \<lparr>gr_permissions = []\<rparr>) group_rows))))"

definition svc_permissions_stats :: "actor_context \<Rightarrow> dashboard_stats_row svc" where
  "svc_permissions_stats actor = gets (repo_permissions_stats actor)"

end
