(* ===== verification/Handlers.thy ===== *)
theory Handlers
  imports Svc_Login Svc_Roles Svc_Queries
begin

text \<open>
  \<open>backend/src/handlers\<close>: each handler authenticates the request through its extractor, checks
  the permissions the body needs, consumes a step-up grant or requires a module unlock, and calls
  the service. The routes of \<open>backend/src/lib.rs\<close> are the constructors of \<open>api_call\<close>; \<open>serve\<close>
  dispatches a call to its handler, and \<open>perform\<close> is the effect of a call on the database. The
  bootstrap binary is a call of its own: it has no request to authenticate.
\<close>

section \<open>Application state\<close>

record 'net app_state =
  app_auth :: "'net auth_session_config"
  app_mfa :: mfa_config
  app_contains :: "'net \<Rightarrow> ip_addr \<Rightarrow> bool"
  app_from_micros :: "int \<Rightarrow> time option"

datatype body =
    NoBody
  | LoginBody login_response
  | UserBody user_response
  | PageUserBody page_user
  | RoleBody role_response
  | RolesBody "role_response list"
  | IdsBody "int list"
  | DepartmentBody department_row
  | DepartmentsBody "department_row list"
  | GroupsBody "permission_group_response list"
  | StatsBody dashboard_stats_row
  | AuditBody page_audit_log
  | CodesBody "string set"
  | StepUpBody step_up_response
  | UnlockBody module_unlock_status_response
  | MfaStatusBody mfa_status_response
  | WebauthnBody mfa_webauthn_challenge_response
  | RecoveryCodesBody "string list"

record reply =
  rp_status :: status_code
  rp_body :: body
  rp_jar :: "cookie_jar option"
  rp_no_store :: bool

definition json_reply :: "body \<Rightarrow> reply" where
  "json_reply b = \<lparr>rp_status = OK_200, rp_body = b, rp_jar = None, rp_no_store = False\<rparr>"

definition created :: "body \<Rightarrow> reply" where
  "created b = \<lparr>rp_status = CREATED_201, rp_body = b, rp_jar = None, rp_no_store = False\<rparr>"

definition no_content :: reply where
  "no_content = \<lparr>rp_status = NO_CONTENT_204, rp_body = NoBody, rp_jar = None, rp_no_store = False\<rparr>"

definition cleared :: "'net app_state \<Rightarrow> request \<Rightarrow> reply \<Rightarrow> reply" where
  "cleared st rq r =
     r\<lparr>rp_jar := Some (clear_session_cookies (rq_jar rq) (secure_cookies (app_auth st)))\<rparr>"

definition auth_user :: "env \<Rightarrow> 'net app_state \<Rightarrow> request \<Rightarrow> actor_context svc" where
  "auth_user E st rq = authenticate E (secure_cookies (app_auth st)) rq"

definition permitted :: "env \<Rightarrow> 'net app_state \<Rightarrow> string \<Rightarrow> request \<Rightarrow> actor_context svc" where
  "permitted E st code rq = require_permission E (secure_cookies (app_auth st)) code rq"

definition step_up :: "env \<Rightarrow> actor_context \<Rightarrow> request \<Rightarrow> string \<Rightarrow> unit svc" where
  "step_up E actor rq scope = step_up_consume E (session_id actor) (user_id actor) rq scope"

definition unlocked :: "env \<Rightarrow> actor_context \<Rightarrow> string \<Rightarrow> unit svc" where
  "unlocked E actor module = module_unlock_require E (session_id actor) (user_id actor) module"

section \<open>Authentication\<close>

definition set_login_response ::
    "'net app_state \<Rightarrow> request \<Rightarrow> login_session_outcome \<Rightarrow> reply" where
  "set_login_response st rq outcome =
     \<lparr>rp_status = OK_200, rp_body = LoginBody (lo_response outcome),
      rp_jar = Some (set_session_cookies (rq_jar rq) (lo_session_token outcome)
        (lo_csrf_token outcome) (lo_persistent outcome) (lo_ttl_secs outcome)
        (secure_cookies (app_auth st))),
      rp_no_store = True\<rparr>"

definition h_login :: "env \<Rightarrow> 'net app_state \<Rightarrow> request \<Rightarrow> ip_addr \<Rightarrow> login_request \<Rightarrow> reply svc" where
  "h_login E st rq peer req =
     (let client_ip = resolve_client_ip (app_contains st) peer rq (trusted_proxy_cidrs (app_auth st)) in
      bind (login E (app_auth st) (app_mfa st) req client_ip) (\<lambda>outcome.
      case outcome of
        LoginAuthenticated o' \<Rightarrow> ret (set_login_response st rq o')
      | LoginMfaRequired response \<Rightarrow>
          ret \<lparr>rp_status = OK_200, rp_body = LoginBody response, rp_jar = Some (rq_jar rq),
               rp_no_store = True\<rparr>))"

definition h_logout :: "env \<Rightarrow> 'net app_state \<Rightarrow> request \<Rightarrow> reply svc" where
  "h_logout E st rq =
     bind (auth_user E st rq) (\<lambda>auth.
     bind (logout E (user_id auth) (session_id auth)) (\<lambda>_.
     ret (cleared st rq no_content)))"

definition h_me :: "env \<Rightarrow> 'net app_state \<Rightarrow> request \<Rightarrow> reply svc" where
  "h_me E st rq =
     bind (auth_user E st rq) (\<lambda>auth.
     bind (me (user_id auth)) (\<lambda>user.
     ret (json_reply (UserBody user))))"

definition h_change_password ::
    "env \<Rightarrow> 'net app_state \<Rightarrow> request \<Rightarrow> change_password_request \<Rightarrow> reply svc" where
  "h_change_password E st rq req =
     bind (auth_user E st rq) (\<lambda>auth.
     bind (step_up E auth rq password_change_scope) (\<lambda>_.
     bind (change_password E (user_id auth) req) (\<lambda>_.
     ret (cleared st rq no_content))))"

definition h_step_up :: "env \<Rightarrow> 'net app_state \<Rightarrow> request \<Rightarrow> step_up_request \<Rightarrow> reply svc" where
  "h_step_up E st rq req =
     bind (auth_user E st rq) (\<lambda>auth.
     bind (step_up_issue E (app_mfa st) (session_id auth) (user_id auth) req) (\<lambda>r.
     ret (json_reply (StepUpBody r))))"

definition h_module_unlock_status :: "env \<Rightarrow> 'net app_state \<Rightarrow> request \<Rightarrow> string \<Rightarrow> reply svc" where
  "h_module_unlock_status E st rq module =
     bind (auth_user E st rq) (\<lambda>auth.
     bind (module_unlock_status E (session_id auth) (user_id auth) module) (\<lambda>r.
     ret (json_reply (UnlockBody r))))"

definition h_module_unlock ::
    "env \<Rightarrow> 'net app_state \<Rightarrow> request \<Rightarrow> module_unlock_request \<Rightarrow> reply svc" where
  "h_module_unlock E st rq req =
     bind (auth_user E st rq) (\<lambda>auth.
     bind (module_unlock_issue E (app_mfa st) (session_id auth) (user_id auth) req) (\<lambda>r.
     ret (json_reply (UnlockBody r))))"

definition h_me_permissions :: "env \<Rightarrow> 'net app_state \<Rightarrow> request \<Rightarrow> reply svc" where
  "h_me_permissions E st rq =
     bind (auth_user E st rq) (\<lambda>auth.
     ret (json_reply (CodesBody (permission_codes auth))))"

definition h_verify_totp :: "env \<Rightarrow> 'net app_state \<Rightarrow> request \<Rightarrow> string \<Rightarrow> string \<Rightarrow> reply svc" where
  "h_verify_totp E st rq challenge_token code =
     bind (verify_totp E (app_auth st) (app_mfa st) challenge_token code) (\<lambda>outcome.
     ret (set_login_response st rq outcome))"

definition h_verify_recovery_code ::
    "env \<Rightarrow> 'net app_state \<Rightarrow> request \<Rightarrow> string \<Rightarrow> string \<Rightarrow> reply svc" where
  "h_verify_recovery_code E st rq challenge_token code =
     bind (verify_recovery_login E (app_auth st) challenge_token code) (\<lambda>outcome.
     ret (set_login_response st rq outcome))"

definition h_start_passkey_authentication ::
    "env \<Rightarrow> 'net app_state \<Rightarrow> request \<Rightarrow> string \<Rightarrow> reply svc" where
  "h_start_passkey_authentication E st rq challenge_token =
     bind (start_passkey_authentication E (app_mfa st) challenge_token) (\<lambda>r.
     ret (json_reply (WebauthnBody r)))"

definition h_finish_passkey_authentication ::
    "env \<Rightarrow> 'net app_state \<Rightarrow> request \<Rightarrow> string \<Rightarrow> json \<Rightarrow> reply svc" where
  "h_finish_passkey_authentication E st rq challenge_token credential =
     bind (finish_passkey_authentication E (app_auth st) (app_mfa st) challenge_token credential) (\<lambda>outcome.
     ret (set_login_response st rq outcome))"

definition h_mfa_status :: "env \<Rightarrow> 'net app_state \<Rightarrow> request \<Rightarrow> reply svc" where
  "h_mfa_status E st rq =
     bind (auth_user E st rq) (\<lambda>auth.
     bind (mfa_status (user_id auth)) (\<lambda>r.
     ret (json_reply (MfaStatusBody r))))"

definition h_start_passkey_registration ::
    "env \<Rightarrow> 'net app_state \<Rightarrow> request \<Rightarrow> mfa_passkey_registration_start_request \<Rightarrow> reply svc" where
  "h_start_passkey_registration E st rq req =
     bind (auth_user E st rq) (\<lambda>auth.
     bind (me (user_id auth)) (\<lambda>user.
     bind (start_passkey_registration E (app_mfa st) user req) (\<lambda>r.
     ret (json_reply (WebauthnBody r)))))"

definition h_finish_passkey_registration ::
    "env \<Rightarrow> 'net app_state \<Rightarrow> request \<Rightarrow> string \<Rightarrow> json \<Rightarrow> reply svc" where
  "h_finish_passkey_registration E st rq challenge_token credential =
     bind (auth_user E st rq) (\<lambda>auth.
     bind (finish_passkey_registration E (app_mfa st) (user_id auth) challenge_token credential) (\<lambda>r.
     ret (json_reply (MfaStatusBody r))))"

definition h_revoke_passkey ::
    "env \<Rightarrow> 'net app_state \<Rightarrow> request \<Rightarrow> int \<Rightarrow> mfa_factor_revoke_request \<Rightarrow> reply svc" where
  "h_revoke_passkey E st rq passkey_id req =
     bind (auth_user E st rq) (\<lambda>auth.
     bind (revoke_passkey E (app_mfa st) (user_id auth) passkey_id req) (\<lambda>_.
     ret (cleared st rq no_content)))"

definition h_regenerate_recovery_codes ::
    "env \<Rightarrow> 'net app_state \<Rightarrow> request \<Rightarrow> mfa_factor_revoke_request \<Rightarrow> reply svc" where
  "h_regenerate_recovery_codes E st rq req =
     bind (auth_user E st rq) (\<lambda>auth.
     bind (regenerate_recovery_codes E (app_mfa st) (user_id auth) req) (\<lambda>codes.
     ret ((cleared st rq (json_reply (RecoveryCodesBody codes)))\<lparr>rp_no_store := True\<rparr>)))"

section \<open>Users\<close>

definition grant_super_admin_code :: string where
  "grant_super_admin_code = ''user:super_admin:grant''"

definition reset_password_code :: string where
  "reset_password_code = ''user:admin:reset_password''"

definition require_if :: "bool \<Rightarrow> actor_context \<Rightarrow> string \<Rightarrow> unit svc" where
  "require_if b actor code = (if b then require_code actor code else ret ())"

definition h_users_list :: "env \<Rightarrow> 'net app_state \<Rightarrow> request \<Rightarrow> page_query \<Rightarrow> reply svc" where
  "h_users_list E st rq q =
     bind (permitted E st UserRead rq) (\<lambda>auth.
     bind (svc_users_list E auth q) (\<lambda>r. ret (json_reply (PageUserBody r))))"

definition h_users_get :: "env \<Rightarrow> 'net app_state \<Rightarrow> request \<Rightarrow> int \<Rightarrow> reply svc" where
  "h_users_get E st rq i =
     bind (permitted E st UserRead rq) (\<lambda>auth.
     bind (svc_users_get auth i) (\<lambda>r. ret (json_reply (UserBody r))))"

definition not_active :: "string option \<Rightarrow> bool" where
  "not_active status = (case status of None \<Rightarrow> False | Some s \<Rightarrow> s \<noteq> ''active'')"

definition h_users_create ::
    "env \<Rightarrow> 'net app_state \<Rightarrow> request \<Rightarrow> create_user_request \<Rightarrow> reply svc" where
  "h_users_create E st rq req =
     (let assigns_roles = (coalesce (cu_role_ids req) [] \<noteq> []) in
     bind (permitted E st UserWrite rq) (\<lambda>auth.
     bind (require_if assigns_roles auth UserRoleWrite) (\<lambda>_.
     bind (require_if (not_active (cu_status req)) auth UserDeactivate) (\<lambda>_.
     bind (require_if (cu_department_id req \<noteq> None) auth DepartmentRead) (\<lambda>_.
     bind (if assigns_roles \<or> not_active (cu_status req) \<or>
              (cu_department_id req \<noteq> None \<and> department_id auth \<noteq> cu_department_id req)
           then step_up E auth rq users_sensitive_scope
           else unlocked E auth users_module) (\<lambda>_.
     bind (svc_users_create E auth req (has_permission auth grant_super_admin_code)
             (has_permission auth DepartmentRead)) (\<lambda>user.
     ret (created (UserBody user)))))))))"

definition h_users_update ::
    "env \<Rightarrow> 'net app_state \<Rightarrow> request \<Rightarrow> int \<Rightarrow> update_user_request \<Rightarrow> reply svc" where
  "h_users_update E st rq i req =
     bind (permitted E st UserWrite rq) (\<lambda>auth.
     bind (require_if (uu_password req \<noteq> None) auth reset_password_code) (\<lambda>_.
     bind (require_if (uu_status req \<noteq> None) auth UserDeactivate) (\<lambda>_.
     bind (require_if (uu_department_id req \<noteq> None) auth DepartmentRead) (\<lambda>_.
     bind (if uu_password req \<noteq> None \<or> uu_status req \<noteq> None \<or> uu_department_id req \<noteq> None
           then step_up E auth rq users_sensitive_scope
           else unlocked E auth users_module) (\<lambda>_.
     bind (svc_users_update E i (Some auth) req (has_permission auth grant_super_admin_code)
             (has_permission auth DepartmentRead)) (\<lambda>user.
     ret (json_reply (UserBody user))))))))"

definition h_users_delete :: "env \<Rightarrow> 'net app_state \<Rightarrow> request \<Rightarrow> int \<Rightarrow> reply svc" where
  "h_users_delete E st rq i =
     bind (permitted E st UserDeactivate rq) (\<lambda>auth.
     bind (step_up E auth rq users_delete_scope) (\<lambda>_.
     bind (svc_users_delete E i (Some auth)) (\<lambda>_.
     ret no_content)))"

definition h_users_batch_delete :: "env \<Rightarrow> 'net app_state \<Rightarrow> request \<Rightarrow> int list \<Rightarrow> reply svc" where
  "h_users_batch_delete E st rq user_ids =
     bind (permitted E st UserDeactivate rq) (\<lambda>auth.
     bind (step_up E auth rq users_delete_scope) (\<lambda>_.
     bind (svc_users_delete_many E (Some auth) user_ids) (\<lambda>_.
     ret no_content)))"

definition h_users_assign_roles ::
    "env \<Rightarrow> 'net app_state \<Rightarrow> request \<Rightarrow> int \<Rightarrow> int list \<Rightarrow> reply svc" where
  "h_users_assign_roles E st rq i role_ids =
     bind (permitted E st UserRoleWrite rq) (\<lambda>auth.
     bind (step_up E auth rq users_roles_scope) (\<lambda>_.
     bind (svc_users_assign_roles E (Some auth) i role_ids
             (has_permission auth grant_super_admin_code)) (\<lambda>_.
     ret no_content)))"

definition h_users_batch_assign_roles ::
    "env \<Rightarrow> 'net app_state \<Rightarrow> request \<Rightarrow> int list \<Rightarrow> int list \<Rightarrow> reply svc" where
  "h_users_batch_assign_roles E st rq user_ids role_ids =
     bind (permitted E st UserRoleWrite rq) (\<lambda>auth.
     bind (step_up E auth rq users_roles_scope) (\<lambda>_.
     bind (svc_users_assign_roles_many E (Some auth) user_ids role_ids
             (has_permission auth grant_super_admin_code)) (\<lambda>_.
     ret no_content)))"

section \<open>Roles\<close>

definition h_roles_list :: "env \<Rightarrow> 'net app_state \<Rightarrow> request \<Rightarrow> reply svc" where
  "h_roles_list E st rq =
     bind (permitted E st RoleRead rq) (\<lambda>_.
     bind svc_roles_list (\<lambda>r. ret (json_reply (RolesBody r))))"

definition h_roles_get :: "env \<Rightarrow> 'net app_state \<Rightarrow> request \<Rightarrow> int \<Rightarrow> reply svc" where
  "h_roles_get E st rq i =
     bind (permitted E st RoleRead rq) (\<lambda>_.
     bind (svc_roles_get i) (\<lambda>r. ret (json_reply (RoleBody r))))"

definition h_roles_create ::
    "env \<Rightarrow> 'net app_state \<Rightarrow> request \<Rightarrow> create_role_request \<Rightarrow> reply svc" where
  "h_roles_create E st rq req =
     bind (permitted E st RoleWrite rq) (\<lambda>auth.
     bind (if coalesce (cr_permission_ids req) [] \<noteq> []
           then bind (require_code auth RolePermissionWrite) (\<lambda>_.
                step_up E auth rq roles_permissions_scope)
           else unlocked E auth roles_module) (\<lambda>_.
     bind (svc_roles_create E (Some (user_id auth)) (data_scope auth) req
             (has_permission auth RolePermissionWrite)) (\<lambda>role.
     ret (created (RoleBody role)))))"

definition h_roles_update ::
    "env \<Rightarrow> 'net app_state \<Rightarrow> request \<Rightarrow> int \<Rightarrow> update_role_request \<Rightarrow> reply svc" where
  "h_roles_update E st rq i req =
     bind (permitted E st RoleWrite rq) (\<lambda>auth.
     bind (if uq_data_scope req \<noteq> None \<or> uq_is_active req \<noteq> None
           then step_up E auth rq roles_sensitive_scope
           else unlocked E auth roles_module) (\<lambda>_.
     bind (svc_roles_update E (Some (user_id auth)) (data_scope auth) i req) (\<lambda>role.
     ret (json_reply (RoleBody role)))))"

definition h_roles_delete :: "env \<Rightarrow> 'net app_state \<Rightarrow> request \<Rightarrow> int \<Rightarrow> reply svc" where
  "h_roles_delete E st rq i =
     bind (permitted E st RoleWrite rq) (\<lambda>auth.
     bind (step_up E auth rq roles_delete_scope) (\<lambda>_.
     bind (svc_roles_delete E (Some (user_id auth)) i) (\<lambda>_.
     ret no_content)))"

definition h_roles_get_permissions :: "env \<Rightarrow> 'net app_state \<Rightarrow> request \<Rightarrow> int \<Rightarrow> reply svc" where
  "h_roles_get_permissions E st rq i =
     bind (permitted E st RoleRead rq) (\<lambda>_.
     bind (svc_roles_get_permissions i) (\<lambda>r. ret (json_reply (IdsBody r))))"

definition h_roles_put_permissions ::
    "env \<Rightarrow> 'net app_state \<Rightarrow> request \<Rightarrow> int \<Rightarrow> int list \<Rightarrow> reply svc" where
  "h_roles_put_permissions E st rq i permission_ids =
     bind (permitted E st RolePermissionWrite rq) (\<lambda>auth.
     bind (step_up E auth rq roles_permissions_scope) (\<lambda>_.
     bind (svc_roles_assign_permissions E (Some (user_id auth)) i permission_ids) (\<lambda>_.
     ret no_content)))"

section \<open>Departments\<close>

definition h_departments_list :: "env \<Rightarrow> 'net app_state \<Rightarrow> request \<Rightarrow> reply svc" where
  "h_departments_list E st rq =
     bind (permitted E st DepartmentRead rq) (\<lambda>auth.
     bind (svc_departments_list auth) (\<lambda>r. ret (json_reply (DepartmentsBody r))))"

definition h_departments_get :: "env \<Rightarrow> 'net app_state \<Rightarrow> request \<Rightarrow> int \<Rightarrow> reply svc" where
  "h_departments_get E st rq i =
     bind (permitted E st DepartmentRead rq) (\<lambda>auth.
     bind (svc_departments_get auth i) (\<lambda>r. ret (json_reply (DepartmentBody r))))"

definition h_departments_create ::
    "env \<Rightarrow> 'net app_state \<Rightarrow> request \<Rightarrow> create_department_request \<Rightarrow> reply svc" where
  "h_departments_create E st rq req =
     bind (permitted E st DepartmentWrite rq) (\<lambda>auth.
     bind (step_up E auth rq departments_write_scope) (\<lambda>_.
     bind (svc_departments_create E auth req) (\<lambda>r.
     ret (created (DepartmentBody r)))))"

definition h_departments_update ::
    "env \<Rightarrow> 'net app_state \<Rightarrow> request \<Rightarrow> int \<Rightarrow> update_department_request \<Rightarrow> reply svc" where
  "h_departments_update E st rq i req =
     bind (permitted E st DepartmentWrite rq) (\<lambda>auth.
     bind (step_up E auth rq departments_write_scope) (\<lambda>_.
     bind (svc_departments_update E auth i req) (\<lambda>r.
     ret (json_reply (DepartmentBody r)))))"

definition h_departments_delete :: "env \<Rightarrow> 'net app_state \<Rightarrow> request \<Rightarrow> int \<Rightarrow> reply svc" where
  "h_departments_delete E st rq i =
     bind (permitted E st DepartmentWrite rq) (\<lambda>auth.
     bind (step_up E auth rq departments_delete_scope) (\<lambda>_.
     bind (svc_departments_delete E auth i) (\<lambda>_.
     ret no_content)))"

section \<open>Directories\<close>

definition h_audit_list :: "env \<Rightarrow> 'net app_state \<Rightarrow> request \<Rightarrow> audit_log_query \<Rightarrow> reply svc" where
  "h_audit_list E st rq q =
     bind (permitted E st AuditLogRead rq) (\<lambda>auth.
     bind (svc_audit_list E (app_from_micros st) auth q) (\<lambda>r. ret (json_reply (AuditBody r))))"

definition h_dashboard_stats :: "env \<Rightarrow> 'net app_state \<Rightarrow> request \<Rightarrow> reply svc" where
  "h_dashboard_stats E st rq =
     bind (permitted E st DashboardRead rq) (\<lambda>auth.
     bind (svc_permissions_stats auth) (\<lambda>r. ret (json_reply (StatsBody r))))"

definition h_permission_groups :: "env \<Rightarrow> 'net app_state \<Rightarrow> request \<Rightarrow> reply svc" where
  "h_permission_groups E st rq =
     bind (permitted E st PermissionRead rq) (\<lambda>_.
     bind svc_permissions_groups (\<lambda>r. ret (json_reply (GroupsBody r))))"

section \<open>Routes\<close>

datatype api_call =
    Login ip_addr login_request
  | Logout
  | Me
  | ChangePassword change_password_request
  | StepUp step_up_request
  | ModuleUnlockStatus string
  | ModuleUnlock module_unlock_request
  | MePermissions
  | VerifyTotp string string
  | VerifyRecoveryCode string string
  | StartPasskeyAuthentication string
  | FinishPasskeyAuthentication string json
  | MfaStatus
  | StartPasskeyRegistration mfa_passkey_registration_start_request
  | FinishPasskeyRegistration string json
  | RevokePasskey int mfa_factor_revoke_request
  | RegenerateRecoveryCodes mfa_factor_revoke_request
  | UsersList page_query
  | UsersGet int
  | UsersCreate create_user_request
  | UsersUpdate int update_user_request
  | UsersDelete int
  | UsersBatchDelete "int list"
  | UsersBatchAssignRoles "int list" "int list"
  | UsersAssignRoles int "int list"
  | RolesList
  | RolesGet int
  | RolesCreate create_role_request
  | RolesUpdate int update_role_request
  | RolesDelete int
  | RolesGetPermissions int
  | RolesPutPermissions int "int list"
  | DepartmentsList
  | DepartmentsGet int
  | DepartmentsCreate create_department_request
  | DepartmentsUpdate int update_department_request
  | DepartmentsDelete int
  | PermissionGroups
  | DashboardStats
  | AuditLogs audit_log_query

primrec serve :: "env \<Rightarrow> 'net app_state \<Rightarrow> request \<Rightarrow> api_call \<Rightarrow> reply svc" where
  "serve E st rq (Login peer req) = h_login E st rq peer req"
| "serve E st rq Logout = h_logout E st rq"
| "serve E st rq Me = h_me E st rq"
| "serve E st rq (ChangePassword req) = h_change_password E st rq req"
| "serve E st rq (StepUp req) = h_step_up E st rq req"
| "serve E st rq (ModuleUnlockStatus m) = h_module_unlock_status E st rq m"
| "serve E st rq (ModuleUnlock req) = h_module_unlock E st rq req"
| "serve E st rq MePermissions = h_me_permissions E st rq"
| "serve E st rq (VerifyTotp t c) = h_verify_totp E st rq t c"
| "serve E st rq (VerifyRecoveryCode t c) = h_verify_recovery_code E st rq t c"
| "serve E st rq (StartPasskeyAuthentication t) = h_start_passkey_authentication E st rq t"
| "serve E st rq (FinishPasskeyAuthentication t c) = h_finish_passkey_authentication E st rq t c"
| "serve E st rq MfaStatus = h_mfa_status E st rq"
| "serve E st rq (StartPasskeyRegistration req) = h_start_passkey_registration E st rq req"
| "serve E st rq (FinishPasskeyRegistration t c) = h_finish_passkey_registration E st rq t c"
| "serve E st rq (RevokePasskey i req) = h_revoke_passkey E st rq i req"
| "serve E st rq (RegenerateRecoveryCodes req) = h_regenerate_recovery_codes E st rq req"
| "serve E st rq (UsersList q) = h_users_list E st rq q"
| "serve E st rq (UsersGet i) = h_users_get E st rq i"
| "serve E st rq (UsersCreate req) = h_users_create E st rq req"
| "serve E st rq (UsersUpdate i req) = h_users_update E st rq i req"
| "serve E st rq (UsersDelete i) = h_users_delete E st rq i"
| "serve E st rq (UsersBatchDelete is) = h_users_batch_delete E st rq is"
| "serve E st rq (UsersBatchAssignRoles is rs) = h_users_batch_assign_roles E st rq is rs"
| "serve E st rq (UsersAssignRoles i rs) = h_users_assign_roles E st rq i rs"
| "serve E st rq RolesList = h_roles_list E st rq"
| "serve E st rq (RolesGet i) = h_roles_get E st rq i"
| "serve E st rq (RolesCreate req) = h_roles_create E st rq req"
| "serve E st rq (RolesUpdate i req) = h_roles_update E st rq i req"
| "serve E st rq (RolesDelete i) = h_roles_delete E st rq i"
| "serve E st rq (RolesGetPermissions i) = h_roles_get_permissions E st rq i"
| "serve E st rq (RolesPutPermissions i ps) = h_roles_put_permissions E st rq i ps"
| "serve E st rq DepartmentsList = h_departments_list E st rq"
| "serve E st rq (DepartmentsGet i) = h_departments_get E st rq i"
| "serve E st rq (DepartmentsCreate req) = h_departments_create E st rq req"
| "serve E st rq (DepartmentsUpdate i req) = h_departments_update E st rq i req"
| "serve E st rq (DepartmentsDelete i) = h_departments_delete E st rq i"
| "serve E st rq PermissionGroups = h_permission_groups E st rq"
| "serve E st rq DashboardStats = h_dashboard_stats E st rq"
| "serve E st rq (AuditLogs q) = h_audit_list E st rq q"

end
