(* ===== verification/System.thy ===== *)
theory System
  imports Handlers
begin

text \<open>
  The contract between the writing operations and the whole API. A relation between database
  states that every writing operation respects is respected by every request. The locale lists
  the operations: the repository functions that the authentication services call, the creation
  of a session, and the services that write users, roles and departments (their guards are part
  of what they promise, so they are taken as a whole). The system-wide properties are
  interpretations.
\<close>

section \<open>Frames of the writing services\<close>

text \<open>
  A writing service respects a relation that ignores the tables it writes. The guards and
  validations write nothing.
\<close>

context db_relation
begin

lemma within_sum [keeps_intro]:
  "(\<And>x. within R (f x)) \<Longrightarrow> (\<And>y. within R (g y)) \<Longrightarrow>
     within R (case r of Inl x \<Rightarrow> f x | Inr y \<Rightarrow> g y)"
  by (cases r) auto

lemma within_prod [keeps_intro]:
  "(\<And>x y. within R (f x y)) \<Longrightarrow> within R (case p of (x, y) \<Rightarrow> f x y)"
  by (cases p) auto

lemma within_patch [keeps_intro]:
  "within R f \<Longrightarrow> within R g \<Longrightarrow> (\<And>y. within R (h y)) \<Longrightarrow>
     within R (case r of Missing \<Rightarrow> f | Null \<Rightarrow> g | Value y \<Rightarrow> h y)"
  by (cases r) auto

lemma within_query [keeps_intro]: "within R (query q)"
  unfolding query_def by (intro keeps_intro)

lemma within_map_opt [keeps_intro]: "(\<And>x. within R (f x)) \<Longrightarrow> within R (map_opt f v)"
  unfolding map_opt_def by (intro keeps_intro)

lemma within_guards [keeps_intro]:
  "within R (validate_password p)" "within R (hash_password E draw p)"
  "within R (validate_role_grant_scope a rs g)" "within R (protect_last_super_admin i)"
  "within R (ensure_actor_can_access oa i)" "within R (validate_batch_user_ids is i)"
  "within R (validate_assignment actor dept)" "within R (validate_parent actor dept t)"
  "within R (ensure_code_available org code x)" "within R (validate_code s)"
  "within R (validate_name s)" "within R (validate_status s)" "within R (svc_departments_get actor i)"
  "within R (validate_data_scope s)" "within R (validate_data_scope_grant sc sc')"
  "within R (validate_permission_dependencies is)" "within R (validate_permission_grant_scope a codes)"
  "within R (on_pool pool m)" "within R (svc_roles_get i)"
  unfolding validate_password_def hash_password_def validate_role_grant_scope_def
    protect_last_super_admin_def ensure_actor_can_access_def validate_batch_user_ids_def
    validate_assignment_def validate_parent_def ensure_code_available_def validate_code_def
    validate_name_def validate_status_def svc_departments_get_def validate_data_scope_def
    validate_data_scope_grant_def validate_permission_dependencies_def
    validate_permission_grant_scope_def on_pool_def svc_roles_get_def to_response_def Let_def
  by (intro keeps_intro)+

lemma within_session_revocation:
  assumes "\<And>a b c d e. within R (audit_record E a b c d e)"
  shows "within R (record_session_revocation E oid i reason n)"
  unfolding record_session_revocation_def by (intro keeps_intro assms)

lemma within_create_login_session:
  assumes "\<And>a b c d e. within R (audit_record E a b c d e)"
    and "\<And>s g. R s (users_update g s)" and "\<And>s g. R s (auth_login_attempts_update g s)"
    and "\<And>s f g. R s (sessions_seq_update g (auth_sessions_update f s))"
    and "\<And>s g. R s (auth_sessions_update g s)"
    and "\<And>s g. R s (auth_step_up_tokens_update g s)" and "\<And>s g. R s (auth_module_unlocks_update g s)"
  shows "within R (create_login_session E config draw persistent keys row)"
  unfolding create_login_session_def Let_def
  by (intro keeps_intro assms frame_intro within_session_revocation)

lemma within_users_create_svc:
  assumes "\<And>a b c d e. within R (audit_record E a b c d e)"
    and "\<And>s f g. R s (users_seq_update g (users_update f s))" and "\<And>s g. R s (user_roles_update g s)"
  shows "within R (svc_users_create E actor cu g d)"
  unfolding svc_users_create_def Let_def by (intro keeps_intro assms frame_intro)

lemma within_users_update_svc:
  assumes "\<And>a b c d e. within R (audit_record E a b c d e)"
    and "\<And>s g. R s (users_update g s)" and "\<And>i. within R (repo_sessions_revoke_all_for_user E i)"
  shows "within R (svc_users_update E i oactor uu g d)"
  unfolding svc_users_update_def Let_def
  by (intro keeps_intro assms frame_intro within_session_revocation)

lemma within_delete_one:
  assumes "\<And>a b c d e. within R (audit_record E a b c d e)"
    and "\<And>s g. R s (users_update g s)" and "\<And>s g. R s (user_roles_update g s)"
    and "\<And>i. within R (repo_sessions_revoke_all_for_user E i)"
  shows "within R (delete_one E pool oid i)"
  unfolding delete_one_def Let_def
  by (intro keeps_intro assms frame_intro within_session_revocation)

lemma within_users_delete_svc:
  assumes "\<And>a b c d e. within R (audit_record E a b c d e)"
    and "\<And>s g. R s (users_update g s)" and "\<And>s g. R s (user_roles_update g s)"
    and "\<And>i. within R (repo_sessions_revoke_all_for_user E i)"
  shows "within R (svc_users_delete E i oactor)" "within R (svc_users_delete_many E oactor is)"
  unfolding svc_users_delete_def svc_users_delete_many_def
  by (intro keeps_intro assms within_delete_one)+

lemma within_assign_one:
  assumes "\<And>a b c d e. within R (audit_record E a b c d e)" and "\<And>s g. R s (user_roles_update g s)"
  shows "within R (assign_one E oid osa rs pool i)"
  unfolding assign_one_def Let_def by (intro keeps_intro assms frame_intro)

lemma within_users_assign_svc:
  assumes "\<And>a b c d e. within R (audit_record E a b c d e)" and "\<And>s g. R s (user_roles_update g s)"
  shows "within R (svc_users_assign_roles E oactor i rs g)"
    "within R (svc_users_assign_roles_many E oactor is rs g)"
  unfolding svc_users_assign_roles_def svc_users_assign_roles_many_def
  by (intro keeps_intro assms within_assign_one)+

lemma within_roles_create_svc:
  assumes "\<And>a b c d e. within R (audit_record E a b c d e)"
    and "\<And>s f g. R s (roles_seq_update g (roles_update f s))"
    and "\<And>s g. R s (role_permissions_update g s)"
  shows "within R (svc_roles_create E oid scp cr g)"
  unfolding svc_roles_create_def Let_def by (intro keeps_intro assms frame_intro)

lemma within_roles_update_svc:
  assumes "\<And>a b c d e. within R (audit_record E a b c d e)" and "\<And>s g. R s (roles_update g s)"
  shows "within R (svc_roles_update E oid scp i uq)"
  unfolding svc_roles_update_def Let_def by (intro keeps_intro assms frame_intro)

lemma within_roles_delete_svc:
  assumes "\<And>a b c d e. within R (audit_record E a b c d e)" and "\<And>s g. R s (roles_update g s)"
    and "\<And>s g. R s (user_roles_update g s)" and "\<And>s g. R s (role_permissions_update g s)"
  shows "within R (svc_roles_delete E oid i)"
  unfolding svc_roles_delete_def by (intro keeps_intro assms frame_intro)

lemma within_roles_assign_svc:
  assumes "\<And>a b c d e. within R (audit_record E a b c d e)"
    and "\<And>s g. R s (role_permissions_update g s)"
  shows "within R (svc_roles_assign_permissions E oid i ps)"
  unfolding svc_roles_assign_permissions_def by (intro keeps_intro assms frame_intro)

lemma within_departments_create_svc:
  assumes "\<And>a b c d e. within R (audit_record E a b c d e)"
    and "\<And>s f g. R s (departments_seq_update g (departments_update f s))"
  shows "within R (svc_departments_create E actor cd)"
  unfolding svc_departments_create_def by (intro keeps_intro assms frame_intro)

lemma within_departments_update_svc:
  assumes "\<And>a b c d e. within R (audit_record E a b c d e)" and "\<And>s g. R s (departments_update g s)"
  shows "within R (svc_departments_update E actor i ud)"
  unfolding svc_departments_update_def by (intro keeps_intro assms frame_intro)

lemma within_departments_delete_svc:
  assumes "\<And>a b c d e. within R (audit_record E a b c d e)" and "\<And>s g. R s (departments_update g s)"
    and "\<And>s g. R s (users_update g s)"
  shows "within R (svc_departments_delete E actor i)"
  unfolding svc_departments_delete_def by (intro keeps_intro assms frame_intro)

lemma within_bootstrap_svc:
  assumes "\<And>a b c d e. within R (audit_record E a b c d e)"
    and "\<And>s f g. R s (users_seq_update g (users_update f s))" and "\<And>s g. R s (users_update g s)"
    and "\<And>s g. R s (user_roles_update g s)" and "\<And>i. within R (repo_sessions_revoke_all_for_user E i)"
  shows "within R (bootstrap_super_admin E u p d e)"
  unfolding bootstrap_super_admin_def Let_def
  by (intro keeps_intro assms frame_intro within_session_revocation)

lemmas svc_frames =
  within_create_login_session within_users_create_svc within_users_update_svc
  within_users_delete_svc within_users_assign_svc within_roles_create_svc within_roles_update_svc
  within_roles_delete_svc within_roles_assign_svc within_departments_create_svc
  within_departments_update_svc within_departments_delete_svc within_bootstrap_svc

end

lemma reads_guards [reads_intro]:
  "reads (query q)" "reads (validate_password p)" "reads (hash_password E draw p)"
  "reads (validate_role_grant_scope a rs g)" "reads (protect_last_super_admin i)"
  "reads (ensure_actor_can_access oa i)" "reads (validate_batch_user_ids is i)"
  "reads (validate_assignment actor dept)" "reads (validate_parent actor dept t)"
  "reads (ensure_code_available org code x)" "reads (validate_code n)"
  "reads (validate_name n)" "reads (validate_status n)" "reads (svc_departments_get actor i)"
  "reads (validate_data_scope n)" "reads (validate_data_scope_grant sc sc')"
  "reads (validate_permission_dependencies is)" "reads (validate_permission_grant_scope a codes)"
  "reads (on_pool pool m)" "reads (svc_roles_get i)"
  unfolding reads_def by (rule keeps_intro)+

lemma reads_map_opt [reads_intro]:
  fixes f :: "'a \<Rightarrow> (db, 'e, 'b) comp"
  shows "(\<And>x. reads (f x)) \<Longrightarrow> reads (map_opt f v)"
  unfolding reads_def by (rule same_db.within_map_opt)

section \<open>The interface\<close>

locale system_relation = db_relation R for R :: "db \<Rightarrow> db \<Rightarrow> bool" +
  fixes config :: "'net auth_session_config"
  assumes audit_record: "within R (audit_record E actor_user_id action target_type target_id details)"
    and auth_context: "within R (repo_sessions_auth_context E h)"
    and revoke: "within R (repo_sessions_revoke E sid uid)"
    and revoke_all: "within R (repo_sessions_revoke_all_for_user E uid)"
    and login_failure: "within R (repo_sessions_record_login_failure E h mx win lck)"
    and step_up_create: "within R (repo_step_up_create h sid uid scope t)"
    and step_up_consume: "within R (repo_step_up_consume E h sid uid scope)"
    and step_up_prune: "within R (repo_step_up_prune E)"
    and unlock_upsert: "within R (repo_unlock_upsert E sid uid m t)"
    and unlock_prune: "within R (repo_unlock_prune E)"
    and ensure_settings: "within R (repo_mfa_ensure_settings E uid w)"
    and enable_totp: "within R (repo_mfa_enable_totp E uid c)"
    and consume_counter: "within R (repo_mfa_consume_reauth_totp_counter E uid n)"
    and create_challenge: "within R (repo_mfa_create_challenge h uid k p j t)"
    and consume_login_challenges: "within R (repo_mfa_consume_login_challenges_for_user E uid)"
    and challenge_failure: "within R (repo_mfa_record_challenge_failure E i)"
    and consume_challenge: "within R (repo_mfa_consume_challenge E i)"
    and prune_challenges: "within R (repo_mfa_prune_challenges E)"
    and replace_recovery_codes: "within R (repo_mfa_replace_recovery_codes E uid hs)"
    and consume_recovery_code: "within R (repo_mfa_consume_recovery_code E uid i)"
    and create_passkey: "within R (repo_mfa_create_passkey E uid pkname cid j)"
    and update_passkey: "within R (repo_mfa_update_passkey_after_use E i j)"
    and delete_passkey: "within R (repo_mfa_delete_passkey uid i)"
    and update_password: "within R (repo_users_update_password E uid hash)"
    and create_session: "within R (create_login_session E config draw persistent keys row)"
    and users_create: "within R (svc_users_create E actor cu g d)"
    and users_update: "within R (svc_users_update E uid oactor uu g d)"
    and users_delete: "within R (svc_users_delete E uid oactor)"
    and users_delete_many: "within R (svc_users_delete_many E oactor uids)"
    and users_assign: "within R (svc_users_assign_roles E oactor uid rids g)"
    and users_assign_many: "within R (svc_users_assign_roles_many E oactor uids rids g)"
    and roles_create: "within R (svc_roles_create E oid scp cr g)"
    and roles_update: "within R (svc_roles_update E oid scp i uq)"
    and roles_delete: "within R (svc_roles_delete E oid i)"
    and roles_assign: "within R (svc_roles_assign_permissions E oid i pids)"
    and departments_create: "within R (svc_departments_create E actor cd)"
    and departments_update: "within R (svc_departments_update E actor i ud)"
    and departments_delete: "within R (svc_departments_delete E actor i)"
begin

lemmas operations =
  audit_record auth_context revoke revoke_all login_failure step_up_create step_up_consume
  step_up_prune unlock_upsert unlock_prune ensure_settings enable_totp consume_counter
  create_challenge consume_login_challenges challenge_failure consume_challenge
  prune_challenges replace_recovery_codes consume_recovery_code create_passkey update_passkey
  delete_passkey update_password create_session users_create users_update users_delete
  users_delete_many users_assign users_assign_many roles_create roles_update roles_delete
  roles_assign departments_create departments_update departments_delete

lemma within_login_outcome [keeps_intro]:
  "(\<And>x. within R (f x)) \<Longrightarrow> (\<And>y. within R (g y)) \<Longrightarrow>
     within R (case r of LoginAuthenticated x \<Rightarrow> f x | LoginMfaRequired y \<Rightarrow> g y)"
  by (cases r) auto

section \<open>Authentication services\<close>

lemma within_auth_user: "within R (auth_user E st rq)"
  unfolding auth_user_def authenticate_def by (intro keeps_intro operations)

lemma within_permitted: "within R (permitted E st code rq)"
  unfolding permitted_def require_permission_def authenticate_def by (intro keeps_intro operations)

lemma within_verify_current_password: "within R (verify_current_password E uid p)"
  unfolding verify_current_password_def verify_password_hash_def by (intro keeps_intro)

lemmas parts =
  within_auth_user within_permitted within_session_revocation [OF audit_record]
  within_verify_current_password

lemma within_logout: "within R (logout E uid sid)"
  unfolding logout_def by (intro keeps_intro operations parts)

lemma within_me: "within R (me uid)"
  unfolding me_def by (intro keeps_intro)

lemma within_change_password: "within R (change_password E uid req)"
  unfolding change_password_def by (intro keeps_intro operations parts)

lemma within_record_dimensions: "within R (record_dimensions E config' ds l dims)"
  by (induction E config' ds l dims rule: record_dimensions.induct)
    (auto intro!: keeps_intro operations)

lemma within_record_failed_login: "within R (record_failed_login E config' keys uid)"
  unfolding record_failed_login_def by (intro keeps_intro operations within_record_dimensions)

lemma within_begin_login: "within R (begin_login E mfa user p keys)"
  unfolding begin_login_def begin_enrollment_def begin_challenge_def Let_def
  by (intro keeps_intro operations)

lemma within_login: "within R (login E config mfa req ip)"
  unfolding login_def Let_def
  by (intro keeps_intro operations within_begin_login within_record_failed_login)

lemma within_open_challenge: "within R (open_challenge E t k)"
  unfolding open_challenge_def by (intro keeps_intro within_challenge_for_update)

lemma within_verify_failure: "within R (record_verify_failure E c f)"
  unfolding record_verify_failure_def by (intro keeps_intro operations)

lemma within_totp_valid: "within R (totp_valid mfa user secret code)"
  unfolding totp_valid_def by (intro keeps_intro)

lemmas mfa_parts = within_open_challenge within_verify_failure within_totp_valid

lemma within_verify_totp: "within R (verify_totp E config mfa t code)"
  unfolding verify_totp_def verify_totp_enrollment_def verify_totp_login_def hash_recovery_codes_def
    Let_def
  by (intro keeps_intro operations mfa_parts)

lemma within_match_recovery_codes: "within R (match_recovery_codes E n codes)"
  by (induction codes) (auto intro!: keeps_intro)

lemma within_verify_recovery: "within R (verify_recovery_login E config t code)"
  unfolding verify_recovery_login_def matching_recovery_code_def
  by (intro keeps_intro operations parts mfa_parts within_match_recovery_codes)

lemma within_verify_totp_code: "within R (verify_totp_code E mfa uid code)"
  unfolding verify_totp_code_def matching_totp_counter_def by (intro keeps_intro operations)

lemma within_reauthentication: "within R (verify_reauthentication E mfa uid p code)"
  unfolding verify_reauthentication_def
  by (intro keeps_intro parts within_verify_totp_code)

lemma within_password_and_totp: "within R (verify_password_and_totp E mfa uid p code)"
  unfolding verify_password_and_totp_def by (intro keeps_intro parts within_verify_totp_code)

lemma within_passkey_authentication:
  "within R (start_passkey_authentication E mfa t)"
  "within R (finish_passkey_authentication E config mfa t c)"
  unfolding start_passkey_authentication_def finish_passkey_authentication_def Let_def
  by (intro keeps_intro operations mfa_parts)+

lemma within_mfa_status: "within R (mfa_status uid)"
  unfolding mfa_status_def by (intro keeps_intro)

lemma within_passkey_registration:
  "within R (start_passkey_registration E mfa user req)"
  "within R (finish_passkey_registration E mfa uid t c)"
  unfolding start_passkey_registration_def finish_passkey_registration_def Let_def
  by (intro keeps_intro operations within_password_and_totp within_mfa_status
      within_challenge_for_update)+

lemma within_revoke_passkey: "within R (revoke_passkey E mfa uid i req)"
  unfolding revoke_passkey_def by (intro keeps_intro operations parts within_password_and_totp)

lemma within_regenerate: "within R (regenerate_recovery_codes E mfa uid req)"
  unfolding regenerate_recovery_codes_def hash_recovery_codes_def Let_def
  by (intro keeps_intro operations parts within_password_and_totp)

lemma within_step_up_issue: "within R (step_up_issue E mfa sid uid req)"
  unfolding step_up_issue_def Let_def by (intro keeps_intro operations within_reauthentication)

lemma within_step_up: "within R (step_up E actor rq scope)"
  unfolding step_up_def step_up_consume_def by (intro keeps_intro operations)

lemma within_unlocks:
  "within R (module_unlock_status E sid uid m)"
  "within R (module_unlock_issue E mfa sid uid req)"
  "within R (unlocked E actor m)"
  unfolding module_unlock_status_def module_unlock_issue_def unlocked_def module_unlock_require_def
    validate_module_def Let_def
  by (intro keeps_intro operations within_reauthentication)+

section \<open>Queries\<close>

lemma within_users_list: "within R (svc_users_list E actor q)"
  unfolding svc_users_list_def user_sort_of_def Let_def by (intro keeps_intro within_query)

lemma within_users_get: "within R (svc_users_get actor i)"
  unfolding svc_users_get_def by (intro keeps_intro)

lemma within_roles_reads:
  "within R svc_roles_list" "within R (svc_roles_get i)" "within R (svc_roles_get_permissions i)"
  unfolding svc_roles_list_def svc_roles_get_def svc_roles_get_permissions_def to_response_def
  by (intro keeps_intro)+

lemma within_departments_reads:
  "within R (svc_departments_list actor)" "within R (svc_departments_get actor i)"
  unfolding svc_departments_list_def svc_departments_get_def by (intro keeps_intro within_query)+

lemma within_audit_list: "within R (svc_audit_list E fm actor q)"
  unfolding svc_audit_list_def parse_cursor_def Let_def by (intro keeps_intro within_query)

lemma within_permission_reads:
  "within R svc_permissions_groups" "within R (svc_permissions_stats actor)"
  unfolding svc_permissions_groups_def svc_permissions_stats_def by (intro keeps_intro)+

section \<open>Requests\<close>

lemmas services =
  operations parts within_logout within_me within_change_password within_login within_verify_totp
  within_verify_recovery within_passkey_authentication within_mfa_status
  within_passkey_registration within_revoke_passkey within_regenerate within_step_up_issue
  within_step_up within_unlocks within_users_list within_users_get within_roles_reads
  within_departments_reads within_audit_list within_permission_reads

lemma within_require_if: "within R (require_if b actor code)"
  unfolding require_if_def require_code_def by (intro keeps_intro)

lemma within_require: "within R (require_code actor code)"
  unfolding require_code_def by (intro keeps_intro)

lemma within_auth_handlers:
  assumes "app_auth st = config"
  shows "within R (h_login E st rq peer lreq)" and "within R (h_logout E st rq)"
    and "within R (h_me E st rq)" and "within R (h_change_password E st rq cp)"
    and "within R (h_step_up E st rq su)" and "within R (h_module_unlock_status E st rq m)"
    and "within R (h_module_unlock E st rq mq)" and "within R (h_me_permissions E st rq)"
    and "within R (h_verify_totp E st rq t c)" and "within R (h_verify_recovery_code E st rq t c)"
    and "within R (h_start_passkey_authentication E st rq t)"
    and "within R (h_finish_passkey_authentication E st rq t j)"
    and "within R (h_mfa_status E st rq)" and "within R (h_start_passkey_registration E st rq pr)"
    and "within R (h_finish_passkey_registration E st rq t j)"
    and "within R (h_revoke_passkey E st rq i fr)"
    and "within R (h_regenerate_recovery_codes E st rq fr)"
  unfolding h_login_def h_logout_def h_me_def h_change_password_def h_step_up_def
    h_module_unlock_status_def h_module_unlock_def h_me_permissions_def h_verify_totp_def
    h_verify_recovery_code_def h_start_passkey_authentication_def
    h_finish_passkey_authentication_def h_mfa_status_def h_start_passkey_registration_def
    h_finish_passkey_registration_def h_revoke_passkey_def h_regenerate_recovery_codes_def Let_def
    assms
  by (intro keeps_intro services)+

lemma within_user_handlers:
  "within R (h_users_list E st rq q)" "within R (h_users_get E st rq i)"
  "within R (h_users_create E st rq cu)" "within R (h_users_update E st rq i uu)"
  "within R (h_users_delete E st rq i)" "within R (h_users_batch_delete E st rq is)"
  "within R (h_users_assign_roles E st rq i rs)"
  "within R (h_users_batch_assign_roles E st rq is rs)"
  unfolding h_users_list_def h_users_get_def h_users_create_def h_users_update_def
    h_users_delete_def h_users_batch_delete_def h_users_assign_roles_def
    h_users_batch_assign_roles_def Let_def
  by (intro keeps_intro services within_require_if)+

lemma within_role_handlers:
  "within R (h_roles_list E st rq)" "within R (h_roles_get E st rq i)"
  "within R (h_roles_create E st rq cr)" "within R (h_roles_update E st rq i uq)"
  "within R (h_roles_delete E st rq i)" "within R (h_roles_get_permissions E st rq i)"
  "within R (h_roles_put_permissions E st rq i ps)"
  unfolding h_roles_list_def h_roles_get_def h_roles_create_def h_roles_update_def
    h_roles_delete_def h_roles_get_permissions_def h_roles_put_permissions_def
  by (intro keeps_intro services within_require)+

lemma within_other_handlers:
  "within R (h_departments_list E st rq)" "within R (h_departments_get E st rq i)"
  "within R (h_departments_create E st rq cd)" "within R (h_departments_update E st rq i ud)"
  "within R (h_departments_delete E st rq i)" "within R (h_audit_list E st rq aq)"
  "within R (h_dashboard_stats E st rq)" "within R (h_permission_groups E st rq)"
  unfolding h_departments_list_def h_departments_get_def h_departments_create_def
    h_departments_update_def h_departments_delete_def h_audit_list_def h_dashboard_stats_def
    h_permission_groups_def
  by (intro keeps_intro services)+

theorem within_serve: "app_auth st = config \<Longrightarrow> within R (serve E st rq call)"
  by (cases call)
    (simp_all add: within_auth_handlers within_user_handlers within_role_handlers
      within_other_handlers)

end

section \<open>The audit log\<close>

interpretation grows: system_relation audit_grows config for config
  by unfold_locales
    (intro audit_record_grows audit_grows.svc_frames frame_intro; simp add: audit_grows_def)+

end
