(* ===== verification/Inv_Sessions.thy ===== *)
theory Inv_Sessions
  imports System
begin

text \<open>
  The session limit. \<open>sessions_ok n\<close> says that session ids and token hashes are keys and that no user has more than
  \<open>n\<close> sessions that are not revoked; \<open>limited n X\<close> says it of the users outside \<open>X\<close>. Creating a
  session breaks it for one user, and enforcing the limit restores it.
\<close>

definition limited :: "nat \<Rightarrow> int set \<Rightarrow> db \<Rightarrow> bool" where
  "limited n X db \<longleftrightarrow> primary_key s_id (auth_sessions db) (sessions_seq db) \<and>
     distinct (map s_session_token_hash (auth_sessions db)) \<and>
     (\<forall>uid. uid \<notin> X \<longrightarrow> length (unrevoked_sessions db uid) \<le> n)"

definition sessions_ok :: "nat \<Rightarrow> db \<Rightarrow> bool" where
  "sessions_ok n = limited n {}"

section \<open>Statements\<close>

lemma length_unrevoked_update:
  assumes "\<And>s. P s \<Longrightarrow> s_user_id (f s) = s_user_id s"
    and "\<And>s. P s \<Longrightarrow> s_revoked_at (f s) = None \<Longrightarrow> s_revoked_at s = None"
  shows "length (unrevoked_sessions (auth_sessions_update (update_where P f) db) uid)
    \<le> length (unrevoked_sessions db uid)"
proof -
  have "length (filter (\<lambda>s. s_user_id s = uid \<and> s_revoked_at s = None) (update_where P f xs))
      \<le> length (filter (\<lambda>s. s_user_id s = uid \<and> s_revoked_at s = None) xs)" for xs
    using assms by (induction xs) (auto simp: update_where_def le_SucI)
  then show ?thesis by (simp add: unrevoked_sessions_def)
qed

lemma limited_update:
  assumes "limited n X s" and "\<And>x. P x \<Longrightarrow> s_id (f x) = s_id x"
    and "\<And>x. P x \<Longrightarrow> s_user_id (f x) = s_user_id x"
    and "\<And>x. P x \<Longrightarrow> s_revoked_at (f x) = None \<Longrightarrow> s_revoked_at x = None"
    and "\<And>x. P x \<Longrightarrow> s_session_token_hash (f x) = s_session_token_hash x"
  shows "limited n X (auth_sessions_update (update_where P f) s)"
  unfolding limited_def
proof (intro conjI allI impI)
  show "primary_key s_id (auth_sessions (auth_sessions_update (update_where P f) s))
      (sessions_seq (auth_sessions_update (update_where P f) s))"
    by (rule sessions_tab.pk_update) (use assms(1,2) in \<open>auto simp: limited_def\<close>)
  show "distinct (map s_session_token_hash (auth_sessions (auth_sessions_update (update_where P f) s)))"
    using assms(1,5) by (simp add: limited_def)
  fix uid assume "uid \<notin> X"
  with assms(1) have "length (unrevoked_sessions s uid) \<le> n" by (simp add: limited_def)
  with length_unrevoked_update [of P f s uid, OF assms(3,4)]
  show "length (unrevoked_sessions (auth_sessions_update (update_where P f) s) uid) \<le> n"
    by linarith
qed

lemma limited_delete:
  assumes "limited n X s"
  shows "limited n X (auth_sessions_update (delete_where P) s)"
proof -
  have "length (filter Q (delete_where P xs)) \<le> length (filter Q xs)" for Q and xs :: "auth_sessions_rec list"
    by (induction xs) (auto simp: delete_where_def le_SucI)
  then have "length (unrevoked_sessions (auth_sessions_update (delete_where P) s) uid)
      \<le> length (unrevoked_sessions s uid)" for uid
    by (simp add: unrevoked_sessions_def)
  moreover have "distinct (map s_session_token_hash (delete_where P (auth_sessions s)))"
    using assms by (auto simp: limited_def delete_where_def distinct_map_filter)
  ultimately show ?thesis
    using assms sessions_tab.pk_delete [of s P] by (auto simp: limited_def intro: le_trans)
qed

lemma limited_frames [simp]:
  "limited n X (audit_seq_update f1 (audit_logs_update g1 s)) = limited n X s"
  "limited n X (users_update g2 s) = limited n X s"
  "limited n X (users_seq_update f3 (users_update g3 s)) = limited n X s"
  "limited n X (user_roles_update g4 s) = limited n X s"
  "limited n X (roles_update g5 s) = limited n X s"
  "limited n X (roles_seq_update f6 (roles_update g6 s)) = limited n X s"
  "limited n X (role_permissions_update g7 s) = limited n X s"
  "limited n X (auth_login_attempts_update g8 s) = limited n X s"
  "limited n X (auth_step_up_tokens_update g9 s) = limited n X s"
  "limited n X (auth_module_unlocks_update g10 s) = limited n X s"
  "limited n X (user_mfa_settings_update g11 s) = limited n X s"
  "limited n X (user_mfa_recovery_codes_update g12 s) = limited n X s"
  "limited n X (recovery_seq_update f13 (user_mfa_recovery_codes_update g13 s)) = limited n X s"
  "limited n X (user_passkeys_update g14 s) = limited n X s"
  "limited n X (passkeys_seq_update f15 (user_passkeys_update g15 s)) = limited n X s"
  "limited n X (auth_mfa_challenges_update g16 s) = limited n X s"
  "limited n X (challenges_seq_update f17 (auth_mfa_challenges_update g17 s)) = limited n X s"
  "limited n X (departments_update g18 s) = limited n X s"
  "limited n X (departments_seq_update f19 (departments_update g19 s)) = limited n X s"
  by (simp_all add: limited_def unrevoked_sessions_def)

section \<open>Repository functions\<close>

lemma revoke_where_limited: "within (keeping (limited n X)) (revoke_where E P)"
  unfolding revoke_where_def
  by (intro keeps_intro keeping.within_modify) (auto simp: keeping_def intro!: limited_update)

lemma revoke_limited:
  "within (keeping (limited n X)) (repo_sessions_revoke E i j)"
  "within (keeping (limited n X)) (repo_sessions_revoke_all_for_user E i)"
  unfolding repo_sessions_revoke_def repo_sessions_revoke_all_for_user_def
  by (intro keeps_intro revoke_where_limited)+

lemma auth_context_limited: "within (keeping (limited n X)) (repo_sessions_auth_context E h)"
  unfolding repo_sessions_auth_context_def
  by (intro keeps_intro keeping.within_modify) (auto simp: keeping_def intro!: limited_update)

lemma prune_limited: "within (keeping (limited n X)) (repo_sessions_prune E)"
  unfolding repo_sessions_prune_def delete_sessions_def Let_def
  by (intro keeps_intro keeping.within_modify) (auto simp: keeping_def intro: limited_delete)

lemma create_limited:
  assumes "limited n {} s" and "repo_sessions_create E ns s = (Inr sid, t)"
  shows "limited n {ns_user_id ns} t"
proof -
  have t: "t = sessions_seq_update (\<lambda>n. n + 1)
      (auth_sessions_update (\<lambda>ss. ss @ [new_session_rec E s ns]) s)"
    using assms(2) by (auto simp: repo_sessions_create_def ok_iff)
  have "length (unrevoked_sessions t uid) \<le> n" if "uid \<noteq> ns_user_id ns" for uid
    using assms(1) that by (auto simp: limited_def unrevoked_sessions_def t new_session_rec_def)
  moreover have "primary_key s_id (auth_sessions t) (sessions_seq t)"
    using assms(1) sessions_tab.pk_insert [of s "new_session_rec E s ns"]
    by (auto simp: limited_def t new_session_rec_def)
  moreover have "distinct (map s_session_token_hash (auth_sessions t))"
    using assms by (auto simp: limited_def t new_session_rec_def repo_sessions_create_def ok_iff)
  ultimately show ?thesis by (simp add: limited_def)
qed

lemma enforce_limited:
  assumes "limited (nat mx) {uid} s" and "repo_sessions_enforce_user_limit E uid mx s = (Inr k, t)"
  shows "limited (nat mx) {} t"
proof -
  have "limited (nat mx) {uid} t"
    using keeping_ok [OF revoke_where_limited assms(2) [unfolded repo_sessions_enforce_user_limit_def]]
      assms(1) by blast
  moreover have "length (unrevoked_sessions t uid) \<le> nat mx"
    using assms by (intro kept_ids_unrevoked) (auto simp: limited_def)
  ultimately show ?thesis by (auto simp: limited_def)
qed

lemma limited_audit: "within (keeping (limited n X)) (audit_record E a b c d e)"
  by (intro frame_intro) (simp add: keeping_def)

lemma limited_revocation: "within (keeping (limited n X)) (record_session_revocation E oid i reason k)"
  by (intro keeping_db.within_session_revocation limited_audit)

lemma create_login_session_limited:
  "within (keeping (sessions_ok (nat (max_sessions_per_user config))))
     (create_login_session E config draw persistent keys row)"
proof (rule post_keeping)
  fix s assume s: "sessions_ok (nat (max_sessions_per_user config)) s"
  let ?n = "nat (max_sessions_per_user config)"
  note ok = s [unfolded sessions_ok_def]
  have before: "limited ?n {} t" if "m s = (Inr x, t)" "within (keeping (limited ?n {})) m"
    "limited ?n {} s" for m :: "'x repo" and x s t
    using keeping_ok [OF that(2,1)] that(3) by blast
  have login: "within (keeping (limited ?n {})) (repo_users_update_last_login E i)"
    "within (keeping (limited ?n {})) (repo_sessions_clear_login_failures h)" for i h
    by (intro frame_intro; simp add: keeping_def)+
  show "post (sessions_ok ?n) (create_login_session E config draw persistent keys row) s"
    unfolding create_login_session_def Let_def
    apply (rule post_bind_transaction, rule s)
     apply (intro post_reads reads_intro, assumption)
    unfolding sessions_ok_def
    apply (simp only: bind_ok map_err_ok)
    apply (elim exE conjE)
    apply (drule before [OF _ login(1) ok])
    apply (drule before [OF _ login(2)], assumption)
    apply (drule before [OF _ login(2)], assumption)
    apply (drule create_limited [rotated], assumption)
    apply (drule enforce_limited [rotated], simp)
    apply (drule keeping_ok [OF limited_revocation], assumption)
    apply (drule before [OF _ prune_limited], assumption)
    apply (drule before [OF _ limited_audit], assumption)
    apply assumption
    done
qed

interpretation sessions:
  system_relation "keeping (sessions_ok (nat (max_sessions_per_user config)))" config for config
  by unfold_locales
    (intro create_login_session_limited
      auth_context_limited [where X = "{}", folded sessions_ok_def]
      revoke_limited [where X = "{}", folded sessions_ok_def]
      keeping_db.svc_frames frame_intro; simp add: keeping_def sessions_ok_def)+

lemma bootstrap_sessions: "within (keeping (sessions_ok n)) (bootstrap_super_admin E u p d e)"
  by (intro revoke_limited [where X = "{}", folded sessions_ok_def] keeping_db.svc_frames
      frame_intro; simp add: keeping_def sessions_ok_def)

end
