(* ===== verification/Demo.thy ===== *)
theory Demo
  imports Handlers
begin

text \<open>
  A small concrete installation on which the theorems are exercised: one organization with three
  departments in a chain, the built-in super administrator role and a viewer role, an
  administrator, an operator and a viewer, one open session of each, and a toy environment whose
  digest keeps the first two bytes of its input and whose password hash is the password itself.
\<close>

definition bytes_of :: "string \<Rightarrow> byte list" where
  "bytes_of s = map (\<lambda>c. of_nat (of_char c)) s"

definition demo_env :: env where
  "demo_env =
     \<lparr>now = secs 1000, utc_now = secs 1000, trace_id = Some ''trace'',
      random = (\<lambda>draw i. of_nat (7 * draw + i)),
      sha256 = (\<lambda>s. take 2 (bytes_of s)),
      argon2_hash = (\<lambda>p _. Some p), argon2_verify = (\<lambda>p h. Some (p = h)),
      ilike = (\<lambda>_ _. True), text_le = (\<lambda>a b. length a \<le> length b)\<rparr>"

definition demo_user :: "int \<Rightarrow> string \<Rightarrow> int \<Rightarrow> users_rec" where
  "demo_user i name dept =
     \<lparr>u_id = i, u_username = name, u_password_hash = name @ ''-password'', u_display_name = name,
      u_email = None, u_status = ''active'', u_organization_id = 1, u_department_id = Some dept,
      u_token_version = 0, u_last_login_at = None, u_created_at = 0, u_updated_at = 0,
      u_deleted_at = None\<rparr>"

definition demo_role :: "int \<Rightarrow> string \<Rightarrow> string \<Rightarrow> roles_rec" where
  "demo_role i code scope =
     \<lparr>r_id = i, r_code = code, r_name = code, r_category = ''general'', r_icon = None,
      r_color = ''neutral'', r_description = None, r_data_scope = scope, r_is_active = True,
      r_updated_at = 0\<rparr>"

definition demo_department :: "int \<Rightarrow> int option \<Rightarrow> departments_rec" where
  "demo_department i parent =
     \<lparr>d_id = i, d_organization_id = 1, d_parent_id = parent, d_code = ''root'', d_name = ''d'',
      d_status = ''active'', d_created_at = 0, d_updated_at = 0\<rparr>"

definition demo_permission :: "int \<Rightarrow> string \<Rightarrow> permissions_rec" where
  "demo_permission i code =
     \<lparr>p_id = i, p_group_id = 1, p_code = code, p_name = code, p_type = ''api'',
      p_description = None, p_sort_order = i\<rparr>"

definition demo_token :: "char \<Rightarrow> string" where
  "demo_token c = replicate 64 c"

definition demo_session :: "int \<Rightarrow> int \<Rightarrow> char \<Rightarrow> auth_sessions_rec" where
  "demo_session i uid c =
     \<lparr>s_id = i, s_user_id = uid, s_session_token_hash = token_hash demo_env (demo_token c),
      s_csrf_token_hash = token_hash demo_env (demo_token c), s_token_version = 0,
      s_idle_timeout_secs = 600, s_persistent = False, s_expires_at = secs 2000,
      s_last_seen_at = secs 990, s_revoked_at = None, s_created_at = secs 900\<rparr>"

definition demo_db :: db where
  "demo_db =
     \<lparr>users = [demo_user 1 ''admin'' 1, demo_user 2 ''operator'' 2, demo_user 3 ''viewer'' 3],
      roles = [demo_role 1 ''super_admin'' ''all'', demo_role 2 ''viewer'' ''self'',
               demo_role 3 ''operator'' ''organization''],
      permission_groups = [\<lparr>pg_id = 1, pg_code = ''g'', pg_name = ''g'', pg_icon = None,
                            pg_sort_order = 1\<rparr>],
      permissions = [demo_permission 1 UserRead, demo_permission 2 UserDeactivate,
                     demo_permission 3 UserRoleWrite],
      user_roles = [(1, 1), (2, 3), (3, 2)],
      role_permissions = [(1, 1), (1, 2), (1, 3), (2, 1), (3, 1), (3, 2), (3, 3)],
      organizations = [\<lparr>o_id = 1, o_code = ''default'', o_status = ''active''\<rparr>],
      departments = [demo_department 1 None, demo_department 2 (Some 1), demo_department 3 (Some 2)],
      auth_sessions = [demo_session 1 1 (CHR ''a''), demo_session 2 2 (CHR ''b''),
                       demo_session 3 3 (CHR ''c'')],
      auth_login_attempts = [], audit_logs = [],
      user_mfa_settings = [\<lparr>ms_user_id = 1, ms_webauthn_user_id = ''w1'',
                            ms_totp_secret_ciphertext = None, ms_totp_enabled_at = Some 0,
                            ms_recovery_codes_issued_at = None, ms_updated_at = 0,
                            ms_last_reauth_totp_counter = None, ms_last_reauth_totp_used_at = None\<rparr>],
      user_mfa_recovery_codes = [\<lparr>rc_id = 1, rc_code_hash = ''h'', rc_user_id = 1, rc_used_at = None\<rparr>],
      user_passkeys = [], auth_mfa_challenges = [],
      auth_step_up_tokens = [\<lparr>st_token_hash = token_hash demo_env (demo_token CHR ''s''),
                              st_session_id = 2, st_user_id = 2, st_scope = ''users.delete'',
                              st_expires_at = secs 1100, st_consumed_at = None\<rparr>],
      auth_module_unlocks = [],
      users_seq = 4, roles_seq = 4, departments_seq = 4, sessions_seq = 4, audit_seq = 1,
      recovery_seq = 2, passkeys_seq = 1, challenges_seq = 1\<rparr>"

definition demo_auth :: "unit auth_session_config" where
  "demo_auth =
     \<lparr>session_ttl_secs = 3600, session_idle_timeout_secs = 600, persistent_session_ttl_secs = 7200,
      persistent_session_idle_timeout_secs = 3600, max_sessions_per_user = 2,
      login_max_failures = 5, login_ip_max_failures = 50, login_account_ip_max_failures = 3,
      login_failure_window_secs = 900, login_lockout_secs = 900, trusted_proxy_cidrs = [],
      secure_cookies = False\<rparr>"

definition demo_cookie :: "string \<Rightarrow> string \<Rightarrow> cookie" where
  "demo_cookie name v =
     \<lparr>ck_name = name, ck_value = v, ck_path = ''/'', ck_http_only = False,
      ck_same_site_strict = True, ck_secure = False, ck_max_age = None\<rparr>"

definition demo_request :: "char \<Rightarrow> request" where
  "demo_request c =
     \<lparr>rq_method = DELETE,
      rq_headers = [''x-csrf-token'' \<mapsto> demo_token c, ''x-step-up-token'' \<mapsto> demo_token CHR ''s''],
      rq_jar = [''arc_session'' \<mapsto> demo_cookie ''arc_session'' (demo_token c),
                ''arc_csrf'' \<mapsto> demo_cookie ''arc_csrf'' (demo_token c)]\<rparr>"

definition demo_mfa :: mfa_config where
  "demo_mfa =
     \<lparr>cipher_encrypt = (\<lambda>_ m _. Some m), cipher_decrypt = (\<lambda>_ c _. Some c),
      totp_builds = (\<lambda>_ _. True), totp_check = (\<lambda>_ _ code. if code = ''000000'' then Some 1 else None),
      totp_base32 = (\<lambda>_. ''''), totp_url = (\<lambda>_ _. Some ''''), totp_qr = (\<lambda>_ _. Some ''''),
      argon2_recovery_hash = (\<lambda>c _. Some c), base64_encode = (\<lambda>_. ''''),
      base64_decode = (\<lambda>_. Some []), uuid_v4 = (\<lambda>_. ''''), parse_credential = Some,
      start_passkey_auth = (\<lambda>_. None), finish_passkey_auth = (\<lambda>_ _. None),
      start_passkey_reg = (\<lambda>_ _ _ _. None), finish_passkey_reg = (\<lambda>_ _. None),
      cred_id = (\<lambda>_. ''''), needs_update = (\<lambda>_. False), update_credential = (\<lambda>c _. c)\<rparr>"

definition demo_app :: "unit app_state" where
  "demo_app =
     \<lparr>app_auth = demo_auth, app_mfa = demo_mfa, app_contains = (\<lambda>_ _. False), app_from_micros = Some\<rparr>"

end
