(* ===== verification/Thm_Auth.thy ===== *)
theory Thm_Auth
  imports Inv_Sessions Demo
begin

text \<open>
  What authentication promises (\<open>backend/src/auth.rs\<close>, \<open>services/auth.rs\<close>): an authenticated actor
  stands on a live session of an active user with the effective rights of its active roles, unsafe
  methods need the CSRF token, and logout, password change and deletion end sessions.
\<close>

section \<open>Shared facts\<close>

lemma revoke_all_none:
  assumes "repo_sessions_revoke_all_for_user E i s = (Inr n, t)"
  shows "unrevoked_sessions t i = []"
proof -
  have "\<not> (s_user_id x = i \<and> s_revoked_at x = None)" if "x \<in> set (auth_sessions t)" for x
  proof -
    from that have "x \<in> set (update_where (\<lambda>x. s_user_id x = i \<and> s_revoked_at x = None)
        (\<lambda>x. x\<lparr>s_revoked_at := Some (now E)\<rparr>) (auth_sessions s))"
      using assms by (simp add: repo_sessions_revoke_all_for_user_def ok_iff)
    then show ?thesis by (rule update_where_none_left) simp_all
  qed
  then show ?thesis by (simp add: unrevoked_sessions_def filter_empty_conv)
qed

lemma same_sessions_audit:
  "within (same auth_sessions) (audit_record E a b c d e)"
  "within (same auth_sessions) (record_session_revocation E oid i reason n)"
  by (intro frame_intro same_db.within_session_revocation; simp add: same_def)+

lemma same_users_audit:
  "within (same users) (audit_record E a b c d e)"
  "within (same users) (record_session_revocation E oid i reason n)"
  "within (same users) (repo_sessions_revoke_all_for_user E i)"
  by (intro frame_intro same_db.within_session_revocation; simp add: same_def)+

lemma authenticate_context:
  assumes "authenticate E secure rq s = (Inr actor, t)"
  obtains token c where "cookie_token rq (session_cookie_name secure) = Some token"
    and "select_auth_context E (token_hash E token) s = Some c"
    and "validate_csrf E rq (sc_csrf_token_hash c) secure = Inr ()"
    and "as_str (data_scope actor) = sc_data_scope c" and "user_id actor = sc_user_id c"
    and "session_id actor = sc_session_id c" and "organization_id actor = sc_organization_id c"
    and "department_id actor = sc_department_id c" and "permission_codes actor = sc_permission_codes c"
    and "t = auth_sessions_update (update_where
           (\<lambda>x. s_id x = sc_session_id c \<and> s_last_seen_at x < now E - secs 60)
           (\<lambda>x. x\<lparr>s_last_seen_at := now E\<rparr>)) s"
proof -
  from assms obtain token c where "cookie_token rq (session_cookie_name secure) = Some token"
    and ctx: "repo_sessions_auth_context E (token_hash E token) s = (Inr (Some c), t)"
    and "validate_csrf E rq (sc_csrf_token_hash c) secure = Inr ()"
      "as_str (data_scope actor) = sc_data_scope c" "user_id actor = sc_user_id c"
      "session_id actor = sc_session_id c" "organization_id actor = sc_organization_id c"
      "department_id actor = sc_department_id c" "permission_codes actor = sc_permission_codes c"
    unfolding authenticate_ok by blast
  moreover from ctx have "select_auth_context E (token_hash E token) s = Some c"
    "t = auth_sessions_update (update_where
       (\<lambda>x. s_id x = sc_session_id c \<and> s_last_seen_at x < now E - secs 60)
       (\<lambda>x. x\<lparr>s_last_seen_at := now E\<rparr>)) s"
    by (simp_all add: sessions_auth_context_ok)
  ultimately show thesis by (intro that)
qed

section \<open>Authentication\<close>

text \<open>
  C2. An authenticated request presents the token of a session that is neither revoked nor expired
  nor idle for too long; its user is active, not deleted, has the session's token version and has
  enrolled TOTP if it is a super administrator; and the actor carries exactly the permissions and
  the broadest data scope of the user's active roles.
\<close>

theorem authenticate_sound:
  assumes "authenticate E secure rq s = (Inr actor, t)"
  shows "\<exists>token x u. cookie_token rq (session_cookie_name secure) = Some token \<and>
    x \<in> set (auth_sessions s) \<and> s_session_token_hash x = token_hash E token \<and>
    s_revoked_at x = None \<and> now E < s_expires_at x \<and>
    now E < s_last_seen_at x + secs (s_idle_timeout_secs x) \<and>
    u \<in> set (users s) \<and> u_id u = s_user_id x \<and> u_token_version u = s_token_version x \<and>
    u_status u = ''active'' \<and> u_deleted_at u = None \<and>
    (is_active_super_admin s (u_id u) \<longrightarrow> totp_enrolled s (u_id u)) \<and>
    user_id actor = u_id u \<and> session_id actor = s_id x \<and>
    organization_id actor = u_organization_id u \<and> department_id actor = u_department_id u \<and>
    data_scope actor = broadest_scope (user_active_roles s (u_id u)) \<and>
    permission_codes actor = role_codes s (active_role_ids s (u_id u))"
proof -
  from assms obtain token c where token: "cookie_token rq (session_cookie_name secure) = Some token"
    and c: "select_auth_context E (token_hash E token) s = Some c"
    and a: "as_str (data_scope actor) = sc_data_scope c" "user_id actor = sc_user_id c"
      "session_id actor = sc_session_id c" "organization_id actor = sc_organization_id c"
      "department_id actor = sc_department_id c" "permission_codes actor = sc_permission_codes c"
    by (rule authenticate_context)
  from c obtain x u where "x \<in> set (auth_sessions s)" "s_session_token_hash x = token_hash E token"
    "session_open E x" "u \<in> set (users s)" "session_user_ok s x u" "sc_session_id c = s_id x"
    "sc_user_id c = u_id u" "sc_organization_id c = u_organization_id u"
    "sc_department_id c = u_department_id u"
    "sc_data_scope c = effective_scope (user_active_roles s (u_id u))"
    "sc_permission_codes c = role_codes s (active_role_ids s (u_id u))"
    by (rule select_auth_context_Some)
  with token a show ?thesis
    by (intro exI [of _ token] exI [of _ x] exI [of _ u])
      (auto simp: session_open_def session_user_ok_def active_user_def effective_scope_broadest as_str_inj)
qed

theorem authenticate_sound_witness:
  "\<exists>actor t x. authenticate demo_env False (demo_request CHR ''b'') demo_db = (Inr actor, t) \<and>
     x \<in> set (auth_sessions demo_db) \<and> s_revoked_at x = None \<and> session_id actor = s_id x"
proof -
  have "\<not> isl (fst (authenticate demo_env False (demo_request CHR ''b'') demo_db))" by code_simp
  then obtain actor t where a: "authenticate demo_env False (demo_request CHR ''b'') demo_db = (Inr actor, t)"
    unfolding not_isl_ok by blast
  with authenticate_sound [OF a] show ?thesis by blast
qed

text \<open>
  C3. A request with an unsafe method authenticates exactly when it presents the session token and
  repeats the session's CSRF token in the header and in the cookie.
\<close>

theorem csrf_required:
  assumes "rq_method rq \<notin> {GET, HEAD, OPTIONS}"
  shows "\<not> isl (fst (authenticate E secure rq s)) \<longleftrightarrow>
    (\<exists>token c csrf. cookie_token rq (session_cookie_name secure) = Some token \<and>
       select_auth_context E (token_hash E token) s = Some c \<and>
       header_str rq ''x-csrf-token'' = Some csrf \<and> length csrf = 64 \<and>
       cookie_token rq (csrf_cookie_name secure) = Some csrf \<and>
       token_hash E csrf = sc_csrf_token_hash c)" (is "?L \<longleftrightarrow> ?R")
proof
  assume ?L
  then obtain actor t where "authenticate E secure rq s = (Inr actor, t)"
    unfolding not_isl_ok by blast
  then obtain token c where "cookie_token rq (session_cookie_name secure) = Some token"
    "select_auth_context E (token_hash E token) s = Some c"
    "validate_csrf E rq (sc_csrf_token_hash c) secure = Inr ()"
    by (rule authenticate_context)
  then show ?R using assms unfolding validate_csrf_ok by blast
next
  assume ?R
  then obtain token c where t: "cookie_token rq (session_cookie_name secure) = Some token"
    "select_auth_context E (token_hash E token) s = Some c"
    "validate_csrf E rq (sc_csrf_token_hash c) secure = Inr ()"
    by (auto simp: validate_csrf_ok)
  from t(2) obtain sc where "sc_data_scope c = as_str sc"
    by (rule select_auth_context_Some) (auto simp: effective_scope_broadest)
  with t show ?L
    by (auto simp: authenticate_def comp_defs repo_sessions_auth_context_def)
qed

theorem csrf_required_witness:
  "isl (fst (authenticate demo_env False ((demo_request CHR ''b'')\<lparr>rq_headers := Map.empty\<rparr>) demo_db))"
proof -
  have "rq_method ((demo_request CHR ''b'')\<lparr>rq_headers := Map.empty\<rparr>) \<notin> {GET, HEAD, OPTIONS}"
    by (simp add: demo_request_def)
  from csrf_required [OF this, of demo_env False demo_db] show ?thesis by (simp add: header_str_def)
qed

section \<open>The end of sessions\<close>

lemma unauthorized_token:
  assumes "cookie_token rq (session_cookie_name secure) = Some token"
    and "\<And>x. x \<in> set (auth_sessions s) \<Longrightarrow> s_session_token_hash x = token_hash E token \<Longrightarrow> s_revoked_at x \<noteq> None"
  shows "authenticate E secure rq s = (Inl Unauthorized, s)"
proof -
  have "find (\<lambda>x. s_session_token_hash x = token_hash E token \<and> session_open E x) (auth_sessions s) = None"
    using assms(2) by (auto simp: find_None_iff' session_open_def)
  then have "select_auth_context E (token_hash E token) s = None" by (simp add: select_auth_context_def)
  with assms(1) show ?thesis
    by (simp add: authenticate_def repo_sessions_auth_context_def comp_defs)
qed

lemma logout_revokes:
  assumes "logout E uid sid s = (Inr (), t)"
  shows "auth_sessions t = update_where (\<lambda>x. s_id x = sid \<and> s_user_id x = uid \<and> s_revoked_at x = None)
    (\<lambda>x. x\<lparr>s_revoked_at := Some (now E)\<rparr>) (auth_sessions s)"
proof -
  from assms obtain b u v where r: "repo_sessions_revoke E sid uid s = (Inr b, u)"
    and v: "record_session_revocation E (Some uid) uid ''logout'' (if b then 1 else 0) u = (Inr (), v)"
    and t: "audit_record E (Some uid) ''auth.logout'' ''auth_session'' (Some sid) (JObj []) v = (Inr (), t)"
    by (auto simp: logout_def ok_iff)
  from r show ?thesis
    using same_ok [OF same_sessions_audit(2) v] same_ok [OF same_sessions_audit(1) t]
    by (auto simp: repo_sessions_revoke_def ok_iff)
qed

lemma verify_current_password_ok:
  "verify_current_password E uid p s = (Inr x, t) \<longleftrightarrow>
     (\<exists>row. repo_users_find_by_id uid s = Some row \<and>
        argon2_verify E p (u_password_hash row) = Some True \<and> t = s)"
  by (auto simp: verify_current_password_def verify_password_hash_def ok_iff)

lemma find_by_id_row:
  "repo_users_find_by_id uid s = Some row \<Longrightarrow>
     \<exists>u \<in> set (users s). u_id u = uid \<and> live u \<and> u_password_hash u = u_password_hash row"
  by (auto simp: repo_users_find_by_id_def user_row.defs dest!: find_SomeD)

text \<open>
  C9. A successful password change checked the current password, stores a hash of the new one,
  advances the token version of the account and leaves it without an unrevoked session.
\<close>

theorem change_password_effect:
  assumes "change_password E uid req s = (Inr (), t)"
  shows "unrevoked_sessions t uid = [] \<and>
    (\<exists>u \<in> set (users s). u_id u = uid \<and> live u \<and>
       argon2_verify E (cp_current_password req) (u_password_hash u) = Some True) \<and>
    (\<exists>hash. argon2_hash E (cp_new_password req) (password_salt E 0) = Some hash \<and>
       users t = update_where (\<lambda>u. u_id u = uid \<and> live u)
         (\<lambda>u. u\<lparr>u_password_hash := hash, u_token_version := u_token_version u + 1,
                u_updated_at := now E\<rparr>) (users s))"
proof -
  from assms obtain hash r row u n v w where
    pw: "verify_current_password E uid (cp_current_password req) s = (Inr (), s)"
    and hash: "argon2_hash E (cp_new_password req) (password_salt E 0) = Some hash"
    and upd: "repo_users_update_password E uid hash s = (Inr r, u)" and row: "r = Some row"
    and rev: "repo_sessions_revoke_all_for_user E uid u = (Inr n, v)"
    and rec: "record_session_revocation E (Some uid) uid ''password_change'' n v = (Inr (), w)"
    and aud: "audit_record E (Some uid) ''user.password.change'' ''user'' (Some uid)
         (JObj [(''revokedExistingSessions'', JBool True),
                (''revokedSessionCount'', JInt (int n))]) w = (Inr (), t)"
    by (auto simp: change_password_def validate_password_def hash_password_def ok_iff
        verify_current_password_ok)
  have "auth_sessions t = auth_sessions v"
    using same_ok [OF same_sessions_audit(2) rec] same_ok [OF same_sessions_audit(1) aud] by simp
  with revoke_all_none [OF rev] have "unrevoked_sessions t uid = []" by (simp add: unrevoked_sessions_def)
  moreover have "users t = users u"
    using same_ok [OF same_users_audit(3) rev] same_ok [OF same_users_audit(2) rec]
      same_ok [OF same_users_audit(1) aud] by simp
  moreover have "users u = update_where (\<lambda>u. u_id u = uid \<and> live u)
      (\<lambda>u. u\<lparr>u_password_hash := hash, u_token_version := u_token_version u + 1,
             u_updated_at := now E\<rparr>) (users s)"
    using update_user_table [OF upd [unfolded repo_users_update_password_def]] by simp
  moreover obtain x where "x \<in> set (users s)" "u_id x = uid" "live x"
    "argon2_verify E (cp_current_password req) (u_password_hash x) = Some True"
    using pw find_by_id_row [of uid s] unfolding verify_current_password_ok by fastforce
  ultimately show ?thesis using hash by auto
qed

theorem change_password_effect_witness:
  "\<exists>t. change_password demo_env 2 \<lparr>cp_current_password = ''operator-password'',
        cp_new_password = ''a much longer password''\<rparr> demo_db = (Inr (), t) \<and>
     unrevoked_sessions t 2 = []"
proof -
  have "\<not> isl (fst (change_password demo_env 2 \<lparr>cp_current_password = ''operator-password'',
      cp_new_password = ''a much longer password''\<rparr> demo_db))" by code_simp
  then obtain t where c: "change_password demo_env 2 \<lparr>cp_current_password = ''operator-password'',
      cp_new_password = ''a much longer password''\<rparr> demo_db = (Inr (), t)"
    unfolding not_isl_ok by auto
  with change_password_effect [OF c] show ?thesis by blast
qed

lemma delete_one_effect:
  assumes "delete_one E pool oid i s = (Inr (), t)"
  shows "unrevoked_sessions t i = []" and "\<forall>u \<in> set (users t). u_id u = i \<longrightarrow> \<not> live u"
    and "\<forall>r. (i, r) \<notin> set (user_roles t)"
proof -
  from assms obtain s0 u n v w where del: "repo_users_soft_delete E i s = (Inr True, u)"
    and rev: "repo_sessions_revoke_all_for_user E i u = (Inr n, v)"
    and rec: "record_session_revocation E oid i ''account_deleted'' n v = (Inr (), w)"
    and aud: "audit_record E oid ''user.delete'' ''user'' (Some i)
       (JObj [(''previousRoleIds'', JArr (map JInt (repo_users_role_ids_by_user i pool)))]) w = (Inr (), t)"
    unfolding delete_one_def Let_def
    apply -
    apply (erule ok_bind_read, rule reads_intro)
    apply (simp only: bind_ok map_err_ok ensure_ok)
    apply (elim exE conjE)
    apply simp
    done
  have "auth_sessions t = auth_sessions v"
    using same_ok [OF same_sessions_audit(2) rec] same_ok [OF same_sessions_audit(1) aud] by simp
  with revoke_all_none [OF rev] show "unrevoked_sessions t i = []" by (simp add: unrevoked_sessions_def)
  have users: "users t = users u"
    using same_ok [OF same_users_audit(3) rev] same_ok [OF same_users_audit(2) rec]
      same_ok [OF same_users_audit(1) aud] by simp
  show "\<forall>u \<in> set (users t). u_id u = i \<longrightarrow> \<not> live u"
  proof (intro ballI impI)
    fix x assume "x \<in> set (users t)" and i: "u_id x = i"
    then have "x \<in> set (update_where (\<lambda>u. u_id u = i \<and> live u)
        (\<lambda>u. u\<lparr>u_deleted_at := Some (now E), u_updated_at := now E\<rparr>) (users s))"
      using del users by (simp add: soft_delete_ok)
    then have "\<not> (u_id x = i \<and> live x)" by (rule update_where_none_left) simp_all
    with i show "\<not> live x" by simp
  qed
  have "within (same user_roles) (audit_record E a b c d e)"
    "within (same user_roles) (record_session_revocation E oid' i' reason k)"
    "within (same user_roles) (repo_sessions_revoke_all_for_user E i')" for a b c d e oid' i' reason k
    by (intro frame_intro same_db.within_session_revocation; simp add: same_def)+
  note same = this
  have "user_roles t = user_roles u"
    using same_ok [OF same(3) rev] same_ok [OF same(2) rec] same_ok [OF same(1) aud] by simp
  with del show "\<forall>r. (i, r) \<notin> set (user_roles t)" by (simp add: soft_delete_ok)
qed

text \<open>
  C11. A successful deletion of a user marks it deleted, removes all its roles and revokes all its
  sessions; the actor was somebody else and had the user in its data scope.
\<close>

theorem delete_user_effect:
  assumes "svc_users_delete E i (Some actor) s = (Inr (), t)"
  shows "user_id actor \<noteq> i \<and>
    (\<exists>u \<in> set (users s). u_id u = i \<and> live u \<and> user_in_scope actor s u) \<and>
    unrevoked_sessions t i = [] \<and> (\<forall>u \<in> set (users t). u_id u = i \<longrightarrow> \<not> live u) \<and>
    (\<forall>r. (i, r) \<notin> set (user_roles t))"
proof -
  from assms have acc: "repo_users_find_by_id_for_actor actor i s \<noteq> None" "user_id actor \<noteq> i"
    and del: "delete_one E s (Some (user_id actor)) i s = (Inr (), t)"
    by (auto simp: svc_users_delete_def ensure_actor_can_access_def ok_iff)
  from acc(1) have "\<exists>u \<in> set (users s). u_id u = i \<and> live u \<and> user_in_scope actor s u"
    by (auto simp: repo_users_find_by_id_for_actor_def find_None_iff')
  with acc(2) delete_one_effect [OF del] show ?thesis by blast
qed

definition demo_operator :: actor_context where
  "demo_operator =
     \<lparr>user_id = 2, session_id = 2, organization_id = 1, department_id = Some 2,
      data_scope = Organization, permission_codes = {UserRead, UserDeactivate, UserRoleWrite}\<rparr>"

theorem delete_user_effect_witness:
  "\<exists>t. svc_users_delete demo_env 3 (Some demo_operator) demo_db = (Inr (), t) \<and>
     unrevoked_sessions t 3 = [] \<and> (\<forall>r. (3, r) \<notin> set (user_roles t))"
proof -
  have "\<not> isl (fst (svc_users_delete demo_env 3 (Some demo_operator) demo_db))" by code_simp
  then obtain t where d: "svc_users_delete demo_env 3 (Some demo_operator) demo_db = (Inr (), t)"
    unfolding not_isl_ok by auto
  with delete_user_effect [OF d] show ?thesis by blast
qed

end
