(* ===== verification/Inv_Logout.thy ===== *)
theory Inv_Logout
  imports Thm_Auth
begin

text \<open>
  A session that was ended stays ended. \<open>ended n h i\<close> says that every session with the token hash
  \<open>h\<close> or the id \<open>i\<close> is revoked, sessions with an id from \<open>n\<close> on apart; \<open>n\<close> is the next id at the
  time of a logout, so these are the sessions opened after it.
\<close>

definition ended :: "int \<Rightarrow> string \<Rightarrow> int \<Rightarrow> db \<Rightarrow> bool" where
  "ended n h i s \<longleftrightarrow> n \<le> sessions_seq s \<and>
     (\<forall>x \<in> set (auth_sessions s). s_session_token_hash x = h \<or> s_id x = i \<longrightarrow>
        s_revoked_at x \<noteq> None \<or> n \<le> s_id x)"

section \<open>Statements\<close>

lemma ended_update:
  assumes "ended n h i s" and "\<And>x. P x \<Longrightarrow> s_id (f x) = s_id x"
    and "\<And>x. P x \<Longrightarrow> s_revoked_at (f x) = None \<Longrightarrow> s_revoked_at x = None"
    and "\<And>x. P x \<Longrightarrow> s_session_token_hash (f x) = s_session_token_hash x"
  shows "ended n h i (auth_sessions_update (update_where P f) s)"
  using assms by (fastforce simp: ended_def update_where_def)

lemma ended_delete: "ended n h i s \<Longrightarrow> ended n h i (auth_sessions_update (delete_where P) s)"
  by (auto simp: ended_def delete_where_def)

lemma ended_insert:
  "ended n h i s \<Longrightarrow> ended n h i (sessions_seq_update (\<lambda>k. k + 1)
     (auth_sessions_update (\<lambda>xs. xs @ [new_session_rec E s ns]) s))"
  by (auto simp: ended_def new_session_rec_def)

lemma ended_frames [simp]:
  "ended n h i (audit_seq_update f1 (audit_logs_update g1 s)) = ended n h i s"
  "ended n h i (audit_logs_update g1 s) = ended n h i s"
  "ended n h i (users_update g2 s) = ended n h i s"
  "ended n h i (users_seq_update f3 (users_update g3 s)) = ended n h i s"
  "ended n h i (user_roles_update g4 s) = ended n h i s"
  "ended n h i (roles_update g5 s) = ended n h i s"
  "ended n h i (roles_seq_update f6 (roles_update g6 s)) = ended n h i s"
  "ended n h i (role_permissions_update g7 s) = ended n h i s"
  "ended n h i (auth_login_attempts_update g8 s) = ended n h i s"
  "ended n h i (auth_step_up_tokens_update g9 s) = ended n h i s"
  "ended n h i (auth_module_unlocks_update g10 s) = ended n h i s"
  "ended n h i (user_mfa_settings_update g11 s) = ended n h i s"
  "ended n h i (user_mfa_recovery_codes_update g12 s) = ended n h i s"
  "ended n h i (recovery_seq_update f13 (user_mfa_recovery_codes_update g13 s)) = ended n h i s"
  "ended n h i (user_passkeys_update g14 s) = ended n h i s"
  "ended n h i (passkeys_seq_update f15 (user_passkeys_update g15 s)) = ended n h i s"
  "ended n h i (auth_mfa_challenges_update g16 s) = ended n h i s"
  "ended n h i (challenges_seq_update f17 (auth_mfa_challenges_update g17 s)) = ended n h i s"
  "ended n h i (departments_update g18 s) = ended n h i s"
  "ended n h i (departments_seq_update f19 (departments_update g19 s)) = ended n h i s"
  by (simp_all add: ended_def)

section \<open>Operations\<close>

lemma revoke_where_ended: "within (keeping (ended n h i)) (revoke_where E P)"
  unfolding revoke_where_def
  by (intro keeps_intro keeping.within_modify) (auto simp: keeping_def intro!: ended_update)

lemma revoke_ended:
  "within (keeping (ended n h i)) (repo_sessions_revoke E j k)"
  "within (keeping (ended n h i)) (repo_sessions_revoke_all_for_user E j)"
  "within (keeping (ended n h i)) (repo_sessions_enforce_user_limit E j mx)"
  unfolding repo_sessions_revoke_def repo_sessions_revoke_all_for_user_def
    repo_sessions_enforce_user_limit_def
  by (intro keeps_intro revoke_where_ended)+

lemma auth_context_ended: "within (keeping (ended n h i)) (repo_sessions_auth_context E k)"
  unfolding repo_sessions_auth_context_def
  by (intro keeps_intro keeping.within_modify) (auto simp: keeping_def intro!: ended_update)

lemma prune_ended: "within (keeping (ended n h i)) (repo_sessions_prune E)"
  unfolding repo_sessions_prune_def delete_sessions_def Let_def
  by (intro keeps_intro keeping.within_modify) (auto simp: keeping_def intro: ended_delete)

lemma create_ended: "within (keeping (ended n h i)) (repo_sessions_create E ns)"
proof (rule post_keeping)
  fix s assume s: "ended n h i s"
  show "post (ended n h i) (repo_sessions_create E ns) s"
    using s ended_insert [OF s, of E ns]
    by (auto simp: post_def repo_sessions_create_def comp_defs)
qed

lemma create_login_session_ended:
  "within (keeping (ended n h i)) (create_login_session E config draw persistent keys row)"
proof -
  have "within (keeping (ended n h i)) (repo_users_update_last_login E j)"
    "within (keeping (ended n h i)) (repo_sessions_clear_login_failures k)"
    "within (keeping (ended n h i)) (audit_record E a b c d e)" for j k a b c d e
    by (intro frame_intro; simp add: keeping_def)+
  then show ?thesis
    unfolding create_login_session_def Let_def
    by (intro keeps_intro create_ended revoke_ended prune_ended keeping_db.within_session_revocation)
qed

interpretation ended: system_relation "keeping (ended n h i)" config for n h i config
  by unfold_locales
    (intro create_login_session_ended auth_context_ended revoke_ended keeping_db.svc_frames
      frame_intro; simp add: keeping_def)+

lemma bootstrap_ended: "within (keeping (ended n h i)) (bootstrap_super_admin E u p d e)"
  by (intro revoke_ended keeping_db.svc_frames frame_intro; simp add: keeping_def)

section \<open>Logout\<close>

text \<open>A logout ends the session and the token that authenticated the request.\<close>

lemma logout_ends:
  assumes ok: "sessions_ok n s" and auth: "authenticate E secure rq s = (Inr actor, s1)"
    and out: "logout E (user_id actor) (session_id actor) s1 = (Inr (), t)"
    and token: "cookie_token rq (session_cookie_name secure) = Some token"
  shows "ended (sessions_seq t) (token_hash E token) (session_id actor) t \<and>
    session_id actor < sessions_seq t"
proof -
  from auth token obtain c where c: "select_auth_context E (token_hash E token) s = Some c"
    and ids: "user_id actor = sc_user_id c" "session_id actor = sc_session_id c"
    and s1: "s1 = auth_sessions_update (update_where
       (\<lambda>x. s_id x = sc_session_id c \<and> s_last_seen_at x < now E - secs 60)
       (\<lambda>x. x\<lparr>s_last_seen_at := now E\<rparr>)) s"
    by (auto elim: authenticate_context)
  from c obtain x u where x: "x \<in> set (auth_sessions s)" "s_session_token_hash x = token_hash E token"
    and u: "session_user_ok s x u" "sc_session_id c = s_id x" "sc_user_id c = u_id u"
    by (rule select_auth_context_Some)
  let ?P = "\<lambda>z. s_id z = session_id actor \<and> s_user_id z = user_id actor \<and> s_revoked_at z = None"
  have "s_revoked_at y \<noteq> None" if y: "y \<in> set (auth_sessions t)"
    and h: "s_session_token_hash y = token_hash E token \<or> s_id y = session_id actor" for y
  proof -
    from y have y': "y \<in> set (update_where ?P (\<lambda>z. z\<lparr>s_revoked_at := Some (now E)\<rparr>) (auth_sessions s1))"
      by (simp add: logout_revokes [OF out])
    have "\<not> ?P y" using y' by (rule update_where_none_left) simp_all
    moreover have "s_id y = s_id x \<and> s_user_id y = s_user_id x"
    proof -
      from y' obtain z where z: "z \<in> set (auth_sessions s)" "s_id y = s_id z" "s_user_id y = s_user_id z"
        "s_session_token_hash y = s_session_token_hash z"
        by (auto simp: s1 update_where_def split: if_splits)
      with h x ids u ok have "z = x"
        by (auto simp: sessions_ok_def limited_def primary_key_def dest: distinct_map_unique)
      with z show ?thesis by simp
    qed
    ultimately show ?thesis using u ids by (simp add: session_user_ok_def)
  qed
  then have "ended (sessions_seq t) (token_hash E token) (session_id actor) t" by (auto simp: ended_def)
  moreover have "session_id actor < sessions_seq t"
  proof -
    have "sessions_ok n s1"
      using ok by (auto simp: s1 sessions_ok_def intro!: limited_update)
    with sessions.within_logout [where config = "undefined\<lparr>max_sessions_per_user := int n\<rparr>"] out
    have "sessions_ok n t" by (auto dest: keeping_ok)
    moreover have "map s_id (auth_sessions t) = map s_id (auth_sessions s)"
      by (simp add: logout_revokes [OF out] s1)
    then have "session_id actor \<in> s_id ` set (auth_sessions t)"
      using x(1) u(2) ids(2) by (metis image_eqI list.set_map)
    ultimately show ?thesis by (auto simp: sessions_ok_def limited_def primary_key_def)
  qed
  ultimately show ?thesis ..
qed

text \<open>Where it stays ended, neither the session nor the token authenticates.\<close>

lemma ended_refused:
  assumes "ended n h i t" and "cookie_token rq (session_cookie_name secure) = Some token"
    and "token_hash E token = h"
  shows "authenticate E secure rq t = (Inl Unauthorized, t) \<or>
    (\<exists>x \<in> set (auth_sessions t). s_session_token_hash x = h \<and> n \<le> s_id x)"
proof (cases "\<exists>x \<in> set (auth_sessions t). s_session_token_hash x = h \<and> n \<le> s_id x")
  case False
  with assms(1,3) have "authenticate E secure rq t = (Inl Unauthorized, t)"
    by (intro unauthorized_token [OF assms(2)]) (auto simp: ended_def)
  then show ?thesis ..
qed blast

lemma ended_session:
  assumes "ended n h i t" and "i < n" and "authenticate E secure rq t = (Inr actor, v)"
  shows "session_id actor \<noteq> i"
proof
  assume i: "session_id actor = i"
  from assms(3) obtain token c where "select_auth_context E (token_hash E token) t = Some c"
    "session_id actor = sc_session_id c"
    by (rule authenticate_context)
  with i obtain x where "x \<in> set (auth_sessions t)" "s_id x = i" "s_revoked_at x = None"
    by (auto simp: session_open_def elim: select_auth_context_Some)
  with assms(1,2) show False by (auto simp: ended_def)
qed

end
