(* ===== verification/Inv_Admin.thy ===== *)
theory Inv_Admin
  imports System
begin

text \<open>
  The last active super administrator. \<open>admin_ok\<close> says that the built-in role exists and that
  some active user holds it; \<open>adm X\<close> says it of the users outside \<open>X\<close>. The guard
  \<open>protect_last_super_admin\<close> establishes \<open>adm {i}\<close>, and whatever is then done to user \<open>i\<close> keeps it.
  Every request keeps \<open>admin_ok\<close>.
\<close>

definition keys_ok :: "db \<Rightarrow> bool" where
  "keys_ok db \<longleftrightarrow>
     primary_key u_id (users db) (users_seq db) \<and> primary_key r_id (roles db) (roles_seq db) \<and>
     distinct (map r_code (roles db))"

definition adm :: "int set \<Rightarrow> db \<Rightarrow> bool" where
  "adm X db \<longleftrightarrow> keys_ok db \<and>
     (\<exists>rid. super_admin_role db = Some rid \<and> active_members db rid - X \<noteq> {})"

definition admin_ok :: "db \<Rightarrow> bool" where
  "admin_ok db \<longleftrightarrow> adm {} db"

lemma adm_mono: "adm Y db \<Longrightarrow> X \<subseteq> Y \<Longrightarrow> adm X db"
  by (auto simp: adm_def)

lemma adm_admin_ok: "adm X db \<Longrightarrow> admin_ok db"
  by (auto simp: admin_ok_def intro: adm_mono)

section \<open>Tables\<close>

lemma active_members_iff:
  "i \<in> active_members db rid \<longleftrightarrow>
     (i, rid) \<in> set (user_roles db) \<and> (\<exists>u \<in> set (users db). u_id u = i \<and> active_user u)"
  by (auto simp: active_members_def)

lemma finite_active_members [simp]: "finite (active_members db rid)"
  by (simp add: active_members_def)

lemma adm_users_update:
  assumes "adm X s" and id: "\<And>u. P u \<Longrightarrow> u_id (f u) = u_id u"
    and act: "\<And>u. P u \<Longrightarrow> active_user u \<Longrightarrow> active_user (f u) \<or> u_id u \<in> X"
  shows "adm X (users_update (update_where P f) s)"
proof -
  let ?t = "users_update (update_where P f) s"
  from assms(1) obtain rid where rid: "super_admin_role s = Some rid"
    and ne: "active_members s rid - X \<noteq> {}" and keys: "keys_ok s" by (auto simp: adm_def)
  from ne obtain i where i: "i \<in> active_members s rid" "i \<notin> X" by auto
  then obtain u where u: "u \<in> set (users s)" "u_id u = i" "active_user u" "(i, rid) \<in> set (user_roles s)"
    by (auto simp: active_members_iff)
  let ?v = "if P u then f u else u"
  have "?v \<in> set (users ?t)" using u(1) by (auto simp: update_where_def)
  moreover have "u_id ?v = i \<and> active_user ?v" using id [of u] act [of u] u i(2) by auto
  ultimately have "i \<in> active_members ?t rid"
    using u(4) by (auto simp: active_members_iff)
  moreover have "keys_ok ?t"
    using keys users_tab.pk_update [of s P f, OF _ id] by (auto simp: keys_ok_def)
  ultimately show ?thesis using rid i(2) by (auto simp: adm_def super_admin_role_def)
qed

lemma adm_user_roles:
  assumes "adm X s" and "\<And>i r. i \<notin> X \<Longrightarrow> (i, r) \<in> set (user_roles s) \<Longrightarrow> super_admin_role s = Some r \<Longrightarrow>
      (i, r) \<in> set (g (user_roles s))"
  shows "adm X (user_roles_update g s)"
proof -
  from assms(1) obtain r i where s: "super_admin_role s = Some r" "keys_ok s"
    and i: "i \<in> active_members s r" "i \<notin> X" by (auto simp: adm_def)
  with assms(2) [of i r] have "i \<in> active_members (user_roles_update g s) r"
    by (auto simp: active_members_iff)
  with s i(2) show ?thesis by (auto simp: adm_def keys_ok_def super_admin_role_def)
qed

lemma adm_frames [simp]:
  "adm X (audit_seq_update f1 (audit_logs_update g1 s)) = adm X s"
  "adm X (auth_sessions_update g2 s) = adm X s"
  "adm X (role_permissions_update g3 s) = adm X s"
  "adm X (sessions_seq_update f4 (auth_sessions_update g4 s)) = adm X s"
  "adm X (auth_login_attempts_update g5 s) = adm X s"
  "adm X (auth_step_up_tokens_update g6 s) = adm X s"
  "adm X (auth_module_unlocks_update g7 s) = adm X s"
  "adm X (user_mfa_settings_update g8 s) = adm X s"
  "adm X (user_mfa_recovery_codes_update g9 s) = adm X s"
  "adm X (recovery_seq_update f10 (user_mfa_recovery_codes_update g10 s)) = adm X s"
  "adm X (user_passkeys_update g11 s) = adm X s"
  "adm X (passkeys_seq_update f12 (user_passkeys_update g12 s)) = adm X s"
  "adm X (auth_mfa_challenges_update g13 s) = adm X s"
  "adm X (challenges_seq_update f14 (auth_mfa_challenges_update g14 s)) = adm X s"
  "adm X (departments_update g15 s) = adm X s"
  "adm X (departments_seq_update f16 (departments_update g16 s)) = adm X s"
  by (simp_all add: adm_def keys_ok_def super_admin_role_def active_members_def)

section \<open>Repository functions\<close>

lemma update_user_adm:
  assumes "\<And>u. u_id (f u) = u_id u" and "i \<in> X \<or> (\<forall>u. active_user u \<longrightarrow> active_user (f u))"
  shows "within (keeping (adm X)) (update_user i f)"
proof (rule post_keeping)
  fix s assume s: "adm X s"
  obtain r t where m: "update_user i f s = (r, t)" by (cases "update_user i f s")
  have "adm X t"
  proof (cases r)
    case (Inl e)
    with m have "t = s"
      by (auto simp: update_user_def comp_defs user_constraints_def split: if_splits option.splits)
    with s show ?thesis by simp
  next
    case (Inr x)
    with m have "t = users_update (update_where (\<lambda>u. u_id u = i \<and> live u) f) s"
      using update_user_table by blast
    with s assms show ?thesis by (auto intro: adm_users_update)
  qed
  with m show "post (adm X) (update_user i f) s" by (simp add: post_def)
qed

lemma update_password_adm: "within (keeping (adm X)) (repo_users_update_password E i h)"
  unfolding repo_users_update_password_def by (rule update_user_adm) (auto simp: active_user_def)

lemma update_profile_adm:
  assumes "i \<in> X \<or> st = None \<or> st = Some ''active''"
  shows "within (keeping (adm X)) (repo_users_update_profile E i d b e st dp)"
  unfolding repo_users_update_profile_def
  by (rule update_user_adm) (use assms in \<open>auto simp: active_user_def\<close>)

lemma update_last_login_adm: "within (keeping (adm X)) (repo_users_update_last_login E i)"
  unfolding repo_users_update_last_login_def
  by (rule keeping.within_modify) (auto simp: keeping_def active_user_def intro: adm_users_update)

lemma soft_delete_adm:
  assumes "i \<in> X"
  shows "within (keeping (adm X)) (repo_users_soft_delete E i)"
proof -
  have 1: "within (keeping (adm X)) (modify (users_update (update_where (\<lambda>u. u_id u = i \<and> live u)
      (\<lambda>u. u\<lparr>u_deleted_at := Some (now E), u_updated_at := now E\<rparr>))))"
    by (rule keeping.within_modify) (use assms in \<open>auto simp: keeping_def intro: adm_users_update\<close>)
  have 2: "within (keeping (adm X)) (modify (user_roles_update (delete_where (\<lambda>p. fst p = i))))"
    by (rule keeping.within_modify) (use assms in \<open>auto simp: keeping_def intro: adm_user_roles\<close>)
  show ?thesis unfolding repo_users_soft_delete_def by (intro keeps_intro 1 2)
qed

lemma insert_user_role_adm: "within (keeping (adm X)) (insert_user_role i r)"
  unfolding insert_user_role_def
  by (intro keeps_intro keeping.within_modify) (auto simp: keeping_def intro: adm_user_roles)

lemma assign_roles_adm:
  assumes "i \<in> X"
  shows "within (keeping (adm X)) (repo_users_assign_roles i rs)"
proof -
  have "within (keeping (adm X)) (modify (user_roles_update (delete_where (\<lambda>p. fst p = i))))"
    by (rule keeping.within_modify) (use assms in \<open>auto simp: keeping_def intro: adm_user_roles\<close>)
  then show ?thesis unfolding repo_users_assign_roles_def
    by (intro keeps_intro insert_user_role_adm)
qed

text \<open>Assigning a list with the super administrator role keeps every administrator.\<close>

lemma assign_roles_with_admin:
  assumes "adm X s" and "super_admin_role s = Some r" and "r \<in> set rs"
    and "repo_users_assign_roles i rs s = (Inr u, t)"
  shows "adm X t" and "super_admin_role t = Some r"
proof -
  have t: "t = user_roles_update (\<lambda>ps. delete_where (\<lambda>p. fst p = i) ps @ map (Pair i) rs) s"
    using assign_roles_table [OF assms(4)] by simp
  show "adm X t" unfolding t
    by (rule adm_user_roles) (use assms in auto)
  show "super_admin_role t = Some r" using assms(2) by (simp add: t super_admin_role_def)
qed

lemma users_create_adm:
  assumes "admin_ok s" and "repo_users_create E nu s = (Inr row, t)"
  shows "adm {u_id row} t"
proof -
  let ?u = "new_user_rec E s nu"
  have row: "u_id row = users_seq s"
    and t: "t = users_seq_update (\<lambda>n. n + 1) (users_update (\<lambda>us. us @ [?u]) s)"
    using assms(2) by (auto simp: repo_users_create_def Let_def ok_iff user_row.defs new_user_rec_def)
  from assms(1) obtain rid i where rid: "super_admin_role s = Some rid"
    and i: "i \<in> active_members s rid" and keys: "keys_ok s"
    by (auto simp: admin_ok_def adm_def)
  have "i \<noteq> users_seq s"
    using i keys by (auto simp: active_members_iff keys_ok_def primary_key_def)
  moreover have "i \<in> active_members t rid"
    using i by (auto simp: active_members_iff t)
  moreover have "keys_ok t"
    using keys users_tab.pk_insert [of s ?u] by (auto simp: keys_ok_def t new_user_rec_def)
  ultimately show ?thesis using rid row by (auto simp: adm_def super_admin_role_def t)
qed

section \<open>The guard\<close>

lemma protect_adm:
  assumes "admin_ok s" and "protect_last_super_admin i s = (Inr u, t)"
  shows "t = s" and "adm {i} s"
proof -
  from assms(1) obtain rid j where rid: "super_admin_role s = Some rid" and j: "j \<in> active_members s rid"
    and keys: "keys_ok s" by (auto simp: admin_ok_def adm_def)
  have g: "repo_users_super_admin_guard_state i s =
      (i \<in> active_members s rid, card (active_members s rid))"
    using rid by (simp add: repo_users_super_admin_guard_state_def)
  with assms(2) show "t = s"
    by (auto simp: protect_last_super_admin_def ok_iff split: if_splits)
  have "active_members s rid - {i} \<noteq> {}"
  proof (cases "i \<in> active_members s rid")
    case True
    with assms(2) g have "1 < card (active_members s rid)"
      by (auto simp: protect_last_super_admin_def ok_iff split: if_splits)
    then have "\<not> active_members s rid \<subseteq> {i}" by (auto dest!: card_mono [rotated])
    then show ?thesis by blast
  next
    case False
    with j show ?thesis by blast
  qed
  with rid keys show "adm {i} s" by (auto simp: adm_def)
qed

text \<open>What follows the guard may do anything to user \<open>i\<close> and to nobody else.\<close>

lemma committed_protect:
  assumes "\<And>x. committed (adm {i}) (k x)"
  shows "committed admin_ok (bind (protect_last_super_admin i) k)"
proof -
  have "admin_ok t" if ok: "admin_ok s" and m: "bind (protect_last_super_admin i) k s = (Inr y, t)" for s y t
  proof -
    from m obtain x u where p: "protect_last_super_admin i s = (Inr x, u)" and k: "k x u = (Inr y, t)"
      unfolding bind_ok by blast
    from committed_ok [OF assms k] protect_adm [OF ok p] have "adm {i} t" by simp
    then show ?thesis by (rule adm_admin_ok)
  qed
  then show ?thesis by (simp add: committed_def)
qed

section \<open>Services on users\<close>

lemma adm_audit: "within (keeping (adm X)) (audit_record E a b c d e)"
  by (intro frame_intro) (simp add: keeping_def)

lemma adm_revocation:
  "within (keeping (adm X)) (repo_sessions_revoke_all_for_user E i)"
  "within (keeping (adm X)) (record_session_revocation E oid i reason n)"
  by (intro frame_intro keeping_db.within_session_revocation adm_audit; simp add: keeping_def)+

lemmas adm_steps = adm_audit adm_revocation

lemma delete_one_admin: "committed admin_ok (delete_one E pool oid i)"
  unfolding delete_one_def Let_def
  by (intro committed_protect committed_within keeps_intro adm_steps soft_delete_adm) simp

text \<open>The statements before a transaction; the transaction is left to the invariant.\<close>

lemmas before_transaction =
  keeping.within_bind keeping.within_gets keeping.within_ensure keeping.within_ok_or
  keeping.within_for_each keeping_db.within_guards

lemma svc_users_delete_admin: "within (keeping admin_ok) (svc_users_delete E i oactor)"
  unfolding svc_users_delete_def
  by (intro before_transaction within_committed delete_one_admin)

lemma svc_users_delete_many_admin: "within (keeping admin_ok) (svc_users_delete_many E oactor is)"
  unfolding svc_users_delete_many_def
  by (intro before_transaction within_committed committed_for_each delete_one_admin)

lemma update_body_admin:
  assumes "\<And>X. (X = {} \<longrightarrow> \<not> b) \<Longrightarrow> i \<in> X \<or> X = {} \<Longrightarrow> committed (adm X) m"
  shows "committed admin_ok (bind (if b then protect_last_super_admin i else ret ()) (\<lambda>_. m))"
proof (cases b)
  case True
  with assms [of "{i}"] show ?thesis by (simp add: committed_protect)
next
  case False
  with assms [of "{}"] show ?thesis by (auto simp: committed_def ok_iff admin_ok_def)
qed

lemma svc_users_update_admin: "within (keeping admin_ok) (svc_users_update E i oactor uu g d)"
  unfolding svc_users_update_def Let_def prod.case_eq_if
  by (intro before_transaction keeping_db.within_map_opt keeping.within_option keeping_db.within_prod
      keeping.within_if keeping.within_ret within_committed update_body_admin;
      intro keeps_intro committed_within adm_steps update_password_adm update_profile_adm)
    (auto split: option.splits)

text \<open>
  Assigning roles compares the list with the active role \<open>super_admin\<close>, read before the
  transaction. Where it is found it is the role of the invariant.
\<close>

definition assign_ok :: "int option \<Rightarrow> int set \<Rightarrow> db \<Rightarrow> bool" where
  "assign_ok sa X db \<longleftrightarrow> adm X db \<and> (\<forall>r. sa = Some r \<longrightarrow> super_admin_role db = Some r)"

lemma id_by_code_role:
  assumes "keys_ok s" and "repo_roles_id_by_code ''super_admin'' s = Some r"
  shows "super_admin_role s = Some r"
proof -
  from assms(2) obtain x where x: "x \<in> set (roles s)" "r_code x = ''super_admin''" "r_id x = r"
    by (auto simp: repo_roles_id_by_code_def dest!: find_SomeD)
  then obtain y where y: "find (\<lambda>r. r_code r = ''super_admin'') (roles s) = Some y"
    by (cases "find (\<lambda>r. r_code r = ''super_admin'') (roles s)") (auto simp: find_None_iff')
  from find_SomeD [OF y] x assms(1) have "y = x"
    by (auto simp: keys_ok_def dest: distinct_map_unique)
  with x y show ?thesis by (simp add: super_admin_role_def)
qed

lemma id_by_code_super_admin:
  "admin_ok s \<Longrightarrow> assign_ok (repo_roles_id_by_code ''super_admin'' s) {} s"
  by (auto simp: assign_ok_def admin_ok_def adm_def intro: id_by_code_role)

lemma assign_roles_committed:
  assumes "i \<in> X \<or> (\<exists>r \<in> set rs. sa = Some r)"
  shows "committed (assign_ok sa X) (repo_users_assign_roles i rs)"
proof -
  have "assign_ok sa X t" if ok: "assign_ok sa X s" and a: "repo_users_assign_roles i rs s = (Inr y, t)" for s y t
  proof -
    have "super_admin_role t = super_admin_role s"
      using assign_roles_table [OF a] by (simp add: super_admin_role_def)
    moreover have "adm X t"
      using assms
    proof
      assume "i \<in> X"
      from keeping_ok [OF assign_roles_adm [OF this] a] ok show ?thesis by (simp add: assign_ok_def)
    next
      assume "\<exists>r \<in> set rs. sa = Some r"
      with ok a show ?thesis by (auto simp: assign_ok_def intro: assign_roles_with_admin)
    qed
    ultimately show ?thesis using ok by (simp add: assign_ok_def)
  qed
  then show ?thesis by (simp add: committed_def)
qed

lemma assign_one_admin: "committed (assign_ok sa {}) (assign_one E oid sa rs pool i)"
proof -
  have audit: "committed (assign_ok sa X) (audit_record E a b c d e)" for X a b c d e
    by (rule committed_within, intro frame_intro)
      (simp add: keeping_def assign_ok_def super_admin_role_def)
  have ret: "committed (assign_ok sa X) (ret ())" for X
    by (intro committed_within keeps_intro)
  note steps = commit_intro audit ret assign_roles_committed
  show ?thesis
  proof (cases "\<exists>r \<in> set rs. sa = Some r")
    case True
    then have cond: "case sa of None \<Rightarrow> False | Some r \<Rightarrow> r \<in> set rs" by auto
    show ?thesis unfolding assign_one_def Let_def if_P [OF cond] by (intro steps disjI2 True)
  next
    case False
    then have cond: "\<not> (case sa of None \<Rightarrow> False | Some r \<Rightarrow> r \<in> set rs)"
      by (auto split: option.splits)
    have protect: "committed (assign_ok sa {}) (bind (protect_last_super_admin i) k)"
      if k: "\<And>x. committed (assign_ok sa {i}) (k x)" for k :: "unit \<Rightarrow> unit svc"
    proof -
      have "assign_ok sa {} t" if ok: "assign_ok sa {} s"
        and m: "bind (protect_last_super_admin i) k s = (Inr y, t)" for s y t
      proof -
        from m obtain x u where p: "protect_last_super_admin i s = (Inr x, u)"
          and ku: "k x u = (Inr y, t)" unfolding bind_ok by blast
        have "assign_ok sa {i} u"
          using protect_adm [OF _ p] ok by (auto simp: assign_ok_def admin_ok_def)
        with committed_ok [OF k ku] show ?thesis by (auto simp: assign_ok_def intro: adm_mono)
      qed
      then show ?thesis by (simp add: committed_def)
    qed
    show ?thesis unfolding assign_one_def Let_def if_not_P [OF cond]
      by (intro protect steps) simp
  qed
qed

lemma assign_ok_admin: "assign_ok sa {} s \<Longrightarrow> admin_ok s"
  by (simp add: assign_ok_def admin_ok_def)

lemma svc_users_assign_admin:
  "within (keeping admin_ok) (svc_users_assign_roles E oactor i rs g)"
  "within (keeping admin_ok) (svc_users_assign_roles_many E oactor is rs g)"
proof -
  have one: "post admin_ok (transaction m) s"
    if "admin_ok s" and "gets (repo_roles_id_by_code ''super_admin'') s = (Inr sa, s)"
      and "committed (assign_ok sa {}) m" for m :: "unit svc" and s sa
    using that id_by_code_super_admin [of s]
    by (auto simp: gets_ok intro!: post_transaction intro: assign_ok_admin dest: committed_ok)
  note reading = post_bind_read reads_intro
  show "within (keeping admin_ok) (svc_users_assign_roles E oactor i rs g)"
    unfolding svc_users_assign_roles_def
    by (rule post_keeping) (rule reading one assign_one_admin | assumption)+
  show "within (keeping admin_ok) (svc_users_assign_roles_many E oactor is rs g)"
    unfolding svc_users_assign_roles_many_def
    by (rule post_keeping) (rule reading one commit_intro assign_one_admin | assumption)+
qed

lemma svc_users_create_admin: "within (keeping admin_ok) (svc_users_create E actor cu g d)"
proof -
  have body: "committed admin_ok
      (bind (map_err db_error (repo_users_create E nu)) (\<lambda>row.
       bind (case rs of None \<Rightarrow> ret ()
             | Some rs \<Rightarrow> map_err db_error (repo_users_assign_roles (u_id row) rs)) (\<lambda>_.
       bind (map_err db_error (audit_record E a b c (Some (u_id row)) e)) (\<lambda>_. ret row))))"
    for nu rs a b c e
  proof -
    have "admin_ok t" if ok: "admin_ok s" and c: "repo_users_create E nu s = (Inr row, u)"
      and k: "bind (case rs of None \<Rightarrow> ret ()
             | Some rs \<Rightarrow> map_err db_error (repo_users_assign_roles (u_id row) rs)) (\<lambda>_.
       bind (map_err db_error (audit_record E a b c (Some (u_id row)) e)) (\<lambda>_. ret row)) u = (Inr y, t)"
      for s row u y t
    proof -
      have "committed (adm {u_id row}) (bind (case rs of None \<Rightarrow> ret ()
             | Some rs \<Rightarrow> map_err db_error (repo_users_assign_roles (u_id row) rs)) (\<lambda>_.
       bind (map_err db_error (audit_record E a b c (Some (u_id row)) e)) (\<lambda>_. ret row)))"
        by (intro committed_within keeps_intro adm_steps assign_roles_adm) simp
      from committed_ok [OF this k users_create_adm [OF ok c]] show ?thesis by (rule adm_admin_ok)
    qed
    then show ?thesis unfolding committed_def bind_ok map_err_ok by blast
  qed
  show ?thesis
    unfolding svc_users_create_def Let_def
    by (intro before_transaction keeping.within_option keeping.within_ret within_committed body)
qed

section \<open>Services on roles and departments\<close>

lemma find_update_where:
  assumes "\<And>x. P (f x) = P x"
  shows "find P (update_where Q f xs) = map_option (\<lambda>x. if Q x then f x else x) (find P xs)"
  using assms by (induction xs) (auto simp: update_where_def)

lemma find_append_other: "\<not> P y \<Longrightarrow> find P (xs @ [y]) = find P xs"
  by (induction xs) auto

lemma find_delete_where: "(\<And>x. P x \<Longrightarrow> x \<in> set xs \<Longrightarrow> \<not> Q x) \<Longrightarrow> find P (delete_where Q xs) = find P xs"
  by (induction xs) (auto simp: delete_where_def)

lemma roles_create_admin: "committed admin_ok (repo_roles_create E nr)"
proof -
  have "admin_ok t" if ok: "admin_ok s" and c: "repo_roles_create E nr s = (Inr i, t)" for s i t
  proof -
    obtain color where code: "r_code (new_role_rec E s nr color) \<notin> r_code ` set (roles s)"
      and t': "t = roles_seq_update (\<lambda>n. n + 1) (roles_update (\<lambda>rs. rs @ [new_role_rec E s nr color]) s)"
      using c by (auto simp: repo_roles_create_def Let_def ok_iff)
    define r where "r = new_role_rec E s nr color"
    note t = t' [folded r_def]
    have r: "r_id r = roles_seq s" "r_code r \<notin> r_code ` set (roles s)"
      using code by (simp_all add: r_def new_role_rec_def)
    note s = ok [unfolded admin_ok_def adm_def keys_ok_def]
    obtain x where "x \<in> set (roles s)" "r_code x = ''super_admin''"
      using s by (auto simp: super_admin_role_def dest!: find_SomeD)
    with r(2) have new: "r_code r \<noteq> ''super_admin''" by (metis imageI)
    have "keys_ok t"
      using s r roles_tab.pk_insert [of s r] by (auto simp: keys_ok_def t)
    moreover have "super_admin_role t = super_admin_role s"
      using new by (simp add: super_admin_role_def t find_append_other)
    ultimately show ?thesis using s by (auto simp: admin_ok_def adm_def active_members_def t)
  qed
  then show ?thesis by (simp add: committed_def)
qed

lemma roles_update_admin: "committed admin_ok (repo_roles_update E i ru)"
proof -
  have "admin_ok t" if ok: "admin_ok s" and c: "repo_roles_update E i ru s = (Inr b, t)" for s b t
  proof -
    have t: "t = roles_update (update_where (\<lambda>r. r_id r = i) (apply_role_update E ru)) s"
      using roles_update_table [OF c] .
    note s = ok [unfolded admin_ok_def adm_def keys_ok_def]
    have "keys_ok t"
      using s roles_tab.pk_update [of s "\<lambda>r. r_id r = i" "apply_role_update E ru"]
      by (auto simp: keys_ok_def t)
    moreover have "super_admin_role t = super_admin_role s"
      by (cases "find (\<lambda>r. r_code r = ''super_admin'') (roles s)")
        (auto simp: super_admin_role_def t find_update_where)
    ultimately show ?thesis using s by (auto simp: admin_ok_def adm_def active_members_def t)
  qed
  then show ?thesis by (simp add: committed_def)
qed

lemma roles_delete_admin:
  assumes ok: "admin_ok s" and other: "super_admin_role s \<noteq> Some i"
    and d: "repo_roles_delete_if_unassigned i s = (Inr b, t)"
  shows "admin_ok t"
proof (cases b)
  case False
  with d ok show ?thesis by (auto simp: repo_roles_delete_if_unassigned_def ok_iff split: if_splits)
next
  case True
  then have t: "t = role_permissions_update (delete_where (\<lambda>p. fst p = i))
      (user_roles_update (delete_where (\<lambda>p. snd p = i))
      (roles_update (delete_where (\<lambda>r. r_id r = i)) s))"
    using d by (auto simp: repo_roles_delete_if_unassigned_def ok_iff split: if_splits)
  note s = ok [unfolded admin_ok_def adm_def keys_ok_def]
  have keys: "keys_ok t"
    using s roles_tab.pk_delete [of s "\<lambda>r. r_id r = i"]
    by (auto simp: keys_ok_def t delete_where_def distinct_map_filter)
  have "find (\<lambda>r. r_code r = ''super_admin'') (roles t) = find (\<lambda>r. r_code r = ''super_admin'') (roles s)"
  proof (simp add: t, rule find_delete_where)
    fix r assume r: "r_code r = ''super_admin''" "r \<in> set (roles s)"
    from s obtain x where x: "find (\<lambda>r. r_code r = ''super_admin'') (roles s) = Some x"
      by (auto simp: super_admin_role_def)
    with r find_SomeD [OF x] s have "x = r" by (auto dest: distinct_map_unique)
    with x other show "r_id r \<noteq> i" by (auto simp: super_admin_role_def)
  qed
  then have same: "super_admin_role t = super_admin_role s" by (simp add: super_admin_role_def)
  from s obtain rid j where rid: "super_admin_role s = Some rid" and j: "j \<in> active_members s rid" by auto
  with other have "j \<in> active_members t rid" by (auto simp: active_members_iff t)
  with keys same rid show ?thesis by (auto simp: admin_ok_def adm_def)
qed

lemma admin_audit: "within (keeping admin_ok) (audit_record E a b c d e)"
  unfolding admin_ok_def by (rule adm_audit)

lemma assign_permissions_admin: "within (keeping admin_ok) (repo_roles_assign_permissions i ps)"
  unfolding admin_ok_def by (intro frame_intro) (simp add: keeping_def)

lemma svc_roles_create_admin: "within (keeping admin_ok) (svc_roles_create E oid scp cr g)"
  unfolding svc_roles_create_def Let_def
  by (intro before_transaction within_committed commit_intro roles_create_admin)
    (intro committed_within keeps_intro admin_audit assign_permissions_admin)+

lemma svc_roles_update_admin: "within (keeping admin_ok) (svc_roles_update E oid scp i uq)"
  unfolding svc_roles_update_def Let_def
  by (intro before_transaction keeping.within_if keeping.within_option keeping.within_ret
      within_committed commit_intro roles_update_admin)
    (intro committed_within keeps_intro admin_audit)+

lemma find_by_id_super_admin:
  assumes "admin_ok s" and "repo_roles_find_by_id i s = Some row" and "r_code row \<noteq> ''super_admin''"
  shows "super_admin_role s \<noteq> Some i"
proof
  assume sa: "super_admin_role s = Some i"
  obtain x where x: "x \<in> set (roles s)" "r_id x = i" "r_code x \<noteq> ''super_admin''"
    using assms(2,3) by (auto simp: repo_roles_find_by_id_def role_row_of_def role_columns.defs dest!: find_SomeD)
  obtain y where "y \<in> set (roles s)" "r_id y = i" "r_code y = ''super_admin''"
    using sa by (auto simp: super_admin_role_def dest!: find_SomeD)
  with x assms(1) show False
    by (auto simp: admin_ok_def adm_def keys_ok_def primary_key_def dest: distinct_map_unique)
qed

lemma svc_roles_delete_admin: "within (keeping admin_ok) (svc_roles_delete E oid i)"
proof (rule post_keeping)
  fix s assume ok: "admin_ok s"
  show "post admin_ok (svc_roles_delete E oid i) s"
    unfolding svc_roles_delete_def
    apply (rule post_transaction post_bind_read ok reads_intro | assumption)+
    subgoal for row x _ _ y t
      using roles_delete_admin [OF ok find_by_id_super_admin [OF ok]] keeping_ok [OF admin_audit]
      by (auto simp: ok_iff)
    done
qed

lemma svc_roles_assign_admin: "within (keeping admin_ok) (svc_roles_assign_permissions E oid i ps)"
  unfolding admin_ok_def
  by (intro keeping_db.svc_frames frame_intro) (simp_all add: keeping_def)

lemma delete_if_empty_adm: "within (keeping (adm X)) (repo_departments_delete_if_empty E org i)"
proof -
  have "within (keeping (adm X)) (modify (users_update (update_where
      (\<lambda>u. u_department_id u = Some i \<and> u_deleted_at u \<noteq> None)
      (\<lambda>u. u\<lparr>u_department_id := None, u_updated_at := now E\<rparr>))))"
    by (rule keeping.within_modify)
      (auto simp: keeping_def active_user_def intro!: adm_users_update)
  moreover have "within (keeping (adm X)) (modify (departments_update g))" for g
    by (rule keeping.within_modify) (simp add: keeping_def)
  ultimately show ?thesis unfolding repo_departments_delete_if_empty_def Let_def
    by (intro keeps_intro)
qed

lemma svc_departments_delete_admin: "within (keeping admin_ok) (svc_departments_delete E actor i)"
  unfolding svc_departments_delete_def admin_ok_def
  by (intro keeps_intro adm_audit delete_if_empty_adm)

section \<open>Sessions and bootstrap\<close>

lemma create_login_session_admin:
  "within (keeping admin_ok) (create_login_session E config draw persistent keys row)"
  unfolding create_login_session_def Let_def admin_ok_def
  by (intro keeps_intro adm_steps update_last_login_adm frame_intro) (simp_all add: keeping_def)

text \<open>
  Bootstrap needs only the keys and the active role: whoever was there before, afterwards the
  bootstrapped account is an active super administrator.
\<close>

definition active_row :: "db \<Rightarrow> int \<Rightarrow> bool" where
  "active_row db i \<longleftrightarrow> (\<exists>u \<in> set (users db). u_id u = i \<and> active_user u)"

lemma users_create_active:
  assumes "keys_ok s" and "repo_users_create E nu s = (Inr row, t)" and "nu_status nu = ''active''"
  shows "keys_ok t" and "active_row t (u_id row)" and "super_admin_role t = super_admin_role s"
proof -
  have row: "u_id row = users_seq s"
    and t: "t = users_seq_update (\<lambda>n. n + 1) (users_update (\<lambda>us. us @ [new_user_rec E s nu]) s)"
    using assms(2) by (auto simp: repo_users_create_def Let_def ok_iff user_row.defs new_user_rec_def)
  show "keys_ok t"
    using assms(1) users_tab.pk_insert [of s "new_user_rec E s nu"]
    by (auto simp: keys_ok_def t new_user_rec_def)
  show "active_row t (u_id row)"
    using assms(3) by (simp add: active_row_def row t new_user_rec_def active_user_def)
  show "super_admin_role t = super_admin_role s" by (simp add: super_admin_role_def t)
qed

lemma activate_account_active:
  assumes "keys_ok s"
    and "repo_users_activate_bootstrap_account E i h d e s = (Inr row, t)"
  shows "keys_ok t" and "active_row t (u_id row)" and "super_admin_role t = super_admin_role s"
proof -
  let ?f = "\<lambda>u :: users_rec. u\<lparr>u_password_hash := h, u_display_name := d, u_email := e,
      u_status := ''active'', u_token_version := u_token_version u + 1, u_updated_at := now E\<rparr>"
  from assms(2) have up: "update_user i ?f s = (Inr (Some row), t)"
    by (auto simp: repo_users_activate_bootstrap_account_def ok_iff)
  then have t: "t = users_update (update_where (\<lambda>u. u_id u = i \<and> live u) ?f) s"
    by (rule update_user_table)
  from up obtain u where u: "u \<in> set (users s)" "u_id u = i" "live u"
    and row: "row = user_row.truncate (?f u)"
    by (auto simp: update_user_ok split: option.splits dest!: find_SomeD)
  show "keys_ok t"
    using assms(1) users_tab.pk_update [of s "\<lambda>u. u_id u = i \<and> live u" ?f] by (auto simp: keys_ok_def t)
  have "?f u \<in> set (users t)" using u by (auto simp: t update_where_def intro!: image_eqI [of _ _ u])
  then show "active_row t (u_id row)"
    unfolding active_row_def by (rule bexI [rotated])
      (use u in \<open>simp add: active_user_def row user_row.defs\<close>)
  show "super_admin_role t = super_admin_role s" by (simp add: super_admin_role_def t)
qed

lemma assign_super_admin:
  assumes "keys_ok s" and "active_row s i" and "super_admin_role s = Some r"
    and "repo_users_assign_roles i [r] s = (Inr x, t)"
  shows "admin_ok t"
proof -
  have t: "t = user_roles_update (\<lambda>ps. delete_where (\<lambda>p. fst p = i) ps @ [(i, r)]) s"
    using assign_roles_table [OF assms(4)] by simp
  have "i \<in> active_members t r" using assms(2) by (auto simp: active_members_iff active_row_def t)
  with assms(1,3) show ?thesis
    by (auto simp: admin_ok_def adm_def keys_ok_def super_admin_role_def t)
qed

lemma bootstrap_body:
  assumes keys: "keys_ok s" and role: "super_admin_role s = Some role_id"
    and m: "bind (map_err db_error (case existing of
           Some u \<Rightarrow> repo_users_activate_bootstrap_account E (u_id u) hash display_name email
         | None \<Rightarrow> repo_users_create E
             \<lparr>nu_username = username, nu_password_hash = hash,
              nu_display_name = display_name, nu_email = email, nu_status = ''active'',
              nu_organization_id = org, nu_department_id = dept\<rparr>)) (\<lambda>row.
       bind (map_err db_error (repo_users_assign_roles (u_id row) [role_id])) (k row)) s = (Inr y, t)"
    and k: "\<And>row x. within (keeping admin_ok) (k row x)"
  shows "admin_ok t"
proof -
  from m obtain row s1 x s2 where c: "(case existing of
           Some u \<Rightarrow> repo_users_activate_bootstrap_account E (u_id u) hash display_name email
         | None \<Rightarrow> repo_users_create E
             \<lparr>nu_username = username, nu_password_hash = hash,
              nu_display_name = display_name, nu_email = email, nu_status = ''active'',
              nu_organization_id = org, nu_department_id = dept\<rparr>) s = (Inr row, s1)"
    and a: "repo_users_assign_roles (u_id row) [role_id] s1 = (Inr x, s2)"
    and r: "k row x s2 = (Inr y, t)" unfolding bind_ok map_err_ok by blast
  from c have "keys_ok s1 \<and> active_row s1 (u_id row) \<and> super_admin_role s1 = super_admin_role s"
    using users_create_active [OF keys] activate_account_active [OF keys]
    by (cases existing) auto
  with a role have "admin_ok s2" by (auto intro: assign_super_admin)
  with keeping_ok [OF k r] show ?thesis by blast
qed

lemma admin_revocation:
  "within (keeping admin_ok) (repo_sessions_revoke_all_for_user E i)"
  "within (keeping admin_ok) (record_session_revocation E oid i reason n)"
  unfolding admin_ok_def by (rule adm_revocation)+

lemma bootstrap_rest:
  "within (keeping admin_ok) (bind (map_err db_error (repo_sessions_revoke_all_for_user E i)) (\<lambda>n.
     bind (record_session_revocation E None i reason n) (\<lambda>_.
     bind (map_err db_error (audit_record E None a b c dd)) (\<lambda>_. ret row))))"
  by (intro keeps_intro admin_audit admin_revocation)

lemma bootstrap_establishes:
  assumes keys: "keys_ok s" and b: "bootstrap_super_admin E u p d e s = (Inr r, t)"
  shows "admin_ok t"
  using b unfolding bootstrap_super_admin_def Let_def prod.case_eq_if
  apply -
  apply (erule ok_bind_read, (rule reads_intro)+)+
  apply (erule ok_bind_transaction, (rule reads_intro)+)
  apply (drule bootstrap_body [OF keys _ _ bootstrap_rest, rotated])
   apply (auto simp: ok_iff intro: id_by_code_role [OF keys])
  done

lemma bootstrap_admin: "within (keeping admin_ok) (bootstrap_super_admin E u p d e)"
proof (rule post_keeping)
  fix s assume ok: "admin_ok s"
  then have keys: "keys_ok s" by (simp add: admin_ok_def adm_def)
  show "post admin_ok (bootstrap_super_admin E u p d e) s"
    unfolding bootstrap_super_admin_def Let_def prod.case_eq_if
    apply (rule post_bind_transaction post_bind_read ok reads_intro post_reads | assumption)+
    apply (drule bootstrap_body [OF keys _ _ bootstrap_rest, rotated])
     apply (auto simp: ok_iff intro: id_by_code_role [OF keys])
    done
qed

lemma update_password_admin: "within (keeping admin_ok) (repo_users_update_password E i h)"
  unfolding admin_ok_def by (rule update_password_adm)

interpretation admin: system_relation "keeping admin_ok" config for config
  by unfold_locales
    (intro update_password_admin svc_users_create_admin svc_users_update_admin
      svc_users_delete_admin svc_users_delete_many_admin svc_users_assign_admin
      svc_roles_create_admin svc_roles_update_admin svc_roles_delete_admin svc_roles_assign_admin
      svc_departments_delete_admin create_login_session_admin
      keeping_db.svc_frames frame_intro; simp add: keeping_def admin_ok_def)+

end
