(* ===== verification/Thm_Users.thy ===== *)
theory Thm_Users
  imports Thm_Auth Inv_Admin
begin

text \<open>
  What the user service promises (\<open>services/users.rs\<close>): deactivation and password resets end the
  sessions of the account, nobody grants permissions beyond its own, and only users in the actor's
  data scope are touched.
\<close>

section \<open>Shared facts\<close>

lemma ensure_access_in_scope:
  "ensure_actor_can_access (Some actor) i s = (Inr x, t) \<Longrightarrow>
     \<exists>u \<in> set (users s). u_id u = i \<and> live u \<and> user_in_scope actor s u"
  by (auto simp: ensure_actor_can_access_def ok_iff repo_users_find_by_id_for_actor_def
      dest!: find_SomeD)

lemma map_opt_None: "map_opt f v s = (Inr y, t) \<Longrightarrow> y = None \<longleftrightarrow> v = None"
  by (auto simp: map_opt_def ok_iff split: option.splits)

lemma revocation_branch:
  assumes "(if b then bind (map_err db_error (repo_sessions_revoke_all_for_user E i))
      (record_session_revocation E oid i reason) else ret ()) s = (Inr x, t)"
  shows "b \<longrightarrow> unrevoked_sessions t i = []"
proof
  assume b
  with assms obtain n u where rev: "repo_sessions_revoke_all_for_user E i s = (Inr n, u)"
    and rec: "record_session_revocation E oid i reason n u = (Inr x, t)" by (auto simp: ok_iff)
  from revoke_all_none [OF rev] same_ok [OF same_sessions_audit(2) rec]
  show "unrevoked_sessions t i = []" by (simp add: unrevoked_sessions_def)
qed

lemma audit_unrevoked:
  "audit_record E a b c d e s = (Inr x, t) \<Longrightarrow> \<forall>i. unrevoked_sessions t i = unrevoked_sessions s i"
  using same_ok [OF same_sessions_audit(1), of E a b c d e s "Inr x" t]
  by (simp add: unrevoked_sessions_def)

lemma ok_bind_transaction_result:
  assumes "bind (transaction m) k s = (Inr y, t)" and "\<And>x. reads (k x)"
    and "\<And>x. m s = (Inr x, t) \<Longrightarrow> k x t = (Inr y, t) \<Longrightarrow> thesis"
  shows thesis
  using assms by (auto simp: bind_ok transaction_ok dest: reads_state)

section \<open>Deactivation\<close>

text \<open>
  An update that sets a password or a status other than active succeeds only on a user in the
  actor's data scope and leaves that user without an unrevoked session.
\<close>

theorem deactivation_revokes:
  assumes upd: "svc_users_update E i (Some actor) req g d s = (Inr r, t)"
    and cond: "uu_password req \<noteq> None \<or> (\<exists>st. uu_status req = Some st \<and> st \<noteq> ''active'')"
  shows "unrevoked_sessions t i = [] \<and>
    (\<exists>u \<in> set (users s). u_id u = i \<and> live u \<and> user_in_scope actor s u)"
  using upd unfolding svc_users_update_def Let_def prod.case_eq_if
  apply -
  apply (erule ok_bind_read, (rule reads_intro)+)+
  apply (erule ok_bind_transaction, (rule reads_intro)+)
  apply (simp only: bind_ok map_err_ok ok_or_ok ret_ok)
  apply (elim exE conjE)
  apply (drule ensure_access_in_scope, drule map_opt_None, drule revocation_branch, drule audit_unrevoked)
  using cond by auto

theorem deactivation_revokes_witness:
  "\<exists>r t. svc_users_update demo_env 3 (Some demo_operator) \<lparr>uu_display_name = None, uu_email = Missing,
       uu_status = Some ''suspended'', uu_department_id = None, uu_password = None\<rparr> False False demo_db
       = (Inr r, t) \<and> unrevoked_sessions t 3 = []"
proof -
  let ?req = "\<lparr>uu_display_name = None, uu_email = Missing,
       uu_status = Some ''suspended'', uu_department_id = None, uu_password = None\<rparr>"
  have "\<not> isl (fst (svc_users_update demo_env 3 (Some demo_operator) ?req False False demo_db))"
    by code_simp
  then obtain r t where u: "svc_users_update demo_env 3 (Some demo_operator) ?req False False demo_db = (Inr r, t)"
    unfolding not_isl_ok by auto
  with deactivation_revokes [OF u] show ?thesis by auto
qed

section \<open>Grants\<close>

lemma validate_role_grant_scope_ok:
  "validate_role_grant_scope (Some uid) rs g s = (Inr x, t) \<longleftrightarrow>
     distinct rs \<and> length (repo_roles_active_ids_by_ids rs s) = card (set rs) \<and>
     (g \<or> (\<forall>i. repo_roles_id_by_code ''super_admin'' s = Some i \<longrightarrow> i \<notin> set rs)) \<and>
     repo_permissions_codes_by_role_ids rs s \<subseteq> repo_permissions_permission_codes_by_user uid s \<and> t = s"
  by (auto simp: validate_role_grant_scope_def ok_iff split: option.splits)

text \<open>The rights of a user whose roles are among a checked list, in a state with the same roles.\<close>

lemma checked_roles_rights:
  assumes check: "validate_role_grant_scope (Some uid) rs g s = (Inr x, s)"
    and same: "roles t = roles s" "permissions t = permissions s" "role_permissions t = role_permissions s"
    and mine: "\<And>r. (i, r) \<in> set (user_roles t) \<Longrightarrow> r \<in> set rs"
  shows "role_codes t (active_role_ids t i) \<subseteq> repo_permissions_permission_codes_by_user uid s"
    and "keys_ok s \<Longrightarrow> \<not> g \<Longrightarrow> \<not> is_active_super_admin t i"
proof -
  have "active_role_ids t i \<subseteq> set rs" using mine by (auto simp: active_role_ids_def)
  then have "role_codes t (active_role_ids t i) \<subseteq> role_codes s (set rs)"
    using same by (auto simp: role_codes_def)
  with check show "role_codes t (active_role_ids t i) \<subseteq> repo_permissions_permission_codes_by_user uid s"
    by (auto simp: validate_role_grant_scope_ok repo_permissions_codes_by_role_ids_def)
  assume keys: "keys_ok s" and g: "\<not> g"
  show "\<not> is_active_super_admin t i"
  proof
    assume "is_active_super_admin t i"
    then obtain r where r: "r \<in> set (roles s)" "r_code r = ''super_admin''" "r_is_active r" "r_id r \<in> set rs"
      using same mine by (auto simp: is_active_super_admin_def user_active_roles_def list_ex_iff)
    then obtain y where y: "find (\<lambda>r. r_code r = ''super_admin'' \<and> r_is_active r) (roles s) = Some y"
      by (cases "find (\<lambda>r. r_code r = ''super_admin'' \<and> r_is_active r) (roles s)")
        (auto simp: find_None_iff')
    from find_SomeD [OF y] r keys have "y = r" by (auto simp: keys_ok_def dest: distinct_map_unique)
    with y check g r(4) show False
      by (auto simp: validate_role_grant_scope_ok repo_roles_id_by_code_def)
  qed
qed

lemma assign_one_roles:
  assumes "assign_one E oid sa rs pool i s = (Inr (), t)"
  shows "roles t = roles s" "permissions t = permissions s" "role_permissions t = role_permissions s"
    and "\<And>r. (i, r) \<in> set (user_roles t) \<Longrightarrow> r \<in> set rs"
proof -
  have frame: "within (same f) (assign_one E oid sa rs pool i)"
    if "\<And>g s. f (audit_seq_update (\<lambda>n. n + 1) (audit_logs_update g s)) = f s" "\<And>g s. f (user_roles_update g s) = f s"
      "\<And>h g s. f (audit_seq_update h (audit_logs_update g s)) = f s" for f :: "db \<Rightarrow> 'v"
    by (intro same_db.within_assign_one frame_intro) (simp_all add: same_def that)
  show "roles t = roles s" "permissions t = permissions s" "role_permissions t = role_permissions s"
    by (rule same_ok [OF frame assms]; simp)+
  let ?rest = "bind (case sa of None \<Rightarrow> ret ()
           | Some r \<Rightarrow>
               if (r \<in> set (repo_users_role_ids_by_user i pool)) \<noteq> (r \<in> set rs) then
                 map_err db_error (audit_record E oid ''auth.mfa.policy.changed'' ''user''
                   (Some i) (JObj [(''required'', JBool (r \<in> set rs))]))
               else ret ()) (\<lambda>_.
     map_err db_error (audit_record E oid ''user.roles.update'' ''user'' (Some i)
       (JObj [(''previousRoleIds'', JArr (map JInt (repo_users_role_ids_by_user i pool))),
              (''roleIds'', JArr (map JInt rs))]))) :: unit svc"
  have "bind (map_err db_error (repo_users_assign_roles i rs)) (\<lambda>_. ?rest) s = (Inr (), t)"
    using assms unfolding assign_one_def Let_def
    by (rule ok_bind_read) (rule reads_intro | assumption)+
  then obtain x v where a: "repo_users_assign_roles i rs s = (Inr x, v)" and rest: "?rest v = (Inr (), t)"
    unfolding bind_ok map_err_ok by blast
  have "within (same user_roles) ?rest" by (intro keeps_intro frame_intro) (simp_all add: same_def)
  from same_ok [OF this rest] assign_roles_table [OF a]
  show "\<And>r. (i, r) \<in> set (user_roles t) \<Longrightarrow> r \<in> set rs" by auto
qed

text \<open>
  C5. Assigning roles cannot escalate privileges: afterwards the target's effective permissions
  are among the permissions the actor had, and without the permission to grant it nobody becomes a
  super administrator.
\<close>

theorem assign_roles_no_escalation:
  assumes keys: "keys_ok s"
    and assign: "svc_users_assign_roles E (Some actor) uid rs g s = (Inr (), t)"
  shows "repo_permissions_permission_codes_by_user uid t
      \<subseteq> repo_permissions_permission_codes_by_user (user_id actor) s \<and>
    (\<not> g \<longrightarrow> \<not> is_active_super_admin t uid)"
proof -
  from assign obtain sa x where check: "validate_role_grant_scope (Some (user_id actor)) rs g s = (Inr x, s)"
    and one: "assign_one E (Some (user_id actor)) sa rs s uid s = (Inr (), t)"
    by (auto simp: svc_users_assign_roles_def ensure_actor_can_access_def ok_iff
        validate_role_grant_scope_ok)
  note t = assign_one_roles [OF one]
  have "repo_permissions_permission_codes_by_user uid t \<subseteq> role_codes t (active_role_ids t uid)"
    by (simp add: repo_permissions_permission_codes_by_user_def)
  also have "\<dots> \<subseteq> repo_permissions_permission_codes_by_user (user_id actor) s"
    by (rule checked_roles_rights(1) [OF check t(1-3)]) (rule t(4))
  finally show ?thesis
    using checked_roles_rights(2) [OF check t(1-3), of uid] t(4) keys by blast
qed

theorem assign_roles_no_escalation_witness:
  "\<exists>t. svc_users_assign_roles demo_env (Some demo_operator) 3 [3] False demo_db = (Inr (), t) \<and>
     \<not> is_active_super_admin t 3"
proof -
  have keys: "keys_ok demo_db"
    by (simp add: keys_ok_def primary_key_def demo_db_def demo_user_def demo_role_def)
  have "\<not> isl (fst (svc_users_assign_roles demo_env (Some demo_operator) 3 [3] False demo_db))"
    by code_simp
  then obtain t where a: "svc_users_assign_roles demo_env (Some demo_operator) 3 [3] False demo_db = (Inr (), t)"
    unfolding not_isl_ok by auto
  with assign_roles_no_escalation [OF keys a] show ?thesis by auto
qed

text \<open>
  The data scope of a granted role is not part of that check: an actor whose scope is its
  organization can assign itself a role with the scope \<open>all\<close>, and its scope then is \<open>all\<close>, as long
  as the permissions of the role are among its own.
\<close>

theorem role_grant_widens_scope:
  "data_scope demo_operator = Organization \<and>
   (case svc_users_assign_roles demo_env (Some demo_operator) 2 [2, 3] False
      (demo_db\<lparr>roles := map (\<lambda>r. if r_id r = 2 then r\<lparr>r_data_scope := ''all''\<rparr> else r) (roles demo_db)\<rparr>) of
      (Inl e, t) \<Rightarrow> False
    | (Inr x, t) \<Rightarrow> broadest_scope (user_active_roles t 2) = All)"
  by code_simp

lemma create_body_roles:
  assumes "bind (map_err db_error (repo_users_create E nu)) (\<lambda>row.
       bind (case rs of None \<Rightarrow> ret ()
             | Some rs \<Rightarrow> map_err db_error (repo_users_assign_roles (u_id row) rs)) (\<lambda>_.
       bind (map_err db_error (audit_record E a b c (Some (u_id row)) e)) (\<lambda>_. ret row))) s
     = (Inr row, t)"
    and fresh: "\<And>r. (users_seq s, r) \<notin> set (user_roles s)"
  shows "roles t = roles s" "permissions t = permissions s" "role_permissions t = role_permissions s"
    and "\<And>r. (u_id row, r) \<in> set (user_roles t) \<Longrightarrow> r \<in> set (coalesce rs [])"
proof -
  from assms(1) obtain row' u v x w where create: "repo_users_create E nu s = (Inr row', u)"
    and assign: "(case rs of None \<Rightarrow> ret ()
             | Some rs \<Rightarrow> map_err db_error (repo_users_assign_roles (u_id row') rs)) u = (Inr x, v)"
    and aud: "audit_record E a b c (Some (u_id row')) e v = (Inr w, t)" and row: "row = row'"
    unfolding bind_ok map_err_ok ret_ok by blast
  have u: "u_id row' = users_seq s" "roles u = roles s" "permissions u = permissions s"
    "role_permissions u = role_permissions s" "user_roles u = user_roles s"
    using create by (auto simp: repo_users_create_def Let_def ok_iff user_row.defs new_user_rec_def)
  have v: "roles v = roles u \<and> permissions v = permissions u \<and> role_permissions v = role_permissions u \<and>
      (\<forall>r. (u_id row', r) \<in> set (user_roles v) \<longrightarrow> r \<in> set (coalesce rs []))"
  proof (cases rs)
    case None
    with assign have "v = u" by (simp add: ok_iff)
    with fresh u None show ?thesis by simp
  next
    case (Some ids)
    with assign have "repo_users_assign_roles (u_id row') ids u = (Inr (), v)" by (simp add: ok_iff)
    from assign_roles_table [OF this] Some show ?thesis by auto
  qed
  have t: "roles t = roles v" "permissions t = permissions v" "role_permissions t = role_permissions v"
    "user_roles t = user_roles v"
    using aud by (simp_all add: audit_record_ok)
  show "roles t = roles s" "permissions t = permissions s" "role_permissions t = role_permissions s"
    using t u v by simp_all
  show "\<And>r. (u_id row, r) \<in> set (user_roles t) \<Longrightarrow> r \<in> set (coalesce rs [])"
    using t v row by simp
qed

lemma optional_roles_rights:
  assumes check: "(case rs of None \<Rightarrow> ret () | Some ids \<Rightarrow> validate_role_grant_scope (Some uid) ids g) s = (Inr x, s)"
    and same: "roles t = roles s" "permissions t = permissions s" "role_permissions t = role_permissions s"
    and mine: "\<And>r. (i, r) \<in> set (user_roles t) \<Longrightarrow> r \<in> set (coalesce rs [])"
    and keys: "keys_ok s"
  shows "repo_permissions_permission_codes_by_user i t \<subseteq> repo_permissions_permission_codes_by_user uid s \<and>
    (\<not> g \<longrightarrow> \<not> is_active_super_admin t i)"
proof (cases rs)
  case None
  with mine have "active_role_ids t i = {}" "user_active_roles t i = []"
    by (auto simp: active_role_ids_def user_active_roles_def filter_empty_conv)
  then show ?thesis
    by (simp add: repo_permissions_permission_codes_by_user_def role_codes_def is_active_super_admin_def)
next
  case (Some ids)
  with check mine have c: "validate_role_grant_scope (Some uid) ids g s = (Inr x, s)"
    and m: "\<And>r. (i, r) \<in> set (user_roles t) \<Longrightarrow> r \<in> set ids" by simp_all
  have "repo_permissions_permission_codes_by_user i t \<subseteq> role_codes t (active_role_ids t i)"
    by (simp add: repo_permissions_permission_codes_by_user_def)
  also have "\<dots> \<subseteq> repo_permissions_permission_codes_by_user uid s"
    by (rule checked_roles_rights(1) [OF c same m])
  finally show ?thesis using checked_roles_rights(2) [OF c same m] keys by blast
qed

text \<open>
  C39. Creating a user, with roles or without, cannot escalate privileges: where it succeeds the new
  account's permissions are among those the actor had before, it is no super administrator unless
  the caller may grant that role, and the actor's data scope is wider than itself. The ids of the
  tables are keys and role assignments belong to existing users.
\<close>

theorem create_user_no_escalation:
  assumes keys: "keys_ok s" and fk: "\<forall>p \<in> set (user_roles s). user_exists s (fst p)"
    and create: "svc_users_create E actor req g d s = (Inr user, t)"
  shows "repo_permissions_permission_codes_by_user (us_id user) t
      \<subseteq> repo_permissions_permission_codes_by_user (user_id actor) s \<and>
    (\<not> g \<longrightarrow> \<not> is_active_super_admin t (us_id user)) \<and> data_scope actor \<noteq> SelfOnly"
proof -
  have fresh: "(users_seq s, r) \<notin> set (user_roles s)" for r
    using keys fk by (fastforce simp: keys_ok_def primary_key_def user_exists_def)
  from create show ?thesis
    unfolding svc_users_create_def Let_def
    apply -
    apply (erule ok_bind_read, (rule reads_intro)+)+
    apply (erule ok_bind_transaction_result, (rule reads_intro)+)
    subgoal premises prems for _ _ _ _ _ _ _ _ _ row
    proof -
      note t = create_body_roles [OF prems(10) fresh]
      have "us_id user = u_id row" using prems(11) by (simp add: ok_iff user_response_of_def)
      with optional_roles_rights [OF prems(8) t keys] prems(1) show ?thesis
        by (simp add: ok_iff can_create_peer_def)
    qed
    done
qed

theorem create_user_no_escalation_witness:
  "\<exists>user t. svc_users_create demo_env demo_operator \<lparr>cu_username = ''newbie'',
       cu_password = ''a long password'', cu_display_name = ''New'', cu_email = None,
       cu_status = None, cu_department_id = None, cu_role_ids = Some [2]\<rparr> False False demo_db
       = (Inr user, t) \<and> \<not> is_active_super_admin t (us_id user)"
proof -
  let ?req = "\<lparr>cu_username = ''newbie'', cu_password = ''a long password'', cu_display_name = ''New'',
     cu_email = None, cu_status = None, cu_department_id = None, cu_role_ids = Some [2]\<rparr>"
  have keys: "keys_ok demo_db"
    by (simp add: keys_ok_def primary_key_def demo_db_def demo_user_def demo_role_def)
  have fk: "\<forall>p \<in> set (user_roles demo_db). user_exists demo_db (fst p)"
    by (simp add: user_exists_def demo_db_def demo_user_def)
  have "\<not> isl (fst (svc_users_create demo_env demo_operator ?req False False demo_db))" by code_simp
  then obtain user t where c: "svc_users_create demo_env demo_operator ?req False False demo_db = (Inr user, t)"
    unfolding not_isl_ok by auto
  with create_user_no_escalation [OF keys fk c] show ?thesis by blast
qed

end
