(* ===== verification/Thm_Atomic.thy ===== *)
theory Thm_Atomic
  imports Thm_Users
begin

text \<open>
  What the services leave in the database where they return an error.
\<close>

section \<open>Services that change nothing where they fail\<close>

lemma reads_verify_current_password [reads_intro]: "reads (verify_current_password E i p)"
  unfolding verify_current_password_def verify_password_hash_def by (rule reads_intro)+
















lemma total_mfa_status [atomic_intro]: "total (mfa_status i)"
  unfolding mfa_status_def by (intro atomic_intro)


section \<open>Services that read back what they wrote\<close>









section \<open>Services behind a re-authentication\<close>












lemma reads_matching_counter [reads_intro]: "reads (matching_totp_counter mfa n secret code)"
  unfolding matching_totp_counter_def by (intro reads_intro)









section \<open>All writing services\<close>


end
