(* ===== verification/Inv_Builtin.thy ===== *)
theory Inv_Builtin
  imports System
begin

text \<open>
  The built-in super administrator role. \<open>builtin A\<close> says that the role with the code
  \<open>super_admin\<close> exists, is active, has the data scope \<open>all\<close> and exactly the permissions \<open>A\<close>;
  \<open>builtin_except X A\<close> says further that its id is not in \<open>X\<close>. Every request keeps \<open>builtin A\<close>.
\<close>

definition builtin_except :: "int set \<Rightarrow> int set \<Rightarrow> db \<Rightarrow> bool" where
  "builtin_except X A db \<longleftrightarrow>
     primary_key r_id (roles db) (roles_seq db) \<and> distinct (map r_code (roles db)) \<and>
     (\<exists>r \<in> set (roles db). r_code r = ''super_admin'' \<and> r_is_active r \<and> r_data_scope r = ''all'' \<and>
        r_id r \<notin> X \<and> {p. (r_id r, p) \<in> set (role_permissions db)} = A)"

definition builtin :: "int set \<Rightarrow> db \<Rightarrow> bool" where
  "builtin A = builtin_except {} A"

lemma builtin_mono: "builtin_except X A db \<Longrightarrow> builtin A db"
  by (auto simp: builtin_def builtin_except_def)

section \<open>Repository functions\<close>

lemma builtin_audit: "within (keeping (builtin_except X A)) (audit_record E a b c d e)"
  by (intro frame_intro) (simp add: keeping_def builtin_except_def)

lemma role_permissions_other:
  assumes "builtin_except {i} A s"
    and "\<And>r p. r \<noteq> i \<Longrightarrow> (r, p) \<in> set (g (role_permissions s)) \<longleftrightarrow> (r, p) \<in> set (role_permissions s)"
  shows "builtin_except {i} A (role_permissions_update g s)"
  using assms by (auto simp: builtin_except_def)

lemma assign_permissions_other:
  "within (keeping (builtin_except {i} A)) (repo_roles_assign_permissions i ps)"
proof -
  have del: "within (keeping (builtin_except {i} A))
      (modify (role_permissions_update (delete_where (\<lambda>p. fst p = i))))"
    by (rule keeping.within_modify) (auto simp: keeping_def intro: role_permissions_other)
  have ins: "within (keeping (builtin_except {i} A)) (insert_role_permission i p)" for p
    unfolding insert_role_permission_def
    by (intro keeps_intro keeping.within_modify) (auto simp: keeping_def intro: role_permissions_other)
  show ?thesis unfolding repo_roles_assign_permissions_def by (intro keeps_intro del ins)
qed

lemma roles_create_builtin:
  assumes ok: "builtin A s" and c: "repo_roles_create E nr s = (Inr i, t)"
  shows "builtin_except {i} A t"
proof -
  obtain color where code: "r_code (new_role_rec E s nr color) \<notin> r_code ` set (roles s)"
    and i: "i = roles_seq s"
    and t': "t = roles_seq_update (\<lambda>n. n + 1) (roles_update (\<lambda>rs. rs @ [new_role_rec E s nr color]) s)"
    using c by (auto simp: repo_roles_create_def Let_def ok_iff new_role_rec_def)
  define r where "r = new_role_rec E s nr color"
  note t = t' [folded r_def]
  have r: "r_id r = roles_seq s" "r_code r \<notin> r_code ` set (roles s)"
    using code by (simp_all add: r_def new_role_rec_def)
  note s = ok [unfolded builtin_def builtin_except_def]
  obtain x where x: "x \<in> set (roles s)" "r_code x = ''super_admin''" "r_is_active x"
    "r_data_scope x = ''all''" "{p. (r_id x, p) \<in> set (role_permissions s)} = A" using s by blast
  have "r_id x \<noteq> i" using x(1) s by (auto simp: i primary_key_def)
  moreover have "primary_key r_id (roles t) (roles_seq t)" "distinct (map r_code (roles t))"
    using s r roles_tab.pk_insert [of s r] by (auto simp: t)
  ultimately show ?thesis
    unfolding builtin_except_def using x by (auto simp: t intro!: bexI [of _ x])
qed

lemma roles_update_builtin:
  assumes ok: "builtin A s" and c: "repo_roles_update E i ru s = (Inr b, t)"
    and guard: "\<And>r. r \<in> set (roles s) \<Longrightarrow> r_id r = i \<Longrightarrow> r_code r = ''super_admin'' \<Longrightarrow>
      ru_is_active ru \<noteq> Some False \<and> (ru_data_scope ru = None \<or> ru_data_scope ru = Some ''all'')"
  shows "builtin A t"
proof -
  let ?f = "apply_role_update E ru"
  have t: "t = roles_update (update_where (\<lambda>r. r_id r = i) ?f) s"
    using roles_update_table [OF c] .
  note s = ok [unfolded builtin_def builtin_except_def]
  obtain x where x: "x \<in> set (roles s)" "r_code x = ''super_admin''" "r_is_active x"
    "r_data_scope x = ''all''" "{p. (r_id x, p) \<in> set (role_permissions s)} = A" using s by blast
  let ?y = "if r_id x = i then ?f x else x"
  have "?y \<in> set (roles t)" using x(1) by (auto simp: t update_where_def)
  moreover have "r_code ?y = ''super_admin'' \<and> r_is_active ?y \<and> r_data_scope ?y = ''all'' \<and> r_id ?y = r_id x"
    using x guard [of x] by (auto simp: apply_role_update_def coalesce_def split: option.splits)
  moreover have "primary_key r_id (roles t) (roles_seq t)"
    using s roles_tab.pk_update [of s "\<lambda>r. r_id r = i" ?f] by (auto simp: t)
  moreover have "distinct (map r_code (roles t))" using s by (simp add: t)
  moreover have "role_permissions t = role_permissions s" by (simp add: t)
  ultimately show ?thesis unfolding builtin_def builtin_except_def using x(5) by auto
qed

lemma roles_delete_builtin:
  assumes ok: "builtin_except {i} A s" and d: "repo_roles_delete_if_unassigned i s = (Inr b, t)"
  shows "builtin A t"
proof (cases b)
  case False
  with d ok show ?thesis
    by (auto simp: repo_roles_delete_if_unassigned_def ok_iff split: if_splits intro: builtin_mono)
next
  case True
  then have t: "t = role_permissions_update (delete_where (\<lambda>p. fst p = i))
      (user_roles_update (delete_where (\<lambda>p. snd p = i))
      (roles_update (delete_where (\<lambda>r. r_id r = i)) s))"
    using d by (auto simp: repo_roles_delete_if_unassigned_def ok_iff split: if_splits)
  note s = ok [unfolded builtin_except_def]
  have "primary_key r_id (roles t) (roles_seq t)" "distinct (map r_code (roles t))"
    using s roles_tab.pk_delete [of s "\<lambda>r. r_id r = i"]
    by (auto simp: t delete_where_def distinct_map_filter)
  with s show ?thesis unfolding builtin_def builtin_except_def by (auto simp: t)
qed

text \<open>A role found by its id with another code is not the built-in one.\<close>

lemma find_by_id_builtin:
  assumes ok: "builtin A s" and find: "repo_roles_find_by_id i s = Some row"
  shows "r_code row \<noteq> ''super_admin'' \<Longrightarrow> builtin_except {i} A s"
    and "r \<in> set (roles s) \<Longrightarrow> r_id r = i \<Longrightarrow> r_code r = r_code row"
proof -
  obtain x where x: "x \<in> set (roles s)" "r_id x = i" "r_code x = r_code row"
    using find by (auto simp: repo_roles_find_by_id_def role_row_of_def role_columns.defs dest!: find_SomeD)
  note s = ok [unfolded builtin_def builtin_except_def]
  show same: "r \<in> set (roles s) \<Longrightarrow> r_id r = i \<Longrightarrow> r_code r = r_code row"
    using x s by (auto simp: primary_key_def dest: distinct_map_unique)
  assume "r_code row \<noteq> ''super_admin''"
  moreover obtain y where y: "y \<in> set (roles s)" "r_code y = ''super_admin''" "r_is_active y"
    "r_data_scope y = ''all''" "{p. (r_id y, p) \<in> set (role_permissions s)} = A" using s by blast
  ultimately have "r_id y \<noteq> i"
    using x s by (auto simp: primary_key_def dest: distinct_map_unique)
  with y s show "builtin_except {i} A s" unfolding builtin_except_def by auto
qed

section \<open>Services\<close>

lemma committed_roles_create:
  assumes "\<And>i. committed (builtin_except {i} A) (k i)"
  shows "committed (builtin A) (bind (map_err db_error (repo_roles_create E nr)) k)"
proof -
  have "builtin A t" if "builtin A s" and "repo_roles_create E nr s = (Inr i, u)" and "k i u = (Inr x, t)"
    for s i u x t
    using committed_ok [OF assms that(3) roles_create_builtin [OF that(1,2)]] by (rule builtin_mono)
  then show ?thesis unfolding committed_def bind_ok map_err_ok by blast
qed

lemma svc_roles_create_builtin: "within (keeping (builtin A)) (svc_roles_create E oid scp cr g)"
  unfolding svc_roles_create_def Let_def
  by (intro keeping.within_bind keeping.within_gets keeping.within_ensure keeping_db.within_guards
      within_committed committed_roles_create)
    (intro committed_within keeps_intro builtin_audit assign_permissions_other)

lemma committed_roles_update:
  assumes "\<And>x. within (keeping (builtin A)) (k x)" and "builtin A s"
    and "bind (map_err db_error (repo_roles_update E i ru)) k s = (Inr y, t)"
    and "\<And>r. r \<in> set (roles s) \<Longrightarrow> r_id r = i \<Longrightarrow> r_code r = ''super_admin'' \<Longrightarrow>
      ru_is_active ru \<noteq> Some False \<and> (ru_data_scope ru = None \<or> ru_data_scope ru = Some ''all'')"
  shows "builtin A t"
proof -
  from assms(3) obtain b u where u: "repo_roles_update E i ru s = (Inr b, u)" and t: "k b u = (Inr y, t)"
    unfolding bind_ok map_err_ok by blast
  from keeping_ok [OF assms(1) t roles_update_builtin [OF assms(2) u assms(4)]] show ?thesis .
qed

lemma svc_roles_update_builtin: "within (keeping (builtin A)) (svc_roles_update E oid scp i uq)"
proof (rule post_keeping)
  fix s assume ok: "builtin A s"
  have rest: "within (keeping (builtin A)) (bind (ensure b e) (\<lambda>_. map_err db_error (audit_record E a1 a2 a3 a4 a5)))"
    for b e a1 a2 a3 a4 a5
    unfolding builtin_def by (intro keeps_intro builtin_audit)
  show "post (builtin A) (svc_roles_update E oid scp i uq) s"
    unfolding svc_roles_update_def Let_def
    apply (rule post_bind_transaction post_bind_read ok reads_intro post_reads | assumption)+
    apply (erule committed_roles_update [OF rest ok])
    subgoal premises prems for _ _ _ _ _ _ _ _ r
    proof -
      have code: "r_code row = ''super_admin''" if "repo_roles_find_by_id i s = Some row" for row
        using find_by_id_builtin(2) [OF ok that prems(7,8)] prems(9) by simp
      show ?thesis
        using prems(3,4) code by (auto simp: ok_iff split: if_splits option.splits)
    qed
    done
qed

lemma svc_roles_delete_builtin: "within (keeping (builtin A)) (svc_roles_delete E oid i)"
proof (rule post_keeping)
  fix s assume ok: "builtin A s"
  show "post (builtin A) (svc_roles_delete E oid i) s"
    unfolding svc_roles_delete_def
    apply (rule post_transaction post_bind_read ok reads_intro | assumption)+
    using roles_delete_builtin [OF find_by_id_builtin(1) [OF ok]]
      keeping_ok [OF builtin_audit [where X = "{}", folded builtin_def]]
    by (auto simp: ok_iff)
qed

lemma svc_roles_assign_builtin: "within (keeping (builtin A)) (svc_roles_assign_permissions E oid i ps)"
proof (rule post_keeping)
  fix s assume ok: "builtin A s"
  have body: "committed (builtin_except {i} A) (bind (validate_permission_dependencies ps) (\<lambda>codes.
       bind (validate_permission_grant_scope oid codes) (\<lambda>_.
       bind (gets (repo_roles_permission_ids_by_role i)) (\<lambda>previous.
       bind (map_err db_error (repo_roles_assign_permissions i ps)) (\<lambda>_.
       map_err db_error (audit_record E oid ''role.permissions.update'' ''role'' (Some i)
         (JObj [(''previousPermissionIds'', JArr (map JInt previous)),
                (''permissionIds'', JArr (map JInt ps))])))))))"
    by (intro committed_within keeps_intro builtin_audit assign_permissions_other)
  show "post (builtin A) (svc_roles_assign_permissions E oid i ps) s"
    unfolding svc_roles_assign_permissions_def
    apply (rule post_transaction post_bind_read ok reads_intro | assumption)+
    apply (drule committed_ok [OF body])
     apply (auto simp: ok_iff intro: find_by_id_builtin(1) [OF ok] builtin_mono)
    done
qed

interpretation builtin: system_relation "keeping (builtin A)" config for A config
  by unfold_locales
    (intro svc_roles_create_builtin svc_roles_update_builtin svc_roles_delete_builtin
      svc_roles_assign_builtin keeping_db.svc_frames frame_intro;
      simp add: keeping_def builtin_def builtin_except_def)+

lemma bootstrap_builtin: "within (keeping (builtin A)) (bootstrap_super_admin E u p d e)"
  by (intro keeping_db.svc_frames frame_intro; simp add: keeping_def builtin_def builtin_except_def)

end
