(* ===== verification/Thm_Roles.thy ===== *)
theory Thm_Roles
  imports Inv_Builtin Demo
begin

text \<open>
  What the role service promises (\<open>services/roles.rs\<close>): the permissions given to a role and its
  data scope stay within those of the actor, and the dependencies between permissions hold.
\<close>

section \<open>Shared facts\<close>

lemma validate_permission_dependencies_ok:
  "validate_permission_dependencies ps s = (Inr codes, t) \<longleftrightarrow>
     distinct ps \<and> codes = repo_permissions_codes_by_ids ps s \<and> card codes = card (set ps) \<and>
     (RolePermissionWrite \<in> codes \<longrightarrow> RoleRead \<in> codes \<and> PermissionRead \<in> codes) \<and>
     (DepartmentWrite \<in> codes \<longrightarrow> DepartmentRead \<in> codes) \<and> t = s"
  by (auto simp: validate_permission_dependencies_def ok_iff)

lemma validate_permission_grant_scope_ok:
  "validate_permission_grant_scope (Some uid) codes s = (Inr x, t) \<longleftrightarrow>
     codes \<subseteq> repo_permissions_permission_codes_by_user uid s \<and> t = s"
  by (auto simp: validate_permission_grant_scope_def ok_iff)

lemma codes_after_assignment:
  assumes "repo_roles_assign_permissions i ps s = (Inr x, u)"
    and "role_permissions t = role_permissions u" and "permissions t = permissions u"
  shows "repo_permissions_codes_by_role_ids [i] t = repo_permissions_codes_by_ids ps s"
  using assign_permissions_table [OF assms(1)] assms(2,3)
  by (auto simp: repo_permissions_codes_by_role_ids_def role_codes_def
      repo_permissions_codes_by_ids_def image_iff)

section \<open>Permissions of a role\<close>

text \<open>
  C13. Replacing the permissions of a role cannot escalate privileges: afterwards the role grants
  only permissions the actor holds, its permissions satisfy the dependencies of the catalogue, and
  the role is not the built-in one.
\<close>

theorem assign_permissions_no_escalation:
  assumes "svc_roles_assign_permissions E (Some uid) i ps s = (Inr (), t)"
  shows "let codes = repo_permissions_codes_by_role_ids [i] t in
     codes \<subseteq> repo_permissions_permission_codes_by_user uid s \<and>
     (RolePermissionWrite \<in> codes \<longrightarrow> RoleRead \<in> codes \<and> PermissionRead \<in> codes) \<and>
     (DepartmentWrite \<in> codes \<longrightarrow> DepartmentRead \<in> codes) \<and>
     (\<exists>row. repo_roles_find_by_id i s = Some row \<and> r_code row \<noteq> ''super_admin'')"
proof -
  from assms obtain row codes x u y where row: "repo_roles_find_by_id i s = Some row" "r_code row \<noteq> ''super_admin''"
    and dep: "validate_permission_dependencies ps s = (Inr codes, s)"
    and scope: "validate_permission_grant_scope (Some uid) codes s = (Inr x, s)"
    and assign: "repo_roles_assign_permissions i ps s = (Inr y, u)"
    and aud: "role_permissions t = role_permissions u" "permissions t = permissions u"
    by (auto simp: svc_roles_assign_permissions_def ok_iff validate_permission_dependencies_ok
        validate_permission_grant_scope_ok audit_record_ok)
  from codes_after_assignment [OF assign aud] dep scope row show ?thesis
    by (auto simp: Let_def validate_permission_dependencies_ok validate_permission_grant_scope_ok)
qed

theorem assign_permissions_no_escalation_witness:
  "\<exists>t. svc_roles_assign_permissions demo_env (Some 2) 2 [1, 2] demo_db = (Inr (), t) \<and>
     repo_permissions_codes_by_role_ids [2] t \<subseteq> repo_permissions_permission_codes_by_user 2 demo_db"
proof -
  have "\<not> isl (fst (svc_roles_assign_permissions demo_env (Some 2) 2 [1, 2] demo_db))" by code_simp
  then obtain t where a: "svc_roles_assign_permissions demo_env (Some 2) 2 [1, 2] demo_db = (Inr (), t)"
    unfolding not_isl_ok by auto
  with assign_permissions_no_escalation [OF a] show ?thesis by (auto simp: Let_def)
qed

section \<open>Data scope of a role\<close>

lemma validate_data_scope_ok:
  "validate_data_scope n s = (Inr x, t) \<longleftrightarrow> n \<in> set data_scopes \<and> n = as_str x \<and> t = s"
  by (auto simp: validate_data_scope_def ok_iff from_database_Some)

lemma roles_update_scope:
  assumes "repo_roles_update E i ru s = (Inr b, u)" and "ru_data_scope ru = Some n"
    and "r \<in> set (roles u)" and "r_id r = i"
  shows "r_data_scope r = n"
proof -
  let ?P = "\<lambda>r. r_id r = i" and ?f = "apply_role_update E ru"
  have "r \<in> set (update_where ?P ?f (roles s))" using roles_update_table [OF assms(1)] assms(3) by simp
  then obtain r0 where "r = (if ?P r0 then ?f r0 else r0)"
    unfolding update_where_def set_map image_iff by blast
  with assms(2,4) show ?thesis by (auto simp: apply_role_update_def split: if_splits)
qed

text \<open>
  A role update that sets the data scope succeeds only for a scope at most as broad as the
  actor's, and then the role has that scope.
\<close>

theorem role_update_scope_bounded:
  assumes upd: "svc_roles_update E oid scp i req s = (Inr resp, t)" and req: "uq_data_scope req = Some n"
  shows "\<exists>x. n = as_str x \<and> x \<le> scp \<and> (\<forall>r \<in> set (roles t). r_id r = i \<longrightarrow> r_data_scope r = n)"
  using upd unfolding svc_roles_update_def Let_def
  apply -
  apply (erule ok_bind_read, (rule reads_intro)+)+
  apply (erule ok_bind_transaction, (rule reads_intro)+)
  subgoal premises prems
  proof -
    from prems(4) obtain x where x: "n = as_str x" "x \<le> scp"
      unfolding req by (auto simp: ok_iff validate_data_scope_ok validate_data_scope_grant_def can_grant_iff_le)
    from prems(7) obtain u where "repo_roles_update E i \<lparr>ru_name = map_option trim (uq_name req),
        ru_category = map_option trim (uq_category req), ru_icon = nullable_text_update_of (uq_icon req),
        ru_color = uq_color req, ru_description = nullable_text_update_of (uq_description req),
        ru_data_scope = uq_data_scope req, ru_is_active = uq_is_active req\<rparr> s = (Inr True, u)"
      and "roles t = roles u"
      by (auto simp: ok_iff audit_record_ok)
    with roles_update_scope [OF this(1)] x show ?thesis by (auto simp: req)
  qed
  done

theorem role_update_scope_bounded_witness:
  "\<exists>resp t. svc_roles_update demo_env (Some 2) Organization 2 \<lparr>uq_name = None, uq_category = None,
       uq_icon = Missing, uq_color = None, uq_description = Missing,
       uq_data_scope = Some ''department'', uq_is_active = None\<rparr> demo_db = (Inr resp, t) \<and>
     (\<exists>x. ''department'' = as_str x \<and> x \<le> Organization)"
proof -
  let ?req = "\<lparr>uq_name = None, uq_category = None, uq_icon = Missing, uq_color = None,
     uq_description = Missing, uq_data_scope = Some ''department'', uq_is_active = None\<rparr>"
  have "\<not> isl (fst (svc_roles_update demo_env (Some 2) Organization 2 ?req demo_db))" by code_simp
  then obtain resp t where u: "svc_roles_update demo_env (Some 2) Organization 2 ?req demo_db = (Inr resp, t)"
    unfolding not_isl_ok by auto
  with role_update_scope_bounded [OF u] show ?thesis by auto
qed

lemma roles_create_row:
  assumes "repo_roles_create E nr s = (Inr i, u)"
  shows "i = roles_seq s \<and> role_permissions u = role_permissions s \<and> permissions u = permissions s \<and>
    (\<exists>r. roles u = roles s @ [r] \<and> r_id r = i \<and> r_data_scope r = nr_data_scope nr)"
proof -
  from assms obtain color where "i = roles_seq s"
    and "u = roles_seq_update (\<lambda>n. n + 1) (roles_update (\<lambda>rs. rs @ [new_role_rec E s nr color]) s)"
    by (auto simp: repo_roles_create_def Let_def ok_iff new_role_rec_def)
  then show ?thesis by (intro conjI exI [of _ "new_role_rec E s nr color"]) (simp_all add: new_role_rec_def)
qed

lemma optional_permissions:
  assumes "(case ps of None \<Rightarrow> ret () | Some ps \<Rightarrow>
      bind (ensure (ps = [] \<or> can) e) (\<lambda>_.
      bind (validate_permission_dependencies ps) (\<lambda>codes.
      bind (on_pool pool (validate_permission_grant_scope (Some uid) codes)) (\<lambda>_.
      map_err db_error (repo_roles_assign_permissions i ps))))) u = (Inr x, v)"
    and none: "\<And>p. (i, p) \<notin> set (role_permissions u)"
  shows "roles v = roles u \<and>
    repo_permissions_codes_by_role_ids [i] v \<subseteq> repo_permissions_permission_codes_by_user uid pool"
proof (cases ps)
  case None
  with assms have "v = u" by (simp add: ok_iff)
  with none show ?thesis by (auto simp: repo_permissions_codes_by_role_ids_def role_codes_def)
next
  case (Some ids)
  with assms(1) obtain codes y where codes: "codes = repo_permissions_codes_by_ids ids u"
    and pool: "on_pool pool (validate_permission_grant_scope (Some uid) codes) u = (Inr y, u)"
    and assign: "repo_roles_assign_permissions i ids u = (Inr x, v)"
    by (auto simp: ok_iff validate_permission_dependencies_ok on_pool_def)
  from pool have "codes \<subseteq> repo_permissions_permission_codes_by_user uid pool"
    by (auto simp: on_pool_def ok_iff validate_permission_grant_scope_def comp_defs split: if_splits)
  with codes_after_assignment [OF assign refl refl] codes assign_permissions_table [OF assign]
  show ?thesis by simp
qed

lemma roles_get_row:
  assumes "svc_roles_get i s = (Inr resp, t)"
  obtains r where "t = s" "r \<in> set (roles s)" "r_id r = i" "r_id resp = i" "r_data_scope resp = r_data_scope r"
proof -
  from assms obtain row where row: "repo_roles_find_by_id i s = Some row" and "t = s"
    and resp: "resp = role_row.extend row
      \<lparr>rr_permission_group_ids = repo_roles_permission_group_ids_by_role (r_id row) s\<rparr>"
    by (auto simp: svc_roles_get_def to_response_def ok_iff)
  from row obtain x where x: "find (\<lambda>r. r_id r = i) (roles s) = Some x" and "row = role_row_of s x"
    by (auto simp: repo_roles_find_by_id_def)
  with \<open>t = s\<close> resp find_SomeD [OF x] show thesis
    by (intro that [of x]) (simp_all add: role_row_of_def role_columns.defs role_row.defs)
qed

text \<open>
  A created role stays within the actor's rights: its data scope is at most as broad, and its
  permissions are among the actor's.
\<close>

theorem create_role_no_escalation:
  assumes pk: "primary_key r_id (roles s) (roles_seq s)"
    and fk: "\<forall>p \<in> set (role_permissions s). fst p \<in> r_id ` set (roles s)"
    and create: "svc_roles_create E (Some uid) scp req can s = (Inr resp, t)"
  shows "(\<exists>x. r_data_scope resp = as_str x \<and> x \<le> scp) \<and>
    repo_permissions_codes_by_role_ids [r_id resp] t \<subseteq> repo_permissions_permission_codes_by_user uid s"
  using create unfolding svc_roles_create_def Let_def
  apply -
  apply (erule ok_bind_read, (rule reads_intro)+)+
  apply (simp only: bind_ok transaction_ok map_err_ok)
  apply (elim exE conjE)
  subgoal premises prems for _ _ _ sc _ pool i' u i ua x ub y uc
  proof -
    note row = roles_create_row [OF prems(8)]
    then obtain r where r: "roles ua = roles s @ [r]" "r_id r = i" "r_data_scope r = as_str sc" by auto
    have "(i, p) \<notin> set (role_permissions ua)" for p
      using pk fk row by (force simp: primary_key_def)
    note opt = optional_permissions [OF prems(9) this]
    have t: "i' = i" "roles u = roles ub" "role_permissions u = role_permissions ub" "permissions u = permissions ub"
      using prems(10,11) by (auto simp: audit_record_ok ok_iff)
    from prems(7) obtain r' where r': "t = u" "r' \<in> set (roles u)" "r_id r' = i'" "r_id resp = i'"
      "r_data_scope resp = r_data_scope r'" by (rule roles_get_row)
    have "r' \<in> set (roles s @ [r])" using r'(2) t(2) opt r(1) by simp
    moreover have "r' \<notin> set (roles s)" using r'(3) t(1) row pk by (auto simp: primary_key_def)
    ultimately have "r' = r" by simp
    with r(3) r'(5) have "r_data_scope resp = as_str sc" by simp
    moreover have "sc \<le> scp" using prems(5) by (simp add: validate_data_scope_grant_def ok_iff can_grant_iff_le)
    moreover have "pool = s" using prems(6) by (simp add: ok_iff)
    moreover have "repo_permissions_codes_by_role_ids [r_id resp] t = repo_permissions_codes_by_role_ids [i] ub"
      using r'(1,4) t by (simp add: repo_permissions_codes_by_role_ids_def role_codes_def)
    ultimately show ?thesis using opt by blast
  qed
  done

theorem create_role_no_escalation_witness:
  "\<exists>resp t. svc_roles_create demo_env (Some 2) Organization \<lparr>cr_code = ''auditor'', cr_name = ''Auditor'',
       cr_category = None, cr_icon = None, cr_color = None, cr_description = None,
       cr_data_scope = None, cr_permission_ids = Some [1]\<rparr> True demo_db = (Inr resp, t) \<and>
     (\<exists>x. r_data_scope resp = as_str x \<and> x \<le> Organization)"
proof -
  let ?req = "\<lparr>cr_code = ''auditor'', cr_name = ''Auditor'', cr_category = None, cr_icon = None,
     cr_color = None, cr_description = None, cr_data_scope = None, cr_permission_ids = Some [1]\<rparr>"
  have pk: "primary_key r_id (roles demo_db) (roles_seq demo_db)"
    and fk: "\<forall>p \<in> set (role_permissions demo_db). fst p \<in> r_id ` set (roles demo_db)"
    by (simp_all add: primary_key_def demo_db_def demo_role_def)
  have "\<not> isl (fst (svc_roles_create demo_env (Some 2) Organization ?req True demo_db))" by code_simp
  then obtain resp t where c: "svc_roles_create demo_env (Some 2) Organization ?req True demo_db = (Inr resp, t)"
    unfolding not_isl_ok by auto
  with create_role_no_escalation [OF pk fk c] show ?thesis by blast
qed

end
