(* ===== verification/Thm_Login.thy ===== *)
theory Thm_Login
  imports Inv_Sessions Demo
begin

text \<open>
  What the login promises (\<open>services/auth.rs\<close> and the throttling of
  \<open>repositories/auth_sessions.rs\<close>): a session is opened only for an active account whose password
  was verified and that needs no second factor, repeated failures lock the identifier, and the
  answer to a failed login does not tell whether the account exists.
\<close>

section \<open>Second factors\<close>

lemma begin_login_None:
  assumes "begin_login E mfa user p keys s = (Inr None, t)"
  shows "\<not> is_active_super_admin s (u_id user) \<and> \<not> totp_enrolled s (u_id user) \<and>
    (\<forall>k \<in> set (user_passkeys s). pk_user_id k \<noteq> u_id user) \<and> t = s"
  using assms
  by (auto simp: begin_login_def ok_iff Let_def repo_mfa_summary_def filter_empty_conv split: if_splits)

lemma begin_login_sessions: "within (same auth_sessions) (begin_login E mfa user p keys)"
  unfolding begin_login_def begin_enrollment_def begin_challenge_def Let_def
  by (intro keeps_intro frame_intro) (simp_all add: same_def)

lemma failed_login_sessions: "within (same auth_sessions) (record_failed_login E config keys uid)"
proof -
  have "within (same auth_sessions) (repo_sessions_record_login_failure E h mx w l)" for E h mx w l
    by (intro frame_intro) (simp add: same_def)
  then have "within (same auth_sessions) (record_dimensions E config ds l dims)" for ds l dims
    by (induction E config ds l dims rule: record_dimensions.induct) (auto intro!: keeps_intro)
  then show ?thesis unfolding record_failed_login_def
    by (intro keeps_intro frame_intro) (simp_all add: same_def)
qed

lemma create_session_atomic: "atomic (create_login_session E config draw persistent keys row)"
  unfolding create_login_session_def Let_def
  by (rule atomic_bind_total [OF atomic_transaction] | rule atomic_intro)+

lemma find_by_username_row:
  "repo_users_find_by_username n s = Some row \<Longrightarrow> \<exists>u \<in> set (users s). u_username u = n \<and> live u \<and>
     u_id u = u_id row \<and> u_status u = u_status row \<and> u_password_hash u = u_password_hash row"
  by (auto simp: repo_users_find_by_username_def user_row.defs dest!: find_SomeD)

text \<open>The three ways through a login.\<close>

definition password_valid :: "env \<Rightarrow> login_request \<Rightarrow> user_row \<Rightarrow> bool" where
  "password_valid E req user \<longleftrightarrow> chars_count (lq_password req) \<le> max_password_length \<and>
     argon2_verify E (lq_password req) (u_password_hash user) = Some True"

lemma login_locked:
  assumes "locked_until E (login_throttle_keys_new E (trim (lq_username req)) ip) s = Some l"
  shows "login E config mfa req ip s = (Inl (RateLimited (retry_after E l)), s)"
  using assms by (simp add: login_def Let_def bind_def gets_def throw_def)

lemma login_valid:
  assumes "locked_until E (login_throttle_keys_new E (trim (lq_username req)) ip) s = None"
    and "repo_users_find_by_username (trim (lq_username req)) s = Some user"
    and "u_status user = ''active''" and "password_valid E req user"
  shows "login E config mfa req ip s =
    bind (begin_login E mfa user (lq_remember req)
      (login_throttle_keys_new E (trim (lq_username req)) ip)) (\<lambda>challenge.
    case challenge of
      Some response \<Rightarrow> ret (LoginMfaRequired response)
    | None \<Rightarrow>
        bind (create_login_session E config 0 (lq_remember req)
          (login_throttle_keys_new E (trim (lq_username req)) ip) user) (\<lambda>outcome.
        ret (LoginAuthenticated outcome))) s"
  using assms
  by (simp add: login_def Let_def gets_def password_valid_def verify_login_password_def
      bind_def [of "\<lambda>s. (Inr (f s), s)" for f])

lemma login_invalid:
  assumes "locked_until E (login_throttle_keys_new E (trim (lq_username req)) ip) s = None"
    and "\<not> (\<exists>user. repo_users_find_by_username (trim (lq_username req)) s = Some user \<and>
        u_status user = ''active'' \<and> password_valid E req user)"
  shows "login E config mfa req ip s =
    bind (record_failed_login E config (login_throttle_keys_new E (trim (lq_username req)) ip)
      (map_option u_id (repo_users_find_by_username (trim (lq_username req)) s))) (\<lambda>locked.
    throw (case locked of Some l \<Rightarrow> RateLimited (retry_after E l) | None \<Rightarrow> Unauthorized)) s"
  using assms
  by (cases "repo_users_find_by_username (trim (lq_username req)) s")
    (auto simp: login_def Let_def gets_def password_valid_def verify_login_password_def
      bind_def [of "\<lambda>s. (Inr (f s), s)" for f])

lemma bind_throw: "\<exists>e. bind m (\<lambda>x. throw (f x)) s = (Inl e, snd (m s))"
  by (cases "m s"; cases "fst (m s)") (auto simp: bind_def throw_def)

text \<open>
  C8. The password alone opens a session only for an active account whose stored hash the
  password verifies against, that is no super administrator and has enrolled no second factor.
  In every other case a login leaves the sessions untouched.
\<close>

theorem password_login_needs_no_factor:
  "(case login E config mfa req ip s of
      (Inr (LoginAuthenticated outcome), t) \<Rightarrow>
        \<exists>u \<in> set (users s). u_username u = trim (lq_username req) \<and> active_user u \<and>
          argon2_verify E (lq_password req) (u_password_hash u) = Some True \<and>
          \<not> is_active_super_admin s (u_id u) \<and> \<not> totp_enrolled s (u_id u) \<and>
          filter (\<lambda>k. pk_user_id k = u_id u) (user_passkeys s) = []
    | (_, t) \<Rightarrow> auth_sessions t = auth_sessions s)"
proof -
  let ?keys = "login_throttle_keys_new E (trim (lq_username req)) ip"
  let ?row = "repo_users_find_by_username (trim (lq_username req)) s"
  consider (locked) l where "locked_until E ?keys s = Some l"
    | (valid) user where "locked_until E ?keys s = None" "?row = Some user" "u_status user = ''active''"
        "password_valid E req user"
    | (invalid) "locked_until E ?keys s = None"
        "\<not> (\<exists>user. ?row = Some user \<and> u_status user = ''active'' \<and> password_valid E req user)"
    by fastforce
  then show ?thesis
  proof cases
    case locked
    then show ?thesis by (simp add: login_locked)
  next
    case invalid
    obtain e where "login E config mfa req ip s =
        (Inl e, snd (record_failed_login E config ?keys (map_option u_id ?row) s))"
      unfolding login_invalid [OF invalid] using bind_throw by metis
    with failed_login_sessions [of E config ?keys "map_option u_id ?row"] show ?thesis
      by (simp add: within_def same_def)
  next
    case valid
    obtain r u where b: "begin_login E mfa user (lq_remember req) ?keys s = (r, u)"
      by (cases "begin_login E mfa user (lq_remember req) ?keys s")
    have same: "auth_sessions u = auth_sessions s" using begin_login_sessions b by (rule same_ok)
    show ?thesis
    proof (cases "r = Inr None")
      case False
      with b same show ?thesis
        unfolding login_valid [OF valid] by (cases r) (auto simp: bind_def ret_def split: option.splits)
    next
      case True
      note none = begin_login_None [OF b [unfolded True]]
      obtain r' t where c: "create_login_session E config 0 (lq_remember req) ?keys user u = (r', t)"
        by (cases "create_login_session E config 0 (lq_remember req) ?keys user u")
      show ?thesis
      proof (cases r')
        case (Inl e)
        with c create_session_atomic [of E config 0] have "t = u" unfolding atomic_def by blast
        with same b c True Inl show ?thesis unfolding login_valid [OF valid] by (simp add: bind_def)
      next
        case (Inr outcome)
        from find_by_username_row [OF valid(2)] none valid(3,4) b c True Inr show ?thesis
          unfolding login_valid [OF valid]
          by (auto simp: bind_def ret_def active_user_def password_valid_def filter_empty_conv)
      qed
    qed
  qed
qed

section \<open>Throttling\<close>

text \<open>Two states with the same attempts table give the same locks and the same table.\<close>

definition same_attempts :: "db \<Rightarrow> db \<Rightarrow> bool" where
  "same_attempts s t \<longleftrightarrow> auth_login_attempts s = auth_login_attempts t"

lemma record_login_failure_same:
  assumes "same_attempts s t"
  shows "fst (repo_sessions_record_login_failure E h mx w l s) =
      fst (repo_sessions_record_login_failure E h mx w l t) \<and>
    same_attempts (snd (repo_sessions_record_login_failure E h mx w l s))
      (snd (repo_sessions_record_login_failure E h mx w l t))"
  using assms
  by (cases "find (\<lambda>a. la_identifier_hash a = h) (auth_login_attempts t)")
    (auto simp: repo_sessions_record_login_failure_def comp_defs same_attempts_def)

lemma record_dimensions_same:
  "same_attempts s t \<Longrightarrow>
     fst (record_dimensions E config ds l dims s) = fst (record_dimensions E config ds l dims t)"
proof (induction E config ds l dims arbitrary: s t rule: record_dimensions.induct)
  case (1 E config locked dims)
  then show ?case by (simp add: ret_def)
next
  case (2 E config dimension key mx rest locked dims)
  let ?m = "repo_sessions_record_login_failure E key mx (login_failure_window_secs config)
      (login_lockout_secs config)"
  obtain r u where s: "?m s = (r, u)" by (cases "?m s")
  obtain r' v where t: "?m t = (r', v)" by (cases "?m t")
  from record_login_failure_same [OF "2.prems", of E key mx] s t
  have r: "r' = r" and uv: "same_attempts u v" by (metis fst_conv snd_conv)+
  show ?case
  proof (cases r)
    case (Inl e)
    with s t r show ?thesis by (simp add: bind_def map_err_def)
  next
    case (Inr x)
    with s t r "2.IH" [OF uv] show ?thesis by (simp add: bind_def map_err_def)
  qed
qed

lemma record_failed_login_same:
  assumes "same_attempts s t"
  shows "fst (record_failed_login E config keys uid s) = fst (record_failed_login E config keys uid' t)"
  using record_dimensions_same [OF assms, of E config "throttle_dimensions config keys" None "[]"]
  by (auto simp: record_failed_login_def transaction_def bind_def audit_record_def comp_defs
      split: prod.splits sum.splits)

text \<open>
  C14. A failed login does not reveal whether the account exists: the answer is the one an
  installation without any user of that name gives.
\<close>

theorem failed_login_uniform:
  assumes "\<not> (\<exists>user. repo_users_find_by_username (trim (lq_username req)) s = Some user \<and>
      u_status user = ''active'' \<and> password_valid E req user)"
  shows "fst (login E config mfa req ip s) =
    fst (login E config mfa req ip
      (s\<lparr>users := filter (\<lambda>u. u_username u \<noteq> trim (lq_username req)) (users s)\<rparr>))"
proof -
  let ?t = "s\<lparr>users := filter (\<lambda>u. u_username u \<noteq> trim (lq_username req)) (users s)\<rparr>"
  let ?keys = "login_throttle_keys_new E (trim (lq_username req)) ip"
  have same: "same_attempts s ?t" by (simp add: same_attempts_def)
  have locked: "locked_until E ?keys ?t = locked_until E ?keys s"
    by (simp add: locked_until_def repo_sessions_locked_until_def)
  have none: "repo_users_find_by_username (trim (lq_username req)) ?t = None"
    by (auto simp: repo_users_find_by_username_def find_None_iff')
  show ?thesis
  proof (cases "locked_until E ?keys s")
    case (Some l)
    with locked show ?thesis by (simp add: login_locked)
  next
    case None
    with locked have t: "login E config mfa req ip ?t =
        bind (record_failed_login E config ?keys None) (\<lambda>locked.
        throw (case locked of Some l \<Rightarrow> RateLimited (retry_after E l) | None \<Rightarrow> Unauthorized)) ?t"
      using login_invalid [of E req ip ?t config mfa] none by simp
    show ?thesis
      unfolding login_invalid [OF None assms] t
      using record_failed_login_same [OF same, of E config ?keys
          "map_option u_id (repo_users_find_by_username (trim (lq_username req)) s)" None]
      by (auto simp: bind_def throw_def split: prod.splits sum.splits)
  qed
qed

theorem failed_login_uniform_witness:
  "fst (login demo_env demo_auth demo_mfa \<lparr>lq_username = ''admin'', lq_password = ''x'', lq_remember = False\<rparr>
      (V4 [127, 0, 0, 1]) demo_db) =
   fst (login demo_env demo_auth demo_mfa \<lparr>lq_username = ''admin'', lq_password = ''x'', lq_remember = False\<rparr>
      (V4 [127, 0, 0, 1]) (demo_db\<lparr>users := filter (\<lambda>u. u_username u \<noteq> trim ''admin'') (users demo_db)\<rparr>))"
proof -
  let ?req = "\<lparr>lq_username = ''admin'', lq_password = ''x'', lq_remember = False\<rparr>"
  have "\<not> (\<exists>user. repo_users_find_by_username (trim (lq_username ?req)) demo_db = Some user \<and>
      u_status user = ''active'' \<and> password_valid demo_env ?req user)"
    by (auto simp: repo_users_find_by_username_def password_valid_def demo_env_def demo_db_def
        demo_user_def user_row.defs split: if_splits)
  from failed_login_uniform [OF this] show ?thesis by simp
qed

end
