(* ===== verification/Thm_Throttle.thy ===== *)
theory Thm_Throttle
  imports Thm_Login
begin

text \<open>
  Throttling of logins: repeated failures lock the account, the right password included.
\<close>

section \<open>The rows of the attempts table\<close>

definition attempts_of :: "string \<Rightarrow> db \<Rightarrow> login_attempts_rec list" where
  "attempts_of h s = filter (\<lambda>a. la_identifier_hash a = h) (auth_login_attempts s)"

definition after_failure ::
    "env \<Rightarrow> string \<Rightarrow> int \<Rightarrow> int \<Rightarrow> int \<Rightarrow> login_attempts_rec list \<Rightarrow> login_attempts_rec list" where
  "after_failure E h mx w l rs = (if rs = [] then [first_failure E h] else map (next_failure E mx w l) rs)"

lemma filter_update_where:
  "(\<And>a. la_identifier_hash (f a) = la_identifier_hash a) \<Longrightarrow>
   filter (\<lambda>a. la_identifier_hash a = h') (update_where (\<lambda>a. la_identifier_hash a = h) f xs) =
     (if h' = h then map f (filter (\<lambda>a. la_identifier_hash a = h) xs)
      else filter (\<lambda>a. la_identifier_hash a = h') xs)"
  by (induction xs) (auto simp: update_where_def)

lemma find_filter: "find P xs = None \<longleftrightarrow> filter P xs = []"
  by (induction xs) auto

text \<open>One failure: the rows of the key change, the others and the users do not.\<close>

lemma record_login_failure_rows:
  assumes "varchar 64 h"
  shows "\<exists>r t. repo_sessions_record_login_failure E h mx w l s = (Inr r, t) \<and> users t = users s \<and>
    (\<forall>h'. attempts_of h' t = (if h' = h then after_failure E h mx w l (attempts_of h s) else attempts_of h' s))"
proof (cases "find (\<lambda>a. la_identifier_hash a = h) (auth_login_attempts s)")
  case None
  then have "attempts_of h s = []" by (simp add: attempts_of_def find_filter)
  with None assms show ?thesis
    by (auto simp: repo_sessions_record_login_failure_def attempts_of_def after_failure_def bind_def
        gets_def modify_def ret_def ensure_def first_failure_def)
next
  case (Some a)
  then have "attempts_of h s \<noteq> []" by (metis attempts_of_def find_filter option.distinct(1))
  with Some show ?thesis
    by (auto simp: repo_sessions_record_login_failure_def attempts_of_def after_failure_def bind_def
        gets_def modify_def ret_def filter_update_where)
qed

abbreviation failure_in :: "env \<Rightarrow> 'net auth_session_config \<Rightarrow> string \<Rightarrow> int \<Rightarrow> db \<Rightarrow> login_attempts_rec list" where
  "failure_in E config h mx s \<equiv> after_failure E h mx (login_failure_window_secs config)
     (login_lockout_secs config) (attempts_of h s)"

lemma record_dimensions_rows:
  assumes "list_all (varchar 64) (map (fst \<circ> snd) ds)" and "distinct (map (fst \<circ> snd) ds)"
  shows "\<exists>r t. record_dimensions E config ds locked dims s = (Inr r, t) \<and> users t = users s \<and>
    (\<forall>(d, h, mx) \<in> set ds. attempts_of h t = failure_in E config h mx s) \<and>
    (\<forall>h. h \<notin> (fst \<circ> snd) ` set ds \<longrightarrow> attempts_of h t = attempts_of h s)"
  using assms
proof (induction E config ds locked dims arbitrary: s rule: record_dimensions.induct)
  case (2 E config d h mx rest locked dims)
  have "varchar 64 h" and p: "list_all (varchar 64) (map (fst \<circ> snd) rest)" "distinct (map (fst \<circ> snd) rest)"
    and h: "h \<notin> (fst \<circ> snd) ` set rest"
    using "2.prems" by (simp_all add: o_def)
  then obtain r t where t: "repo_sessions_record_login_failure E h mx (login_failure_window_secs config)
      (login_lockout_secs config) s = (Inr r, t)" "users t = users s"
    "\<And>h'. attempts_of h' t = (if h' = h then failure_in E config h mx s else attempts_of h' s)"
    using record_login_failure_rows [of h E mx "login_failure_window_secs config" "login_lockout_secs config" s]
    by blast
  obtain r' u where u: "record_dimensions E config rest (later locked r) (if r = None then dims else dims @ [d]) t
      = (Inr r', u)" "users u = users t"
    "\<forall>(d, h, mx) \<in> set rest. attempts_of h u = failure_in E config h mx t"
    "\<forall>h. h \<notin> (fst \<circ> snd) ` set rest \<longrightarrow> attempts_of h u = attempts_of h t"
    using "2.IH" [OF p] by blast
  have "record_dimensions E config ((d, h, mx) # rest) locked dims s = (Inr r', u)"
    using t(1) u(1) by (simp add: bind_def map_err_def)
  moreover have "attempts_of h' u = failure_in E config h' mx' s" if "(d', h', mx') \<in> set rest" for d' h' mx'
    using u(3) that h t(3) [of h'] by force
  ultimately show ?case using t u h by (intro exI [of _ r'] exI [of _ u]) auto
qed (simp add: ret_def)

lemma audit_attempts:
  assumes "audit_record E None a b c d s = (r, t)"
  shows "\<not> isl r \<and> attempts_of h t = attempts_of h s \<and> users t = users s"
  using assms by (auto simp: audit_record_def attempts_of_def bind_def gets_def ensure_def ret_def modify_def)

lemma record_failed_login_rows:
  assumes "list_all (varchar 64) (throttle_keys_all keys)" and "distinct (throttle_keys_all keys)"
  shows "\<exists>r t. record_failed_login E config keys uid s = (Inr r, t) \<and> users t = users s \<and>
    (\<forall>(d, h, mx) \<in> set (throttle_dimensions config keys). attempts_of h t = failure_in E config h mx s)"
proof -
  let ?ds = "throttle_dimensions config keys"
  have "map (fst \<circ> snd) ?ds = throttle_keys_all keys"
    by (simp add: throttle_dimensions_def throttle_keys_all_def)
  with assms obtain l dims u where u: "record_dimensions E config ?ds None [] s = (Inr (l, dims), u)"
    "users u = users s" "\<forall>(d, h, mx) \<in> set ?ds. attempts_of h u = failure_in E config h mx s"
    using record_dimensions_rows [of ?ds E config None "[]" s] by auto
  obtain r t where a: "audit_record E None ''auth.login.failure'' ''user'' uid
         (JObj [(''identifierFingerprint'', JStr (take 12 (account keys))),
                (''sourceIpFingerprint'', JStr (take 12 (source_ip keys))),
                (''locked'', JBool (l \<noteq> None)),
                (''lockedDimensions'', JArr (map JStr dims))]) u = (r, t)" by fastforce
  from audit_attempts [OF a] obtain x where "r = Inr x" by (cases r) auto
  with u(1) a have "record_failed_login E config keys uid s = (Inr l, t)"
    by (simp add: record_failed_login_def transaction_def bind_def map_err_def ret_def)
  moreover have "users t = users s" "attempts_of h t = attempts_of h u" for h
    using audit_attempts [OF a] u(2) by simp_all
  ultimately show ?thesis using u(3) by (intro exI [of _ l] exI [of _ t]) simp
qed

section \<open>Repeated failures\<close>



text \<open>\<open>k\<close> failures since \<open>T\<close> were counted for the account, and none of the keys is locked.\<close>

definition counted :: "time \<Rightarrow> nat \<Rightarrow> 'net auth_session_config \<Rightarrow> login_throttle_keys \<Rightarrow> db \<Rightarrow> bool" where
  "counted T k config keys s \<longleftrightarrow>
     (\<forall>h \<in> set (throttle_keys_all keys). length (attempts_of h s) \<le> 1 \<and>
        (\<forall>a \<in> set (attempts_of h s). la_locked_until a = None)) \<and>
     (if k = 0 then attempts_of (account keys) s = []
      else \<exists>a. attempts_of (account keys) s = [a] \<and> la_failure_count a = int k \<and>
        la_window_started_at a = T \<and> (1 < k \<longrightarrow> int k < login_max_failures config))"

lemma repo_locked_until_rows:
  "repo_sessions_locked_until E h s =
     Option.bind (find (\<lambda>a. case la_locked_until a of None \<Rightarrow> False | Some t \<Rightarrow> t > now E) (attempts_of h s))
       la_locked_until"
proof -
  have "find (\<lambda>x. P x \<and> Q x) xs = find Q (filter P xs)" for P Q :: "login_attempts_rec \<Rightarrow> bool" and xs
    by (induction xs) auto
  then show ?thesis by (simp add: repo_sessions_locked_until_def attempts_of_def)
qed



lemma locked_until_counted:
  assumes "counted T k config keys s"
  shows "locked_until E keys s = None"
proof -
  have "repo_sessions_locked_until E h s = None" if "h \<in> set (throttle_keys_all keys)" for h
  proof -
    from assms that have "la_locked_until a = None" if "a \<in> set (attempts_of h s)" for a
      using that by (auto simp: counted_def)
    then have "find (\<lambda>a. case la_locked_until a of None \<Rightarrow> False | Some t \<Rightarrow> t > now E) (attempts_of h s) = None"
      by (auto simp: find_None_iff')
    then show ?thesis by (simp add: repo_locked_until_rows)
  qed
  then show ?thesis by (simp add: locked_until_def throttle_keys_all_def later_def)
qed









text \<open>
  Five wrong passwords for the operator in the example, then the right one. The digest of this
  example keeps the eighth byte, in which the three keys differ.
\<close>

definition demo_digest_env :: "int \<Rightarrow> env" where
  "demo_digest_env t = demo_env\<lparr>sha256 := (\<lambda>x. bytes_of (take 1 (drop 7 x))), now := secs t, utc_now := secs t\<rparr>"

definition demo_login :: "string \<Rightarrow> login_request" where
  "demo_login p = \<lparr>lq_username = ''operator'', lq_password = p, lq_remember = False\<rparr>"


text \<open>
  The first failure never locks, whatever limit is configured: the statement that records it
  inserts the row unlocked without comparing the count with the limit, so a limit of one behaves
  like a limit of two.
\<close>

theorem first_failure_never_locks:
  assumes keys: "keys = login_throttle_keys_new E (trim (lq_username req)) ip"
    and hashes: "list_all (varchar 64) (throttle_keys_all keys)" "distinct (throttle_keys_all keys)"
    and fresh: "list_all (\<lambda>h. attempts_of h s = []) (throttle_keys_all keys)"
    and invalid: "\<not> (\<exists>user. repo_users_find_by_username (trim (lq_username req)) s = Some user \<and>
      u_status user = ''active'' \<and> password_valid E req user)"
  shows "locked_until E' keys (snd (login E (config\<lparr>login_max_failures := 1\<rparr>) mfa req ip s)) = None"
proof -
  let ?c = "config\<lparr>login_max_failures := 1\<rparr>" and ?user = "repo_users_find_by_username (trim (lq_username req)) s"
  have "counted (now E) 0 ?c keys s"
    using fresh by (auto simp: counted_def list_all_iff throttle_keys_all_def)
  then have None: "locked_until E keys s = None" by (rule locked_until_counted)
  obtain e where "login E ?c mfa req ip s =
      (Inl e, snd (record_failed_login E ?c keys (map_option u_id ?user) s))"
    unfolding login_invalid [OF None [unfolded keys] invalid] keys using bind_throw by metis
  with record_failed_login_rows [OF hashes, of E ?c "map_option u_id ?user" s] fresh
  have "attempts_of h (snd (login E ?c mfa req ip s)) = [first_failure E h]"
    if "h \<in> set (throttle_keys_all keys)" for h
    using that by (auto simp: throttle_dimensions_def throttle_keys_all_def after_failure_def)
  then have "counted (now E) 1 ?c keys (snd (login E ?c mfa req ip s))"
    by (auto simp: counted_def first_failure_def throttle_keys_all_def)
  then show ?thesis by (rule locked_until_counted)
qed

theorem first_failure_never_locks_witness:
  "locked_until demo_env (login_throttle_keys_new (demo_digest_env 1000) (trim (lq_username (demo_login ''guess'')))
      (V4 [9, 9, 9, 9]))
    (snd (login (demo_digest_env 1000) (demo_auth\<lparr>login_max_failures := 1\<rparr>) demo_mfa (demo_login ''guess'')
      (V4 [9, 9, 9, 9]) demo_db)) = None"
proof (rule first_failure_never_locks [OF refl])
  let ?keys = "login_throttle_keys_new (demo_digest_env 1000) (trim (lq_username (demo_login ''guess''))) (V4 [9, 9, 9, 9])"
  show "list_all (varchar 64) (throttle_keys_all ?keys)" by code_simp
  show "distinct (throttle_keys_all ?keys)" by code_simp
  show "list_all (\<lambda>h. attempts_of h demo_db = []) (throttle_keys_all ?keys)" by code_simp
  have "repo_users_find_by_username (trim ''operator'') demo_db
      = Some (user_row.truncate (demo_user 2 ''operator'' 2))" by code_simp
  then show "\<not> (\<exists>user. repo_users_find_by_username (trim (lq_username (demo_login ''guess''))) demo_db = Some user \<and>
      u_status user = ''active'' \<and> password_valid (demo_digest_env 1000) (demo_login ''guess'') user)"
    by (simp add: demo_login_def password_valid_def demo_digest_env_def demo_env_def user_row.defs demo_user_def)
qed

end
