(* ===== verification/Thm_Session.thy ===== *)
theory Thm_Session
  imports Thm_Auth
begin

text \<open>
  A login is usable: the session that \<open>create_login_session\<close> opens (after the password or after a
  second factor) survives the session limit and the pruning of the same transaction, and the
  tokens handed out authenticate the next request.
\<close>

section \<open>The new session survives\<close>

lemma newer_session_order: "newer_session a b \<or> newer_session b a"
  "newer_session a b \<Longrightarrow> newer_session b c \<Longrightarrow> newer_session a c"
  by (auto simp: newer_session_def)

lemma newest_first_kept:
  assumes "x \<in> set xs" and "distinct (map s_id xs)" and "\<And>y. y \<in> set xs \<Longrightarrow> newer_session x y" and "0 < n"
  shows "x \<in> set (take n (sort_by newer_session xs))"
proof -
  let ?ys = "sort_by newer_session xs"
  have "sorted_wrt newer_session ?ys" by (rule sorted_sort_by [OF newer_session_order])
  moreover have "x \<in> set ?ys" using assms(1) by simp
  ultimately obtain y ys where ys: "?ys = y # ys" and "y = x \<or> newer_session y x"
    by (cases ?ys) auto
  moreover have y: "y \<in> set xs" using ys set_sort_by [of newer_session xs] by auto
  ultimately have "s_id y = s_id x" using assms(3) [OF y] by (auto simp: newer_session_def)
  with assms(1,2) y have "y = x" by (auto dest: distinct_map_unique)
  with ys assms(4) show ?thesis by (cases n) auto
qed

text \<open>What the transaction of a login leaves of the tables the session query reads.\<close>

definition login_view :: "db \<Rightarrow> _" where
  "login_view db = (map (\<lambda>u. u\<lparr>u_last_login_at := None\<rparr>) (users db), roles db, user_roles db,
     permissions db, role_permissions db, user_mfa_settings db)"

lemma login_view_kept: "within (same login_view) (create_login_session E config draw persistent keys row)"
proof -
  have last: "within (same login_view) (repo_users_update_last_login E i)" for i
    unfolding repo_users_update_last_login_def
    by (rule same.within_modify) (auto simp: same_def login_view_def update_where_def)
  show ?thesis
    unfolding create_login_session_def record_session_revocation_def Let_def
    by (intro keeps_intro last frame_intro; simp add: same_def login_view_def)
qed

lemma created_session_kept:
  assumes ok: "sessions_ok n s" and ns: "repo_sessions_create E ns s3 = (Inr sid, s4)"
    and s3: "auth_sessions s3 = auth_sessions s" "sessions_seq s3 = sessions_seq s"
    and old: "\<And>y. y \<in> set (auth_sessions s) \<Longrightarrow> s_created_at y \<le> now E"
    and limit: "repo_sessions_enforce_user_limit E (ns_user_id ns) mx s4 = (Inr k, s5)" "1 \<le> mx"
  shows "new_session_rec E s3 ns \<in> set (auth_sessions s5)"
proof -
  let ?x = "new_session_rec E s3 ns"
  have s4: "auth_sessions s4 = auth_sessions s @ [?x]"
    using ns s3 by (auto simp: repo_sessions_create_def ok_iff)
  have pk: "distinct (map s_id (auth_sessions s))" "\<And>y. y \<in> set (auth_sessions s) \<Longrightarrow> s_id y < sessions_seq s"
    using ok by (auto simp: sessions_ok_def limited_def primary_key_def)
  let ?open = "unrevoked_sessions s4 (ns_user_id ns)"
  have "?x \<in> set ?open" by (simp add: unrevoked_sessions_def s4 new_session_rec_def)
  moreover have "sessions_seq s \<notin> s_id ` set (auth_sessions s)" using pk(2) by fastforce
  then have "distinct (map s_id ?open)"
    using pk(1) s3 by (auto simp: unrevoked_sessions_def s4 new_session_rec_def distinct_map_filter)
  moreover have "newer_session ?x y" if "y \<in> set ?open" for y
    using that old pk(2) s3
    by (fastforce simp: unrevoked_sessions_def s4 newer_session_def new_session_rec_def)
  ultimately have "?x \<in> set (take (nat mx) (sort_by newer_session ?open))"
    using limit(2) by (intro newest_first_kept) auto
  then show ?thesis
    using limit(1)
    by (auto simp: repo_sessions_enforce_user_limit_def ok_iff set_update_where s4)
qed

lemma pruned_session_kept:
  assumes "repo_sessions_prune E s = (Inr k, t)" and "x \<in> set (auth_sessions s)"
    and "\<not> session_prunable E x"
  shows "x \<in> set (auth_sessions t)"
  using assms
  by (auto simp: repo_sessions_prune_def ok_iff delete_sessions_def delete_where_def Let_def)

definition opened_session ::
    "env \<Rightarrow> 'net auth_session_config \<Rightarrow> bool \<Rightarrow> user_row \<Rightarrow> login_session_outcome \<Rightarrow> auth_sessions_rec \<Rightarrow> bool" where
  "opened_session E config persistent row outcome x \<longleftrightarrow>
     s_user_id x = u_id row \<and> s_session_token_hash x = token_hash E (lo_session_token outcome) \<and>
     s_csrf_token_hash x = token_hash E (lo_csrf_token outcome) \<and>
     s_token_version x = u_token_version row \<and> s_revoked_at x = None \<and> s_last_seen_at x = now E \<and>
     s_idle_timeout_secs x = (if persistent then persistent_session_idle_timeout_secs config
       else session_idle_timeout_secs config) \<and>
     s_expires_at x = utc_now E + secs (lo_ttl_secs outcome)"

lemma login_tokens:
  assumes "create_login_session E config draw persistent keys row s = (Inr outcome, t)"
  shows "lo_session_token outcome = random_token E draw" "lo_csrf_token outcome = random_token E (draw + 1)"
    "lo_ttl_secs outcome = (if persistent then persistent_session_ttl_secs config else session_ttl_secs config)"
  using assms unfolding create_login_session_def Let_def by (auto simp: bind_ok gets_ok ret_ok)

lemma login_opens_session:
  assumes ok: "sessions_ok n s" and limit: "1 \<le> max_sessions_per_user config"
    and old: "\<And>y. y \<in> set (auth_sessions s) \<Longrightarrow> s_created_at y \<le> now E"
    and login: "create_login_session E config draw persistent keys row s = (Inr outcome, t)"
    and live: "now E - days 7 \<le> utc_now E + secs (lo_ttl_secs outcome)"
  shows "\<exists>x \<in> set (auth_sessions t). opened_session E config persistent row outcome x"
proof -
  let ?ttl = "if persistent then persistent_session_ttl_secs config else session_ttl_secs config"
  let ?ns = "\<lparr>ns_user_id = u_id row, ns_session_token_hash = token_hash E (random_token E draw),
    ns_csrf_token_hash = token_hash E (random_token E (draw + 1)), ns_token_version = u_token_version row,
    ns_idle_timeout_secs = (if persistent then persistent_session_idle_timeout_secs config
       else session_idle_timeout_secs config), ns_persistent = persistent,
    ns_expires_at = utc_now E + secs ?ttl\<rparr>"
  note out = login_tokens [OF login]
  obtain s1 s2 s3 s4 s5 s6 s7 sid k k' d where
    1: "repo_users_update_last_login E (u_id row) s = (Inr (), s1)"
    and 2: "repo_sessions_clear_login_failures (account keys) s1 = (Inr (), s2)"
    and 3: "repo_sessions_clear_login_failures (account_ip keys) s2 = (Inr (), s3)"
    and 4: "repo_sessions_create E ?ns s3 = (Inr sid, s4)"
    and 5: "repo_sessions_enforce_user_limit E (u_id row) (max_sessions_per_user config) s4 = (Inr k, s5)"
    and 6: "record_session_revocation E (Some (u_id row)) (u_id row) ''session_limit'' k s5 = (Inr (), s6)"
    and 7: "repo_sessions_prune E s6 = (Inr k', s7)"
    and 8: "audit_record E (Some (u_id row)) ''auth.login.success'' ''auth_session'' (Some sid) d s7 = (Inr (), t)"
  proof -
    show thesis
      using login unfolding create_login_session_def Let_def
      by (simp only: bind_ok transaction_ok map_err_ok gets_ok ret_ok old.unit.exhaust)
        (elim exE conjE, rule that, (simp; fail)+)
  qed
  have s3: "auth_sessions s3 = auth_sessions s" "sessions_seq s3 = sessions_seq s"
    using 1 2 3
    by (auto simp: repo_users_update_last_login_def repo_sessions_clear_login_failures_def modify_ok)
  let ?x = "new_session_rec E s3 ?ns"
  have "?x \<in> set (auth_sessions s5)"
    using created_session_kept [OF ok 4 s3 old] 5 limit by simp
  then have "?x \<in> set (auth_sessions s6)" using same_ok [OF same_sessions_audit(2) 6] by simp
  then have "?x \<in> set (auth_sessions s7)"
    using live out(3) by (intro pruned_session_kept [OF 7]) (auto simp: session_prunable_def new_session_rec_def before_def)
  then have "?x \<in> set (auth_sessions t)" using same_ok [OF same_sessions_audit(1) 8] by simp
  moreover have "opened_session E config persistent row outcome ?x"
    by (simp add: opened_session_def new_session_rec_def out)
  ultimately show ?thesis by blast
qed

section \<open>The tokens authenticate\<close>

lemma same_account:
  assumes "v\<lparr>u_last_login_at := None\<rparr> = u\<lparr>u_last_login_at := None\<rparr>"
  shows "u_id v = u_id u \<and> u_token_version v = u_token_version u \<and> u_status v = u_status u \<and>
    u_deleted_at v = u_deleted_at u"
  using assms by (cases u, cases v) simp

lemma find_hash:
  assumes "x \<in> set xs" and "distinct (map s_session_token_hash xs)" and "P x"
  shows "find (\<lambda>s. s_session_token_hash s = s_session_token_hash x \<and> P s) xs = Some x"
  using assms
proof (induction xs)
  case (Cons y ys)
  then show ?case by (cases "y = x") (auto simp: image_iff)
qed simp

lemma session_query_finds:
  assumes x: "x \<in> set (auth_sessions t)" "session_open E x"
    and "distinct (map s_session_token_hash (auth_sessions t))"
    and u: "u \<in> set (users t)" "session_user_ok t x u"
  shows "\<exists>c. select_auth_context E (s_session_token_hash x) t = Some c \<and> sc_user_id c = s_user_id x \<and>
    sc_session_id c = s_id x \<and> sc_csrf_token_hash c = s_csrf_token_hash x \<and>
    (\<exists>scope. sc_data_scope c = as_str scope)"
proof -
  have "find (\<lambda>s. s_session_token_hash s = s_session_token_hash x \<and> session_open E s) (auth_sessions t) = Some x"
    using x(1) assms(3) x(2) by (rule find_hash)
  moreover obtain v where "find (session_user_ok t x) (users t) = Some v"
    using u by (cases "find (session_user_ok t x) (users t)") (auto simp: find_None_iff')
  ultimately show ?thesis by (auto simp: select_auth_context_def effective_scope_broadest)
qed

text \<open>
  C19. A completed login can be used at once: as long as the session is neither idle nor expired, a
  request with the cookies the login set and the CSRF token in its header authenticates as the user
  who logged in, in the session the login opened. (The clock has not run backwards: no session was
  created in the future.)
\<close>

theorem login_session_authenticates:
  assumes ok: "sessions_ok (nat (max_sessions_per_user config)) s" and limit: "1 \<le> max_sessions_per_user config"
    and old: "\<And>y. y \<in> set (auth_sessions s) \<Longrightarrow> s_created_at y \<le> now E"
    and user: "u \<in> set (users s)" "active_user u" "row = user_row.truncate u"
      "is_active_super_admin s (u_id u) \<Longrightarrow> totp_enrolled s (u_id u)"
    and login: "create_login_session E config draw persistent keys row s = (Inr outcome, t)"
    and jar: "rq_jar rq = set_session_cookies jar (lo_session_token outcome) (lo_csrf_token outcome)
      persistent (lo_ttl_secs outcome) secure"
    and csrf: "header_str rq ''x-csrf-token'' = Some (lo_csrf_token outcome)"
    and later: "sha256 E' = sha256 E" "now E \<le> now E'"
      "now E' < now E + secs (if persistent then persistent_session_idle_timeout_secs config
         else session_idle_timeout_secs config)"
      "now E' < utc_now E + secs (lo_ttl_secs outcome)"
  shows "\<exists>actor v. authenticate E' secure rq t = (Inr actor, v) \<and> user_id actor = u_id u"
proof -
  have "now E - days 7 \<le> utc_now E + secs (lo_ttl_secs outcome)"
    using later by (simp add: days_def secs_def)
  from login_opens_session [OF ok limit old login this] obtain x where
    x: "x \<in> set (auth_sessions t)" "opened_session E config persistent row outcome x" by blast
  have "sessions_ok (nat (max_sessions_per_user config)) t"
    using keeping_ok [OF create_login_session_limited login] ok by blast
  then have dist: "distinct (map s_session_token_hash (auth_sessions t))"
    by (simp add: sessions_ok_def limited_def)
  have view: "login_view t = login_view s" using login_view_kept login by (rule same_ok)
  then have "u\<lparr>u_last_login_at := None\<rparr> \<in> set (map (\<lambda>u. u\<lparr>u_last_login_at := None\<rparr>) (users t))"
    using user(1) by (simp add: login_view_def)
  then obtain u' where u': "u' \<in> set (users t)" "u'\<lparr>u_last_login_at := None\<rparr> = u\<lparr>u_last_login_at := None\<rparr>"
    by auto
  have "session_user_ok t x u'"
    using x(2) user same_account [OF u'(2)] view
    by (auto simp: session_user_ok_def opened_session_def user_row.defs login_view_def active_user_def
        is_active_super_admin_def user_active_roles_def totp_enrolled_def)
  then obtain c where c: "select_auth_context E' (s_session_token_hash x) t = Some c" "sc_user_id c = s_user_id x"
    "sc_csrf_token_hash c = s_csrf_token_hash x" "\<exists>scope. sc_data_scope c = as_str scope"
    using session_query_finds [OF x(1) _ dist u'(1), of E'] x(2) later
    by (auto simp: session_open_def opened_session_def)
  from c(4) obtain scope where scope: "sc_data_scope c = as_str scope" by blast
  have same: "token_hash E' = token_hash E" using later(1) by (simp add: token_hash_def fun_eq_iff)
  have len: "length (lo_session_token outcome) = 64" "length (lo_csrf_token outcome) = 64"
    by (simp_all add: login_tokens [OF login])
  then have cookies: "cookie_token rq (session_cookie_name secure) = Some (lo_session_token outcome)"
    "cookie_token rq (csrf_cookie_name secure) = Some (lo_csrf_token outcome)"
    by (auto simp: cookie_token_def jar set_session_cookies_def Let_def session_cookie_name_def csrf_cookie_name_def)
  have "authenticate E' secure rq t = (Inr \<lparr>user_id = sc_user_id c, session_id = sc_session_id c,
      organization_id = sc_organization_id c, department_id = sc_department_id c, data_scope = scope,
      permission_codes = sc_permission_codes c\<rparr>,
      snd (repo_sessions_auth_context E' (token_hash E' (lo_session_token outcome)) t))"
    unfolding authenticate_ok sessions_auth_context_ok
    using cookies csrf c x(2) scope same len
    by (auto simp: validate_csrf_ok opened_session_def repo_sessions_auth_context_def bind_def gets_def
        ret_def modify_def)
  moreover have "sc_user_id c = u_id u" using c(2) x(2) user(3) by (simp add: opened_session_def user_row.defs)
  ultimately show ?thesis by auto
qed

text \<open>The viewer of the example logs in and asks who it is, fifty seconds later.\<close>

definition demo_outcome :: login_session_outcome where
  "demo_outcome = projr (fst (create_login_session demo_env demo_auth 0 False
     \<lparr>account = ''a'', source_ip = ''b'', account_ip = ''c''\<rparr> (user_row.truncate (demo_user 3 ''viewer'' 3)) demo_db))"

definition demo_first_request :: request where
  "demo_first_request =
     \<lparr>rq_method = POST, rq_headers = [''x-csrf-token'' \<mapsto> lo_csrf_token demo_outcome],
      rq_jar = set_session_cookies Map.empty (lo_session_token demo_outcome) (lo_csrf_token demo_outcome)
        False (lo_ttl_secs demo_outcome) False\<rparr>"

theorem login_session_authenticates_witness:
  "\<exists>t actor v. create_login_session demo_env demo_auth 0 False
       \<lparr>account = ''a'', source_ip = ''b'', account_ip = ''c''\<rparr> (user_row.truncate (demo_user 3 ''viewer'' 3)) demo_db
     = (Inr demo_outcome, t) \<and>
   authenticate (demo_env\<lparr>now := secs 1050\<rparr>) False demo_first_request t = (Inr actor, v) \<and> user_id actor = 3"
proof -
  let ?m = "create_login_session demo_env demo_auth 0 False
     \<lparr>account = ''a'', source_ip = ''b'', account_ip = ''c''\<rparr> (user_row.truncate (demo_user 3 ''viewer'' 3))"
  have "\<not> isl (fst (?m demo_db))" by code_simp
  then obtain t where login: "?m demo_db = (Inr demo_outcome, t)"
    unfolding not_isl_ok demo_outcome_def by auto
  have ttl: "lo_ttl_secs demo_outcome = 3600" using login_tokens(3) [OF login] by (simp add: demo_auth_def)
  have "list_all visible_ascii (random_token demo_env 1)" by code_simp
  then have csrf: "header_str demo_first_request ''x-csrf-token'' = Some (lo_csrf_token demo_outcome)"
    using login_tokens(2) [OF login] by (simp add: header_str_def demo_first_request_def)
  have ok: "sessions_ok (nat (max_sessions_per_user demo_auth)) demo_db"
  proof -
    have "distinct (map s_session_token_hash (auth_sessions demo_db))" by code_simp
    then show ?thesis
      by (simp add: sessions_ok_def limited_def primary_key_def unrevoked_sessions_def demo_db_def
          demo_session_def demo_auth_def)
  qed
  have u: "demo_user 3 ''viewer'' 3 \<in> set (users demo_db)" "active_user (demo_user 3 ''viewer'' 3)"
    by (simp_all add: demo_db_def demo_user_def active_user_def)
  have "\<not> is_active_super_admin demo_db (u_id (demo_user 3 ''viewer'' 3))" by code_simp
  moreover have "s_created_at y \<le> now demo_env" if "y \<in> set (auth_sessions demo_db)" for y
    using that by (auto simp: demo_db_def demo_session_def demo_env_def secs_def)
  ultimately have "\<exists>actor v. authenticate (demo_env\<lparr>now := secs 1050\<rparr>) False demo_first_request t = (Inr actor, v) \<and>
      user_id actor = u_id (demo_user 3 ''viewer'' 3)"
    using login_session_authenticates [OF ok _ _ u refl _ login _ csrf, of Map.empty False "demo_env\<lparr>now := secs 1050\<rparr>"]
    by (auto simp: demo_first_request_def demo_auth_def demo_env_def secs_def ttl)
  with login show ?thesis by (auto simp: demo_user_def)
qed

end
