(* ===== verification/Thm_Access.thy ===== *)
theory Thm_Access
  imports System Demo
begin

text \<open>
  Authorization of the routes: which permissions a call needs (\<open>required\<close>), which step-up grant
  it spends (\<open>sensitive\<close>), and that the handlers of \<open>backend/src/handlers\<close> enforce both before
  they do any work.
\<close>

section \<open>The authorization policy of the routes\<close>

text \<open>The calls that need no session: the steps of a login.\<close>

fun public_call :: "api_call \<Rightarrow> bool" where
  "public_call (Login peer req) = True"
| "public_call (VerifyTotp t c) = True"
| "public_call (VerifyRecoveryCode t c) = True"
| "public_call (StartPasskeyAuthentication t) = True"
| "public_call (FinishPasskeyAuthentication t c) = True"
| "public_call _ = False"

definition needed_if :: "bool \<Rightarrow> string \<Rightarrow> string set" where
  "needed_if b code = (if b then {code} else {})"

fun required :: "api_call \<Rightarrow> string set" where
  "required (UsersList q) = {UserRead}"
| "required (UsersGet i) = {UserRead}"
| "required (UsersCreate req) =
     insert UserWrite (needed_if (coalesce (cu_role_ids req) [] \<noteq> []) UserRoleWrite \<union>
       (needed_if (not_active (cu_status req)) UserDeactivate \<union>
        needed_if (cu_department_id req \<noteq> None) DepartmentRead))"
| "required (UsersUpdate i req) =
     insert UserWrite (needed_if (uu_password req \<noteq> None) reset_password_code \<union>
       (needed_if (uu_status req \<noteq> None) UserDeactivate \<union>
        needed_if (uu_department_id req \<noteq> None) DepartmentRead))"
| "required (UsersDelete i) = {UserDeactivate}"
| "required (UsersBatchDelete is) = {UserDeactivate}"
| "required (UsersBatchAssignRoles is rs) = {UserRoleWrite}"
| "required (UsersAssignRoles i rs) = {UserRoleWrite}"
| "required RolesList = {RoleRead}"
| "required (RolesGet i) = {RoleRead}"
| "required (RolesCreate req) =
     insert RoleWrite (needed_if (coalesce (cr_permission_ids req) [] \<noteq> []) RolePermissionWrite)"
| "required (RolesUpdate i req) = {RoleWrite}"
| "required (RolesDelete i) = {RoleWrite}"
| "required (RolesGetPermissions i) = {RoleRead}"
| "required (RolesPutPermissions i ps) = {RolePermissionWrite}"
| "required DepartmentsList = {DepartmentRead}"
| "required (DepartmentsGet i) = {DepartmentRead}"
| "required (DepartmentsCreate req) = {DepartmentWrite}"
| "required (DepartmentsUpdate i req) = {DepartmentWrite}"
| "required (DepartmentsDelete i) = {DepartmentWrite}"
| "required PermissionGroups = {PermissionRead}"
| "required DashboardStats = {DashboardRead}"
| "required (AuditLogs q) = {AuditLogRead}"
| "required _ = {}"

text \<open>
  The scope of the grant a call spends, given the actor. (Creating a user in the actor's own
  department is not sensitive.)
\<close>

fun sensitive :: "actor_context \<Rightarrow> api_call \<Rightarrow> string option" where
  "sensitive actor (ChangePassword req) = Some password_change_scope"
| "sensitive actor (UsersCreate req) =
     (if coalesce (cu_role_ids req) [] \<noteq> [] \<or> not_active (cu_status req) \<or>
         (cu_department_id req \<noteq> None \<and> department_id actor \<noteq> cu_department_id req)
      then Some users_sensitive_scope else None)"
| "sensitive actor (UsersUpdate i req) =
     (if uu_password req \<noteq> None \<or> uu_status req \<noteq> None \<or> uu_department_id req \<noteq> None
      then Some users_sensitive_scope else None)"
| "sensitive actor (UsersDelete i) = Some users_delete_scope"
| "sensitive actor (UsersBatchDelete is) = Some users_delete_scope"
| "sensitive actor (UsersBatchAssignRoles is rs) = Some users_roles_scope"
| "sensitive actor (UsersAssignRoles i rs) = Some users_roles_scope"
| "sensitive actor (RolesCreate req) =
     (if coalesce (cr_permission_ids req) [] \<noteq> [] then Some roles_permissions_scope else None)"
| "sensitive actor (RolesUpdate i req) =
     (if uq_data_scope req \<noteq> None \<or> uq_is_active req \<noteq> None then Some roles_sensitive_scope else None)"
| "sensitive actor (RolesDelete i) = Some roles_delete_scope"
| "sensitive actor (RolesPutPermissions i ps) = Some roles_permissions_scope"
| "sensitive actor (DepartmentsCreate req) = Some departments_write_scope"
| "sensitive actor (DepartmentsUpdate i req) = Some departments_write_scope"
| "sensitive actor (DepartmentsDelete i) = Some departments_delete_scope"
| "sensitive actor _ = None"

section \<open>Permissions\<close>

definition allowed :: "api_error + actor_context \<Rightarrow> string set \<Rightarrow> bool" where
  "allowed r C \<longleftrightarrow> (\<exists>actor. r = Inr actor \<and> C \<subseteq> permission_codes actor)"

definition refuses :: "env \<Rightarrow> 'net app_state \<Rightarrow> request \<Rightarrow> string set \<Rightarrow> 'a svc \<Rightarrow> bool" where
  "refuses E st rq C m \<longleftrightarrow>
     (\<forall>s r t. auth_user E st rq s = (r, t) \<longrightarrow> \<not> allowed r C \<longrightarrow> (\<exists>e. m s = (Inl e, t)))"

definition denies :: "actor_context \<Rightarrow> string set \<Rightarrow> 'a svc \<Rightarrow> bool" where
  "denies actor C m \<longleftrightarrow> (\<not> C \<subseteq> permission_codes actor \<longrightarrow> (\<forall>t. \<exists>e. m t = (Inl e, t)))"

named_theorems refuse_intro \<open>a handler refuses a call because its extractor and checks do\<close>

lemma denies_none [refuse_intro]: "denies actor {} m"
  by (simp add: denies_def)

lemma bind_assoc: "bind (bind m k) l = bind m (\<lambda>x. bind (k x) l)"
  by (auto simp: bind_def fun_eq_iff split: prod.splits sum.splits)

lemma bind_fails: "m t = (Inl e, t) \<Longrightarrow> bind m k t = (Inl e, t)"
  by (simp add: bind_def)

lemma require_fails:
  "code \<notin> permission_codes actor \<Longrightarrow> bind (require_code actor code) k t = (Inl (Forbidden (MissingPermission code)), t)"
  by (simp add: require_code_def ensure_def has_permission_def throw_def bind_fails)

lemma require_passes: "code \<in> permission_codes actor \<Longrightarrow> bind (require_code actor code) k = k ()"
  by (simp add: require_code_def ensure_def has_permission_def ret_def bind_def)

lemma denies_require:
  assumes "denies actor C (k ())"
  shows "denies actor (insert code C) (bind (require_code actor code) k)"
  using assms by (cases "code \<in> permission_codes actor") (auto simp: denies_def require_passes require_fails)

lemma denies_require_if [refuse_intro]:
  assumes "denies actor C (k ())"
  shows "denies actor (needed_if b code \<union> C) (bind (require_if b actor code) k)"
  using denies_require [of actor C k, OF assms, of code] assms
  by (auto simp: require_if_def needed_if_def bind_def ret_def)

lemma denies_last [refuse_intro]: "denies actor C m \<Longrightarrow> denies actor (C \<union> {}) m"
  by simp

lemma refuses_auth [refuse_intro]: "refuses E st rq {} (bind (auth_user E st rq) k)"
  by (auto simp: refuses_def allowed_def bind_def split: sum.split)

lemma refuses_permitted:
  assumes "\<And>actor. denies actor C (k actor)"
  shows "refuses E st rq (insert code C) (bind (permitted E st code rq) k)"
proof -
  have "\<exists>e. bind (permitted E st code rq) k s = (Inl e, t)"
    if a: "auth_user E st rq s = (r, t)" and n: "\<not> allowed r (insert code C)" for s r t
  proof (cases r)
    case (Inl e)
    with a show ?thesis
      by (simp add: permitted_def require_permission_def auth_user_def bind_def)
  next
    case (Inr actor)
    with n have "code \<notin> permission_codes actor \<or> \<not> C \<subseteq> permission_codes actor"
      by (simp add: allowed_def)
    with a Inr assms [of actor] show ?thesis
      by (cases "code \<in> permission_codes actor")
        (auto simp: permitted_def require_permission_def auth_user_def bind_def ensure_def
          has_permission_def throw_def ret_def denies_def)
  qed
  then show ?thesis by (simp add: refuses_def)
qed

lemmas refuses_single [refuse_intro] = refuses_permitted [where C = "{}", OF denies_none]

lemma refuses_users_create: "refuses E st rq (required (UsersCreate req)) (h_users_create E st rq req)"
  unfolding h_users_create_def required.simps Let_def
  by (rule refuses_permitted) (metis denies_require_if denies_none sup_bot_right)

lemma refuses_users_update: "refuses E st rq (required (UsersUpdate i req)) (h_users_update E st rq i req)"
  unfolding h_users_update_def required.simps Let_def
  by (rule refuses_permitted) (metis denies_require_if denies_none sup_bot_right)

lemma refuses_roles_create: "refuses E st rq (required (RolesCreate req)) (h_roles_create E st rq req)"
  unfolding h_roles_create_def required.simps
proof (rule refuses_permitted)
  fix actor
  show "denies actor (needed_if (coalesce (cr_permission_ids req) [] \<noteq> []) RolePermissionWrite)
     (bind (if coalesce (cr_permission_ids req) [] \<noteq> []
            then bind (require_code actor RolePermissionWrite)
                   (\<lambda>_. step_up E actor rq roles_permissions_scope)
            else unlocked E actor roles_module)
       (\<lambda>_. bind (svc_roles_create E (Some (user_id actor)) (data_scope actor) req
               (has_permission actor RolePermissionWrite)) (\<lambda>role. ret (created (RoleBody role)))))"
    by (auto simp: denies_def needed_if_def require_fails bind_fails)
qed

lemmas handler_defs =
  h_login_def h_logout_def h_me_def h_change_password_def h_step_up_def
  h_module_unlock_status_def h_module_unlock_def h_me_permissions_def h_verify_totp_def
  h_verify_recovery_code_def h_start_passkey_authentication_def
  h_finish_passkey_authentication_def h_mfa_status_def h_start_passkey_registration_def
  h_finish_passkey_registration_def h_revoke_passkey_def h_regenerate_recovery_codes_def
  h_users_list_def h_users_get_def h_users_delete_def h_users_batch_delete_def
  h_users_assign_roles_def h_users_batch_assign_roles_def h_roles_list_def h_roles_get_def
  h_roles_update_def h_roles_delete_def h_roles_get_permissions_def h_roles_put_permissions_def
  h_departments_list_def h_departments_get_def h_departments_create_def
  h_departments_update_def h_departments_delete_def h_audit_list_def h_dashboard_stats_def
  h_permission_groups_def

lemma serve_refuses: "\<not> public_call call \<Longrightarrow> refuses E st rq (required call) (serve E st rq call)"
  using refuses_users_create refuses_users_update refuses_roles_create
  by (cases call) (simp_all add: handler_defs refuses_auth refuses_single)

text \<open>
  C16. Every route enforces its permissions before it does anything else. A call that is not a step
  of a login and whose request does not authenticate, or whose actor lacks one of the permissions
  the call needs (those that depend on the body included), returns an error and leaves the database
  as authentication left it.
\<close>

theorem unauthorized_call_refused:
  assumes "\<not> public_call call"
    and "authenticate E (secure_cookies (app_auth st)) rq s = (r, t)"
    and "\<not> (\<exists>actor. r = Inr actor \<and> required call \<subseteq> permission_codes actor)"
  shows "\<exists>e. serve E st rq call s = (Inl e, t)"
  using serve_refuses [OF assms(1), of E st rq] assms(2,3)
  by (auto simp: refuses_def allowed_def auth_user_def)

theorem unauthorized_call_refused_witness:
  "\<exists>e t. serve demo_env demo_app (demo_request CHR ''c'') (UsersDelete 1) demo_db = (Inl e, t)"
proof -
  let ?r = "authenticate demo_env (secure_cookies (app_auth demo_app)) (demo_request CHR ''c'') demo_db"
  have "fst ?r = Inr \<lparr>user_id = 3, session_id = 3, organization_id = 1, department_id = Some 3,
      data_scope = SelfOnly, permission_codes = {UserRead}\<rparr>"
    by code_simp
  then obtain t where "?r = (Inr \<lparr>user_id = 3, session_id = 3, organization_id = 1,
      department_id = Some 3, data_scope = SelfOnly, permission_codes = {UserRead}\<rparr>, t)"
    by (cases ?r) simp
  from unauthorized_call_refused [OF _ this, of "UsersDelete 1"] show ?thesis
    by (fastforce simp: UserRead_def UserDeactivate_def)
qed

section \<open>Step-up grants\<close>

definition grant_spent :: "string \<Rightarrow> db \<Rightarrow> bool" where
  "grant_spent h db \<longleftrightarrow> (\<forall>x \<in> set (auth_step_up_tokens db). st_token_hash x = h \<longrightarrow> st_consumed_at x \<noteq> None)"

lemma spent_services:
  "within (keeping (grant_spent h)) (svc_users_create E actor cu g d)"
  "within (keeping (grant_spent h)) (svc_users_update E i oactor uu g d)"
  "within (keeping (grant_spent h)) (svc_users_delete E i oactor)"
  "within (keeping (grant_spent h)) (svc_users_delete_many E oactor is)"
  "within (keeping (grant_spent h)) (svc_users_assign_roles E oactor i rs g)"
  "within (keeping (grant_spent h)) (svc_users_assign_roles_many E oactor is rs g)"
  "within (keeping (grant_spent h)) (svc_roles_create E oid scp cr g)"
  "within (keeping (grant_spent h)) (svc_roles_update E oid scp i uq)"
  "within (keeping (grant_spent h)) (svc_roles_delete E oid i)"
  "within (keeping (grant_spent h)) (svc_roles_assign_permissions E oid i ps)"
  "within (keeping (grant_spent h)) (svc_departments_create E actor cd)"
  "within (keeping (grant_spent h)) (svc_departments_update E actor i ud)"
  "within (keeping (grant_spent h)) (svc_departments_delete E actor i)"
  by (intro keeping_db.svc_frames frame_intro; simp add: keeping_def grant_spent_def)+

lemma spent_change_password: "within (keeping (grant_spent h)) (change_password E i cp)"
  unfolding change_password_def verify_current_password_def verify_password_hash_def
    record_session_revocation_def
  by (intro keeps_intro frame_intro; simp add: keeping_def grant_spent_def)

lemma spent_reply:
  "within (keeping (grant_spent h)) m \<Longrightarrow> within (keeping (grant_spent h)) (bind m (\<lambda>x. ret (f x)))"
  by (intro keeps_intro)

lemma permitted_ok:
  "permitted E st code rq s = (Inr actor, u) \<longleftrightarrow>
     auth_user E st rq s = (Inr actor, u) \<and> code \<in> permission_codes actor"
  by (auto simp: permitted_def require_permission_def auth_user_def has_permission_def ok_iff)

lemma require_if_ok: "require_if b actor code s = (Inr x, u) \<Longrightarrow> u = s"
  by (auto simp: require_if_def require_code_def ok_iff split: if_splits)

text \<open>A sensitive call that succeeds starts by spending its grant; the rest restores no grant.\<close>

lemma spend_first:
  assumes "bind (step_up E actor rq scope) (\<lambda>_. m) u = (Inr r, t)"
    and "within (keeping (grant_spent h)) m"
  shows "\<exists>w. step_up E actor rq scope u = (Inr (), w) \<and> (grant_spent h w \<longrightarrow> grant_spent h t)"
  using assms by (auto simp: bind_ok dest: keeping_ok)

lemma sensitive_serve:
  assumes "serve E st rq call s = (Inr r, t)" and "auth_user E st rq s = (Inr actor, u)"
    and "sensitive actor call = Some scope"
  shows "\<exists>w. step_up E actor rq scope u = (Inr (), w) \<and> (grant_spent h w \<longrightarrow> grant_spent h t)"
  using assms
  by (cases call)
    (auto simp: handler_defs h_users_create_def h_users_update_def h_roles_create_def Let_def
      bind_ok [of "permitted E st c rq" for c] bind_ok [of "auth_user E st rq"] permitted_ok
      bind_ok [of "require_if b a c" for b a c] bind_assoc
      bind_ok [of "ensure b e" for b e] require_code_def ensure_ok
      split: if_splits dest!: require_if_ok
      elim!: spend_first intro: spent_reply spent_services spent_change_password)

lemma spent_audit: "within (keeping (grant_spent h)) (audit_record E a b c d e)"
  by (intro frame_intro) (simp add: keeping_def grant_spent_def)

lemma step_up_ok:
  assumes "step_up E actor rq scope u = (Inr (), w)" and "distinct (map st_token_hash (auth_step_up_tokens u))"
  obtains token g where "header_str rq step_up_header = Some token" and "length token = 64"
    and "g \<in> set (auth_step_up_tokens u)"
    and "step_up_usable E (token_hash E token) (session_id actor) (user_id actor) scope g"
    and "grant_spent (token_hash E token) w"
proof -
  from assms(1) obtain token v where token: "header_str rq step_up_header = Some token" "length token = 64"
    and c: "repo_step_up_consume E (token_hash E token) (session_id actor) (user_id actor) scope u = (Inr True, v)"
    and a: "audit_record E (Some (user_id actor)) ''auth.step_up.consumed'' ''user'' (Some (user_id actor))
         (JObj [(''scope'', JStr scope)]) v = (Inr (), w)"
    by (auto simp: step_up_def step_up_consume_def ok_iff split: option.splits if_splits)
  let ?P = "step_up_usable E (token_hash E token) (session_id actor) (user_id actor) scope"
  from c have one: "rows_affected ?P (auth_step_up_tokens u) = 1"
    and v: "v = auth_step_up_tokens_update (update_where ?P (\<lambda>x. x\<lparr>st_consumed_at := Some (now E)\<rparr>)) u"
    by (simp_all add: step_up_consume_ok)
  from one obtain g where g: "g \<in> set (auth_step_up_tokens u)" "?P g"
    using rows_affected_pos [of ?P "auth_step_up_tokens u"] by auto
  have inj: "inj_on st_token_hash (set (auth_step_up_tokens u))"
    using assms(2) by (simp add: distinct_map)
  have only: "x = g" if "x \<in> set (auth_step_up_tokens u)" "st_token_hash x = token_hash E token" for x
    by (rule inj_onD [OF inj]) (use that g in \<open>simp_all add: step_up_usable_def\<close>)
  have "grant_spent (token_hash E token) v"
    using only g(2) by (auto simp: grant_spent_def v update_where_def)
  with keeping_ok [OF spent_audit a] have "grant_spent (token_hash E token) w" by simp
  with token g show thesis by (intro that)
qed

lemma sensitive_grant:
  assumes "serve E st rq call s = (Inr r, t)" and auth: "auth_user E st rq s = (Inr actor, u)"
    and "sensitive actor call = Some scope" and "distinct (map st_token_hash (auth_step_up_tokens s))"
  shows "\<exists>token g. header_str rq step_up_header = Some token \<and> g \<in> set (auth_step_up_tokens s) \<and>
    step_up_usable E (token_hash E token) (session_id actor) (user_id actor) scope g \<and>
    grant_spent (token_hash E token) t"
proof -
  have "within (same auth_step_up_tokens) (auth_user E st rq)"
    unfolding auth_user_def authenticate_def by (intro keeps_intro frame_intro) (simp add: same_def)
  then have same: "auth_step_up_tokens u = auth_step_up_tokens s" using auth by (rule same_ok)
  from sensitive_serve [OF assms(1-3)] obtain w where
    w: "step_up E actor rq scope u = (Inr (), w)" by blast
  with assms(4) same obtain token g where g: "header_str rq step_up_header = Some token"
    "g \<in> set (auth_step_up_tokens s)"
    "step_up_usable E (token_hash E token) (session_id actor) (user_id actor) scope g"
    "grant_spent (token_hash E token) w"
    using step_up_ok [OF w] by metis
  from sensitive_serve [OF assms(1-3), of "token_hash E token"] w g(4)
  have "grant_spent (token_hash E token) t" by simp
  with g show ?thesis by blast
qed

text \<open>
  C17. A sensitive call (password change, deletion, role assignment, permission or data scope change,
  department write) succeeds only with a step-up grant: an unexpired and unconsumed grant with the
  presented token, issued to the same session and user for exactly that scope. The call spends it.
\<close>

theorem sensitive_call_spends_grant:
  assumes "serve E st rq call s = (Inr r, t)"
    and "authenticate E (secure_cookies (app_auth st)) rq s = (Inr actor, u)"
    and "sensitive actor call = Some scope"
    and "distinct (map st_token_hash (auth_step_up_tokens s))"
  shows "\<exists>token g. header_str rq step_up_header = Some token \<and> g \<in> set (auth_step_up_tokens s) \<and>
    st_token_hash g = token_hash E token \<and> st_session_id g = session_id actor \<and>
    st_user_id g = user_id actor \<and> st_scope g = scope \<and> st_consumed_at g = None \<and>
    now E < st_expires_at g \<and> grant_spent (token_hash E token) t"
  using sensitive_grant [OF assms(1) _ assms(3,4)] assms(2)
  by (fastforce simp: auth_user_def step_up_usable_def)

text \<open>The operator deletes the viewer with the grant it holds.\<close>

lemma demo_deletion:
  obtains r t actor u where
    "serve demo_env demo_app (demo_request CHR ''b'') (UsersDelete 3) demo_db = (Inr r, t)"
    and "authenticate demo_env (secure_cookies (app_auth demo_app)) (demo_request CHR ''b'') demo_db
      = (Inr actor, u)"
    and "distinct (map st_token_hash (auth_step_up_tokens t))"
proof -
  let ?m = "serve demo_env demo_app (demo_request CHR ''b'') (UsersDelete 3)"
  let ?a = "authenticate demo_env (secure_cookies (app_auth demo_app)) (demo_request CHR ''b'')"
  have "(case ?m demo_db of (r, t) \<Rightarrow> \<not> isl r \<and> distinct (map st_token_hash (auth_step_up_tokens t)))"
    by code_simp
  moreover have "\<not> isl (fst (?a demo_db))" by code_simp
  ultimately show thesis
    by (metis (no_types, lifting) case_prodE isl_def obj_sumE prod.collapse that)
qed

lemma demo_grants: "distinct (map st_token_hash (auth_step_up_tokens demo_db))"
  by (simp add: demo_db_def)

theorem sensitive_call_spends_grant_witness:
  "\<exists>r t g. serve demo_env demo_app (demo_request CHR ''b'') (UsersDelete 3) demo_db = (Inr r, t) \<and>
     g \<in> set (auth_step_up_tokens demo_db) \<and> st_scope g = users_delete_scope \<and> st_consumed_at g = None"
proof (rule demo_deletion)
  fix r t actor u
  assume "serve demo_env demo_app (demo_request CHR ''b'') (UsersDelete 3) demo_db = (Inr r, t)"
    and "authenticate demo_env (secure_cookies (app_auth demo_app)) (demo_request CHR ''b'') demo_db
      = (Inr actor, u)"
  from sensitive_call_spends_grant [OF this sensitive.simps(4) demo_grants] this show ?thesis by blast
qed

text \<open>
  A grant works once. Repeating a successful sensitive request, at any time and whoever it
  authenticates as then, is refused.
\<close>

theorem replayed_grant_refused:
  assumes "serve E st rq call s = (Inr r, t)"
    and "authenticate E (secure_cookies (app_auth st)) rq s = (Inr actor, u)"
    and "\<And>a. sensitive a call \<noteq> None"
    and "distinct (map st_token_hash (auth_step_up_tokens s))"
    and "distinct (map st_token_hash (auth_step_up_tokens t))"
    and "sha256 E' = sha256 E"
  shows "isl (fst (serve E' st rq call t))"
proof (rule ccontr)
  assume "\<not> ?thesis"
  then obtain r' v where ok: "serve E' st rq call t = (Inr r', v)" unfolding not_isl_ok by blast
  from assms(3) obtain scope where "sensitive actor call = Some scope" by blast
  from sensitive_grant [OF assms(1) _ this assms(4)] assms(2) obtain token where
    token: "header_str rq step_up_header = Some token" "grant_spent (token_hash E token) t"
    by (auto simp: auth_user_def)
  have "\<not> public_call call" using assms(3) [of undefined] by (cases call) auto
  from serve_refuses [OF this, of E' st rq] ok obtain actor' u' where
    auth: "auth_user E' st rq t = (Inr actor', u')"
    by (cases "auth_user E' st rq t") (fastforce simp: refuses_def allowed_def)
  from assms(3) obtain scope' where "sensitive actor' call = Some scope'" by blast
  from sensitive_grant [OF ok auth this assms(5)] token assms(6) show False
    by (auto simp: grant_spent_def token_hash_def step_up_usable_def)
qed

theorem replayed_grant_refused_witness:
  "\<exists>r t. serve demo_env demo_app (demo_request CHR ''b'') (UsersDelete 3) demo_db = (Inr r, t) \<and>
     isl (fst (serve demo_env demo_app (demo_request CHR ''b'') (UsersDelete 3) t))"
proof (rule demo_deletion)
  fix r t actor u
  assume a: "serve demo_env demo_app (demo_request CHR ''b'') (UsersDelete 3) demo_db = (Inr r, t)"
    and b: "authenticate demo_env (secure_cookies (app_auth demo_app)) (demo_request CHR ''b'') demo_db
      = (Inr actor, u)"
    and c: "distinct (map st_token_hash (auth_step_up_tokens t))"
  from replayed_grant_refused [OF a b _ demo_grants c refl] a show ?thesis by auto
qed

end
