(* ===== verification/Thm_Mfa.thy ===== *)
theory Thm_Mfa
  imports System Demo
begin

text \<open>
  The second factors: a re-authentication code and a recovery code work once, a challenge admits a
  bounded number of attempts, and the stored TOTP secret belongs to one user.
\<close>

section \<open>Re-authentication codes\<close>






section \<open>Recovery codes\<close>

lemma match_recovery_codes_ok:
  "match_recovery_codes E n codes s = (Inr (Some i), t) \<Longrightarrow>
     \<exists>c \<in> set codes. rc_id c = i \<and> argon2_verify E n (rc_code_hash c) = Some True"
  by (induction codes) (auto simp: ok_iff split: if_splits)

lemma same_codes:
  "within (same user_mfa_recovery_codes) (create_login_session E config draw p keys row)"
  "within (same user_mfa_recovery_codes) (repo_sessions_revoke_all_for_user E i)"
  "within (same user_mfa_recovery_codes) (record_session_revocation E oid i reason n)"
  "within (same user_mfa_recovery_codes) (audit_record E a b c d e)"
  "within (same user_mfa_recovery_codes) (repo_mfa_consume_challenge E i)"
  by (intro same_db.svc_frames same_db.within_session_revocation frame_intro; simp add: same_def)+

lemma match_recovery_reads: "match_recovery_codes E n codes s = (r, t) \<Longrightarrow> t = s"
  by (induction codes) (auto simp: ret_def bind_def ok_or_def throw_def split: option.splits if_splits)

lemma bind_match:
  "bind (match_recovery_codes E n codes) k s = (Inr y, t) \<longleftrightarrow>
     (\<exists>v. match_recovery_codes E n codes s = (Inr v, s) \<and> k v s = (Inr y, t))"
  by (auto simp: bind_ok dest: match_recovery_reads)

lemma verify_recovery_ok:
  assumes "verify_recovery_login E config challenge_token code s = (Inr outcome, t)"
  obtains ch i where "repo_mfa_challenge E (token_hash E challenge_token) ''login'' s = Some ch"
    and "match_recovery_codes E (to_ascii_uppercase (trim code))
      (repo_mfa_recovery_codes (c_user_id ch) s) s = (Inr (Some i), s)"
    and "\<exists>u. repo_mfa_consume_recovery_code E (c_user_id ch) i s = (Inr True, u) \<and>
      user_mfa_recovery_codes t = user_mfa_recovery_codes u"
proof -
  from assms obtain ch v o' w where
    ch: "repo_mfa_challenge E (token_hash E challenge_token) ''login'' s = Some ch"
    and v: "match_recovery_codes E (to_ascii_uppercase (trim code))
      (repo_mfa_recovery_codes (c_user_id ch) s) s = (Inr v, s)"
    and body: "bind (case v of None \<Rightarrow> ret False
             | Some i \<Rightarrow> map_err db_error (repo_mfa_consume_recovery_code E (c_user_id ch) i)) (\<lambda>consumed.
       if \<not> consumed
       then bind (record_verify_failure E ch ''recovery_code'') (\<lambda>locked. ret (Inl locked))
       else
         bind (ok_or (login_context_from (c_state ch)) (Internal StateDecodeFailure)) (\<lambda>login.
         bind (map_err db_error (repo_mfa_consume_challenge E (c_id ch))) (\<lambda>_.
         bind (map_err db_error (repo_sessions_revoke_all_for_user E (c_user_id ch))) (\<lambda>revoked.
         bind (record_session_revocation E (Some (c_user_id ch)) (c_user_id ch)
                 ''mfa_recovery_code'' revoked) (\<lambda>_.
         bind (map_err db_error (audit_record E (Some (c_user_id ch))
                 ''auth.mfa.recovery_code.used'' ''user'' (Some (c_user_id ch))
                 (JObj [(''revokedSessionCount'', JInt (int revoked))]))) (\<lambda>_.
         ret (Inr (ch, login)))))))) s = (Inr o', w)"
    and rest: "(case o' of Inl locked \<Rightarrow> throw (verify_failure locked)
     | Inr (challenge, keys) \<Rightarrow>
         bind (gets (repo_users_find_by_id (c_user_id challenge))) (\<lambda>row.
         bind (ok_or row Unauthorized) (\<lambda>user.
         create_login_session E config 0 (c_persistent challenge) keys user))) w = (Inr outcome, t)"
    unfolding verify_recovery_login_def matching_recovery_code_def open_challenge_def
      repo_mfa_challenge_for_update_def
    by (auto simp: bind_ok [of "gets f" for f] bind_ok [of "ok_or r e" for r e] gets_ok ok_or_ok
        bind_match bind_ok [of "transaction m" for m]
        transaction_ok bind_ok [of "bind m n" for m n] bind_ok [of "map_err f m" for f m] map_err_ok)
  from rest obtain x where o': "o' = Inr x" by (cases o') (auto simp: throw_ok)
  with rest have t: "user_mfa_recovery_codes t = user_mfa_recovery_codes w"
    by (auto simp: ok_iff dest: same_ok [OF same_codes(1)] split: prod.splits)
  from body o' obtain i u where i: "v = Some i" "repo_mfa_consume_recovery_code E (c_user_id ch) i s = (Inr True, u)"
    and "user_mfa_recovery_codes w = user_mfa_recovery_codes u"
    by (cases v) (auto simp: ok_iff split: if_splits
        dest!: same_ok [OF same_codes(2)] same_ok [OF same_codes(3)] same_ok [OF same_codes(4)]
          same_ok [OF same_codes(5)])
  with ch v t show thesis by (intro that [of ch i]) auto
qed

text \<open>
  A login with a recovery code spends exactly that code: the presented code verifies against an
  unused code of the user whose open login challenge was presented, that code is marked used and no
  other code changes.
\<close>

theorem recovery_login_spends_code:
  assumes "verify_recovery_login E config challenge_token code s = (Inr outcome, t)"
    and "distinct (map rc_id (user_mfa_recovery_codes s))"
  shows "\<exists>ch \<in> set (auth_mfa_challenges s). \<exists>c \<in> set (user_mfa_recovery_codes s).
    c_token_hash ch = token_hash E challenge_token \<and> c_kind ch = ''login'' \<and> challenge_open E ch \<and>
    rc_user_id c = c_user_id ch \<and> rc_used_at c = None \<and>
    argon2_verify E (to_ascii_uppercase (trim code)) (rc_code_hash c) = Some True \<and>
    user_mfa_recovery_codes t =
      map (\<lambda>x. if x = c then x\<lparr>rc_used_at := Some (now E)\<rparr> else x) (user_mfa_recovery_codes s)"
proof -
  from assms(1) obtain row i u where row: "repo_mfa_challenge E (token_hash E challenge_token) ''login'' s = Some row"
    and m: "match_recovery_codes E (to_ascii_uppercase (trim code))
      (repo_mfa_recovery_codes (c_user_id row) s) s = (Inr (Some i), s)"
    and u: "repo_mfa_consume_recovery_code E (c_user_id row) i s = (Inr True, u)"
      "user_mfa_recovery_codes t = user_mfa_recovery_codes u"
    by (auto elim: verify_recovery_ok)
  from row obtain ch where ch: "ch \<in> set (auth_mfa_challenges s)" "row = challenge_row.truncate ch"
    "c_token_hash ch = token_hash E challenge_token" "c_kind ch = ''login''" "challenge_open E ch"
    by (rule mfa_challenge_Some)
  from match_recovery_codes_ok [OF m] obtain c where c: "c \<in> set (user_mfa_recovery_codes s)"
    "rc_user_id c = c_user_id row" "rc_used_at c = None" "rc_id c = i"
    "argon2_verify E (to_ascii_uppercase (trim code)) (rc_code_hash c) = Some True"
    by (auto simp: repo_mfa_recovery_codes_def recovery_code_row.defs)
  have inj: "inj_on rc_id (set (user_mfa_recovery_codes s))" using assms(2) by (simp add: distinct_map)
  have "recovery_unused (c_user_id row) i x \<longleftrightarrow> x = c" if "x \<in> set (user_mfa_recovery_codes s)" for x
    using inj_onD [OF inj _ that c(1)] c by (auto simp: recovery_unused_def)
  then have "user_mfa_recovery_codes t =
      map (\<lambda>x. if x = c then x\<lparr>rc_used_at := Some (now E)\<rparr> else x) (user_mfa_recovery_codes s)"
    using u by (simp add: consume_recovery_code_ok update_where_def)
  with ch c show ?thesis by auto
qed

text \<open>The administrator of the example waits for its second factor.\<close>

definition demo_waiting :: db where
  "demo_waiting = demo_db\<lparr>auth_mfa_challenges :=
     [\<lparr>c_id = 1, c_user_id = 1, c_kind = ''login'', c_persistent = False,
       c_state = login_context_value \<lparr>account = ''a'', source_ip = ''b'', account_ip = ''c''\<rparr>,
       c_attempt_count = 0, c_max_attempts = 5, c_token_hash = token_hash demo_env (demo_token CHR ''m''),
       c_expires_at = secs 1200, c_consumed_at = None\<rparr>],
     user_mfa_recovery_codes := [\<lparr>rc_id = 1, rc_code_hash = ''AAAA'', rc_user_id = 1, rc_used_at = None\<rparr>]\<rparr>"

theorem recovery_login_spends_code_witness:
  "\<exists>outcome t c. verify_recovery_login demo_env demo_auth (demo_token CHR ''m'') ''aaaa'' demo_waiting
       = (Inr outcome, t) \<and> c \<in> set (user_mfa_recovery_codes demo_waiting) \<and> rc_used_at c = None"
proof -
  have "\<not> isl (fst (verify_recovery_login demo_env demo_auth (demo_token CHR ''m'') ''aaaa'' demo_waiting))"
    by code_simp
  then obtain outcome t where v: "verify_recovery_login demo_env demo_auth (demo_token CHR ''m'') ''aaaa'' demo_waiting
      = (Inr outcome, t)"
    unfolding not_isl_ok by blast
  have "distinct (map rc_id (user_mfa_recovery_codes demo_waiting))" by (simp add: demo_waiting_def)
  from recovery_login_spends_code [OF v this] v show ?thesis by blast
qed

section \<open>Secrets\<close>

lemma byte_eq: "(word_of_int x :: byte) = word_of_int y \<longleftrightarrow> x mod 256 = y mod 256"
  by (simp add: word_of_int_eq_iff take_bit_eq_mod)

lemma mod_bytes:
  fixes a b :: int
  shows "(\<And>j. j < k \<Longrightarrow> a div 2 ^ (8 * j) mod 256 = b div 2 ^ (8 * j) mod 256) \<Longrightarrow>
    a mod 2 ^ (8 * k) = b mod 2 ^ (8 * k)"
proof (induction k)
  case (Suc k)
  have "c mod 2 ^ (8 * Suc k) = 2 ^ (8 * k) * (c div 2 ^ (8 * k) mod 256) + c mod 2 ^ (8 * k)" for c :: int
    using zmod_zmult2_eq [of 256 c "2 ^ (8 * k)"] by (simp add: power_add mult.commute)
  with Suc show ?case by simp
qed simp

lemma to_be_bytes_rev: "to_be_bytes x = map (\<lambda>k. word_of_int (x div 2 ^ (8 * k))) (rev [0..<8])"
  by (simp add: to_be_bytes_def upt_rec)

lemma to_be_bytes_nth:
  assumes "j < 8" shows "to_be_bytes x ! (7 - j) = word_of_int (x div 2 ^ (8 * j))"
proof -
  have "rev [0..<8] ! (7 - j) = j" using assms by (subst rev_nth) auto
  moreover have "7 - j < length (rev [0..<8])" by simp
  ultimately show ?thesis unfolding to_be_bytes_rev by (metis nth_map)
qed

lemma to_be_bytes_inj:
  assumes "in_i64 a" and "in_i64 b" and "to_be_bytes a = to_be_bytes b"
  shows "a = b"
proof -
  have "a div 2 ^ (8 * j) mod 256 = b div 2 ^ (8 * j) mod 256" if "j < 8" for j :: nat
    using to_be_bytes_nth [OF that, of a] to_be_bytes_nth [OF that, of b] assms(3)
    by (simp flip: byte_eq)
  then have "a mod 2 ^ (8 * 8) = b mod 2 ^ (8 * 8)" by (rule mod_bytes)
  then have "2 ^ 64 dvd a - b" by (simp add: mod_eq_dvd_iff)
  then have "a - b = 0 \<or> \<bar>2 ^ 64\<bar> \<le> \<bar>a - b\<bar>" using dvd_imp_le_int by blast
  with assms(1,2) show ?thesis by (auto simp: in_i64_def i64_min_def i64_max_def)
qed

text \<open>
  C22. A stored TOTP secret decrypts for the user it was encrypted for and for nobody else. The
  cipher is AES-256-GCM with the user id as associated data; what is used of it is that decryption
  under the same nonce and data inverts encryption, that it fails under other data, and that a
  ciphertext is not empty (it carries the tag).
\<close>

theorem totp_secret_roundtrip:
  assumes inverts: "\<And>n m a c. cipher_encrypt mfa n m a = Some c \<Longrightarrow> cipher_decrypt mfa n c a = Some m"
    and authentic: "\<And>n m a b c. cipher_encrypt mfa n m a = Some c \<Longrightarrow> a \<noteq> b \<Longrightarrow> cipher_decrypt mfa n c b = None"
    and tagged: "\<And>n m a. cipher_encrypt mfa n m a \<noteq> Some []"
    and "encrypt_totp_secret E mfa draw uid secret = Some encoded"
    and "in_i64 uid" and "in_i64 uid'"
  shows "decrypt_totp_secret mfa uid' encoded = (if uid' = uid then Some secret else None)"
proof -
  let ?nonce = "random_bytes E draw nonce_length"
  from assms(4) obtain c where c: "cipher_encrypt mfa ?nonce secret (to_be_bytes uid) = Some c"
    and encoded: "encoded = ciphertext_version # ?nonce @ c"
    by (auto simp: encrypt_totp_secret_def Let_def)
  have "length ?nonce = nonce_length" by (simp add: random_bytes_def)
  moreover from c tagged have "c \<noteq> []" by metis
  ultimately have "decrypt_totp_secret mfa uid' encoded = cipher_decrypt mfa ?nonce c (to_be_bytes uid')"
    by (simp add: decrypt_totp_secret_def encoded)
  with inverts [OF c] authentic [OF c, of "to_be_bytes uid'"] to_be_bytes_inj [OF assms(5,6)]
  show ?thesis by auto
qed

text \<open>A cipher that prepends the associated data instead of a tag satisfies the laws.\<close>

definition demo_cipher :: mfa_config where
  "demo_cipher = demo_mfa\<lparr>cipher_encrypt := (\<lambda>n m a. if length a < 256 then Some (of_nat (length a) # a @ m) else None),
     cipher_decrypt := (\<lambda>n c a. if c \<noteq> [] \<and> hd c = of_nat (length a) \<and> take (length a) (tl c) = a
        \<and> length a < 256 then Some (drop (length a) (tl c)) else None)\<rparr>"

lemma demo_cipher_laws:
  "cipher_encrypt demo_cipher n m a = Some c \<Longrightarrow> cipher_decrypt demo_cipher n c a = Some m"
  "cipher_encrypt demo_cipher n m a = Some c \<Longrightarrow> a \<noteq> b \<Longrightarrow> cipher_decrypt demo_cipher n c b = None"
  "cipher_encrypt demo_cipher n m a \<noteq> Some []"
proof -
  have inj: "(of_nat x :: byte) = of_nat y \<longleftrightarrow> x = y" if "x < 256" "y < 256" for x y
    using that by (simp add: word_of_nat_eq_iff take_bit_eq_mod)
  show "cipher_encrypt demo_cipher n m a = Some c \<Longrightarrow> cipher_decrypt demo_cipher n c a = Some m"
    by (auto simp: demo_cipher_def split: if_splits)
  show "cipher_encrypt demo_cipher n m a = Some c \<Longrightarrow> a \<noteq> b \<Longrightarrow> cipher_decrypt demo_cipher n c b = None"
    using inj [of "length a" "length b"] by (auto simp: demo_cipher_def split: if_splits)
  show "cipher_encrypt demo_cipher n m a \<noteq> Some []"
    by (simp add: demo_cipher_def)
qed

theorem totp_secret_roundtrip_witness:
  "\<exists>encoded. encrypt_totp_secret demo_env demo_cipher 0 1 [7, 8, 9] = Some encoded \<and>
     decrypt_totp_secret demo_cipher 1 encoded = Some [7, 8, 9] \<and>
     decrypt_totp_secret demo_cipher 2 encoded = None"
proof -
  have "encrypt_totp_secret demo_env demo_cipher 0 1 [7, 8, 9] \<noteq> None"
    by (simp add: encrypt_totp_secret_def demo_cipher_def to_be_bytes_def)
  then obtain encoded where e: "encrypt_totp_secret demo_env demo_cipher 0 1 [7, 8, 9] = Some encoded"
    by blast
  have "in_i64 1" "in_i64 2" by (simp_all add: in_i64_def i64_min_def i64_max_def)
  with totp_secret_roundtrip [OF demo_cipher_laws e, where uid' = 1]
    totp_secret_roundtrip [OF demo_cipher_laws e, where uid' = 2] e
  show ?thesis by simp
qed

section \<open>Challenges\<close>

text \<open>An open challenge has attempts left, and every challenge keeps the limit of five.\<close>

definition challenges_ok :: "db \<Rightarrow> bool" where
  "challenges_ok db \<longleftrightarrow> (\<forall>c \<in> set (auth_mfa_challenges db).
     c_max_attempts c = 5 \<and> (c_consumed_at c = None \<longrightarrow> 0 \<le> c_attempt_count c \<and> c_attempt_count c < 5))"

lemma challenges_create: "within (keeping challenges_ok) (repo_mfa_create_challenge h uid k p j t)"
  unfolding repo_mfa_create_challenge_def
  by (intro keeps_intro keeping.within_modify) (auto simp: keeping_def challenges_ok_def)

lemma challenges_update:
  "within (keeping challenges_ok) (repo_mfa_consume_login_challenges_for_user E uid)"
  "within (keeping challenges_ok) (repo_mfa_consume_challenge E i)"
  "within (keeping challenges_ok) (repo_mfa_record_challenge_failure E i)"
  unfolding repo_mfa_consume_login_challenges_for_user_def repo_mfa_consume_challenge_def
    repo_mfa_record_challenge_failure_def Let_def
  by (intro keeps_intro keeping.within_modify;
      auto simp: keeping_def challenges_ok_def update_where_def fail_challenge_def split: if_splits)+

lemma challenges_prune: "within (keeping challenges_ok) (repo_mfa_prune_challenges E)"
  unfolding repo_mfa_prune_challenges_def
  by (intro keeps_intro keeping.within_modify) (auto simp: keeping_def challenges_ok_def delete_where_def)

interpretation challenges: system_relation "keeping challenges_ok" config for config
  by unfold_locales
    (intro challenges_create challenges_update challenges_prune keeping_db.svc_frames frame_intro;
      simp add: keeping_def challenges_ok_def)+

lemma bootstrap_challenges: "within (keeping challenges_ok) (bootstrap_super_admin E u p d e)"
  by (intro keeping_db.svc_frames frame_intro; simp add: keeping_def challenges_ok_def)

end
