(* ===== verification/Inv_Hierarchy.thy ===== *)
theory Inv_Hierarchy
  imports System
begin

text \<open>
  The department hierarchy: identifiers are unique, parents exist in the same organization, and
  there is no cycle. Every request keeps this, and on such a hierarchy the recursive queries
  return and the cycle test is exact.
\<close>

definition hierarchy_ok :: "db \<Rightarrow> bool" where
  "hierarchy_ok db \<longleftrightarrow>
     primary_key d_id (departments db) (departments_seq db) \<and> parents_exist (departments db) \<and>
     forest (departments db)"

section \<open>Changing a forest\<close>

lemma forest_insert:
  assumes "forest ds" and "parents_exist ds" and fresh: "d_id d \<notin> d_id ` set ds"
    and "\<And>p. d_parent_id d = Some p \<Longrightarrow> p \<in> d_id ` set ds"
  shows "forest (ds @ [d])"
proof (cases "d_parent_id d")
  case None
  then have "parent_rel (ds @ [d]) = parent_rel ds" by (auto simp: parent_rel_def)
  with assms(1) show ?thesis by (simp add: forest_def)
next
  case (Some p)
  then have rel: "parent_rel (ds @ [d]) = insert (p, d_id d) (parent_rel ds)"
    by (auto simp: parent_rel_def)
  have "d_id d \<notin> Domain (parent_rel ds)"
  proof
    assume "d_id d \<in> Domain (parent_rel ds)"
    then obtain c where "c \<in> set ds" "d_parent_id c = Some (d_id d)" by (auto simp: parent_rel_def)
    with assms(2) obtain q where "q \<in> set ds" "d_id q = d_id d" unfolding parents_exist_def by blast
    with fresh show False by (metis imageI)
  qed
  then have "(d_id d, p) \<notin> (parent_rel ds)\<^sup>*"
    using assms(4) [OF Some] fresh by (auto elim: converse_rtranclE)
  with assms(1) rel show ?thesis by (simp add: forest_def)
qed

lemma parents_exist_insert:
  assumes "parents_exist ds"
    and "\<And>p. d_parent_id d = Some p \<Longrightarrow> (p, d_organization_id d) \<in> (\<lambda>x. (d_id x, d_organization_id x)) ` set ds"
  shows "parents_exist (ds @ [d])"
  using assms by (fastforce simp: parents_exist_def)

lemma forest_reparent:
  assumes "forest ds" and "(i, p) \<notin> (parent_rel ds)\<^sup>*"
    and f: "\<And>d. d_id d = i \<Longrightarrow> d_id (f d) = i \<and> (d_parent_id (f d) = d_parent_id d \<or> d_parent_id (f d) = Some p)"
    and P: "\<And>d. P d \<Longrightarrow> d_id d = i"
  shows "forest (update_where P f ds)"
proof -
  have "parent_rel (update_where P f ds) \<subseteq> insert (p, i) (parent_rel ds)"
    using f P by (fastforce simp: parent_rel_def set_update_where)
  moreover have "acyclic (insert (p, i) (parent_rel ds))"
    using assms(1,2) by (simp add: forest_def)
  ultimately show ?thesis unfolding forest_def by (rule acyclic_subset [rotated])
qed

lemma forest_same_parents:
  assumes "forest ds" and "\<And>d. P d \<Longrightarrow> d \<in> set ds \<Longrightarrow> d_id (f d) = d_id d \<and> d_parent_id (f d) = d_parent_id d"
  shows "forest (update_where P f ds)"
proof -
  have "parent_rel (update_where P f ds) \<subseteq> parent_rel ds"
    using assms(2) by (fastforce simp: parent_rel_def set_update_where)
  with assms(1) show ?thesis unfolding forest_def by (rule acyclic_subset)
qed

lemma parents_exist_update:
  assumes pe: "parents_exist ds"
    and f: "\<And>d. P d \<Longrightarrow> d \<in> set ds \<Longrightarrow> d_id (f d) = d_id d \<and> d_organization_id (f d) = d_organization_id d \<and>
      (\<forall>p. d_parent_id (f d) = Some p \<longrightarrow>
         (p, d_organization_id d) \<in> (\<lambda>x. (d_id x, d_organization_id x)) ` set ds)"
  shows "parents_exist (update_where P f ds)"
proof -
  let ?k = "\<lambda>x. (d_id x, d_organization_id x)"
  have "map ?k (update_where P f ds) = map ?k ds"
    unfolding update_where_def map_map o_def by (rule map_cong [OF refl]) (use f in auto)
  then have keys: "?k ` set (update_where P f ds) = ?k ` set ds"
    by (metis list.set_map)
  have old: "\<And>d p. d \<in> set ds \<Longrightarrow> d_parent_id d = Some p \<Longrightarrow> (p, d_organization_id d) \<in> ?k ` set ds"
    using pe unfolding parents_exist_def by (metis (mono_tags, lifting) image_eqI)
  have "(p, d_organization_id d) \<in> ?k ` set ds"
    if "d \<in> set (update_where P f ds)" "d_parent_id d = Some p" for d p
  proof -
    from that(1) obtain e where e: "e \<in> set ds" "d = (if P e then f e else e)"
      by (auto simp: update_where_def)
    show ?thesis
    proof (cases "P e")
      case True
      with e that(2) f [OF True e(1)] show ?thesis by simp
    next
      case False
      with e that(2) old show ?thesis by simp
    qed
  qed
  then have new: "(p, d_organization_id d) \<in> ?k ` set (update_where P f ds)"
    if "d \<in> set (update_where P f ds)" "d_parent_id d = Some p" for d p
    using that unfolding keys by blast
  show ?thesis unfolding parents_exist_def
  proof (intro ballI allI impI)
    fix d p assume "d \<in> set (update_where P f ds)" "d_parent_id d = Some p"
    from new [OF this] show "\<exists>q \<in> set (update_where P f ds). d_id q = p \<and>
        d_organization_id q = d_organization_id d" by auto
  qed
qed

lemma forest_delete: "forest ds \<Longrightarrow> forest (delete_where P ds)"
  unfolding forest_def by (erule acyclic_subset) (auto simp: parent_rel_def)

lemma parents_exist_delete:
  assumes "parents_exist ds" and "\<And>d c. P d \<Longrightarrow> c \<in> set ds \<Longrightarrow> d_parent_id c \<noteq> Some (d_id d)"
  shows "parents_exist (delete_where P ds)"
  using assms by (fastforce simp: parents_exist_def)

section \<open>Queries on a forest\<close>

lemma hierarchy_okD:
  assumes "hierarchy_ok db"
  shows "forest (departments db)" "distinct (map d_id (departments db))" "parents_exist (departments db)"
  using assms by (auto simp: hierarchy_ok_def primary_key_def)

text \<open>Descendants stay in the organization of the ancestor.\<close>

lemma parent_rel_child_rel:
  assumes "distinct (map d_id ds)" and "parents_exist ds" and d: "d \<in> set ds" "d_id d = a"
    and "(a, b) \<in> (parent_rel ds)\<^sup>*"
  shows "(a, b) \<in> (child_rel ds (d_organization_id d))\<^sup>* \<and>
    (\<exists>e \<in> set ds. d_id e = b \<and> d_organization_id e = d_organization_id d)"
  using assms(5)
proof (induction rule: rtrancl_induct)
  case base
  with d show ?case by auto
next
  case (step b c)
  then obtain e where e: "e \<in> set ds" "d_id e = b" "d_organization_id e = d_organization_id d"
    by blast
  from step.hyps obtain x where x: "x \<in> set ds" "d_parent_id x = Some b" "d_id x = c"
    by (auto simp: parent_rel_def)
  with assms(2) obtain q where "q \<in> set ds" "d_id q = b" "d_organization_id q = d_organization_id x"
    by (fastforce simp: parents_exist_def)
  with e distinct_map_unique [OF assms(1)] have org: "d_organization_id x = d_organization_id d"
    by metis
  with x have "(b, c) \<in> child_rel ds (d_organization_id d)" by (auto simp: child_rel_def)
  with step.IH have "(a, c) \<in> (child_rel ds (d_organization_id d))\<^sup>*"
    by (meson rtrancl.rtrancl_into_rtrancl)
  with x org show ?case by blast
qed

lemma cycle_test:
  assumes ok: "hierarchy_ok db" and d: "d \<in> set (departments db)" "d_id d = i"
  shows "repo_departments_parent_would_create_cycle (d_organization_id d) i p db =
    Inr ((i, p) \<in> (parent_rel (departments db))\<^sup>*)"
proof -
  let ?ds = "departments db" and ?org = "d_organization_id d"
  let ?start = "map (\<lambda>d. (d, ())) (filter (\<lambda>x. d_id x = i \<and> d_organization_id x = ?org) ?ds)"
  note f = hierarchy_okD [OF ok]
  obtain rows where rows: "tree_levels (\<lambda>x _. x) ?ds ?org ?start = Some rows"
    and set: "fst ` set rows = fst ` set ?start \<union>
      {c \<in> set ?ds. \<exists>w \<in> fst ` set ?start. (d_id w, d_id c) \<in> (child_rel ?ds ?org)\<^sup>+}"
    by (rule tree_levels_forest [OF f(1,2)])
  have start: "fst ` set ?start = {d}"
    using d distinct_map_unique [OF f(2)] by force
  have "list_ex (\<lambda>x. d_id (fst x) = p) rows \<longleftrightarrow> p \<in> d_id ` (fst ` set rows)"
    by (force simp: list_ex_iff)
  also have "\<dots> \<longleftrightarrow> (i, p) \<in> (parent_rel ?ds)\<^sup>*"
  proof
    assume "p \<in> d_id ` (fst ` set rows)"
    then have "(i, p) \<in> (child_rel ?ds ?org)\<^sup>*"
      unfolding set start using d by (auto simp: rtrancl_eq_or_trancl)
    then show "(i, p) \<in> (parent_rel ?ds)\<^sup>*"
      by (rule rtrancl_mono [OF child_rel_subset, THEN subsetD])
  next
    assume "(i, p) \<in> (parent_rel ?ds)\<^sup>*"
    from parent_rel_child_rel [OF f(2,3) d this]
    obtain e where "(i, p) \<in> (child_rel ?ds ?org)\<^sup>*" "e \<in> set ?ds" "d_id e = p" by blast
    then show "p \<in> d_id ` (fst ` set rows)"
      unfolding set start using d by (auto simp: rtrancl_eq_or_trancl)
  qed
  finally have "list_ex (\<lambda>x. d_id (fst x) = p) rows = ((i, p) \<in> (parent_rel ?ds)\<^sup>*)" .
  then show ?thesis
    unfolding repo_departments_parent_would_create_cycle_def rows option.case by simp
qed

text \<open>The departments an actor sees.\<close>

definition department_visible :: "actor_context \<Rightarrow> db \<Rightarrow> departments_rec \<Rightarrow> bool" where
  "department_visible actor db d \<longleftrightarrow>
     d \<in> set (visible_roots actor db) \<or>
     data_scope actor \<in> {All, Organization, DepartmentAndChildren} \<and> d \<in> set (departments db) \<and>
     (\<exists>r \<in> set (visible_roots actor db).
        (d_id r, d_id d) \<in> (child_rel (departments db) (organization_id actor))\<^sup>+)"

lemma visible_tree_forest:
  assumes "hierarchy_ok db"
  obtains rows where "visible_tree actor db = Inr rows"
    and "fst ` set rows = {d. department_visible actor db d}"
proof -
  note f = hierarchy_okD [OF assms]
  show ?thesis
  proof (cases "data_scope actor \<in> {All, Organization, DepartmentAndChildren}")
    case True
    obtain rows where "tree_levels tree_step (departments db) (organization_id actor)
        (map (\<lambda>d. (d, 0, [d_id d])) (visible_roots actor db)) = Some rows"
      and "fst ` set rows = fst ` set (map (\<lambda>d. (d, 0 :: int, [d_id d])) (visible_roots actor db)) \<union>
        {d \<in> set (departments db). \<exists>w \<in> fst ` set (map (\<lambda>d. (d, 0 :: int, [d_id d])) (visible_roots actor db)).
          (d_id w, d_id d) \<in> (child_rel (departments db) (organization_id actor))\<^sup>+}"
      by (rule tree_levels_forest [OF f(1,2)])
    with True that show ?thesis
      by (auto simp: visible_tree_def department_visible_def image_image)
  next
    case False
    with that show ?thesis
      by (auto simp: visible_tree_def department_visible_def image_image)
  qed
qed

section \<open>The operations keep the hierarchy\<close>

lemma hierarchy_ok_audit [simp]:
  "hierarchy_ok (audit_seq_update g (audit_logs_update f s)) = hierarchy_ok s"
  by (simp add: hierarchy_ok_def)

lemma departments_create_keeps:
  assumes ok: "hierarchy_ok s" and c: "repo_departments_create E org d s = (Inr i, t)"
  shows "hierarchy_ok t"
proof -
  let ?d = "new_department_rec E s org d"
  have con: "department_constraints s (departments s) ?d s = (Inr (), s)"
    and t: "t = departments_seq_update (\<lambda>n. n + 1) (departments_update (\<lambda>ds. ds @ [?d]) s)"
    using c by (auto simp: departments_create_ok)
  have pk: "primary_key d_id (departments s) (departments_seq s)"
    using ok by (simp add: hierarchy_ok_def)
  have "d_id ?d \<notin> d_id ` set (departments s)"
    using pk by (auto simp: primary_key_def new_department_rec_def)
  moreover have link: "(p, d_organization_id ?d) \<in> (\<lambda>x. (d_id x, d_organization_id x)) ` set (departments s)"
    if "d_parent_id ?d = Some p" for p
    using con that by (simp add: department_constraints_ok)
  ultimately have "forest (departments s @ [?d])"
    by (intro forest_insert hierarchy_okD [OF ok]) (use link in \<open>force+\<close>)
  moreover have "parents_exist (departments s @ [?d])"
    using hierarchy_okD(3) [OF ok] link by (rule parents_exist_insert)
  moreover have "primary_key d_id (departments t) (departments_seq t)"
    unfolding t by (rule departments_tab.pk_insert [OF pk]) (simp add: new_department_rec_def)
  ultimately show ?thesis by (simp add: hierarchy_ok_def t)
qed

text \<open>An update whose new parent, if any, is not the department or below it.\<close>

lemma departments_update_keeps:
  assumes ok: "hierarchy_ok s" and u: "repo_departments_update E org i upd s = (Inr b, t)"
    and parent: "\<And>p d. du_parent_id upd = Some p \<Longrightarrow> d \<in> set (departments s) \<Longrightarrow> d_id d = i \<Longrightarrow>
      d_parent_id d = Some p \<or> (i, p) \<notin> (parent_rel (departments s))\<^sup>*"
  shows "hierarchy_ok t"
proof (cases "find (\<lambda>d. d_id d = i \<and> d_organization_id d = org) (departments s)")
  case None
  with u ok show ?thesis by (simp add: departments_update_ok)
next
  case (Some d)
  then have d: "d \<in> set (departments s)" "d_id d = i" "d_organization_id d = org"
    by (auto dest: find_SomeD)
  let ?P = "\<lambda>d. d_id d = i \<and> d_organization_id d = org" and ?f = "apply_department_update E upd"
  have con: "department_constraints s (filter (\<lambda>x. d_id x \<noteq> i) (departments s)) (?f d) s = (Inr (), s)"
    and t: "t = departments_update (update_where ?P ?f) s"
    using u Some by (auto simp: departments_update_ok)
  note f = hierarchy_okD [OF ok]
  have only: "e = d" if "?P e" "e \<in> set (departments s)" for e
    using that d distinct_map_unique [OF f(2)] by metis
  have "parents_exist (update_where ?P ?f (departments s))"
  proof (rule parents_exist_update [OF f(3)])
    fix e assume "?P e" "e \<in> set (departments s)"
    with only have "e = d" by blast
    with con show "d_id (?f e) = d_id e \<and> d_organization_id (?f e) = d_organization_id e \<and>
        (\<forall>p. d_parent_id (?f e) = Some p \<longrightarrow>
          (p, d_organization_id e) \<in> (\<lambda>x. (d_id x, d_organization_id x)) ` set (departments s))"
      by (simp add: department_constraints_ok)
  qed
  moreover have "forest (update_where ?P ?f (departments s))"
  proof (cases "du_parent_id upd = None \<or> d_parent_id d = du_parent_id upd")
    case True
    then have "d_parent_id (?f e) = d_parent_id e" if "?P e" "e \<in> set (departments s)" for e
      using only [OF that] by (auto simp: apply_department_update_def split: option.splits)
    with f(1) show ?thesis by (intro forest_same_parents) auto
  next
    case False
    then obtain p where p: "du_parent_id upd = Some p" by auto
    with False parent [OF p d(1,2)] have "(i, p) \<notin> (parent_rel (departments s))\<^sup>*" by auto
    with f(1) show ?thesis
      by (rule forest_reparent) (auto simp: apply_department_update_def p)
  qed
  moreover have "primary_key d_id (departments t) (departments_seq t)"
    unfolding t by (rule departments_tab.pk_update) (use ok in \<open>auto simp: hierarchy_ok_def\<close>)
  ultimately show ?thesis by (simp add: hierarchy_ok_def t)
qed

lemma departments_delete_keeps:
  assumes ok: "hierarchy_ok s" and d: "repo_departments_delete_if_empty E org i s = (Inr b, t)"
  shows "hierarchy_ok t"
proof -
  obtain P where t: "departments t = delete_where P (departments s)"
    and P: "\<And>d c. P d \<Longrightarrow> c \<in> set (departments s) \<Longrightarrow> d_parent_id c \<noteq> Some (d_id d)"
    using delete_if_empty_departments [OF d] by blast
  have "within (same departments_seq) (repo_departments_delete_if_empty E org i)"
    by (intro same_db.within_delete_if_empty) (simp_all add: same_def)
  then have seq: "departments_seq t = departments_seq s" using d by (rule same_ok)
  note f = hierarchy_okD [OF ok]
  have "primary_key d_id (delete_where P (departments s)) (departments_seq s)"
    using departments_tab.pk_delete [of s P] ok by (simp add: hierarchy_ok_def)
  then show ?thesis
    using forest_delete [OF f(1)] parents_exist_delete [OF f(3) P]
    by (simp add: hierarchy_ok_def t seq)
qed

lemma department_row_fields [simp]:
  "d_parent_id (department_row_of db x) = d_parent_id (fst x)"
  "d_id (department_row_of db x) = d_id (fst x)"
  "d_organization_id (department_row_of db x) = d_organization_id (fst x)"
  "d_status (department_row_of db x) = d_status (fst x)"
  by (cases "fst x"; simp add: department_row_of_def departments_rec.defs)+

lemma visible_in_organization:
  assumes ok: "hierarchy_ok db" and vis: "department_visible actor db d"
  shows "d \<in> set (departments db)" "d_organization_id d = organization_id actor"
proof -
  have "d \<in> set (departments db) \<and> d_organization_id d = organization_id actor"
  proof (cases "d \<in> set (visible_roots actor db)")
    case True
    then show ?thesis by (auto simp: visible_roots_def)
  next
    case False
    with vis obtain a where d: "d \<in> set (departments db)"
      and "(a, d_id d) \<in> (child_rel (departments db) (organization_id actor))\<^sup>+"
      unfolding department_visible_def by blast
    then obtain e where "e \<in> set (departments db)" "d_id e = d_id d"
      "d_organization_id e = organization_id actor"
      by (auto simp: child_rel_def elim: tranclE)
    with d distinct_map_unique [OF hierarchy_okD(2) [OF ok]] show ?thesis by metis
  qed
  then show "d \<in> set (departments db)" "d_organization_id d = organization_id actor" by simp_all
qed

lemma find_department:
  assumes ok: "hierarchy_ok db" and find: "repo_departments_find_by_id actor i db = Inr (Some row)"
  obtains x where "row = department_row_of db x" and "department_visible actor db (fst x)"
    and "d_id (fst x) = i"
proof -
  obtain rows where rows: "visible_tree actor db = Inr rows"
    and vis: "fst ` set rows = {d. department_visible actor db d}"
    by (rule visible_tree_forest [OF ok])
  with find obtain x where x: "x \<in> set rows" "d_id (fst x) = i" "row = department_row_of db x"
    by (auto simp: repo_departments_find_by_id_def dest!: find_SomeD)
  with vis have "department_visible actor db (fst x)" by blast
  with x that show ?thesis by blast
qed

lemma query_ok [ok_iff]: "query q s = (Inr x, t) \<longleftrightarrow> q s = Inr x \<and> t = s"
  by (auto simp: query_def ok_iff)

lemma svc_departments_create_keeps: "within (keeping hierarchy_ok) (svc_departments_create E actor req)"
proof (rule post_keeping)
  fix s assume ok: "hierarchy_ok s"
  show "post hierarchy_ok (svc_departments_create E actor req) s"
    unfolding svc_departments_create_def
    by (rule post_bind_transaction post_bind_read ok reads_intro post_reads | assumption)+
      (auto simp: ok_iff audit_record_ok dest: departments_create_keeps [OF ok])
qed

lemma svc_departments_update_keeps: "within (keeping hierarchy_ok) (svc_departments_update E actor i req)"
proof (rule post_keeping)
  fix s assume ok: "hierarchy_ok s"
  have parent: "d_parent_id e = Some p \<or> (i, p) \<notin> (parent_rel (departments s))\<^sup>*"
    if find: "query (repo_departments_find_by_id actor i) s = (Inr (Some current), s)"
      and check: "(case ud_parent_id req of
             None \<Rightarrow> ret ()
           | Some parent_id \<Rightarrow>
               if d_parent_id current = Some parent_id then ret ()
               else
                 bind (validate_parent actor parent_id (Some i)) (\<lambda>_.
                 bind (query (repo_departments_parent_would_create_cycle (organization_id actor) i
                         parent_id)) (\<lambda>cycle.
                 ensure (\<not> cycle) (Validation (DeptMsg DepartmentCycle))))) s = (Inr (), s)"
      and p: "ud_parent_id req = Some p" and e: "e \<in> set (departments s)" "d_id e = i"
    for current p e
  proof -
    obtain x where x: "current = department_row_of s x" "department_visible actor s (fst x)" "d_id (fst x) = i"
      using find find_department [OF ok, of actor i current] by (metis query_ok)
    note v = visible_in_organization [OF ok x(2)]
    have "e = fst x" using e v(1) x(3) distinct_map_unique [OF hierarchy_okD(2) [OF ok]] by metis
    with check p x(1) cycle_test [OF ok v(1) x(3), of p] v(2) show ?thesis
      by (auto simp: ok_iff split: if_splits)
  qed
  show "post hierarchy_ok (svc_departments_update E actor i req) s"
    unfolding svc_departments_update_def
    apply (rule post_bind_transaction post_bind_read ok reads_intro post_reads | assumption)+
    apply (clarsimp simp only: bind_ok map_err_ok ensure_ok ok_or_ok audit_record_ok hierarchy_ok_audit)
    apply (erule departments_update_keeps [OF ok])
    apply (rule parent, assumption, simp, simp, assumption+)
    done
qed

lemma svc_departments_delete_keeps: "within (keeping hierarchy_ok) (svc_departments_delete E actor i)"
proof (rule post_keeping)
  fix s assume ok: "hierarchy_ok s"
  show "post hierarchy_ok (svc_departments_delete E actor i) s"
    unfolding svc_departments_delete_def
    by (rule post_transaction post_bind_read ok reads_intro | assumption)+
      (auto simp: ok_iff audit_record_ok dest: departments_delete_keeps [OF ok])
qed

interpretation hierarchy: system_relation "keeping hierarchy_ok" config for config
  by unfold_locales
    (intro svc_departments_create_keeps svc_departments_update_keeps svc_departments_delete_keeps
      keeping_db.svc_frames frame_intro; simp add: keeping_def hierarchy_ok_def)+

lemma bootstrap_hierarchy: "within (keeping hierarchy_ok) (bootstrap_super_admin E u p d e)"
  by (intro keeping_db.svc_frames frame_intro; simp add: keeping_def hierarchy_ok_def)

end
