(* ===== verification/Thm_Departments.thy ===== *)
theory Thm_Departments
  imports Inv_Hierarchy Demo
begin

text \<open>
  The recursive queries over the department hierarchy return and compute reachability; the two
  forms of the query (\<open>UNION ALL\<close> in the department repository, \<open>UNION\<close> in the user, audit and
  dashboard queries) agree; and what stops the deletion of a department.
\<close>

lemma demo_forest: "hierarchy_ok demo_db"
proof -
  have "acyclic (parent_rel (departments demo_db))"
    by (rule acyclicI_order [where f = uminus])
      (auto simp: parent_rel_def demo_db_def demo_department_def)
  then show ?thesis
    by (simp add: hierarchy_ok_def forest_def primary_key_def parents_exist_def demo_db_def
        demo_department_def)
qed

section \<open>Listing\<close>

text \<open>
  C23. The listing of departments returns on a well-formed hierarchy, although its recursive query
  has no bound of its own, and lists exactly the departments in the actor's scope.
\<close>

theorem department_list_total:
  assumes "hierarchy_ok s"
  shows "\<exists>rows. svc_departments_list actor s = (Inr rows, s) \<and>
    departments_rec.truncate ` set rows = {d. department_visible actor s d}"
proof -
  obtain rows where rows: "visible_tree actor s = Inr rows"
    and set: "fst ` set rows = {d. department_visible actor s d}"
    by (rule visible_tree_forest [OF assms])
  have row: "departments_rec.truncate (department_row_of s x) = fst x" for x
    by (simp add: department_row_of_def departments_rec.defs)
  have "svc_departments_list actor s = (Inr (map (department_row_of s)
      (sort_by (\<lambda>a b. path_le (snd (snd a)) (snd (snd b))) rows)), s)"
    by (simp add: svc_departments_list_def query_def bind_def gets_def map_err_def lift_def
        repo_departments_list_def rows)
  then show ?thesis by (auto simp: image_image row set)
qed

theorem department_list_total_witness:
  "\<exists>rows. svc_departments_list \<lparr>user_id = 2, session_id = 2, organization_id = 1,
      department_id = Some 2, data_scope = DepartmentAndChildren, permission_codes = {}\<rparr> demo_db
    = (Inr rows, demo_db)"
  using department_list_total [OF demo_forest] by blast

text \<open>
  The cycle test before a department moves is exact: on a well-formed hierarchy it answers, and
  it answers whether the new parent is the department itself or lies below it.
\<close>

theorem cycle_test_exact:
  assumes "hierarchy_ok s" and "d \<in> set (departments s)"
  shows "repo_departments_parent_would_create_cycle (d_organization_id d) (d_id d) p s =
    Inr ((d_id d, p) \<in> (parent_rel (departments s))\<^sup>*)"
  using cycle_test [OF assms refl] .

theorem cycle_test_exact_witness:
  "repo_departments_parent_would_create_cycle 1 1 3 demo_db = Inr True"
proof -
  have d: "demo_department 1 None \<in> set (departments demo_db)" by (simp add: demo_db_def)
  have "(1, 2) \<in> parent_rel (departments demo_db)" "(2, 3) \<in> parent_rel (departments demo_db)"
    by (auto simp: parent_rel_def demo_db_def demo_department_def)
  then have "(1, 3) \<in> (parent_rel (departments demo_db))\<^sup>*" by (meson r_into_rtrancl rtrancl_trans)
  with cycle_test_exact [OF demo_forest d, of 3] show ?thesis by (simp add: demo_department_def)
qed

section \<open>The two recursive queries\<close>

text \<open>
  The recursive query with \<open>UNION\<close>, which the user, audit and dashboard queries use for the
  scope \<open>department_and_children\<close>, selects the same departments as the one with \<open>UNION ALL\<close> that
  the department repository uses.
\<close>

theorem recursive_queries_agree:
  assumes "hierarchy_ok s" and "data_scope actor = DepartmentAndChildren"
  shows "\<exists>rows. visible_tree actor s = Inr rows \<and>
    d_id ` fst ` set rows =
      set (visible_departments (departments s) (organization_id actor) (department_id actor))"
proof -
  let ?E = "child_rel (departments s) (organization_id actor)"
  obtain rows where rows: "visible_tree actor s = Inr rows"
    and set: "fst ` set rows = {d. department_visible actor s d}"
    by (rule visible_tree_forest [OF assms(1)])
  let ?R = "{i. department_id actor = Some i \<and>
    (\<exists>d \<in> set (departments s). d_id d = i \<and> d_organization_id d = organization_id actor)}"
  have roots: "d_id ` set (visible_roots actor s) = ?R"
    using assms(2) by (force simp: visible_roots_def)
  have child: "\<exists>d \<in> set (departments s). d_id d = c" if "(p, c) \<in> ?E\<^sup>+" for p c
    using that by (induction rule: trancl.induct) (auto simp: child_rel_def)
  have "d_id ` {d. department_visible actor s d} = ?E\<^sup>* `` ?R"
  proof (intro equalityI subsetI)
    fix i assume "i \<in> d_id ` {d. department_visible actor s d}"
    then show "i \<in> ?E\<^sup>* `` ?R"
      unfolding roots [symmetric] department_visible_def by (auto dest: trancl_into_rtrancl)
  next
    fix i assume "i \<in> ?E\<^sup>* `` ?R"
    then obtain r where r: "r \<in> set (visible_roots actor s)" "(d_id r, i) \<in> ?E\<^sup>*"
      unfolding roots [symmetric] by auto
    show "i \<in> d_id ` {d. department_visible actor s d}"
    proof (cases "i = d_id r")
      case True
      with r(1) show ?thesis by (auto simp: department_visible_def)
    next
      case False
      with r(2) have t: "(d_id r, i) \<in> ?E\<^sup>+" by (auto simp: rtrancl_eq_or_trancl)
      with child obtain d where "d \<in> set (departments s)" "d_id d = i" by blast
      with t r(1) assms(2) show ?thesis by (force simp: department_visible_def)
    qed
  qed
  with rows set show ?thesis by (auto simp: visible_departments_set)
qed

theorem recursive_queries_agree_witness:
  "\<exists>rows. visible_tree \<lparr>user_id = 2, session_id = 2, organization_id = 1, department_id = Some 2,
      data_scope = DepartmentAndChildren, permission_codes = {}\<rparr> demo_db = Inr rows \<and>
    d_id ` fst ` set rows = set (visible_departments (departments demo_db) 1 (Some 2))"
  using recursive_queries_agree [OF demo_forest, of "\<lparr>user_id = 2, session_id = 2, organization_id = 1,
      department_id = Some 2, data_scope = DepartmentAndChildren, permission_codes = {}\<rparr>"] by simp

section \<open>Deletion\<close>

text \<open>
  C28. A department that an audit entry refers to cannot be deleted, whether or not it has users or
  children: the foreign key of the audit log refuses, and the log is only ever appended to by
  requests.
\<close>

theorem audited_department_not_deletable:
  assumes "a \<in> set (audit_logs s)" and "al_department_id a = Some i"
  shows "isl (fst (svc_departments_delete E actor i s))"
proof (rule ccontr)
  assume "\<not> ?thesis"
  then obtain t where "svc_departments_delete E actor i s = (Inr (), t)" unfolding not_isl_ok by auto
  then have "\<exists>u. repo_departments_delete_if_empty E (organization_id actor) i s = (Inr True, u)"
    by (auto simp: svc_departments_delete_def bind_ok query_ok ok_or_ok ensure_ok transaction_ok map_err_ok)
  with assms show False
    by (auto simp: repo_departments_delete_if_empty_def ok_iff Let_def list_ex_iff split: if_splits)
qed

text \<open>The example with an entry of an actor of department 3, which has no users left.\<close>

definition demo_audited :: db where
  "demo_audited = demo_db\<lparr>users := butlast (users demo_db), user_roles := butlast (user_roles demo_db),
     audit_logs := [audit_row demo_env demo_db (Some 3) ''user.update'' ''user'' None (JObj [])]\<rparr>"

definition demo_director :: actor_context where
  "demo_director = \<lparr>user_id = 1, session_id = 1, organization_id = 1, department_id = Some 1,
     data_scope = All, permission_codes = {}\<rparr>"

theorem audited_department_not_deletable_witness:
  "isl (fst (svc_departments_delete demo_env demo_director 3 demo_audited)) \<and>
   \<not> isl (fst (svc_departments_delete demo_env demo_director 3 (demo_audited\<lparr>audit_logs := []\<rparr>)))"
proof
  let ?a = "audit_row demo_env demo_db (Some 3) ''user.update'' ''user'' None (JObj [])"
  have "?a \<in> set (audit_logs demo_audited)" by (simp add: demo_audited_def)
  moreover have "al_department_id ?a = Some 3"
    by code_simp
  ultimately show "isl (fst (svc_departments_delete demo_env demo_director 3 demo_audited))"
    by (rule audited_department_not_deletable)
  show "\<not> isl (fst (svc_departments_delete demo_env demo_director 3 (demo_audited\<lparr>audit_logs := []\<rparr>)))"
    by code_simp
qed

end
