(* ===== verification/Thm_Queries.thy ===== *)
theory Thm_Queries
  imports System Demo
begin

text \<open>
  The edges of the API: paging of the directories, the cursor of the audit log, and the address a
  request is attributed to.
\<close>

section \<open>The cursor of the audit log\<close>

lemma cursor_parses:
  assumes "in_i64 (ar_created_at row)" and "in_i64 (ar_id row)" and "0 < ar_id row"
    and "from_micros (ar_created_at row) = Some (ar_created_at row)"
  shows "parse_cursor from_micros (encode_cursor row) s = (Inr (ar_created_at row, ar_id row), s)"
  using assms split_once_append [OF show_int_no_dot, of "ar_created_at row" "show_int (ar_id row)"]
  by (simp add: parse_cursor_def encode_cursor_def ok_or_def bind_def ret_def ensure_def)

section \<open>Pages of the audit log\<close>

lemma newest_first_order: "newest_first a b \<or> newest_first b a"
  "newest_first a b \<Longrightarrow> newest_first b c \<Longrightarrow> newest_first a c"
  by (auto simp: newest_first_def)

text \<open>All rows a query selects, newest first.\<close>

definition audit_rows :: "env \<Rightarrow> actor_context \<Rightarrow> audit_log_query \<Rightarrow> db \<Rightarrow> audit_archive_row list" where
  "audit_rows E actor q db = sort_by newest_first
     (filter (\<lambda>a. audit_in_scope actor db a \<and>
        audit_matches E db (nonempty_filter (aq_keyword q)) (nonempty_filter (aq_action q)) a)
        (audit_logs db))"

lemma before_cursor_iff:
  "before_cursor (Some (al_created_at c, al_id c)) a \<longleftrightarrow> \<not> newest_first a c"
  by (auto simp: before_cursor_def newest_first_def)

lemma rows_after_cursor:
  assumes sorted: "sorted_wrt newest_first xs" and ids: "distinct (map al_id xs)" and k: "k < length xs"
  shows "filter (before_cursor (Some (al_created_at (xs ! k), al_id (xs ! k)))) xs = drop (Suc k) xs"
proof -
  let ?P = "before_cursor (Some (al_created_at (xs ! k), al_id (xs ! k)))"
  have "\<not> ?P (xs ! i)" if "i \<le> k" for i
    using that k sorted_wrt_nth_less [OF sorted, of i k]
    by (cases "i = k") (auto simp: before_cursor_iff newest_first_def)
  then have front: "filter ?P (take (Suc k) xs) = []"
    using k by (auto simp: filter_empty_conv in_set_conv_nth less_Suc_eq_le)
  have "?P (xs ! j)" if "k < j" "j < length xs" for j
  proof -
    have "al_id (xs ! j) \<noteq> al_id (xs ! k)"
      using ids that k nth_eq_iff_index_eq [of "map al_id xs" j k] by auto
    then show ?thesis
      using sorted_wrt_nth_less [OF sorted that] by (auto simp: before_cursor_iff newest_first_def)
  qed
  then have rest: "filter ?P (drop (Suc k) xs) = drop (Suc k) xs"
    by (auto simp: filter_id_conv in_set_conv_nth)
  show ?thesis using front rest by (metis append_Nil append_take_drop_id filter_append)
qed

text \<open>The cursor that stands before position \<open>k\<close>: none at the start, else the row before it.\<close>

definition cursor_at :: "audit_archive_row list \<Rightarrow> db \<Rightarrow> nat \<Rightarrow> string option" where
  "cursor_at rows db k =
     (if k = 0 then None else Some (encode_cursor (audit_log_columns db (rows ! (k - 1)))))"

text \<open>Identifiers are positive 64-bit integers, and times are in the range of the library.\<close>

definition audit_ids_ok :: "(int \<Rightarrow> time option) \<Rightarrow> db \<Rightarrow> bool" where
  "audit_ids_ok from_micros db \<longleftrightarrow> distinct (map al_id (audit_logs db)) \<and>
     (\<forall>a \<in> set (audit_logs db). 0 < al_id a \<and> in_i64 (al_id a) \<and> in_i64 (al_created_at a) \<and>
        from_micros (al_created_at a) = Some (al_created_at a))"

definition query_page_size :: "audit_log_query \<Rightarrow> nat" where
  "query_page_size q = nat (clamp 1 100 (coalesce (aq_page_size q) 20))"

lemma query_page_size_bounds: "1 \<le> query_page_size q" "query_page_size q \<le> 100"
  "int (query_page_size q) = clamp 1 100 (coalesce (aq_page_size q) 20)"
  by (auto simp: query_page_size_def clamp_def)

lemma audit_rows_props:
  assumes "audit_ids_ok from_micros s"
  shows "sorted_wrt newest_first (audit_rows E actor q s)" "distinct (map al_id (audit_rows E actor q s))"
    "set (audit_rows E actor q s) \<subseteq> set (audit_logs s)"
  unfolding audit_rows_def
  by (rule sorted_sort_by [OF newest_first_order], assumption+)
    (use assms in \<open>auto simp: audit_ids_ok_def intro!: distinct_sort_by distinct_map_filter\<close>)

lemma cursor_denotes:
  assumes ok: "audit_ids_ok from_micros s" and k: "k \<le> length (audit_rows E actor q s)"
  shows "\<exists>c. map_opt (parse_cursor from_micros) (cursor_at (audit_rows E actor q s) s k) s = (Inr c, s) \<and>
    (c = None \<longleftrightarrow> k = 0) \<and>
    filter (before_cursor c) (audit_rows E actor q s) = drop k (audit_rows E actor q s)"
proof (cases k)
  case 0
  then show ?thesis by (simp add: cursor_at_def map_opt_def ret_def before_cursor_def)
next
  case (Suc j)
  let ?rows = "audit_rows E actor q s" and ?c = "audit_rows E actor q s ! j"
  have "?c \<in> set (audit_logs s)"
    using k Suc audit_rows_props(3) [OF ok] by (meson Suc_le_lessD nth_mem subset_iff)
  with ok have "parse_cursor from_micros (encode_cursor (audit_log_columns s ?c)) s
      = (Inr (al_created_at ?c, al_id ?c), s)"
    using cursor_parses [of "audit_log_columns s ?c" from_micros s]
    by (auto simp: audit_ids_ok_def audit_log_columns_def)
  moreover have "filter (before_cursor (Some (al_created_at ?c, al_id ?c))) ?rows = drop (Suc j) ?rows"
    using rows_after_cursor [OF audit_rows_props(1,2) [OF ok]] k Suc by auto
  ultimately show ?thesis using Suc by (auto simp: cursor_at_def map_opt_def bind_def ret_def)
qed

lemma wrap_zero [simp]: "wrap_i64 0 = 0"
  by (simp add: wrap_i64_def)

lemma audit_list_rows:
  assumes "filter (before_cursor c) (audit_rows E actor q s) = drop k (audit_rows E actor q s)"
  shows "audit_list E actor (nonempty_filter (aq_keyword q)) (nonempty_filter (aq_action q)) 1
      (int (query_page_size q)) c s
    = Inr (map (audit_log_columns s) (take (Suc (query_page_size q)) (drop k (audit_rows E actor q s))))"
proof -
  have "sort_by newest_first (filter (\<lambda>a. audit_in_scope actor s a \<and>
        audit_matches E s (nonempty_filter (aq_keyword q)) (nonempty_filter (aq_action q)) a \<and>
        before_cursor c a) (audit_logs s)) = filter (before_cursor c) (audit_rows E actor q s)"
    unfolding audit_rows_def
    by (subst filter_sort_by [OF newest_first_order]) (auto intro!: arg_cong [where f = "sort_by newest_first"] filter_cong simp: conj_assoc)
  then show ?thesis
    using assms by (simp add: audit_list_def limit_offset_def nat_add_distrib)
qed

lemma audit_page_at:
  assumes ok: "audit_ids_ok from_micros s" and k: "k \<le> length (audit_rows E actor q s)"
    and "aq_page q = None"
  shows "\<exists>p. svc_audit_list E from_micros actor (q\<lparr>aq_cursor := cursor_at (audit_rows E actor q s) s k\<rparr>) s
      = (Inr p, s) \<and>
    pa_items p = map (audit_log_columns s) (take (query_page_size q) (drop k (audit_rows E actor q s))) \<and>
    pa_next_cursor p = (if k + query_page_size q < length (audit_rows E actor q s)
      then cursor_at (audit_rows E actor q s) s (k + query_page_size q) else None)"
proof -
  let ?rows = "audit_rows E actor q s" and ?n = "query_page_size q"
  obtain c where c: "map_opt (parse_cursor from_micros) (cursor_at ?rows s k) s = (Inr c, s)"
    "filter (before_cursor c) ?rows = drop k ?rows"
    using cursor_denotes [OF ok k] by blast
  let ?page = "map (audit_log_columns s) (take (Suc ?n) (drop k ?rows))"
  have more: "int (length ?page) > int ?n \<longleftrightarrow> k + ?n < length ?rows" by auto
  have n: "?n \<ge> 1" by (rule query_page_size_bounds)
  have page: "coalesce (aq_page q) 1 = 1" using assms(3) by (simp add: coalesce_def)
  have cut: "(if k + ?n < length ?rows then butlast ?page else ?page)
      = map (audit_log_columns s) (take ?n (drop k ?rows))"
    by (auto simp: map_butlast [symmetric] butlast_take)
  have last: "encode_cursor (last (map (audit_log_columns s) (take ?n (drop k ?rows))))
      = encode_cursor (audit_log_columns s (?rows ! (k + ?n - 1)))" if "k + ?n < length ?rows"
    using that n by (simp add: last_map last_conv_nth)
  have "svc_audit_list E from_micros actor (q\<lparr>aq_cursor := cursor_at ?rows s k\<rparr>) s =
      (Inr \<lparr>pa_items = map (audit_log_columns s) (take ?n (drop k ?rows)),
         pa_total = audit_count E actor (nonempty_filter (aq_keyword q)) (nonempty_filter (aq_action q)) s,
         pa_page = 1, pa_page_size = int ?n,
         pa_next_cursor = (if k + ?n < length ?rows \<and> map (audit_log_columns s) (take ?n (drop k ?rows)) \<noteq> []
           then Some (encode_cursor (last (map (audit_log_columns s) (take ?n (drop k ?rows))))) else None)\<rparr>, s)"
    using audit_list_rows [OF c(2)] c(1) page more cut
    by (cases "k + ?n < length ?rows") (simp_all add: svc_audit_list_def bind_def query_def gets_def map_err_def lift_def ret_def Let_def
        query_page_size_bounds(3) [symmetric] del: map_map)
  then show ?thesis using last n k by (auto simp: cursor_at_def)
qed

text \<open>A client that follows the cursors, at most \<open>n\<close> pages.\<close>

fun follow ::
    "nat \<Rightarrow> env \<Rightarrow> (int \<Rightarrow> time option) \<Rightarrow> actor_context \<Rightarrow> audit_log_query \<Rightarrow> db \<Rightarrow> audit_log_row list option" where
  "follow 0 E from_micros actor q s = None"
| "follow (Suc n) E from_micros actor q s =
     (case svc_audit_list E from_micros actor q s of
        (Inl e, t) \<Rightarrow> None
      | (Inr p, t) \<Rightarrow>
          (case pa_next_cursor p of
             None \<Rightarrow> Some (pa_items p)
           | Some c \<Rightarrow>
               map_option (append (pa_items p)) (follow n E from_micros actor (q\<lparr>aq_cursor := Some c\<rparr>) s)))"

lemma follow_from:
  assumes ok: "audit_ids_ok from_micros s" and page: "aq_page q = None"
    and "k \<le> length (audit_rows E actor q s)" and "length (audit_rows E actor q s) < k + n"
  shows "follow n E from_micros actor (q\<lparr>aq_cursor := cursor_at (audit_rows E actor q s) s k\<rparr>) s
    = Some (map (audit_log_columns s) (drop k (audit_rows E actor q s)))"
  using assms(3,4)
proof (induction n arbitrary: k)
  case (Suc n)
  let ?rows = "audit_rows E actor q s" and ?m = "query_page_size q"
  note n = query_page_size_bounds(1) [of q]
  obtain p where p: "svc_audit_list E from_micros actor (q\<lparr>aq_cursor := cursor_at ?rows s k\<rparr>) s = (Inr p, s)"
    "pa_items p = map (audit_log_columns s) (take ?m (drop k ?rows))"
    "pa_next_cursor p = (if k + ?m < length ?rows then cursor_at ?rows s (k + ?m) else None)"
    using audit_page_at [OF ok Suc.prems(1) page] by blast
  show ?case
  proof (cases "k + ?m < length ?rows")
    case True
    have "follow n E from_micros actor (q\<lparr>aq_cursor := cursor_at ?rows s (k + ?m)\<rparr>) s
        = Some (map (audit_log_columns s) (drop (k + ?m) ?rows))"
      by (rule Suc.IH) (use True Suc.prems n in linarith)+
    moreover have "cursor_at ?rows s (k + ?m) \<noteq> None" using n by (simp add: cursor_at_def)
    moreover have "take ?m (drop k ?rows) @ drop (k + ?m) ?rows = drop k ?rows"
      by (metis add.commute append_take_drop_id drop_drop)
    ultimately show ?thesis using p True by (auto simp flip: map_append)
  next
    case False
    with p show ?thesis by simp
  qed
qed simp

text \<open>
  C24. Following the cursors of the audit log from the first page terminates and yields every entry
  the query selects, newest first, exactly once.
\<close>

theorem cursor_walk_complete:
  assumes "audit_ids_ok from_micros s" and "aq_page q = None" and "aq_cursor q = None"
  shows "follow (Suc (length (audit_logs s))) E from_micros actor q s
    = Some (map (audit_log_columns s) (audit_rows E actor q s))"
proof -
  have "length (audit_rows E actor q s) \<le> length (audit_logs s)" by (simp add: audit_rows_def)
  moreover have "q\<lparr>aq_cursor := cursor_at (audit_rows E actor q s) s 0\<rparr> = q"
    using assms(3) by (cases q) (simp add: cursor_at_def)
  ultimately show ?thesis
    using follow_from [OF assms(1,2), of 0 E actor "Suc (length (audit_logs s))"]
    by (simp del: follow.simps)
qed

definition demo_logged :: db where
  "demo_logged = demo_db\<lparr>audit_logs :=
     map (\<lambda>i. (audit_row demo_env demo_db None ''login'' ''user'' None (JObj []))\<lparr>al_id := i, al_created_at := i div 2\<rparr>)
       [1, 2, 3]\<rparr>"

definition demo_audit_query :: audit_log_query where
  "demo_audit_query = \<lparr>aq_page = None, aq_page_size = Some 2, aq_keyword = None, aq_action = None, aq_cursor = None\<rparr>"

definition demo_auditor :: actor_context where
  "demo_auditor = \<lparr>user_id = 1, session_id = 1, organization_id = 1, department_id = Some 1,
     data_scope = All, permission_codes = {AuditLogRead}\<rparr>"

theorem cursor_walk_complete_witness:
  "map_option (map ar_id) (follow 4 demo_env Some demo_auditor demo_audit_query demo_logged) = Some [3, 2, 1]"
proof -
  have ok: "audit_ids_ok Some demo_logged"
    by (simp add: audit_ids_ok_def demo_logged_def in_i64_def i64_min_def i64_max_def)
  have q: "aq_page demo_audit_query = None" "aq_cursor demo_audit_query = None"
    by (simp_all add: demo_audit_query_def)
  have "map al_id (audit_rows demo_env demo_auditor demo_audit_query demo_logged) = [3, 2, 1]" by code_simp
  moreover have "Suc (length (audit_logs demo_logged)) = 4" by (simp add: demo_logged_def)
  ultimately show ?thesis
    using cursor_walk_complete [OF ok q, of demo_env demo_auditor] by (simp add: audit_log_columns_def o_def)
qed

section \<open>Page numbers\<close>

lemma wrap_small: "0 \<le> i \<Longrightarrow> i < 2 ^ 63 \<Longrightarrow> wrap_i64 i = i"
  unfolding wrap_i64_def sint_sbintrunc' by (simp add: signed_take_bit_int_eq_self)

lemma last_page_offset:
  fixes total sz :: int
  assumes "1 \<le> sz" and "0 \<le> total" and "1 \<le> requested"
  shows "1 \<le> min requested (max 1 ((total + sz - 1) div sz))"
    and "(min requested (max 1 ((total + sz - 1) div sz)) - 1) * sz \<le> total"
    and "0 < total \<Longrightarrow> (min requested (max 1 ((total + sz - 1) div sz)) - 1) * sz < total"
proof -
  let ?page = "min requested (max 1 ((total + sz - 1) div sz))"
  show "1 \<le> ?page" using assms by simp
  have le: "(?page - 1) * sz \<le> total - 1" if "0 < total"
  proof -
    have "(total + sz - 1) div sz = (total - 1) div sz + 1"
      using div_add_self2 [of sz "total - 1"] assms(1) by (simp add: algebra_simps)
    moreover have "0 \<le> (total - 1) div sz" using that assms(1) by (simp add: pos_imp_zdiv_nonneg_iff)
    ultimately have "?page - 1 \<le> (total - 1) div sz" by simp
    then have "(?page - 1) * sz \<le> (total - 1) div sz * sz"
      using assms(1) by (intro mult_right_mono) auto
    also have "\<dots> \<le> total - 1"
      using assms(1) pos_mod_sign [of sz "total - 1"] div_mult_mod_eq [of "total - 1" sz] by linarith
    finally show ?thesis .
  qed
  then show "0 < total \<Longrightarrow> (?page - 1) * sz < total" by fastforce
  show "(?page - 1) * sz \<le> total"
  proof (cases "total = 0")
    case True
    have "(sz - 1) div sz = 0" using assms(1) by (simp add: div_pos_pos_trivial)
    with True assms(3) show ?thesis by simp
  next
    case False
    with le assms(2) show ?thesis by linarith
  qed
qed

lemma user_sort_of_cases:
  "(\<exists>m. user_sort_of a b s = (Inl (Validation m), s)) \<or> (\<exists>x. user_sort_of a b s = (Inr x, s))"
  by (auto simp: user_sort_of_def Let_def throw_def ret_def)

lemma user_page_rows:
  assumes "lp_page_size p = sz" and "0 \<le> (lp_page p - 1) * sz" and "(lp_page p - 1) * sz < 2 ^ 63"
    and "1 \<le> lp_page p" and "lp_page p \<le> 2 ^ 62" and "1 \<le> sz"
  shows "repo_users_list E actor p s = Inr (map (user_with_roles E s)
    (take (nat sz) (drop (nat ((lp_page p - 1) * sz))
      (sort_by (user_order E (lp_sort p)) (users_selected E actor p s)))))"
  using assms wrap_small [of "lp_page p - 1"] wrap_small [of "(lp_page p - 1) * sz"]
  by (simp add: repo_users_list_def limit_offset_def mult_less_0_iff)

text \<open>What the service promises of a page.\<close>

definition page_ok :: "db \<Rightarrow> (api_error + page_user) \<times> db \<Rightarrow> bool" where
  "page_ok s r \<longleftrightarrow>
     (case r of
        (Inl e, t) \<Rightarrow> t = s \<and> (\<exists>m. e = Validation m)
      | (Inr p, t) \<Rightarrow> t = s \<and> 1 \<le> pu_page_size p \<and> pu_page_size p \<le> 100 \<and> 1 \<le> pu_page p \<and>
          (pu_page p - 1) * pu_page_size p \<le> pu_total p \<and>
          int (length (pu_items p)) \<le> pu_page_size p \<and> (pu_items p = [] \<longleftrightarrow> pu_total p = 0))"

lemma users_list_page:
  assumes bound: "length (users s) < 2 ^ 62"
    and status: "case normalized_filter (pq_status q) of None \<Rightarrow> True | Some v \<Rightarrow> v \<in> set user_statuses"
    and sort: "user_sort_of (pq_sort_by q) (pq_sort_direction q) s = (Inr srt, s)"
  shows "page_ok s (svc_users_list E actor q s)"
proof -
  define sz where "sz = clamp 1 100 (coalesce (pq_page_size q) 20)"
  define requested where "requested = max 1 (coalesce (pq_page q) 1)"
  have sz: "1 \<le> sz" "sz \<le> 100" by (auto simp: sz_def clamp_def)
  have requested: "1 \<le> requested" by (simp add: requested_def)
  define params where "params = \<lparr>lp_keyword = normalized_filter (pq_keyword q),
    lp_status = normalized_filter (pq_status q), lp_role = normalized_filter (pq_role q),
    lp_sort = srt, lp_page = requested, lp_page_size = sz\<rparr>"
  define total where "total = repo_users_count E actor params s"
  define page where "page = min requested (max 1 ((total + sz - 1) div sz))"
  have "length (users_selected E actor params s) \<le> length (users s)" by (simp add: users_selected_def)
  then have total: "0 \<le> total" "total < 2 ^ 62" "total = int (length (users_selected E actor params s))"
    using bound by (simp_all add: total_def repo_users_count_def)
  note off = last_page_offset [OF sz(1) total(1) requested, folded page_def]
  have "page - 1 \<le> (page - 1) * sz" using sz off(1) by (simp add: mult_le_cancel_left1)
  then have "page \<le> 2 ^ 62" using off(2) total(2) by linarith
  moreover have nonneg: "0 \<le> (page - 1) * sz" using off(1) sz by simp
  ultimately have rows: "repo_users_list E actor (params\<lparr>lp_page := page\<rparr>) s = Inr (map (user_with_roles E s)
      (take (nat sz) (drop (nat ((page - 1) * sz))
        (sort_by (user_order E srt) (users_selected E actor (params\<lparr>lp_page := page\<rparr>) s)))))"
    using user_page_rows [of "params\<lparr>lp_page := page\<rparr>" sz E actor s] off sz total(2)
    by (simp add: params_def)
  have same: "users_selected E actor (params\<lparr>lp_page := page\<rparr>) s = users_selected E actor params s"
    by (simp add: users_selected_def user_matches_def params_def)
  have "svc_users_list E actor q s = (Inr \<lparr>pu_items = map user_with_roles_response (map (user_with_roles E s)
      (take (nat sz) (drop (nat ((page - 1) * sz)) (sort_by (user_order E srt) (users_selected E actor params s))))),
      pu_total = total, pu_page = page, pu_page_size = sz,
      pu_role_options = repo_users_list_role_options E actor s\<rparr>, s)"
    using status sort rows [unfolded same] unfolding page_def total_def params_def sz_def requested_def
    by (simp add: svc_users_list_def Let_def ensure_def ret_def bind_def query_def gets_def
        map_err_def lift_def)
  moreover have "length (users_selected E actor params s) \<le> nat ((page - 1) * sz) \<longleftrightarrow> total = 0"
  proof (cases "total = 0")
    case False
    with total(1) off(3) have "(page - 1) * sz < total" by simp
    with False total(3) show ?thesis by (simp add: le_nat_iff [OF nonneg])
  qed (use total(3) in simp)
  ultimately show ?thesis
    using sz off(1,2) by (simp add: page_ok_def nat_le_iff)
qed

text \<open>
  C25. The user directory keeps every page in range (\<open>page_ok\<close>): whatever page is asked for, the
  answer is a page between 1 and the last one with at most 100 rows, empty only where nothing
  matches, and the offset never overflows; the only errors are rejected filters.
\<close>

theorem users_page_in_range:
  assumes "length (users s) < 2 ^ 62"
  shows "page_ok s (svc_users_list E actor q s)"
proof (cases "case normalized_filter (pq_status q) of None \<Rightarrow> True | Some v \<Rightarrow> v \<in> set user_statuses")
  case False
  then show ?thesis
    by (auto simp: page_ok_def svc_users_list_def Let_def ensure_def throw_def bind_def split: option.splits)
next
  case status: True
  from user_sort_of_cases [of "pq_sort_by q" "pq_sort_direction q" s] show ?thesis
  proof
    assume "\<exists>m. user_sort_of (pq_sort_by q) (pq_sort_direction q) s = (Inl (Validation m), s)"
    with status show ?thesis
      by (auto simp: page_ok_def svc_users_list_def Let_def ensure_def ret_def bind_def split: option.splits)
  next
    assume "\<exists>x. user_sort_of (pq_sort_by q) (pq_sort_direction q) s = (Inr x, s)"
    with users_list_page [OF assms status] show ?thesis by blast
  qed
qed

theorem users_page_in_range_witness:
  "page_ok demo_db (svc_users_list demo_env demo_auditor \<lparr>pq_page = Some 1000000, pq_page_size = Some 500,
     pq_keyword = None, pq_status = None, pq_role = None, pq_sort_by = None, pq_sort_direction = None\<rparr> demo_db)"
  by (rule users_page_in_range) (simp add: demo_db_def)

text \<open>
  C27. The audit log has no such bound: the offset of a page asked for by its number is computed in
  64 bits. For every page number that a request can hold and every page size the answer is
  determined by the wrapped offset: where it is negative the request fails with an internal error,
  and where it is not the answer holds the entries in scope from that offset on, newest first, under
  the requested page number. The offset is the intended one as long as the product fits; behind
  that point the answer can be an earlier page instead of an empty one.
\<close>

theorem audit_page_by_number:
  assumes "aq_cursor q = None" and "coalesce (aq_page q) 1 \<le> i64_max"
  defines "page \<equiv> max 1 (coalesce (aq_page q) 1)" and "sz \<equiv> clamp 1 100 (coalesce (aq_page_size q) 20)"
  defines "offset \<equiv> wrap_i64 ((page - 1) * sz)"
  shows "(if offset < 0 then svc_audit_list E from_micros actor q s = (Inl (Internal (DbCause NegativeOffset)), s)
    else \<exists>r. svc_audit_list E from_micros actor q s = (Inr r, s) \<and>
      pa_items r = map (audit_log_columns s) (take (nat sz) (drop (nat offset) (audit_rows E actor q s))) \<and>
      pa_total r = int (length (audit_rows E actor q s)) \<and> pa_page r = page \<and> pa_page_size r = sz) \<and>
    ((page - 1) * sz \<le> i64_max \<longrightarrow> offset = (page - 1) * sz)"
proof -
  have sz: "1 \<le> sz" by (simp add: sz_def clamp_def)
  have "0 \<le> page - 1" "page - 1 < 2 ^ 63" using assms(2) by (auto simp: page_def i64_max_def)
  then have w: "wrap_i64 (page - 1) = page - 1" by (rule wrap_small)
  have exact: "(page - 1) * sz \<le> i64_max \<longrightarrow> offset = (page - 1) * sz"
    using \<open>0 \<le> page - 1\<close> sz by (auto simp: offset_def i64_max_def intro: wrap_small)
  let ?rows = "take (nat (sz + 1)) (drop (nat offset) (audit_rows E actor q s))"
  have rows: "audit_list E actor (nonempty_filter (aq_keyword q)) (nonempty_filter (aq_action q)) page sz None s =
      (if offset < 0 then Inl NegativeOffset else Inr (map (audit_log_columns s) ?rows))"
    by (simp add: audit_list_def limit_offset_def audit_rows_def before_cursor_def w offset_def [symmetric])
  have cut: "(if int (length ?rows) > sz then butlast ?rows else ?rows) =
      take (nat sz) (drop (nat offset) (audit_rows E actor q s))"
    using sz by (auto simp: butlast_take nat_add_distrib)
  have total: "audit_count E actor (nonempty_filter (aq_keyword q)) (nonempty_filter (aq_action q)) s =
      int (length (audit_rows E actor q s))"
    by (simp add: audit_count_def audit_rows_def)
  show ?thesis
  proof (cases "offset < 0")
    case True
    with rows assms(1) have "svc_audit_list E from_micros actor q s = (Inl (Internal (DbCause NegativeOffset)), s)"
      by (simp add: svc_audit_list_def map_opt_def bind_def ret_def query_def gets_def map_err_def
          lift_def db_error_def Let_def page_def [symmetric] sz_def [symmetric])
    with True exact show ?thesis by simp
  next
    case False
    with rows assms(1) total obtain r where "svc_audit_list E from_micros actor q s = (Inr r, s)"
      "pa_items r = map (audit_log_columns s) (if int (length ?rows) > sz then butlast ?rows else ?rows)"
      "pa_total r = int (length (audit_rows E actor q s))" "pa_page r = page" "pa_page_size r = sz"
      by (simp add: svc_audit_list_def map_opt_def bind_def ret_def query_def gets_def map_err_def
          lift_def Let_def map_butlast page_def [symmetric] sz_def [symmetric] if_distrib [of "map _"])
    with False exact cut show ?thesis by simp
  qed
qed

text \<open>
  With two entries per page the page \<open>2\<^sup>6\<^sup>2 + 1\<close> fails; with the default of twenty its offset wraps
  around to zero, and the first page is returned.
\<close>

theorem audit_page_by_number_witness:
  "svc_audit_list demo_env Some demo_auditor (demo_audit_query\<lparr>aq_page := Some (2 ^ 62 + 1)\<rparr>) demo_logged
     = (Inl (Internal (DbCause NegativeOffset)), demo_logged) \<and>
   (\<exists>r. svc_audit_list demo_env Some demo_auditor
       (demo_audit_query\<lparr>aq_page := Some (2 ^ 62 + 1), aq_page_size := None\<rparr>) demo_logged = (Inr r, demo_logged) \<and>
     pa_items r = map (audit_log_columns demo_logged) (take 20 (audit_rows demo_env demo_auditor
       (demo_audit_query\<lparr>aq_page := Some (2 ^ 62 + 1), aq_page_size := None\<rparr>) demo_logged)))"
proof -
  let ?q = "\<lambda>sz. demo_audit_query\<lparr>aq_page := Some (2 ^ 62 + 1), aq_page_size := sz\<rparr>"
  have "demo_audit_query\<lparr>aq_page := Some (2 ^ 62 + 1)\<rparr> = ?q (Some 2)" by (simp add: demo_audit_query_def)
  moreover have "wrap_i64 (2 ^ 62 * 2) < 0" "wrap_i64 (2 ^ 62 * 20) = 0"
    by (simp_all add: wrap_i64_def)
  ultimately show ?thesis
    using audit_page_by_number [of "?q (Some 2)" demo_env Some demo_auditor demo_logged]
      audit_page_by_number [of "?q None" demo_env Some demo_auditor demo_logged]
    by (auto simp: demo_audit_query_def coalesce_def clamp_def i64_max_def)
qed

section \<open>The client address\<close>

lemma split_on_not_Nil [simp]: "split_on c s \<noteq> []"
  by (induction c s rule: split_on.induct) (auto split: list.splits)

lemma split_on_append:
  "split_on c (a @ c # b) = split_on c a @ split_on c b"
  by (induction a) (auto split: list.splits)

lemma collect_options_append:
  "collect_options (xs @ ys) = Some zs \<longleftrightarrow>
     (\<exists>as bs. collect_options xs = Some as \<and> collect_options ys = Some bs \<and> zs = as @ bs)"
  by (induction xs arbitrary: zs rule: collect_options.induct) auto

lemma walk_proxies_untrusted: "\<not> trusted c \<Longrightarrow> walk_proxies trusted c xs = c"
  by (cases xs) auto

lemma walk_proxies_append:
  "\<not> trusted (walk_proxies trusted c xs) \<Longrightarrow> walk_proxies trusted c (xs @ ys) = walk_proxies trusted c xs"
  by (induction trusted c xs rule: walk_proxies.induct) (auto simp: walk_proxies_untrusted split: if_splits)

definition with_forwarded :: "request \<Rightarrow> string \<Rightarrow> request" where
  "with_forwarded rq v = rq\<lparr>rq_headers := (rq_headers rq)(''x-forwarded-for'' \<mapsto> v)\<rparr>"

text \<open>The addresses a proxied request names, if the header is accepted.\<close>

definition forwarded_chain :: "string \<Rightarrow> ip_addr list option" where
  "forwarded_chain v =
     (if list_all visible_ascii v \<and> length v \<le> max_forwarded_for_length then
        (case collect_options (map parse_forwarded_ip (split_on CHR '','' v)) of
           None \<Rightarrow> None
         | Some fs \<Rightarrow> if fs = [] \<or> length fs > max_forwarded_for_hops then None else Some fs)
      else None)"

lemma resolve_forwarded:
  "resolve_client_ip contains peer (with_forwarded rq v) cidrs =
     (let trusted = (\<lambda>ip. is_trusted_proxy contains ip cidrs); p = canonical_ip peer in
      if \<not> trusted p then p
      else (case forwarded_chain v of None \<Rightarrow> p | Some fs \<Rightarrow> walk_proxies trusted p (rev fs)))"
  by (auto simp: resolve_client_ip_def with_forwarded_def forwarded_chain_def header_str_def Let_def
      split: option.splits)

text \<open>
  C26. A client cannot choose the address it is throttled under. Where the proxies in front report an
  address outside the trusted networks, whatever the client itself put into the header before them
  changes nothing, except that an unusable header makes the service fall back to the address of the
  peer.
\<close>

theorem forged_forwarding_ignored:
  assumes "resolve_client_ip contains peer (with_forwarded rq v) cidrs = ip"
    and "\<not> is_trusted_proxy contains ip cidrs"
  shows "resolve_client_ip contains peer (with_forwarded rq (forged @ CHR '','' # v)) cidrs
    \<in> {ip, canonical_ip peer}"
proof -
  let ?t = "\<lambda>ip. is_trusted_proxy contains ip cidrs" and ?p = "canonical_ip peer"
  show ?thesis
  proof (cases "?t ?p")
    case False
    with assms(1) show ?thesis by (simp add: resolve_forwarded Let_def)
  next
    case True
    with assms obtain fs where fs: "forwarded_chain v = Some fs" "walk_proxies ?t ?p (rev fs) = ip"
      by (auto simp: resolve_forwarded Let_def split: option.splits)
    show ?thesis
    proof (cases "forwarded_chain (forged @ CHR '','' # v)")
      case None
      with True show ?thesis by (simp add: resolve_forwarded Let_def)
    next
      case (Some gs)
      have "\<exists>as. gs = as @ fs"
        using Some fs(1)
        by (auto simp: forwarded_chain_def split_on_append collect_options_append
            split: if_splits option.splits)
      then obtain as where "gs = as @ fs" by blast
      with walk_proxies_append [of ?t ?p "rev fs" "rev as"] fs(2) assms(2) True Some show ?thesis
        by (simp add: resolve_forwarded Let_def)
    qed
  qed
qed

text \<open>A proxy at 10.0.0.1 in front; the client claims to be 1.1.1.1.\<close>

definition demo_contains :: "unit \<Rightarrow> ip_addr \<Rightarrow> bool" where
  "demo_contains n ip = (case ip of V4 os \<Rightarrow> take 1 os = [10] | V6 gs \<Rightarrow> False)"

theorem forged_forwarding_ignored_witness:
  "resolve_client_ip demo_contains (V4 [10, 0, 0, 1])
     (with_forwarded (demo_request CHR ''a'') (''1.1.1.1'' @ CHR '','' # ''9.9.9.9'')) [()] \<in>
   {V4 [9, 9, 9, 9], V4 [10, 0, 0, 1]}"
proof -
  have "resolve_client_ip demo_contains (V4 [10, 0, 0, 1])
      (with_forwarded (demo_request CHR ''a'') ''9.9.9.9'') [()] = V4 [9, 9, 9, 9]"
    by code_simp
  moreover have "\<not> is_trusted_proxy demo_contains (V4 [9, 9, 9, 9]) [()]" by code_simp
  ultimately have "resolve_client_ip demo_contains (V4 [10, 0, 0, 1])
     (with_forwarded (demo_request CHR ''a'') (''1.1.1.1'' @ CHR '','' # ''9.9.9.9'')) [()] \<in>
     {V4 [9, 9, 9, 9], canonical_ip (V4 [10, 0, 0, 1])}"
    by (rule forged_forwarding_ignored)
  then show ?thesis by (simp add: canonical_ip_def)
qed

end
