(* ===== verification/Grants.thy ===== *)
theory Grants
  imports Repo_Sessions Demo
begin

text \<open>
  Step-up grants as an abstract data type. The specification is a finite map from grants (token
  hash, session, user, scope) to their expiry, with three operations; the statements of
  \<open>backend/src/repositories/step_up.rs\<close> refine it, in any order and at any times. What a client
  may rely on, that a grant is spent by its first use, is proved once in the interface.
\<close>

section \<open>Specification\<close>

type_synonym grant = "string \<times> int \<times> int \<times> string"

datatype grant_op = Issue grant time | Consume grant | Prune

text \<open>\<open>grant_step n A op b B\<close>: at time \<open>n\<close> the operation turns \<open>A\<close> into \<open>B\<close> and reports \<open>b\<close>.\<close>

inductive grant_step ::
    "time \<Rightarrow> (grant \<rightharpoonup> time) \<Rightarrow> grant_op \<Rightarrow> bool \<Rightarrow> (grant \<rightharpoonup> time) \<Rightarrow> bool" for n where
  issued: "A k = None \<Longrightarrow> grant_step n A (Issue k e) True (A(k \<mapsto> e))"
| issue_refused: "grant_step n A (Issue k e) False A"
| consumed: "A k = Some e \<Longrightarrow> n < e \<Longrightarrow> grant_step n A (Consume k) True (A(k := None))"
| consume_refused: "\<not> (\<exists>e. A k = Some e \<and> n < e) \<Longrightarrow> grant_step n A (Consume k) False A"
| pruned: "grant_step n A Prune True (A |` {k. \<exists>e. A k = Some e \<and> n - days 1 \<le> e})"

inductive_cases issue_cases [elim!]: "grant_step n A (Issue k e) b B"
inductive_cases consume_cases [elim!]: "grant_step n A (Consume k) b B"
inductive_cases prune_cases [elim!]: "grant_step n A Prune b B"

fun grant_run ::
    "(grant \<rightharpoonup> time) \<Rightarrow> (time \<times> grant_op \<times> bool) list \<Rightarrow> (grant \<rightharpoonup> time) \<Rightarrow> bool" where
  "grant_run A [] C \<longleftrightarrow> C = A"
| "grant_run A ((n, op, b) # tr) C \<longleftrightarrow> (\<exists>B. grant_step n A op b B \<and> grant_run B tr C)"

text \<open>The number of successful operations of a kind in a trace.\<close>

definition uses :: "grant \<Rightarrow> (time \<times> grant_op \<times> bool) list \<Rightarrow> nat" where
  "uses k tr = length (filter (\<lambda>(n, op, b). op = Consume k \<and> b) tr)"

definition issues :: "grant \<Rightarrow> (time \<times> grant_op \<times> bool) list \<Rightarrow> nat" where
  "issues k tr = length (filter (\<lambda>(n, op, b). (\<exists>e. op = Issue k e) \<and> b) tr)"

lemma step_balance:
  assumes "grant_step n A op b B"
  shows "uses k [(n, op, b)] + (if B k = None then 0 else 1) \<le>
     issues k [(n, op, b)] + (if A k = None then 0 else 1)"
  using assms by (cases rule: grant_step.cases) (auto simp: uses_def issues_def restrict_map_def)

lemma trace_Cons: "uses k (x # tr) = uses k [x] + uses k tr" "issues k (x # tr) = issues k [x] + issues k tr"
  by (simp_all add: uses_def issues_def)

lemma run_balance:
  "grant_run A tr C \<Longrightarrow>
     uses k tr + (if C k = None then 0 else 1) \<le> issues k tr + (if A k = None then 0 else 1)"
proof (induction A tr C rule: grant_run.induct)
  case (2 A n op b tr C)
  then obtain B where B: "grant_step n A op b B" "grant_run B tr C" by auto
  from "2.IH" [OF B(2)] step_balance [OF B(1), of k] show ?case
    unfolding trace_Cons [of k "(n, op, b)" tr] by linarith
qed (simp add: uses_def issues_def)

section \<open>The interface\<close>

text \<open>
  An implementation keeps a well-formed state, and each of its operations is a step of the
  specification under the abstraction. Then so is every run, and no grant is used more often than
  it was issued.
\<close>

primrec run_ops ::
    "('e \<Rightarrow> grant_op \<Rightarrow> 's \<Rightarrow> bool \<times> 's) \<Rightarrow> ('e \<Rightarrow> time) \<Rightarrow> ('e \<times> grant_op) list \<Rightarrow> 's \<Rightarrow>
     (time \<times> grant_op \<times> bool) list \<times> 's" where
  "run_ops exec clock [] s = ([], s)"
| "run_ops exec clock (x # xs) s =
     (let (b, t) = exec (fst x) (snd x) s; (tr, u) = run_ops exec clock xs t
      in ((clock (fst x), snd x, b) # tr, u))"

locale grant_store =
  fixes abs :: "'s \<Rightarrow> grant \<rightharpoonup> time" and wf :: "'s \<Rightarrow> bool"
    and exec :: "'e \<Rightarrow> grant_op \<Rightarrow> 's \<Rightarrow> bool \<times> 's" and clock :: "'e \<Rightarrow> time"
  assumes step: "wf s \<Longrightarrow> exec E op s = (b, t) \<Longrightarrow> grant_step (clock E) (abs s) op b (abs t)"
    and wf: "wf s \<Longrightarrow> exec E op s = (b, t) \<Longrightarrow> wf t"
begin

lemma refines: "wf s \<Longrightarrow> run_ops exec clock ops s = (tr, t) \<Longrightarrow> grant_run (abs s) tr (abs t)"
proof (induction ops arbitrary: s tr)
  case (Cons x xs)
  obtain b u where b: "exec (fst x) (snd x) s = (b, u)" by fastforce
  obtain tr' where tr': "run_ops exec clock xs u = (tr', t)" and tr: "tr = (clock (fst x), snd x, b) # tr'"
    using Cons.prems(2) b by (auto split: prod.splits)
  from Cons.IH [OF wf [OF Cons.prems(1) b] tr'] step [OF Cons.prems(1) b] show ?case
    unfolding tr by auto
qed simp

lemma spent_by_use:
  "wf s \<Longrightarrow> run_ops exec clock ops s = (tr, t) \<Longrightarrow> uses k tr \<le> issues k tr + (if abs s k = None then 0 else 1)"
  using refines [of s ops tr t] run_balance [of "abs s" tr "abs t" k] by simp

end

section \<open>The table implements it\<close>

definition grant_of :: "step_up_tokens_rec \<Rightarrow> grant" where
  "grant_of x = (st_token_hash x, st_session_id x, st_user_id x, st_scope x)"

definition live_grants :: "db \<Rightarrow> grant \<rightharpoonup> time" where
  "live_grants db k =
     map_option st_expires_at
       (find (\<lambda>x. grant_of x = k \<and> st_consumed_at x = None) (auth_step_up_tokens db))"

definition grants_ok :: "db \<Rightarrow> bool" where
  "grants_ok db \<longleftrightarrow> distinct (map st_token_hash (auth_step_up_tokens db))"

definition exec_grant :: "env \<Rightarrow> grant_op \<Rightarrow> db \<Rightarrow> bool \<times> db" where
  "exec_grant E op s =
     (case op of
        Issue (h, sid, uid, scope) e \<Rightarrow>
          (case repo_step_up_create h sid uid scope e s of (r, t) \<Rightarrow> (\<not> isl r, t))
      | Consume (h, sid, uid, scope) \<Rightarrow>
          (case repo_step_up_consume E h sid uid scope s of (r, t) \<Rightarrow> (r = Inr True, t))
      | Prune \<Rightarrow> (case repo_step_up_prune E s of (r, t) \<Rightarrow> (\<not> isl r, t)))"

lemma find_only:
  assumes "x \<in> set xs" and "P x" and "\<And>y. y \<in> set xs \<Longrightarrow> P y \<Longrightarrow> y = x"
  shows "find P xs = Some x"
proof (cases "find P xs")
  case None
  with assms(1,2) show ?thesis by (auto simp: find_None_iff')
next
  case (Some y)
  with assms(3) show ?thesis by (auto dest: find_SomeD)
qed

text \<open>With distinct hashes there is at most one row per grant.\<close>

lemma live_grants_Some:
  assumes "grants_ok db"
  shows "live_grants db k = Some e \<longleftrightarrow>
    (\<exists>x \<in> set (auth_step_up_tokens db). grant_of x = k \<and> st_consumed_at x = None \<and> st_expires_at x = e)"
proof
  assume "live_grants db k = Some e"
  then show "\<exists>x \<in> set (auth_step_up_tokens db). grant_of x = k \<and> st_consumed_at x = None \<and> st_expires_at x = e"
    by (auto simp: live_grants_def dest!: find_SomeD)
next
  assume "\<exists>x \<in> set (auth_step_up_tokens db). grant_of x = k \<and> st_consumed_at x = None \<and> st_expires_at x = e"
  then obtain x where x: "x \<in> set (auth_step_up_tokens db)" "grant_of x = k" "st_consumed_at x = None"
    "st_expires_at x = e" by blast
  have inj: "inj_on st_token_hash (set (auth_step_up_tokens db))"
    using assms by (simp add: grants_ok_def distinct_map)
  have only: "y = x" if "y \<in> set (auth_step_up_tokens db)" "grant_of y = k" for y
  proof (rule inj_onD [OF inj _ that(1) x(1)])
    have "fst (grant_of y) = fst (grant_of x)" using that(2) x(2) by simp
    then show "st_token_hash y = st_token_hash x" by (simp add: grant_of_def)
  qed
  have "find (\<lambda>x. grant_of x = k \<and> st_consumed_at x = None) (auth_step_up_tokens db) = Some x"
    by (rule find_only [OF x(1)]) (use x(2,3) only in blast)+
  with x show "live_grants db k = Some e" by (simp add: live_grants_def)
qed

lemma live_eqI:
  assumes "\<And>k e. f k = Some e \<longleftrightarrow> g k = Some e" shows "f = g"
  using assms by (intro ext) (metis option.exhaust)

lemma exec_issue:
  assumes "grants_ok s" and "repo_step_up_create h sid uid scope e s = (r, t)"
  shows "grants_ok t \<and> grant_step n (live_grants s) (Issue (h, sid, uid, scope) e) (\<not> isl r) (live_grants t)"
proof (cases r)
  case (Inl err)
  with assms(2) have "t = s"
    by (auto simp: repo_step_up_create_def bind_def gets_def ensure_def throw_def ret_def modify_def
        split: if_splits)
  with assms(1) Inl show ?thesis by (simp add: issue_refused)
next
  case (Inr x)
  with assms(2) have fresh: "h \<notin> st_token_hash ` set (auth_step_up_tokens s)"
    and t: "t = auth_step_up_tokens_update (\<lambda>ts. ts @
       [\<lparr>st_token_hash = h, st_session_id = sid, st_user_id = uid, st_scope = scope,
         st_expires_at = e, st_consumed_at = None\<rparr>]) s"
    by (auto simp: repo_step_up_create_def ok_iff)
  from assms(1) fresh have ok: "grants_ok t" by (simp add: grants_ok_def t)
  have live: "live_grants t k = Some e' \<longleftrightarrow>
      live_grants s k = Some e' \<or> k = (h, sid, uid, scope) \<and> e' = e" for k e'
    unfolding live_grants_Some [OF ok] live_grants_Some [OF assms(1)] unfolding t by (auto simp: grant_of_def)
  have new: "live_grants s (h, sid, uid, scope) = None"
    using fresh by (auto simp: live_grants_def find_None_iff' grant_of_def)
  then have "live_grants t = (live_grants s)((h, sid, uid, scope) \<mapsto> e)"
    by (intro live_eqI) (auto simp: live)
  with new show ?thesis using ok Inr by (simp add: issued)
qed

lemma exec_consume:
  assumes "grants_ok s" and "repo_step_up_consume E h sid uid scope s = (r, t)"
  shows "grants_ok t \<and>
    grant_step (now E) (live_grants s) (Consume (h, sid, uid, scope)) (r = Inr True) (live_grants t)"
proof -
  let ?P = "step_up_usable E h sid uid scope" and ?k = "(h, sid, uid, scope)"
  have r: "r = Inr (rows_affected ?P (auth_step_up_tokens s) = 1)"
    and t: "t = auth_step_up_tokens_update (update_where ?P (\<lambda>x. x\<lparr>st_consumed_at := Some (now E)\<rparr>)) s"
    using assms(2) by (auto simp: repo_step_up_consume_def bind_def gets_def modify_def ret_def)
  have ok: "grants_ok t" using assms(1) by (simp add: grants_ok_def t)
  have P: "?P x \<longleftrightarrow> grant_of x = ?k \<and> st_consumed_at x = None \<and> now E < st_expires_at x" for x
    by (auto simp: step_up_usable_def grant_of_def)
  have "distinct (map st_token_hash (filter ?P (auth_step_up_tokens s)))"
    using assms(1) by (simp add: grants_ok_def distinct_map_filter)
  moreover have "set (map st_token_hash (filter ?P (auth_step_up_tokens s))) \<subseteq> {h}"
    by (auto simp: step_up_usable_def)
  ultimately have "length (map st_token_hash (filter ?P (auth_step_up_tokens s))) \<le> 1"
    by (metis card.empty card_insert_disjoint card_mono distinct_card empty_iff finite.emptyI finite_insert One_nat_def)
  then have le: "rows_affected ?P (auth_step_up_tokens s) \<le> 1" by (simp add: rows_affected_def)
  have one: "rows_affected ?P (auth_step_up_tokens s) = 1 \<longleftrightarrow> (\<exists>x \<in> set (auth_step_up_tokens s). ?P x)"
    unfolding rows_affected_pos [symmetric] using le by linarith
  have upd: "grant_of (if ?P x then x\<lparr>st_consumed_at := Some (now E)\<rparr> else x) = grant_of x" for x
    by (simp add: grant_of_def)
  have live: "live_grants t k = Some e \<longleftrightarrow>
      live_grants s k = Some e \<and> \<not> (k = ?k \<and> now E < e)" for k e
    unfolding live_grants_Some [OF ok] live_grants_Some [OF assms(1)] unfolding t
    by (auto simp: update_where_def P grant_of_def)
  show ?thesis
  proof (cases "\<exists>e. live_grants s ?k = Some e \<and> now E < e")
    case True
    then obtain e where e: "live_grants s ?k = Some e" "now E < e" by blast
    then have "live_grants t = (live_grants s)(?k := None)"
      by (intro live_eqI) (auto simp: live)
    moreover have "r = Inr True"
      using e unfolding r one live_grants_Some [OF assms(1)] by (auto simp: P)
    ultimately show ?thesis using ok e by (simp add: consumed)
  next
    case False
    then have "live_grants t = live_grants s" by (intro live_eqI) (auto simp: live)
    moreover have "r \<noteq> Inr True"
      using False unfolding r one live_grants_Some [OF assms(1)] by (auto simp: P)
    ultimately show ?thesis using ok False by (simp add: consume_refused)
  qed
qed

lemma exec_prune:
  assumes "grants_ok s" and "repo_step_up_prune E s = (r, t)"
  shows "grants_ok t \<and> grant_step (now E) (live_grants s) Prune (\<not> isl r) (live_grants t)"
proof -
  let ?P = "\<lambda>x. st_expires_at x < now E - days 1 \<or> before (st_consumed_at x) (now E - days 1)"
  have r: "\<not> isl r" and t: "t = auth_step_up_tokens_update (delete_where ?P) s"
    using assms(2) by (auto simp: repo_step_up_prune_def bind_def gets_def modify_def ret_def Let_def)
  have ok: "grants_ok t" using assms(1) by (simp add: grants_ok_def t delete_where_def distinct_map_filter)
  have live: "live_grants t k = Some e \<longleftrightarrow> live_grants s k = Some e \<and> now E - days 1 \<le> e" for k e
    unfolding live_grants_Some [OF ok] live_grants_Some [OF assms(1)] unfolding t
    by (auto simp: delete_where_def before_def)
  have "live_grants t = live_grants s |` {k. \<exists>e. live_grants s k = Some e \<and> now E - days 1 \<le> e}"
    by (intro live_eqI) (auto simp: live restrict_map_def)
  with ok r show ?thesis using pruned [of "now E" "live_grants s"] by simp
qed

interpretation grants: grant_store live_grants grants_ok exec_grant now
proof (unfold_locales, goal_cases)
  case (1 s E op b t)
  then show ?case
    by (cases op) (auto simp: exec_grant_def split: prod.splits
        dest: exec_issue [where n = "now E"] exec_consume exec_prune)
next
  case (2 s E op b t)
  then show ?case
    by (cases op) (auto simp: exec_grant_def split: prod.splits
        dest: exec_issue [where n = "now E"] exec_consume exec_prune)
qed

text \<open>
  C18. The step-up table refines the abstract store of one-time grants: under the abstraction every
  sequence of create, consume and prune statements, at any times, is a run of the specification
  with the same answers.
\<close>

theorem step_up_refines:
  assumes "grants_ok s" and "run_ops exec_grant now ops s = (tr, t)"
  shows "grant_run (live_grants s) tr (live_grants t)"
  using assms by (rule grants.refines)

definition demo_grant :: grant where
  "demo_grant = (token_hash demo_env (demo_token CHR ''s''), 2, 2, ''users.delete'')"

definition demo_ops :: "(env \<times> grant_op) list" where
  "demo_ops = [(demo_env, Consume demo_grant), (demo_env, Prune), (demo_env, Consume demo_grant)]"

lemma demo_trace:
  "map (snd \<circ> snd) (fst (run_ops exec_grant now demo_ops demo_db)) = [True, True, False]"
  by code_simp

theorem step_up_refines_witness:
  "\<exists>tr t. run_ops exec_grant now demo_ops demo_db = (tr, t) \<and>
     map (snd \<circ> snd) tr = [True, True, False] \<and> grant_run (live_grants demo_db) tr (live_grants t)"
proof -
  obtain tr t where run: "run_ops exec_grant now demo_ops demo_db = (tr, t)" by fastforce
  have "grants_ok demo_db" by (simp add: grants_ok_def demo_db_def)
  from step_up_refines [OF this run] run demo_trace show ?thesis by auto
qed

text \<open>
  In every sequence of statements a grant is consumed successfully at most as often as it is
  issued, counting a grant the table holds at the start.
\<close>

theorem grant_used_once:
  assumes "grants_ok s" and "run_ops exec_grant now ops s = (tr, t)"
  shows "uses k tr \<le> issues k tr + (if live_grants s k = None then 0 else 1)"
  using assms by (rule grants.spent_by_use)

theorem grant_used_once_witness:
  "uses demo_grant (fst (run_ops exec_grant now demo_ops demo_db)) \<le> 1"
proof -
  obtain tr t where run: "run_ops exec_grant now demo_ops demo_db = (tr, t)" by fastforce
  have "grants_ok demo_db" by (simp add: grants_ok_def demo_db_def)
  moreover have "issues demo_grant (fst (run_ops exec_grant now demo_ops demo_db)) = 0"
    by (simp add: issues_def demo_ops_def split: prod.splits)
  ultimately show ?thesis using grant_used_once [OF _ run, of demo_grant] run
    by (auto split: if_splits)
qed

end
