(* ===== verification/Std.thy ===== *)
theory Std
  imports Text "HOL-Library.Sublist" "HOL-Library.List_Lexorder" "HOL-Library.Char_ord"
begin

text \<open>
  The parts of the Rust standard library that the configuration of the backend and the audit
  pipeline tool use: \<open>Result\<close> without state, the ordered collections \<open>BTreeMap\<close> and
  \<open>BTreeSet\<close> as lists in key order, and further operations on \<open>str\<close>. Byte order of strings is
  the lexicographic order of \<open>HOL-Library\<close>.
\<close>

section \<open>Results\<close>

definition and_then :: "'e + 'a \<Rightarrow> ('a \<Rightarrow> 'e + 'b) \<Rightarrow> 'e + 'b" where
  "and_then r k = (case r of Inl e \<Rightarrow> Inl e | Inr x \<Rightarrow> k x)"

definition or_err :: "'a option \<Rightarrow> 'e \<Rightarrow> 'e + 'a" where
  "or_err r e = (case r of None \<Rightarrow> Inl e | Some x \<Rightarrow> Inr x)"

text \<open>\<open>if condition { bail!(error) }\<close>, with the condition under which the code goes on.\<close>

definition require :: "bool \<Rightarrow> 'e \<Rightarrow> 'e + unit" where
  "require b e = (if b then Inr () else Inl e)"

text \<open>Statements with a question mark, one after the other: the first error is returned.\<close>

fun checks :: "('e + unit) list \<Rightarrow> 'e + unit" where
  "checks [] = Inr ()"
| "checks (r # rs) = (case r of Inl e \<Rightarrow> Inl e | Inr _ \<Rightarrow> checks rs)"

fun check_all :: "('x \<Rightarrow> 'e + unit) \<Rightarrow> 'x list \<Rightarrow> 'e + unit" where
  "check_all f [] = Inr ()"
| "check_all f (x # xs) = (case f x of Inl e \<Rightarrow> Inl e | Inr _ \<Rightarrow> check_all f xs)"

fun map_result :: "('x \<Rightarrow> 'e + 'y) \<Rightarrow> 'x list \<Rightarrow> 'e + 'y list" where
  "map_result f [] = Inr []"
| "map_result f (x # xs) =
     (case f x of Inl e \<Rightarrow> Inl e
      | Inr y \<Rightarrow> (case map_result f xs of Inl e \<Rightarrow> Inl e | Inr ys \<Rightarrow> Inr (y # ys)))"

definition check_opt :: "('x \<Rightarrow> 'e + unit) \<Rightarrow> 'x option \<Rightarrow> 'e + unit" where
  "check_opt f r = (case r of None \<Rightarrow> Inr () | Some x \<Rightarrow> f x)"

named_theorems result_iff
  \<open>a result is \<open>Ok\<close> exactly when its parts are; rewrites checks into conjunctions\<close>

lemma and_then_ok [result_iff]: "and_then r k = Inr y \<longleftrightarrow> (\<exists>x. r = Inr x \<and> k x = Inr y)"
  by (auto simp: and_then_def split: sum.splits)

lemma or_err_ok [result_iff]: "or_err r e = Inr x \<longleftrightarrow> r = Some x"
  by (auto simp: or_err_def split: option.splits)

lemma require_ok [result_iff]: "require b e = Inr u \<longleftrightarrow> b"
  by (simp add: require_def)

lemma checks_ok [result_iff]: "checks rs = Inr u \<longleftrightarrow> (\<forall>r \<in> set rs. r = Inr ())"
  by (induction rs) (auto split: sum.splits)

lemma check_all_ok [result_iff]: "check_all f xs = Inr u \<longleftrightarrow> (\<forall>x \<in> set xs. f x = Inr ())"
  by (induction xs) (auto split: sum.splits)

lemma check_opt_ok [result_iff]: "check_opt f r = Inr u \<longleftrightarrow> (\<forall>x. r = Some x \<longrightarrow> f x = Inr ())"
  by (auto simp: check_opt_def split: option.splits)

lemma case_unit_ok [result_iff]:
  "(case r of Inl e \<Rightarrow> Inl e | Inr (_ :: unit) \<Rightarrow> k) = Inr y \<longleftrightarrow> r = Inr () \<and> k = Inr y"
  by (cases r) auto

lemma map_result_ok [result_iff]:
  "map_result f xs = Inr ys \<longleftrightarrow> list_all2 (\<lambda>x y. f x = Inr y) xs ys"
proof (induction xs arbitrary: ys)
  case (Cons x xs)
  from Cons.IH [of "tl ys"] show ?case by (cases ys) (auto split: sum.splits)
qed auto

lemma if_result [result_iff]:
  "(if b then Inl e else r) = Inr y \<longleftrightarrow> \<not> b \<and> r = Inr y"
  "(if b then r else Inl e) = Inr y \<longleftrightarrow> b \<and> r = Inr y"
  by auto

lemma and_then_okE: "and_then r k = Inr y \<Longrightarrow> (\<And>x. r = Inr x \<Longrightarrow> k x = Inr y \<Longrightarrow> P) \<Longrightarrow> P"
  by (auto simp: and_then_ok)

lemma if_okE: "(if b then Inl e else r) = Inr y \<Longrightarrow> (\<not> b \<Longrightarrow> r = Inr y \<Longrightarrow> P) \<Longrightarrow> P"
  by (auto split: if_splits)

text \<open>Taking an accepted run of statements apart, one statement at a time.\<close>

lemmas result_elims = and_then_okE if_okE

lemmas result_defs = and_then_def or_err_def require_def check_opt_def

section \<open>Ordered collections\<close>

type_synonym 'v btree = "(string \<times> 'v) list"

fun bt_insert :: "string \<Rightarrow> 'v \<Rightarrow> 'v btree \<Rightarrow> 'v btree" where
  "bt_insert k v [] = [(k, v)]"
| "bt_insert k v ((k', w) # m) =
     (if k < k' then (k, v) # (k', w) # m
      else if k = k' then (k, v) # m else (k', w) # bt_insert k v m)"

abbreviation bt_get :: "'v btree \<Rightarrow> string \<Rightarrow> 'v option" where
  "bt_get m k \<equiv> map_of m k"

abbreviation bt_keys :: "'v btree \<Rightarrow> string list" where
  "bt_keys m \<equiv> map fst m"

abbreviation bt_values :: "'v btree \<Rightarrow> 'v list" where
  "bt_values m \<equiv> map snd m"

abbreviation bt_wf :: "'v btree \<Rightarrow> bool" where
  "bt_wf m \<equiv> sorted_wrt (<) (map fst m)"

fun bs_insert :: "string \<Rightarrow> string list \<Rightarrow> string list" where
  "bs_insert k [] = [k]"
| "bs_insert k (x # xs) =
     (if k < x then k # x # xs else if k = x then x # xs else x # bs_insert k xs)"

definition bs_extend :: "string list \<Rightarrow> string list \<Rightarrow> string list" where
  "bs_extend s xs = fold bs_insert xs s"

definition bs_collect :: "string list \<Rightarrow> string list" where
  "bs_collect xs = bs_extend [] xs"

abbreviation bs_wf :: "string list \<Rightarrow> bool" where
  "bs_wf s \<equiv> sorted_wrt (<) s"

lemma bt_get_insert [simp]: "bt_get (bt_insert k v m) = (bt_get m)(k \<mapsto> v)"
  by (induction m) auto

lemma bt_keys_insert [simp]: "set (bt_keys (bt_insert k v m)) = insert k (set (bt_keys m))"
  by (induction k v m rule: bt_insert.induct) auto

lemma bt_wf_insert [simp]: "bt_wf m \<Longrightarrow> bt_wf (bt_insert k v m)"
proof (induction k v m rule: bt_insert.induct)
  case (2 k v k' w m)
  then show ?case
    using bt_keys_insert [of k v m] by (auto simp del: bt_keys_insert)
qed simp

lemma set_bs_insert [simp]: "set (bs_insert k s) = insert k (set s)"
  by (induction s) auto

lemma bs_wf_insert [simp]: "bs_wf s \<Longrightarrow> bs_wf (bs_insert k s)"
  by (induction s) auto

lemma set_bs_extend [simp]: "set (bs_extend s xs) = set s \<union> set xs"
  unfolding bs_extend_def by (induction xs arbitrary: s) auto

lemma bs_wf_extend [simp]: "bs_wf s \<Longrightarrow> bs_wf (bs_extend s xs)"
  unfolding bs_extend_def by (induction xs arbitrary: s) auto

lemma set_bs_collect [simp]: "set (bs_collect xs) = set xs"
  by (simp add: bs_collect_def)

lemma bs_wf_collect [simp]: "bs_wf (bs_collect xs)"
  by (simp add: bs_collect_def)

lemma bt_get_in: "bt_get m k = Some v \<Longrightarrow> (k, v) \<in> set m"
  by (rule map_of_SomeD)

text \<open>
  \<open>HashSet::insert\<close> in a loop that fails on the first repetition: the list is free of duplicates
  exactly when the loop passes.
\<close>

fun first_duplicate :: "'a list \<Rightarrow> 'a list \<Rightarrow> 'a option" where
  "first_duplicate seen [] = None"
| "first_duplicate seen (x # xs) =
     (if x \<in> set seen then Some x else first_duplicate (x # seen) xs)"

lemma first_duplicate_None:
  "first_duplicate seen xs = None \<longleftrightarrow> distinct xs \<and> set xs \<inter> set seen = {}"
  by (induction xs arbitrary: seen) auto

section \<open>Strings\<close>

abbreviation starts_with :: "string \<Rightarrow> string \<Rightarrow> bool" where
  "starts_with s p \<equiv> prefix p s"

abbreviation ends_with :: "string \<Rightarrow> string \<Rightarrow> bool" where
  "ends_with s p \<equiv> suffix p s"

abbreviation contains :: "string \<Rightarrow> string \<Rightarrow> bool" where
  "contains s t \<equiv> sublist t s"

definition strip_prefix :: "string \<Rightarrow> string \<Rightarrow> string option" where
  "strip_prefix p s = (if prefix p s then Some (drop (length p) s) else None)"

definition strip_suffix :: "string \<Rightarrow> string \<Rightarrow> string option" where
  "strip_suffix p s = (if suffix p s then Some (take (length s - length p) s) else None)"

text \<open>\<open>str::find\<close> with a character: the offset of the first occurrence.\<close>

fun find_char :: "char \<Rightarrow> string \<Rightarrow> nat option" where
  "find_char c [] = None"
| "find_char c (x # xs) = (if x = c then Some 0 else map_option Suc (find_char c xs))"

text \<open>\<open>str::replace\<close> for a pattern that is not empty: occurrences from the left, not overlapping.\<close>

function replace_all :: "string \<Rightarrow> string \<Rightarrow> string \<Rightarrow> string" where
  "replace_all p r [] = []"
| "replace_all p r (c # s) =
     (if p \<noteq> [] \<and> prefix p (c # s) then r @ replace_all p r (drop (length p) (c # s))
      else c # replace_all p r s)"
  by pat_completeness auto
termination
  by (relation "measure (\<lambda>(_, _, s). length s)") auto

definition trim_matches :: "(char \<Rightarrow> bool) \<Rightarrow> string \<Rightarrow> string" where
  "trim_matches P s = rev (dropWhile P (rev (dropWhile P s)))"

text \<open>\<open>str::trim_start_matches\<close> with a string pattern that is not empty.\<close>

function trim_start_matches :: "string \<Rightarrow> string \<Rightarrow> string" where
  "trim_start_matches p s =
     (if p \<noteq> [] \<and> prefix p s then trim_start_matches p (drop (length p) s) else s)"
  by pat_completeness auto
termination
  by (relation "measure (\<lambda>(_, s). length s)") (auto simp: prefix_def)

declare trim_start_matches.simps [simp del]

fun join :: "string \<Rightarrow> string list \<Rightarrow> string" where
  "join sep [] = []"
| "join sep [x] = x"
| "join sep (x # y # xs) = x @ sep @ join sep (y # xs)"

text \<open>\<open>str::lines\<close>: split at line feeds, no empty last line, a carriage return at the end dropped.\<close>

definition strip_cr :: "string \<Rightarrow> string" where
  "strip_cr s = (if s \<noteq> [] \<and> last s = CHR 0x0D then butlast s else s)"

definition lines :: "string \<Rightarrow> string list" where
  "lines s =
     (let ps = split_on (CHR 0x0A) s
      in map strip_cr (if last ps = [] then butlast ps else ps))"

section \<open>UTF-8\<close>

text \<open>
  The character at the start of a byte string, as \<open>core::str\<close> decodes it: whether it is well formed
  and how many bytes it takes, for an ill-formed one the bytes that one replacement character
  stands for.
\<close>

definition byte_in :: "nat \<Rightarrow> nat \<Rightarrow> string \<Rightarrow> bool" where
  "byte_in a b s = (case s of [] \<Rightarrow> False | c # _ \<Rightarrow> a \<le> (of_char c :: nat) \<and> (of_char c :: nat) \<le> b)"

definition utf8_tail :: "nat \<Rightarrow> nat \<Rightarrow> nat \<Rightarrow> string \<Rightarrow> bool \<times> nat" where
  "utf8_tail width a b s =
     (if \<not> byte_in a b s then (False, 1)
      else if width \<ge> 3 \<and> \<not> byte_in 0x80 0xBF (drop 1 s) then (False, 2)
      else if width \<ge> 4 \<and> \<not> byte_in 0x80 0xBF (drop 2 s) then (False, 3)
      else (True, width))"

definition utf8_head :: "string \<Rightarrow> bool \<times> nat" where
  "utf8_head s =
     (let t = drop 1 s
      in if byte_in 0 0x7F s then (True, 1)
         else if byte_in 0xC2 0xDF s then utf8_tail 2 0x80 0xBF t
         else if byte_in 0xE0 0xE0 s then utf8_tail 3 0xA0 0xBF t
         else if byte_in 0xED 0xED s then utf8_tail 3 0x80 0x9F t
         else if byte_in 0xE1 0xEF s then utf8_tail 3 0x80 0xBF t
         else if byte_in 0xF0 0xF0 s then utf8_tail 4 0x90 0xBF t
         else if byte_in 0xF1 0xF3 s then utf8_tail 4 0x80 0xBF t
         else if byte_in 0xF4 0xF4 s then utf8_tail 4 0x80 0x8F t
         else (False, 1))"

lemma utf8_head_pos: "0 < snd (utf8_head s)"
  by (simp add: utf8_head_def utf8_tail_def Let_def)

function valid_utf8 :: "string \<Rightarrow> bool" where
  "valid_utf8 s =
     (if s = [] then True
      else if \<not> fst (utf8_head s) then False else valid_utf8 (drop (snd (utf8_head s)) s))"
  by pat_completeness auto
termination
  by (relation "measure length") (auto simp: utf8_head_pos)

function from_utf8_lossy :: "string \<Rightarrow> string" where
  "from_utf8_lossy s =
     (if s = [] then []
      else (if fst (utf8_head s) then take (snd (utf8_head s)) s
            else [CHR 0xEF, CHR 0xBF, CHR 0xBD]) @
           from_utf8_lossy (drop (snd (utf8_head s)) s))"
  by pat_completeness auto
termination
  by (relation "measure length") (auto simp: utf8_head_pos)

declare valid_utf8.simps [simp del] from_utf8_lossy.simps [simp del]

lemma from_utf8_lossy_valid: "valid_utf8 s \<Longrightarrow> from_utf8_lossy s = s"
proof (induction s rule: valid_utf8.induct)
  case (1 s)
  then show ?case
    by (subst from_utf8_lossy.simps) (auto simp: valid_utf8.simps [of s] split: if_splits)
qed

section \<open>JSON\<close>

text \<open>
  A JSON value (\<open>serde_json::Value\<close>), and what a \<open>Serialize\<close> type writes: the members of an object
  are kept in the order they are written. Numbers keep their text.
\<close>

datatype json_value =
    VNull | VBool bool | VNumber string | VString string
  | VArray "json_value list" | VObject "(string \<times> json_value) list"

fun json_get :: "string \<Rightarrow> json_value \<Rightarrow> json_value option" where
  "json_get k (VObject ms) = map_of ms k"
| "json_get k _ = None"

fun json_str :: "json_value \<Rightarrow> string option" where
  "json_str (VString s) = Some s"
| "json_str _ = None"

fun json_array :: "json_value \<Rightarrow> json_value list option" where
  "json_array (VArray xs) = Some xs"
| "json_array _ = None"

definition json_strings :: "string list \<Rightarrow> json_value" where
  "json_strings xs = VArray (map VString xs)"

section \<open>Unsigned numbers\<close>

definition u16_max :: nat where "u16_max = 2 ^ 16 - 1"
definition u32_max :: nat where "u32_max = 2 ^ 32 - 1"
definition u64_max :: nat where "u64_max = 2 ^ 64 - 1"

text \<open>\<open>str::parse\<close> for an unsigned type: an optional plus sign, digits, a value in range.\<close>

definition parse_unsigned :: "nat \<Rightarrow> string \<Rightarrow> nat option" where
  "parse_unsigned hi s =
     (case parse_digits (case s of [] \<Rightarrow> [] | c # cs \<Rightarrow> if c = CHR ''+'' then cs else s) of
        None \<Rightarrow> None | Some n \<Rightarrow> if n \<le> hi then Some n else None)"

definition i32_max :: int where "i32_max = 2 ^ 31 - 1"
definition i32_min :: int where "i32_min = - (2 ^ 31)"

definition parse_i32 :: "string \<Rightarrow> int option" where
  "parse_i32 s =
     (case parse_i64 s of None \<Rightarrow> None
      | Some i \<Rightarrow> if i32_min \<le> i \<and> i \<le> i32_max then Some i else None)"

lemma parse_unsigned_le: "parse_unsigned m s = Some n \<Longrightarrow> n \<le> m"
  by (auto simp: parse_unsigned_def split: option.splits if_splits)

lemma parse_i64_in: "parse_i64 s = Some i \<Longrightarrow> in_i64 i"
  by (auto simp: parse_i64_def Let_def split: option.splits if_splits list.splits prod.splits)

lemma parse_i32_le: "parse_i32 s = Some i \<Longrightarrow> i \<le> i32_max"
  by (auto simp: parse_i32_def split: option.splits if_splits)

section \<open>Facts about strings\<close>

lemma find_char_Some:
  "find_char c s = Some n \<longleftrightarrow> n < length s \<and> s ! n = c \<and> c \<notin> set (take n s)"
proof (induction s arbitrary: n)
  case (Cons x s)
  then show ?case by (cases n) auto
qed simp

lemma find_char_None: "find_char c s = None \<longleftrightarrow> c \<notin> set s"
  by (induction s) auto

lemma find_char_append: "c \<notin> set a \<Longrightarrow> find_char c (a @ c # b) = Some (length a)"
  by (induction a) auto

lemma replace_all_none: "\<not> sublist p s \<Longrightarrow> replace_all p r s = s"
proof (induction s)
  case (Cons c s)
  then have "\<not> prefix p (c # s)" and "\<not> sublist p s" by (simp_all add: sublist_Cons_right)
  with Cons.IH show ?case by simp
qed simp

lemma set_split_on: "p \<in> set (split_on c s) \<Longrightarrow> c \<notin> set p"
  by (induction s arbitrary: p) (auto split: list.splits if_splits)

lemma split_on_nonempty [simp]: "split_on c s \<noteq> []"
  by (induction s) (auto split: list.splits)

lemma length_split_on: "length (split_on c s) = Suc (count_list s c)"
  by (induction s) (auto split: list.splits)

end
