(* ===== verification/App_Config.thy ===== *)
theory App_Config
  imports Std Repo_Mfa
begin

text \<open>
  The runtime configuration of the server (\<open>backend/src/config.rs\<close>), the pool configuration
  (\<open>backend/src/db.rs\<close>) and what \<open>backend/src/main.rs\<close> builds from them. The environment is a map
  from names to texts; the parsers of networks, header values, base64 and addresses and the
  construction of the relying party are crates, given by \<open>config_crates\<close>.
\<close>

section \<open>Data\<close>

datatype app_environment = Development | Test | Production

definition environment_str :: "app_environment \<Rightarrow> string" where
  "environment_str e =
     (case e of Development \<Rightarrow> ''development'' | Test \<Rightarrow> ''test'' | Production \<Rightarrow> ''production'')"

datatype log_format = Pretty | Json

record pool_config =
  pl_max_connections :: nat
  pl_min_connections :: nat
  pl_acquire_timeout_secs :: nat
  pl_connect_timeout_secs :: nat
  pl_idle_timeout_secs :: nat
  pl_max_lifetime_secs :: nat
  pl_statement_timeout_ms :: nat

record pool_values =
  pv_max_connections :: "string option"
  pv_min_connections :: "string option"
  pv_acquire_timeout_secs :: "string option"
  pv_connect_timeout_secs :: "string option"
  pv_idle_timeout_secs :: "string option"
  pv_max_lifetime_secs :: "string option"
  pv_statement_timeout_ms :: "string option"

record 'net app_config =
  ac_database_url :: string
  ac_database_pool :: pool_config
  ac_auto_migrate :: bool
  ac_port :: nat
  ac_session_ttl_secs :: int
  ac_session_idle_timeout_secs :: int
  ac_persistent_session_ttl_secs :: int
  ac_persistent_session_idle_timeout_secs :: int
  ac_max_sessions_per_user :: int
  ac_login_max_failures :: int
  ac_login_ip_max_failures :: int
  ac_login_account_ip_max_failures :: int
  ac_login_failure_window_secs :: int
  ac_login_lockout_secs :: int
  ac_trusted_proxy_cidrs :: "'net list"
  ac_environment :: app_environment
  ac_log_format :: log_format
  ac_service_name :: string
  ac_mfa_encryption_key :: "byte list"
  ac_webauthn_rp_id :: string
  ac_webauthn_rp_origin :: string
  ac_webauthn_rp_name :: string
  ac_allowed_origins :: "string list"

record config_values =
  cv_database_url :: "string option"
  cv_pool :: pool_values
  cv_auto_migrate :: "string option"
  cv_port :: "string option"
  cv_session_ttl_secs :: "string option"
  cv_session_idle_timeout_secs :: "string option"
  cv_persistent_session_ttl_secs :: "string option"
  cv_persistent_session_idle_timeout_secs :: "string option"
  cv_max_sessions_per_user :: "string option"
  cv_login_max_failures :: "string option"
  cv_login_ip_max_failures :: "string option"
  cv_login_account_ip_max_failures :: "string option"
  cv_login_failure_window_secs :: "string option"
  cv_login_lockout_secs :: "string option"
  cv_trusted_proxy_cidrs :: "string option"
  cv_app_env :: "string option"
  cv_cors_allowed_origins :: "string option"
  cv_log_format :: "string option"
  cv_service_name :: "string option"
  cv_mfa_encryption_key :: "string option"
  cv_webauthn_rp_id :: "string option"
  cv_webauthn_rp_origin :: "string option"
  cv_webauthn_rp_name :: "string option"

record 'net config_crates =
  cc_parse_net :: "string \<Rightarrow> 'net option"
  cc_header_value :: "string \<Rightarrow> bool"
  cc_base64 :: "string \<Rightarrow> byte list option"
  cc_sha256 :: "string \<Rightarrow> byte list"
  cc_parse_url :: "string \<Rightarrow> bool"
  cc_webauthn :: "string \<Rightarrow> string \<Rightarrow> string \<Rightarrow> bool"
  cc_mfa :: "byte list \<Rightarrow> string \<Rightarrow> string \<Rightarrow> string \<Rightarrow> nat \<Rightarrow> mfa_config option"

datatype app_config_error =
    DatabaseUrlMissing | AppEnvInvalid string | NotPositive string | NotNonnegative string
  | MinExceedsMax | NotBool string string | PortInvalid | IdleExceedsTtl | PersistentIdleExceedsTtl
  | ProxyInvalid string | OriginWildcard | OriginInvalid string | ProductionOrigins
  | LogFormatInvalid string | ServiceNameInvalid | KeyNotBase64 | ProductionKey | KeyLength
  | WebauthnEmpty | StepZero | OriginNotUrl | RelyingPartyInvalid | KeyRejected

section \<open>Reading values\<close>

definition value_or ::
    "(string \<Rightarrow> 'a option) \<Rightarrow> string option \<Rightarrow> 'a \<Rightarrow> app_config_error \<Rightarrow> app_config_error + 'a" where
  "value_or parse v fallback e =
     (case v of None \<Rightarrow> Inr fallback | Some s \<Rightarrow> or_err (parse s) e)"

definition positive_int ::
    "(string \<Rightarrow> int option) \<Rightarrow> string \<Rightarrow> string option \<Rightarrow> int \<Rightarrow> app_config_error + int" where
  "positive_int parse name v fallback =
     and_then (value_or parse v fallback (NotPositive name)) (\<lambda>n.
     if n \<le> 0 then Inl (NotPositive name) else Inr n)"

definition positive_i64 :: "string \<Rightarrow> string option \<Rightarrow> int \<Rightarrow> app_config_error + int" where
  "positive_i64 = positive_int parse_i64"

definition positive_i32 :: "string \<Rightarrow> string option \<Rightarrow> int \<Rightarrow> app_config_error + int" where
  "positive_i32 = positive_int parse_i32"

definition positive_unsigned :: "nat \<Rightarrow> string \<Rightarrow> string option \<Rightarrow> nat \<Rightarrow> app_config_error + nat" where
  "positive_unsigned hi name v fallback =
     and_then (value_or (parse_unsigned hi) v fallback (NotPositive name)) (\<lambda>n.
     if n = 0 then Inl (NotPositive name) else Inr n)"

definition positive_u32 :: "string \<Rightarrow> string option \<Rightarrow> nat \<Rightarrow> app_config_error + nat" where
  "positive_u32 = positive_unsigned u32_max"

definition positive_u64 :: "string \<Rightarrow> string option \<Rightarrow> nat \<Rightarrow> app_config_error + nat" where
  "positive_u64 = positive_unsigned u64_max"

definition nonnegative_u32 :: "string \<Rightarrow> string option \<Rightarrow> nat \<Rightarrow> app_config_error + nat" where
  "nonnegative_u32 name v fallback = value_or (parse_unsigned u32_max) v fallback (NotNonnegative name)"

definition parse_bool :: "string \<Rightarrow> string option \<Rightarrow> bool \<Rightarrow> app_config_error + bool" where
  "parse_bool name v fallback =
     (case v of
        None \<Rightarrow> Inr fallback
      | Some s \<Rightarrow>
          if s \<in> {''true'', ''1''} then Inr True
          else if s \<in> {''false'', ''0''} then Inr False else Inl (NotBool name s))"

text \<open>The entries of a comma separated list: trimmed, and not empty.\<close>

definition list_entries :: "string option \<Rightarrow> string list" where
  "list_entries v =
     filter (\<lambda>s. s \<noteq> []) (map trim (split_on CHR '','' (case v of None \<Rightarrow> [] | Some s \<Rightarrow> s)))"

definition parse_origins :: "'net config_crates \<Rightarrow> string option \<Rightarrow> app_config_error + string list" where
  "parse_origins C v =
     map_result (\<lambda>origin.
       if origin = ''*'' then Inl OriginWildcard
       else if cc_header_value C origin then Inr origin else Inl (OriginInvalid origin))
       (list_entries v)"

definition parse_trusted_proxy_cidrs ::
    "'net config_crates \<Rightarrow> string option \<Rightarrow> app_config_error + 'net list" where
  "parse_trusted_proxy_cidrs C v =
     map_result (\<lambda>cidr. or_err (cc_parse_net C cidr) (ProxyInvalid cidr)) (list_entries v)"

section \<open>The pool\<close>

definition default_pool :: pool_config where
  "default_pool =
     \<lparr>pl_max_connections = 10, pl_min_connections = 1, pl_acquire_timeout_secs = 5,
      pl_connect_timeout_secs = 10, pl_idle_timeout_secs = 600, pl_max_lifetime_secs = 1800,
      pl_statement_timeout_ms = 30000\<rparr>"

definition pool_values_from_env :: "(string \<Rightarrow> string option) \<Rightarrow> pool_values" where
  "pool_values_from_env env =
     \<lparr>pv_max_connections = env ''DB_MAX_CONNECTIONS'',
      pv_min_connections = env ''DB_MIN_CONNECTIONS'',
      pv_acquire_timeout_secs = env ''DB_ACQUIRE_TIMEOUT_SECS'',
      pv_connect_timeout_secs = env ''DB_CONNECT_TIMEOUT_SECS'',
      pv_idle_timeout_secs = env ''DB_IDLE_TIMEOUT_SECS'',
      pv_max_lifetime_secs = env ''DB_MAX_LIFETIME_SECS'',
      pv_statement_timeout_ms = env ''DB_STATEMENT_TIMEOUT_MS''\<rparr>"

definition pool_from_values :: "pool_values \<Rightarrow> app_config_error + pool_config" where
  "pool_from_values v =
     and_then (positive_u32 ''DB_MAX_CONNECTIONS'' (pv_max_connections v)
         (pl_max_connections default_pool)) (\<lambda>max_connections.
     and_then (nonnegative_u32 ''DB_MIN_CONNECTIONS'' (pv_min_connections v)
         (pl_min_connections default_pool)) (\<lambda>min_connections.
     and_then (positive_u64 ''DB_ACQUIRE_TIMEOUT_SECS'' (pv_acquire_timeout_secs v)
         (pl_acquire_timeout_secs default_pool)) (\<lambda>acquire_timeout_secs.
     and_then (positive_u64 ''DB_CONNECT_TIMEOUT_SECS'' (pv_connect_timeout_secs v)
         (pl_connect_timeout_secs default_pool)) (\<lambda>connect_timeout_secs.
     and_then (positive_u64 ''DB_IDLE_TIMEOUT_SECS'' (pv_idle_timeout_secs v)
         (pl_idle_timeout_secs default_pool)) (\<lambda>idle_timeout_secs.
     and_then (positive_u64 ''DB_MAX_LIFETIME_SECS'' (pv_max_lifetime_secs v)
         (pl_max_lifetime_secs default_pool)) (\<lambda>max_lifetime_secs.
     and_then (positive_u64 ''DB_STATEMENT_TIMEOUT_MS'' (pv_statement_timeout_ms v)
         (pl_statement_timeout_ms default_pool)) (\<lambda>statement_timeout_ms.
     if min_connections > max_connections then Inl MinExceedsMax
     else Inr
       \<lparr>pl_max_connections = max_connections, pl_min_connections = min_connections,
        pl_acquire_timeout_secs = acquire_timeout_secs,
        pl_connect_timeout_secs = connect_timeout_secs,
        pl_idle_timeout_secs = idle_timeout_secs, pl_max_lifetime_secs = max_lifetime_secs,
        pl_statement_timeout_ms = statement_timeout_ms\<rparr>)))))))"

definition pool_from_env :: "(string \<Rightarrow> string option) \<Rightarrow> app_config_error + pool_config" where
  "pool_from_env env = pool_from_values (pool_values_from_env env)"

section \<open>The configuration\<close>

definition values_from_env :: "(string \<Rightarrow> string option) \<Rightarrow> config_values" where
  "values_from_env env =
     \<lparr>cv_database_url = env ''DATABASE_URL'', cv_pool = pool_values_from_env env,
      cv_auto_migrate = env ''AUTO_MIGRATE'', cv_port = env ''PORT'',
      cv_session_ttl_secs = env ''SESSION_TTL_SECS'',
      cv_session_idle_timeout_secs = env ''SESSION_IDLE_TIMEOUT_SECS'',
      cv_persistent_session_ttl_secs = env ''PERSISTENT_SESSION_TTL_SECS'',
      cv_persistent_session_idle_timeout_secs = env ''PERSISTENT_SESSION_IDLE_TIMEOUT_SECS'',
      cv_max_sessions_per_user = env ''MAX_SESSIONS_PER_USER'',
      cv_login_max_failures = env ''LOGIN_MAX_FAILURES'',
      cv_login_ip_max_failures = env ''LOGIN_IP_MAX_FAILURES'',
      cv_login_account_ip_max_failures = env ''LOGIN_ACCOUNT_IP_MAX_FAILURES'',
      cv_login_failure_window_secs = env ''LOGIN_FAILURE_WINDOW_SECS'',
      cv_login_lockout_secs = env ''LOGIN_LOCKOUT_SECS'',
      cv_trusted_proxy_cidrs = env ''TRUSTED_PROXY_CIDRS'', cv_app_env = env ''APP_ENV'',
      cv_cors_allowed_origins = env ''CORS_ALLOWED_ORIGINS'', cv_log_format = env ''LOG_FORMAT'',
      cv_service_name = env ''SERVICE_NAME'', cv_mfa_encryption_key = env ''MFA_ENCRYPTION_KEY'',
      cv_webauthn_rp_id = env ''WEBAUTHN_RP_ID'', cv_webauthn_rp_origin = env ''WEBAUTHN_RP_ORIGIN'',
      cv_webauthn_rp_name = env ''WEBAUTHN_RP_NAME''\<rparr>"

definition or_default :: "string option \<Rightarrow> string \<Rightarrow> string" where
  "or_default v d = (case v of None \<Rightarrow> d | Some s \<Rightarrow> s)"

definition parse_environment :: "string option \<Rightarrow> app_config_error + app_environment" where
  "parse_environment v =
     (let s = or_default v ''development''
      in if s \<in> {''development'', ''dev''} then Inr Development
         else if s = ''test'' then Inr Test
         else if s \<in> {''production'', ''prod''} then Inr Production
         else Inl (AppEnvInvalid s))"

definition parse_port :: "string option \<Rightarrow> app_config_error + nat" where
  "parse_port v =
     and_then (or_err (parse_unsigned u16_max (or_default v ''8080'')) PortInvalid) (\<lambda>port.
     if port = 0 then Inl PortInvalid else Inr port)"

definition parse_log_format :: "app_environment \<Rightarrow> string option \<Rightarrow> app_config_error + log_format" where
  "parse_log_format e v =
     (case v of
        Some s \<Rightarrow>
          if s = ''pretty'' then Inr Pretty
          else if s = ''json'' then Inr Json else Inl (LogFormatInvalid s)
      | None \<Rightarrow> Inr (if e = Production then Json else Pretty))"

definition is_name_char :: "char \<Rightarrow> bool" where
  "is_name_char c \<longleftrightarrow> is_ascii_alphanumeric c \<or> c \<in> {CHR ''-'', CHR ''_'', CHR ''.''}"

definition valid_service_name :: "string \<Rightarrow> bool" where
  "valid_service_name s \<longleftrightarrow> \<not> (s = [] \<or> length s > 64 \<or> \<not> list_all is_name_char s)"

definition parse_mfa_key ::
    "'net config_crates \<Rightarrow> app_environment \<Rightarrow> string option \<Rightarrow> app_config_error + byte list" where
  "parse_mfa_key C e v =
     and_then
       (case (case v of None \<Rightarrow> None | Some s \<Rightarrow> if s = [] then None else Some s) of
          Some s \<Rightarrow> or_err (cc_base64 C s) KeyNotBase64
        | None \<Rightarrow>
            if e = Production then Inl ProductionKey
            else Inr (cc_sha256 C ''arc-admin-development-only-mfa-key'')) (\<lambda>key.
     if length key \<noteq> 32 then Inl KeyLength else Inr key)"

definition from_values ::
    "'net config_crates \<Rightarrow> config_values \<Rightarrow> app_config_error + 'net app_config" where
  "from_values C v =
     and_then (or_err (cv_database_url v) DatabaseUrlMissing) (\<lambda>database_url.
     and_then (parse_environment (cv_app_env v)) (\<lambda>environment.
     and_then (pool_from_values (cv_pool v)) (\<lambda>database_pool.
     and_then (parse_bool ''AUTO_MIGRATE'' (cv_auto_migrate v) (environment \<noteq> Production)) (\<lambda>auto_migrate.
     and_then (parse_port (cv_port v)) (\<lambda>port.
     and_then (positive_i64 ''SESSION_TTL_SECS'' (cv_session_ttl_secs v) 28800) (\<lambda>ttl.
     and_then (positive_i64 ''SESSION_IDLE_TIMEOUT_SECS''
         (cv_session_idle_timeout_secs v) 1800) (\<lambda>idle.
     and_then (positive_i64 ''PERSISTENT_SESSION_TTL_SECS''
         (cv_persistent_session_ttl_secs v) 2592000) (\<lambda>persistent_ttl.
     and_then (positive_i64 ''PERSISTENT_SESSION_IDLE_TIMEOUT_SECS''
         (cv_persistent_session_idle_timeout_secs v) 604800) (\<lambda>persistent_idle.
     and_then (positive_i64 ''MAX_SESSIONS_PER_USER'' (cv_max_sessions_per_user v) 10) (\<lambda>max_sessions.
     and_then (positive_i32 ''LOGIN_MAX_FAILURES'' (cv_login_max_failures v) 5) (\<lambda>max_failures.
     and_then (positive_i32 ''LOGIN_IP_MAX_FAILURES'' (cv_login_ip_max_failures v) 50) (\<lambda>ip_max.
     and_then (positive_i32 ''LOGIN_ACCOUNT_IP_MAX_FAILURES''
         (cv_login_account_ip_max_failures v) 5) (\<lambda>account_ip_max.
     and_then (positive_i64 ''LOGIN_FAILURE_WINDOW_SECS''
         (cv_login_failure_window_secs v) 900) (\<lambda>window.
     and_then (positive_i64 ''LOGIN_LOCKOUT_SECS'' (cv_login_lockout_secs v) 900) (\<lambda>lockout.
     and_then (parse_trusted_proxy_cidrs C (cv_trusted_proxy_cidrs v)) (\<lambda>cidrs.
     if idle > ttl then Inl IdleExceedsTtl
     else if persistent_idle > persistent_ttl then Inl PersistentIdleExceedsTtl
     else
     and_then (parse_origins C (cv_cors_allowed_origins v)) (\<lambda>origins.
     if environment = Production \<and> origins = [] then Inl ProductionOrigins
     else
     and_then (parse_log_format environment (cv_log_format v)) (\<lambda>format.
     let service_name = or_default (cv_service_name v) ''arc-admin-backend''
     in if \<not> valid_service_name service_name then Inl ServiceNameInvalid
     else
     and_then (parse_mfa_key C environment (cv_mfa_encryption_key v)) (\<lambda>key.
     let rp_id = or_default (cv_webauthn_rp_id v) ''localhost'';
         rp_origin = or_default (cv_webauthn_rp_origin v) ''http://localhost:4200'';
         rp_name = or_default (cv_webauthn_rp_name v) ''Arc Admin''
     in if rp_id = [] \<or> rp_origin = [] \<or> rp_name = [] then Inl WebauthnEmpty
     else Inr
       \<lparr>ac_database_url = database_url, ac_database_pool = database_pool,
        ac_auto_migrate = auto_migrate, ac_port = port, ac_session_ttl_secs = ttl,
        ac_session_idle_timeout_secs = idle, ac_persistent_session_ttl_secs = persistent_ttl,
        ac_persistent_session_idle_timeout_secs = persistent_idle,
        ac_max_sessions_per_user = max_sessions, ac_login_max_failures = max_failures,
        ac_login_ip_max_failures = ip_max, ac_login_account_ip_max_failures = account_ip_max,
        ac_login_failure_window_secs = window, ac_login_lockout_secs = lockout,
        ac_trusted_proxy_cidrs = cidrs, ac_environment = environment, ac_log_format = format,
        ac_service_name = service_name, ac_mfa_encryption_key = key, ac_webauthn_rp_id = rp_id,
        ac_webauthn_rp_origin = rp_origin, ac_webauthn_rp_name = rp_name,
        ac_allowed_origins = origins\<rparr>)))))))))))))))))))"

definition app_config_from_env ::
    "'net config_crates \<Rightarrow> (string \<Rightarrow> string option) \<Rightarrow> app_config_error + 'net app_config" where
  "app_config_from_env C env = from_values C (values_from_env env)"

text \<open>The format of the log before the configuration is read.\<close>

definition bootstrap_log_format :: "(string \<Rightarrow> string option) \<Rightarrow> log_format" where
  "bootstrap_log_format env =
     (if env ''LOG_FORMAT'' = Some ''json'' then Json
      else if env ''LOG_FORMAT'' = Some ''pretty'' then Pretty
      else if env ''APP_ENV'' \<in> {Some ''production'', Some ''prod''} then Json else Pretty)"

section \<open>What the server is built from\<close>

datatype cors_layer =
    CorsPermissive
  | CorsList "string list" "string list" "string list" "string list" bool

definition app_cors_layer :: "'net app_config \<Rightarrow> cors_layer" where
  "app_cors_layer c =
     (if ac_allowed_origins c = [] then CorsPermissive
      else CorsList (ac_allowed_origins c) [''GET'', ''POST'', ''PUT'', ''DELETE'', ''OPTIONS'']
             [''content-type'', ''x-csrf-token'', ''x-request-id''] [''x-request-id''] True)"

definition session_config_of :: "'net app_config \<Rightarrow> 'net auth_session_config" where
  "session_config_of c =
     \<lparr>session_ttl_secs = ac_session_ttl_secs c,
      session_idle_timeout_secs = ac_session_idle_timeout_secs c,
      persistent_session_ttl_secs = ac_persistent_session_ttl_secs c,
      persistent_session_idle_timeout_secs = ac_persistent_session_idle_timeout_secs c,
      max_sessions_per_user = ac_max_sessions_per_user c,
      login_max_failures = ac_login_max_failures c,
      login_ip_max_failures = ac_login_ip_max_failures c,
      login_account_ip_max_failures = ac_login_account_ip_max_failures c,
      login_failure_window_secs = ac_login_failure_window_secs c,
      login_lockout_secs = ac_login_lockout_secs c,
      trusted_proxy_cidrs = ac_trusted_proxy_cidrs c,
      secure_cookies = (ac_environment c = Production)\<rparr>"

definition default_totp_step_secs :: nat where
  "default_totp_step_secs = 30"

definition mfa_config_new_with_totp_step ::
    "'net config_crates \<Rightarrow> byte list \<Rightarrow> string \<Rightarrow> string \<Rightarrow> string \<Rightarrow> nat \<Rightarrow>
     app_config_error + mfa_config" where
  "mfa_config_new_with_totp_step C key rp_id rp_origin rp_name totp_step_secs =
     and_then (require (length key = 32) KeyLength) (\<lambda>_.
     and_then (require (totp_step_secs \<noteq> 0) StepZero) (\<lambda>_.
     and_then (require (cc_parse_url C rp_origin) OriginNotUrl) (\<lambda>_.
     and_then (require (cc_webauthn C rp_id rp_origin rp_name) RelyingPartyInvalid) (\<lambda>_.
     or_err (cc_mfa C key rp_id rp_origin rp_name totp_step_secs) KeyRejected))))"

definition mfa_config_new ::
    "'net config_crates \<Rightarrow> byte list \<Rightarrow> string \<Rightarrow> string \<Rightarrow> string \<Rightarrow> app_config_error + mfa_config" where
  "mfa_config_new C key rp_id rp_origin rp_name =
     mfa_config_new_with_totp_step C key rp_id rp_origin rp_name default_totp_step_secs"

definition app_mfa_config :: "'net config_crates \<Rightarrow> 'net app_config \<Rightarrow> app_config_error + mfa_config" where
  "app_mfa_config C c =
     mfa_config_new C (ac_mfa_encryption_key c) (ac_webauthn_rp_id c) (ac_webauthn_rp_origin c)
       (ac_webauthn_rp_name c)"

end
