(* ===== verification/Telemetry.thy ===== *)
theory Telemetry
  imports App_Config
begin

text \<open>
  The request correlation of the server (\<open>backend/src/telemetry.rs\<close>): which request identifier a
  request carries through the middleware stack, into the log, the error bodies and the response,
  and the level a response is logged at. The identifier generator of the \<open>tower_http\<close> layer is a
  parameter; spans, exporters and subscribers are not modelled.
\<close>

record telemetry_metadata =
  tm_service_name :: string
  tm_environment :: string

definition metadata_from_config :: "'net app_config \<Rightarrow> telemetry_metadata" where
  "metadata_from_config c =
     \<lparr>tm_service_name = ac_service_name c, tm_environment = environment_str (ac_environment c)\<rparr>"

definition request_id_header :: string where
  "request_id_header = ''x-request-id''"

definition valid_request_id :: "string \<Rightarrow> bool" where
  "valid_request_id v \<longleftrightarrow> v \<noteq> [] \<and> length v \<le> 64 \<and> list_all is_name_char v"

section \<open>The layers\<close>

definition normalize_request_id :: "request \<Rightarrow> request" where
  "normalize_request_id rq =
     (let is_valid =
        (case header_str rq request_id_header of None \<Rightarrow> False | Some v \<Rightarrow> valid_request_id v)
      in if rq_headers rq request_id_header \<noteq> None \<and> \<not> is_valid
         then rq\<lparr>rq_headers := (rq_headers rq)(request_id_header := None)\<rparr> else rq)"

text \<open>
  \<open>SetRequestIdLayer\<close> keeps the identifier in the header, or adds a generated one; the request
  extension carries the same value.
\<close>

definition set_request_id :: "string \<Rightarrow> request \<Rightarrow> request \<times> string" where
  "set_request_id fresh rq =
     (case rq_headers rq request_id_header of
        Some v \<Rightarrow> (rq, v)
      | None \<Rightarrow> (rq\<lparr>rq_headers := (rq_headers rq)(request_id_header \<mapsto> fresh)\<rparr>, fresh))"

definition request_trace_id :: "string option \<Rightarrow> string option" where
  "request_trace_id extension_value =
     (case extension_value of None \<Rightarrow> None
      | Some v \<Rightarrow> if list_all visible_ascii v then Some v else None)"

text \<open>The value of the task local that handlers and error responses read.\<close>

definition scoped_trace_id :: "string option \<Rightarrow> string" where
  "scoped_trace_id extension_value =
     (case request_trace_id extension_value of None \<Rightarrow> ''unavailable'' | Some v \<Rightarrow> v)"

text \<open>
  A request through the layers: the handler runs with the trace identifier, and the response gets
  the request's identifier in its header. A handler that panics (\<open>None\<close>) is answered like an
  internal error.
\<close>

definition through_layers ::
    "string \<Rightarrow> request \<Rightarrow> (string option \<Rightarrow> request \<Rightarrow> ('r + api_error) option) \<Rightarrow>
     ('r + error_reply) \<times> string" where
  "through_layers fresh rq handler =
     (let (rq', i) = set_request_id fresh (normalize_request_id rq);
          trace = scoped_trace_id (Some i)
      in (case handler (Some trace) rq' of
            None \<Rightarrow> Inr (internal_error_response (Some trace))
          | Some (Inl r) \<Rightarrow> Inl r
          | Some (Inr e) \<Rightarrow> Inr (into_response (Some trace) e), i))"

section \<open>Logging\<close>

datatype log_level = LevelError | LevelWarning | LevelInfo

definition response_level :: "nat \<Rightarrow> log_level" where
  "response_level status =
     (if 500 \<le> status \<and> status < 600 then LevelError
      else if 400 \<le> status \<and> status < 500 then LevelWarning else LevelInfo)"

datatype panic_payload = PanicString string | PanicStr string | PanicOther

definition panic_message :: "panic_payload \<Rightarrow> string" where
  "panic_message payload =
     (case payload of PanicString s \<Rightarrow> s | PanicStr s \<Rightarrow> s
      | PanicOther \<Rightarrow> ''non-string panic payload'')"

text \<open>\<open>backend/src/app_metrics.rs\<close>: the pool gauges size, idle and acquired.\<close>

definition pool_gauges :: "nat \<Rightarrow> nat \<Rightarrow> nat \<times> nat \<times> nat" where
  "pool_gauges pool_size num_idle =
     (let idle = min num_idle pool_size in (pool_size, idle, pool_size - idle))"

end
