(* ===== verification/Thm_Config.thy ===== *)
theory Thm_Config
  imports Telemetry
begin

text \<open>
  The configuration: what every accepted configuration satisfies, and which request identifiers
  get past the middleware.
\<close>

section \<open>Values\<close>

lemma value_or_ok [result_iff]:
  "value_or parse v fallback e = Inr x \<longleftrightarrow>
     (case v of None \<Rightarrow> x = fallback | Some s \<Rightarrow> parse s = Some x)"
  by (auto simp: value_or_def or_err_ok split: option.splits)

lemma positive_i64_ok:
  "positive_i64 name v d = Inr n \<Longrightarrow> in_i64 d \<Longrightarrow> 0 < n \<and> n \<le> i64_max"
  by (auto simp: positive_i64_def positive_int_def result_iff in_i64_def
      split: option.splits dest!: parse_i64_in)

lemma positive_i32_ok:
  "positive_i32 name v d = Inr n \<Longrightarrow> d \<le> i32_max \<Longrightarrow> 0 < n \<and> n \<le> i32_max"
  by (auto simp: positive_i32_def positive_int_def result_iff
      split: option.splits dest!: parse_i32_le)

lemma positive_unsigned_ok:
  "positive_unsigned hi name v d = Inr n \<Longrightarrow> d \<le> hi \<Longrightarrow> 0 < n \<and> n \<le> hi"
  by (auto simp: positive_unsigned_def result_iff split: option.splits dest!: parse_unsigned_le)

lemma nonnegative_u32_ok:
  "nonnegative_u32 name v d = Inr n \<Longrightarrow> d \<le> u32_max \<Longrightarrow> n \<le> u32_max"
  by (auto simp: nonnegative_u32_def result_iff split: option.splits dest!: parse_unsigned_le)

lemma parse_port_ok: "parse_port v = Inr n \<Longrightarrow> 0 < n \<and> n \<le> u16_max"
  by (auto simp: parse_port_def result_iff dest!: parse_unsigned_le)

lemmas range_defs = in_i64_def i64_min_def i64_max_def i32_max_def u16_max_def u32_max_def u64_max_def

text \<open>A well-formed pool: every limit is positive and fits its type.\<close>

definition pool_wf :: "pool_config \<Rightarrow> bool" where
  "pool_wf p \<longleftrightarrow>
     0 < pl_max_connections p \<and> pl_max_connections p \<le> u32_max \<and>
     pl_min_connections p \<le> pl_max_connections p \<and>
     (\<forall>f \<in> {pl_acquire_timeout_secs, pl_connect_timeout_secs, pl_idle_timeout_secs,
             pl_max_lifetime_secs, pl_statement_timeout_ms}. 0 < f p \<and> f p \<le> u64_max)"

lemma pool_from_values_wf:
  assumes "pool_from_values v = Inr p"
  shows "pool_wf p"
  using assms unfolding pool_from_values_def positive_u32_def positive_u64_def default_pool_def
  by (elim result_elims)
     ((drule positive_unsigned_ok nonnegative_u32_ok, simp add: u32_max_def u64_max_def)+,
      auto simp: pool_wf_def)

section \<open>The configuration\<close>

definition config_wf :: "'net config_crates \<Rightarrow> 'net app_config \<Rightarrow> bool" where
  "config_wf C c \<longleftrightarrow>
     pool_wf (ac_database_pool c) \<and> 0 < ac_port c \<and> ac_port c \<le> u16_max \<and>
     (\<forall>f \<in> {ac_session_ttl_secs, ac_session_idle_timeout_secs, ac_persistent_session_ttl_secs,
             ac_persistent_session_idle_timeout_secs, ac_max_sessions_per_user,
             ac_login_failure_window_secs, ac_login_lockout_secs}. 0 < f c \<and> f c \<le> i64_max) \<and>
     (\<forall>f \<in> {ac_login_max_failures, ac_login_ip_max_failures, ac_login_account_ip_max_failures}.
        0 < f c \<and> f c \<le> i32_max) \<and>
     ac_session_idle_timeout_secs c \<le> ac_session_ttl_secs c \<and>
     ac_persistent_session_idle_timeout_secs c \<le> ac_persistent_session_ttl_secs c \<and>
     length (ac_mfa_encryption_key c) = 32 \<and>
     valid_service_name (ac_service_name c) \<and>
     ''*'' \<notin> set (ac_allowed_origins c) \<and> list_all (cc_header_value C) (ac_allowed_origins c) \<and>
     (\<forall>s \<in> {ac_webauthn_rp_id c, ac_webauthn_rp_origin c, ac_webauthn_rp_name c}. s \<noteq> [])"

definition hardened :: "'net config_crates \<Rightarrow> (string \<Rightarrow> string option) \<Rightarrow> 'net app_config \<Rightarrow> bool" where
  "hardened C env c \<longleftrightarrow>
     app_cors_layer c \<noteq> CorsPermissive \<and> secure_cookies (session_config_of c) \<and>
     (\<exists>s. env ''MFA_ENCRYPTION_KEY'' = Some s \<and> s \<noteq> [] \<and> cc_base64 C s = Some (ac_mfa_encryption_key c))"

lemma parse_origins_ok:
  "parse_origins C v = Inr os \<Longrightarrow> ''*'' \<notin> set os \<and> list_all (cc_header_value C) os"
  unfolding parse_origins_def result_iff
  by (induction rule: list_all2_induct) (auto split: if_splits)

lemma parse_mfa_key_ok:
  "parse_mfa_key C e v = Inr k \<Longrightarrow>
     length k = 32 \<and> (e = Production \<longrightarrow> (\<exists>s. v = Some s \<and> s \<noteq> [] \<and> cc_base64 C s = Some k))"
  by (auto simp: parse_mfa_key_def result_iff split: option.splits if_splits)

lemma from_values_wf:
  assumes "from_values C v = Inr c"
  shows "config_wf C c"
  using assms unfolding from_values_def Let_def
  by (elim result_elims, simp only: sum.inject, hypsubst)
     (drule pool_from_values_wf, drule parse_port_ok, drule parse_mfa_key_ok, drule parse_origins_ok,
      ((drule positive_i64_ok positive_i32_ok, simp (no_asm) add: range_defs)+)?,
      simp add: config_wf_def)

lemma from_values_production:
  assumes "from_values C v = Inr c"
  shows "ac_environment c = Production \<longrightarrow> ac_allowed_origins c \<noteq> [] \<and>
    (\<exists>s. cv_mfa_encryption_key v = Some s \<and> s \<noteq> [] \<and> cc_base64 C s = Some (ac_mfa_encryption_key c))"
  using assms unfolding from_values_def Let_def
  by (elim result_elims)
     (simp only: sum.inject, hypsubst, drule parse_mfa_key_ok, simp only: app_config.simps, blast)

text \<open>
  C37. A configuration that is accepted is well-formed: every limit and duration is positive and
  fits its integer type, no session is idle longer than it lives, the pool's minimum is at most
  its maximum, the port is not zero, the MFA key has 32 bytes, and no origin is a wildcard. In
  production the server answers cross-origin requests from the listed origins only, marks its
  cookies as secure, and the MFA key was supplied from outside.
\<close>

theorem accepted_configuration_wf:
  assumes "app_config_from_env C env = Inr c"
  shows "config_wf C c \<and> (ac_environment c = Production \<longrightarrow> hardened C env c)"
proof (intro conjI impI)
  note accepted = assms [unfolded app_config_from_env_def]
  show "config_wf C c" by (rule from_values_wf [OF accepted])
  assume production: "ac_environment c = Production"
  show "hardened C env c"
    using from_values_production [OF accepted] production
    by (simp add: hardened_def app_cors_layer_def session_config_of_def values_from_env_def)
qed

definition config_demo_crates :: "string config_crates" where
  "config_demo_crates =
     \<lparr>cc_parse_net = Some, cc_header_value = (\<lambda>_. True),
      cc_base64 = (\<lambda>s. if s = ''key'' then Some (replicate 32 7) else None),
      cc_sha256 = (\<lambda>_. []), cc_parse_url = (\<lambda>_. True), cc_webauthn = (\<lambda>_ _ _. True),
      cc_mfa = (\<lambda>_ _ _ _ _. None)\<rparr>"

definition config_demo_env :: "string \<Rightarrow> string option" where
  "config_demo_env = map_of
     [(''DATABASE_URL'', ''postgres://db/app''), (''APP_ENV'', ''production''),
      (''PORT'', ''443''), (''SESSION_TTL_SECS'', ''3600''),
      (''CORS_ALLOWED_ORIGINS'', ''https://a.example, https://b.example''),
      (''MFA_ENCRYPTION_KEY'', ''key'')]"

lemma demo_values:
  "parse_origins config_demo_crates (config_demo_env ''CORS_ALLOWED_ORIGINS'') =
     Inr [''https://a.example'', ''https://b.example'']"
  "parse_mfa_key config_demo_crates Production (Some ''key'') = Inr (replicate 32 7)"
  "parse_trusted_proxy_cidrs config_demo_crates None = Inr []"
  by code_simp+

lemma demo_config_accepted:
  "case app_config_from_env config_demo_crates config_demo_env of Inl _ \<Rightarrow> False
   | Inr c \<Rightarrow> ac_environment c = Production"
  using demo_values
  by (simp add: app_config_from_env_def from_values_def values_from_env_def pool_values_from_env_def
      config_demo_env_def result_defs parse_environment_def or_default_def pool_from_values_def
      positive_u32_def positive_u64_def positive_unsigned_def nonnegative_u32_def value_or_def
      default_pool_def parse_bool_def parse_port_def positive_i64_def positive_i32_def
      positive_int_def parse_log_format_def parse_unsigned_def parse_i64_def parse_digits_def
      is_ascii_digit_def digit_value_def range_defs valid_service_name_def is_name_char_def
      is_ascii_alphanumeric_def is_ascii_lowercase_def Let_def)

theorem accepted_configuration_wf_witness:
  "\<exists>c. app_config_from_env config_demo_crates config_demo_env = Inr c \<and> config_wf config_demo_crates c \<and>
       ac_environment c = Production \<and> hardened config_demo_crates config_demo_env c"
proof -
  obtain c where c: "app_config_from_env config_demo_crates config_demo_env = Inr c" "ac_environment c = Production"
    using demo_config_accepted by (auto split: sum.splits)
  with accepted_configuration_wf [OF c(1)] show ?thesis by blast
qed

section \<open>Request identifiers\<close>

lemma name_char_visible: "is_name_char c \<Longrightarrow> visible_ascii c"
  by (auto simp: is_name_char_def visible_ascii_def is_ascii_alphanumeric_def is_ascii_lowercase_def
      is_ascii_uppercase_def is_ascii_digit_def Let_def)

lemma valid_id_visible: "valid_request_id v \<Longrightarrow> list_all visible_ascii v"
  by (auto simp: valid_request_id_def list_all_iff name_char_visible)

lemma normalized_header:
  "rq_headers (normalize_request_id rq) request_id_header = Some v \<longleftrightarrow>
     rq_headers rq request_id_header = Some v \<and> valid_request_id v"
  by (auto simp: normalize_request_id_def header_str_def Let_def valid_id_visible
      split: option.splits if_splits)

text \<open>
  C38. Whatever a client sends as request identifier, the one that the handler, the error body and
  the response header carry has 1 to 64 letters, digits, dots, dashes or underscores: the client's
  where it is of that form, else a fresh one. An error body names the identifier of its response,
  and a panic is answered with the internal error, which shows nothing of its cause.
\<close>

theorem request_id_sanitised:
  assumes "valid_request_id fresh" and "through_layers fresh rq handler = (r, i)"
  shows "valid_request_id i \<and>
    i = (case rq_headers rq request_id_header of
           Some v \<Rightarrow> if valid_request_id v then v else fresh | None \<Rightarrow> fresh) \<and>
    (case r of Inl _ \<Rightarrow> True | Inr e \<Rightarrow> eb_trace_id (er_body e) = i) \<and>
    (handler (Some i) (fst (set_request_id fresh (normalize_request_id rq))) = None \<longrightarrow>
       r = Inr (internal_error_response (Some i)))"
proof -
  obtain rq' j where j: "set_request_id fresh (normalize_request_id rq) = (rq', j)" by force
  have "j = (case rq_headers rq request_id_header of
           Some v \<Rightarrow> if valid_request_id v then v else fresh | None \<Rightarrow> fresh)"
    using j normalized_header [of rq]
    by (auto simp: set_request_id_def split: option.splits if_splits)
  moreover from this assms(1) have valid: "valid_request_id j" by (auto split: option.splits)
  moreover from valid have "scoped_trace_id (Some j) = j"
    by (simp add: scoped_trace_id_def request_trace_id_def valid_id_visible)
  ultimately show ?thesis
    using assms(2) j
    by (auto simp: through_layers_def Let_def into_response_def internal_error_response_def
        error_response_def trace_id_or_unavailable_def
        split: option.splits sum.splits api_error.splits)
qed

theorem request_id_sanitised_witness:
  "valid_request_id (snd (through_layers ''f-1''
      \<lparr>rq_method = GET, rq_headers = [''x-request-id'' \<mapsto> ''a b''], rq_jar = Map.empty\<rparr>
      (\<lambda>_ _. None :: (unit + api_error) option)))"
proof -
  have "valid_request_id ''f-1''"
    by (simp add: valid_request_id_def is_name_char_def is_ascii_alphanumeric_def
        is_ascii_lowercase_def is_ascii_digit_def)
  then show ?thesis
    by (rule conjunct1 [OF request_id_sanitised [OF _ prod.collapse [symmetric]]])
qed

end
