(* ===== verification/Router.thy ===== *)
theory Router
  imports Handlers
begin

text \<open>
  The routes of the server (\<open>backend/src/lib.rs\<close>): the paths, the published contract, the table the
  router is built from, and the two health endpoints. A handler is named by its path below
  \<open>handlers\<close>; \<open>call_handler\<close> names the handler that \<open>serve\<close> runs for each call.
\<close>

section \<open>Paths\<close>

definition api_prefix :: string where
  "api_prefix = ''/api/v1''"

definition healthz_path :: string where
  "healthz_path = ''/api/v1/healthz''"

definition readyz_path :: string where
  "readyz_path = ''/api/v1/readyz''"

definition login_path :: string where
  "login_path = ''/api/v1/auth/login''"

definition logout_path :: string where
  "logout_path = ''/api/v1/auth/logout''"

definition current_user_path :: string where
  "current_user_path = ''/api/v1/auth/me''"

definition current_user_password_path :: string where
  "current_user_password_path = ''/api/v1/auth/me/password''"

definition step_up_path :: string where
  "step_up_path = ''/api/v1/auth/me/step-up''"

definition module_unlocks_path :: string where
  "module_unlocks_path = ''/api/v1/auth/me/module-unlocks''"

definition module_unlock_status_path :: string where
  "module_unlock_status_path = ''/api/v1/auth/me/module-unlocks/{module}''"

definition current_user_permissions_path :: string where
  "current_user_permissions_path = ''/api/v1/auth/me/permissions''"

definition mfa_totp_verify_path :: string where
  "mfa_totp_verify_path = ''/api/v1/auth/mfa/totp/verify''"

definition mfa_recovery_verify_path :: string where
  "mfa_recovery_verify_path = ''/api/v1/auth/mfa/recovery/verify''"

definition mfa_passkey_auth_start_path :: string where
  "mfa_passkey_auth_start_path = ''/api/v1/auth/mfa/passkey/authenticate/start''"

definition mfa_passkey_auth_finish_path :: string where
  "mfa_passkey_auth_finish_path = ''/api/v1/auth/mfa/passkey/authenticate/finish''"

definition mfa_status_path :: string where
  "mfa_status_path = ''/api/v1/auth/me/mfa''"

definition mfa_passkey_registration_start_path :: string where
  "mfa_passkey_registration_start_path = ''/api/v1/auth/me/mfa/passkey/register/start''"

definition mfa_passkey_registration_finish_path :: string where
  "mfa_passkey_registration_finish_path = ''/api/v1/auth/me/mfa/passkey/register/finish''"

definition mfa_passkey_path :: string where
  "mfa_passkey_path = ''/api/v1/auth/me/mfa/passkey/{id}''"

definition mfa_recovery_codes_path :: string where
  "mfa_recovery_codes_path = ''/api/v1/auth/me/mfa/recovery-codes''"

definition users_path :: string where
  "users_path = ''/api/v1/users''"

definition user_path :: string where
  "user_path = ''/api/v1/users/{id}''"

definition users_batch_delete_path :: string where
  "users_batch_delete_path = ''/api/v1/users/batch-delete''"

definition users_batch_roles_path :: string where
  "users_batch_roles_path = ''/api/v1/users/batch-roles''"

definition user_roles_path :: string where
  "user_roles_path = ''/api/v1/users/{id}/roles''"

definition roles_path :: string where
  "roles_path = ''/api/v1/roles''"

definition role_path :: string where
  "role_path = ''/api/v1/roles/{id}''"

definition role_permissions_path :: string where
  "role_permissions_path = ''/api/v1/roles/{id}/permissions''"

definition departments_path :: string where
  "departments_path = ''/api/v1/departments''"

definition department_path :: string where
  "department_path = ''/api/v1/departments/{id}''"

definition permission_groups_path :: string where
  "permission_groups_path = ''/api/v1/permissions/groups''"

definition dashboard_stats_path :: string where
  "dashboard_stats_path = ''/api/v1/dashboard/stats''"

definition audit_logs_path :: string where
  "audit_logs_path = ''/api/v1/audit-logs''"

definition metrics_path :: string where
  "metrics_path = ''/metrics''"

lemmas path_defs =
  healthz_path_def readyz_path_def login_path_def logout_path_def
  current_user_path_def current_user_password_path_def step_up_path_def module_unlocks_path_def
  module_unlock_status_path_def current_user_permissions_path_def mfa_totp_verify_path_def mfa_recovery_verify_path_def
  mfa_passkey_auth_start_path_def mfa_passkey_auth_finish_path_def mfa_status_path_def mfa_passkey_registration_start_path_def
  mfa_passkey_registration_finish_path_def mfa_passkey_path_def mfa_recovery_codes_path_def users_path_def
  user_path_def users_batch_delete_path_def users_batch_roles_path_def user_roles_path_def
  roles_path_def role_path_def role_permissions_path_def departments_path_def
  department_path_def permission_groups_path_def dashboard_stats_path_def audit_logs_path_def
  metrics_path_def

definition api_route_contract :: "(string \<times> string list) list" where
  "api_route_contract =
     [(healthz_path, [''get'']),
      (readyz_path, [''get'']),
      (login_path, [''post'']),
      (logout_path, [''post'']),
      (current_user_path, [''get'']),
      (current_user_password_path, [''put'']),
      (step_up_path, [''post'']),
      (module_unlocks_path, [''post'']),
      (module_unlock_status_path, [''get'']),
      (current_user_permissions_path, [''get'']),
      (mfa_totp_verify_path, [''post'']),
      (mfa_recovery_verify_path, [''post'']),
      (mfa_passkey_auth_start_path, [''post'']),
      (mfa_passkey_auth_finish_path, [''post'']),
      (mfa_status_path, [''get'']),
      (mfa_passkey_registration_start_path, [''post'']),
      (mfa_passkey_registration_finish_path, [''post'']),
      (mfa_passkey_path, [''delete'']),
      (mfa_recovery_codes_path, [''post'']),
      (users_path, [''get'', ''post'']),
      (user_path, [''get'', ''put'', ''delete'']),
      (users_batch_delete_path, [''post'']),
      (users_batch_roles_path, [''put'']),
      (user_roles_path, [''put'']),
      (roles_path, [''get'', ''post'']),
      (role_path, [''get'', ''put'', ''delete'']),
      (role_permissions_path, [''get'', ''put'']),
      (departments_path, [''get'', ''post'']),
      (department_path, [''get'', ''put'', ''delete'']),
      (permission_groups_path, [''get'']),
      (dashboard_stats_path, [''get'']),
      (audit_logs_path, [''get''])]"

definition base_routes :: "(string \<times> (string \<times> string) list) list" where
  "base_routes =
     [(metrics_path, [(''get'', ''app_metrics::render'')]),
      (healthz_path, [(''get'', ''healthz'')]),
      (readyz_path, [(''get'', ''readyz'')]),
      (login_path, [(''post'', ''auth::login'')]),
      (logout_path, [(''post'', ''auth::logout'')]),
      (current_user_path, [(''get'', ''auth::me'')]),
      (current_user_password_path, [(''put'', ''auth::change_password'')]),
      (step_up_path, [(''post'', ''auth::step_up'')]),
      (module_unlocks_path, [(''post'', ''auth::module_unlock'')]),
      (module_unlock_status_path, [(''get'', ''auth::module_unlock_status'')]),
      (current_user_permissions_path, [(''get'', ''auth::me_permissions'')]),
      (mfa_totp_verify_path, [(''post'', ''auth::verify_totp'')]),
      (mfa_recovery_verify_path, [(''post'', ''auth::verify_recovery_code'')]),
      (mfa_passkey_auth_start_path, [(''post'', ''auth::start_passkey_authentication'')]),
      (mfa_passkey_auth_finish_path, [(''post'', ''auth::finish_passkey_authentication'')]),
      (mfa_status_path, [(''get'', ''auth::mfa_status'')]),
      (mfa_passkey_registration_start_path, [(''post'', ''auth::start_passkey_registration'')]),
      (mfa_passkey_registration_finish_path, [(''post'', ''auth::finish_passkey_registration'')]),
      (mfa_passkey_path, [(''delete'', ''auth::revoke_passkey'')]),
      (mfa_recovery_codes_path, [(''post'', ''auth::regenerate_recovery_codes'')]),
      (users_path, [(''get'', ''users::list''), (''post'', ''users::create'')]),
      (user_path, [(''get'', ''users::get''), (''put'', ''users::update''), (''delete'', ''users::delete'')]),
      (users_batch_delete_path, [(''post'', ''users::batch_delete'')]),
      (users_batch_roles_path, [(''put'', ''users::batch_assign_roles'')]),
      (user_roles_path, [(''put'', ''users::assign_roles'')]),
      (roles_path, [(''get'', ''roles::list''), (''post'', ''roles::create'')]),
      (role_path, [(''get'', ''roles::get''), (''put'', ''roles::update''), (''delete'', ''roles::delete'')]),
      (role_permissions_path, [(''get'', ''roles::get_permissions''), (''put'', ''roles::put_permissions'')]),
      (departments_path, [(''get'', ''departments::list''), (''post'', ''departments::create'')]),
      (department_path, [(''get'', ''departments::get''), (''put'', ''departments::update''), (''delete'', ''departments::delete'')]),
      (permission_groups_path, [(''get'', ''permissions::groups'')]),
      (dashboard_stats_path, [(''get'', ''dashboard::stats'')]),
      (audit_logs_path, [(''get'', ''audit_logs::list'')])]"

section \<open>Health\<close>

record readiness_response =
  rd_status :: string
  rd_db :: bool

definition healthz :: string where
  "healthz = ''ok''"

text \<open>\<open>ping\<close> is whether the database answers; 200 or 503.\<close>

definition readyz :: "bool \<Rightarrow> nat \<times> readiness_response" where
  "readyz ping =
     (if ping then 200 else 503, \<lparr>rd_status = (if ping then ''ok'' else ''degraded''), rd_db = ping\<rparr>)"

section \<open>Routing\<close>

text \<open>The router sends a request for a path and method to a handler.\<close>

definition routed :: "string \<Rightarrow> string \<Rightarrow> string \<Rightarrow> bool" where
  "routed path method handler \<longleftrightarrow>
     list_ex (\<lambda>(p, ms). p = path \<and> (method, handler) \<in> set ms) base_routes"

primrec call_handler :: "api_call \<Rightarrow> string" where
  "call_handler (Login peer req) = ''auth::login''"
| "call_handler Logout = ''auth::logout''"
| "call_handler Me = ''auth::me''"
| "call_handler (ChangePassword req) = ''auth::change_password''"
| "call_handler (StepUp req) = ''auth::step_up''"
| "call_handler (ModuleUnlockStatus m) = ''auth::module_unlock_status''"
| "call_handler (ModuleUnlock req) = ''auth::module_unlock''"
| "call_handler MePermissions = ''auth::me_permissions''"
| "call_handler (VerifyTotp t c) = ''auth::verify_totp''"
| "call_handler (VerifyRecoveryCode t c) = ''auth::verify_recovery_code''"
| "call_handler (StartPasskeyAuthentication t) = ''auth::start_passkey_authentication''"
| "call_handler (FinishPasskeyAuthentication t c) = ''auth::finish_passkey_authentication''"
| "call_handler MfaStatus = ''auth::mfa_status''"
| "call_handler (StartPasskeyRegistration req) = ''auth::start_passkey_registration''"
| "call_handler (FinishPasskeyRegistration t c) = ''auth::finish_passkey_registration''"
| "call_handler (RevokePasskey i req) = ''auth::revoke_passkey''"
| "call_handler (RegenerateRecoveryCodes req) = ''auth::regenerate_recovery_codes''"
| "call_handler (UsersList q) = ''users::list''"
| "call_handler (UsersGet i) = ''users::get''"
| "call_handler (UsersCreate req) = ''users::create''"
| "call_handler (UsersUpdate i req) = ''users::update''"
| "call_handler (UsersDelete i) = ''users::delete''"
| "call_handler (UsersBatchDelete is) = ''users::batch_delete''"
| "call_handler (UsersBatchAssignRoles is rs) = ''users::batch_assign_roles''"
| "call_handler (UsersAssignRoles i rs) = ''users::assign_roles''"
| "call_handler RolesList = ''roles::list''"
| "call_handler (RolesGet i) = ''roles::get''"
| "call_handler (RolesCreate req) = ''roles::create''"
| "call_handler (RolesUpdate i req) = ''roles::update''"
| "call_handler (RolesDelete i) = ''roles::delete''"
| "call_handler (RolesGetPermissions i) = ''roles::get_permissions''"
| "call_handler (RolesPutPermissions i ps) = ''roles::put_permissions''"
| "call_handler DepartmentsList = ''departments::list''"
| "call_handler (DepartmentsGet i) = ''departments::get''"
| "call_handler (DepartmentsCreate req) = ''departments::create''"
| "call_handler (DepartmentsUpdate i req) = ''departments::update''"
| "call_handler (DepartmentsDelete i) = ''departments::delete''"
| "call_handler PermissionGroups = ''permissions::groups''"
| "call_handler DashboardStats = ''dashboard::stats''"
| "call_handler (AuditLogs q) = ''audit_logs::list''"

end
