(* ===== verification/Open_Api.thy ===== *)
theory Open_Api
  imports Router "HOL-Library.Multiset"
begin

text \<open>
  The published description of the API (\<open>backend/src/openapi.rs\<close>): for every operation its method
  and path below \<open>/api/v1\<close>, whether it needs the session cookie, its parameters (name, type, where,
  whether required), its body and its responses. The explanatory texts are left out; a query
  type stands for its parameters.
\<close>

datatype parameter_in = InPath | InHeader | InQuery

record operation =
  op_method :: string
  op_path :: string
  op_id :: string
  op_tag :: string
  op_security :: bool
  op_params :: "(string \<times> string \<times> parameter_in \<times> bool) list"
  op_body :: "string option"
  op_responses :: "(nat \<times> string option) list"

definition doc_health_check :: operation where
  "doc_health_check =
     \<lparr>op_method = ''get'', op_path = ''/healthz'', op_id = ''healthCheck'',
      op_tag = ''system'', op_security = False, op_params = [],
      op_body = None, op_responses = [(200, Some ''HealthResponse'')]\<rparr>"

definition doc_readiness_check :: operation where
  "doc_readiness_check =
     \<lparr>op_method = ''get'', op_path = ''/readyz'', op_id = ''readinessCheck'',
      op_tag = ''system'', op_security = False, op_params = [],
      op_body = None,
      op_responses = [(200, Some ''ReadinessResponse''), (503, Some ''ReadinessResponse'')]\<rparr>"

definition doc_login :: operation where
  "doc_login =
     \<lparr>op_method = ''post'', op_path = ''/auth/login'', op_id = ''login'',
      op_tag = ''auth'', op_security = False, op_params = [],
      op_body = Some ''LoginRequest'',
      op_responses = [(200, Some ''LoginResponse''), (401, Some ''ErrorEnvelope''),
                      (429, Some ''ErrorEnvelope'')]\<rparr>"

definition doc_logout :: operation where
  "doc_logout =
     \<lparr>op_method = ''post'', op_path = ''/auth/logout'', op_id = ''logout'',
      op_tag = ''auth'', op_security = True,
      op_params = [(''X-CSRF-Token'', ''String'', InHeader, True)],
      op_body = None,
      op_responses = [(204, None), (401, Some ''ErrorEnvelope''),
                      (403, Some ''ErrorEnvelope'')]\<rparr>"

definition doc_current_user :: operation where
  "doc_current_user =
     \<lparr>op_method = ''get'', op_path = ''/auth/me'',
      op_id = ''getCurrentUser'', op_tag = ''auth'', op_security = True,
      op_params = [], op_body = None,
      op_responses = [(200, Some ''UserResponse''), (401, Some ''ErrorEnvelope'')]\<rparr>"

definition doc_change_current_user_password :: operation where
  "doc_change_current_user_password =
     \<lparr>op_method = ''put'', op_path = ''/auth/me/password'',
      op_id = ''changeCurrentUserPassword'', op_tag = ''auth'',
      op_security = True,
      op_params = [(''X-CSRF-Token'', ''String'', InHeader, True),
                   (''X-Step-Up-Token'', ''String'', InHeader, True)],
      op_body = Some ''ChangePasswordRequest'',
      op_responses = [(204, None), (401, Some ''ErrorEnvelope''),
                      (422, Some ''ErrorEnvelope'')]\<rparr>"

definition doc_issue_step_up_token :: operation where
  "doc_issue_step_up_token =
     \<lparr>op_method = ''post'', op_path = ''/auth/me/step-up'',
      op_id = ''issueStepUpToken'', op_tag = ''auth'', op_security = True,
      op_params = [(''X-CSRF-Token'', ''String'', InHeader, True)],
      op_body = Some ''StepUpRequest'',
      op_responses = [(200, Some ''StepUpResponse''), (401, Some ''ErrorEnvelope''),
                      (403, Some ''ErrorEnvelope''), (422, Some ''ErrorEnvelope'')]\<rparr>"

definition doc_unlock_current_user_module :: operation where
  "doc_unlock_current_user_module =
     \<lparr>op_method = ''post'', op_path = ''/auth/me/module-unlocks'',
      op_id = ''unlockCurrentUserModule'', op_tag = ''auth'',
      op_security = True,
      op_params = [(''X-CSRF-Token'', ''String'', InHeader, True)],
      op_body = Some ''ModuleUnlockRequest'',
      op_responses = [(200, Some ''ModuleUnlockStatusResponse''), (401, Some ''ErrorEnvelope''),
                      (403, Some ''ErrorEnvelope''), (422, Some ''ErrorEnvelope'')]\<rparr>"

definition doc_current_user_module_unlock_status :: operation where
  "doc_current_user_module_unlock_status =
     \<lparr>op_method = ''get'', op_path = ''/auth/me/module-unlocks/{module}'',
      op_id = ''getCurrentUserModuleUnlockStatus'', op_tag = ''auth'',
      op_security = True,
      op_params = [(''module'', ''ModuleUnlockScopeSchema'', InPath, True)],
      op_body = None,
      op_responses = [(200, Some ''ModuleUnlockStatusResponse''), (401, Some ''ErrorEnvelope''),
                      (422, Some ''ErrorEnvelope'')]\<rparr>"

definition doc_current_user_permissions :: operation where
  "doc_current_user_permissions =
     \<lparr>op_method = ''get'', op_path = ''/auth/me/permissions'',
      op_id = ''getCurrentUserPermissions'', op_tag = ''auth'',
      op_security = True, op_params = [], op_body = None,
      op_responses = [(200, Some ''PermissionCodes''), (401, Some ''ErrorEnvelope'')]\<rparr>"

definition doc_verify_mfa_totp :: operation where
  "doc_verify_mfa_totp =
     \<lparr>op_method = ''post'', op_path = ''/auth/mfa/totp/verify'',
      op_id = ''verifyMfaTotp'', op_tag = ''auth'', op_security = False,
      op_params = [], op_body = Some ''MfaCodeRequest'',
      op_responses = [(200, Some ''LoginResponse''), (401, Some ''ErrorEnvelope''),
                      (429, Some ''ErrorEnvelope'')]\<rparr>"

definition doc_verify_mfa_recovery_code :: operation where
  "doc_verify_mfa_recovery_code =
     \<lparr>op_method = ''post'', op_path = ''/auth/mfa/recovery/verify'',
      op_id = ''verifyMfaRecoveryCode'', op_tag = ''auth'',
      op_security = False, op_params = [], op_body = Some ''MfaCodeRequest'',
      op_responses = [(200, Some ''LoginResponse''), (401, Some ''ErrorEnvelope''),
                      (429, Some ''ErrorEnvelope'')]\<rparr>"

definition doc_start_mfa_passkey_authentication :: operation where
  "doc_start_mfa_passkey_authentication =
     \<lparr>op_method = ''post'',
      op_path = ''/auth/mfa/passkey/authenticate/start'',
      op_id = ''startMfaPasskeyAuthentication'', op_tag = ''auth'',
      op_security = False, op_params = [],
      op_body = Some ''MfaPasskeyAuthenticationStartRequest'',
      op_responses = [(200, Some ''MfaWebauthnChallengeResponse''),
                      (401, Some ''ErrorEnvelope'')]\<rparr>"

definition doc_finish_mfa_passkey_authentication :: operation where
  "doc_finish_mfa_passkey_authentication =
     \<lparr>op_method = ''post'',
      op_path = ''/auth/mfa/passkey/authenticate/finish'',
      op_id = ''finishMfaPasskeyAuthentication'', op_tag = ''auth'',
      op_security = False, op_params = [],
      op_body = Some ''MfaPasskeyAuthenticationFinishRequest'',
      op_responses = [(200, Some ''LoginResponse''), (401, Some ''ErrorEnvelope'')]\<rparr>"

definition doc_current_user_mfa_status :: operation where
  "doc_current_user_mfa_status =
     \<lparr>op_method = ''get'', op_path = ''/auth/me/mfa'',
      op_id = ''getCurrentUserMfaStatus'', op_tag = ''auth'',
      op_security = True, op_params = [], op_body = None,
      op_responses = [(200, Some ''MfaStatusResponse''), (401, Some ''ErrorEnvelope'')]\<rparr>"

definition doc_start_current_user_passkey_registration :: operation where
  "doc_start_current_user_passkey_registration =
     \<lparr>op_method = ''post'',
      op_path = ''/auth/me/mfa/passkey/register/start'',
      op_id = ''startCurrentUserPasskeyRegistration'', op_tag = ''auth'',
      op_security = True,
      op_params = [(''X-CSRF-Token'', ''String'', InHeader, True)],
      op_body = Some ''MfaPasskeyRegistrationStartRequest'',
      op_responses = [(200, Some ''MfaWebauthnChallengeResponse''), (401, Some ''ErrorEnvelope''),
                      (422, Some ''ErrorEnvelope'')]\<rparr>"

definition doc_finish_current_user_passkey_registration :: operation where
  "doc_finish_current_user_passkey_registration =
     \<lparr>op_method = ''post'',
      op_path = ''/auth/me/mfa/passkey/register/finish'',
      op_id = ''finishCurrentUserPasskeyRegistration'', op_tag = ''auth'',
      op_security = True,
      op_params = [(''X-CSRF-Token'', ''String'', InHeader, True)],
      op_body = Some ''MfaPasskeyRegistrationFinishRequest'',
      op_responses = [(200, Some ''MfaStatusResponse''), (422, Some ''ErrorEnvelope'')]\<rparr>"

definition doc_revoke_current_user_passkey :: operation where
  "doc_revoke_current_user_passkey =
     \<lparr>op_method = ''delete'', op_path = ''/auth/me/mfa/passkey/{id}'',
      op_id = ''revokeCurrentUserPasskey'', op_tag = ''auth'',
      op_security = True,
      op_params = [(''id'', ''i64'', InPath, True), (''X-CSRF-Token'', ''String'', InHeader, True)],
      op_body = Some ''MfaFactorRevokeRequest'',
      op_responses = [(204, None), (401, Some ''ErrorEnvelope''),
                      (422, Some ''ErrorEnvelope'')]\<rparr>"

definition doc_regenerate_current_user_recovery_codes :: operation where
  "doc_regenerate_current_user_recovery_codes =
     \<lparr>op_method = ''post'', op_path = ''/auth/me/mfa/recovery-codes'',
      op_id = ''regenerateCurrentUserRecoveryCodes'', op_tag = ''auth'',
      op_security = True,
      op_params = [(''X-CSRF-Token'', ''String'', InHeader, True)],
      op_body = Some ''MfaFactorRevokeRequest'',
      op_responses = [(200, Some ''RecoveryCodesResponse''), (401, Some ''ErrorEnvelope''),
                      (422, Some ''ErrorEnvelope'')]\<rparr>"

definition doc_list_users :: operation where
  "doc_list_users =
     \<lparr>op_method = ''get'', op_path = ''/users'', op_id = ''listUsers'',
      op_tag = ''users'', op_security = True,
      op_params = [(''PageQuery'', ''PageQuery'', InQuery, False)],
      op_body = None,
      op_responses = [(200, Some ''PageUser''), (401, Some ''ErrorEnvelope''),
                      (403, Some ''ErrorEnvelope''), (422, Some ''ErrorEnvelope'')]\<rparr>"

definition doc_create_user :: operation where
  "doc_create_user =
     \<lparr>op_method = ''post'', op_path = ''/users'', op_id = ''createUser'',
      op_tag = ''users'', op_security = True,
      op_params = [(''X-CSRF-Token'', ''String'', InHeader, True),
                   (''X-Step-Up-Token'', ''String'', InHeader, False)],
      op_body = Some ''CreateUserRequest'',
      op_responses = [(201, Some ''UserResponse''), (403, Some ''ErrorEnvelope''),
                      (409, Some ''ErrorEnvelope''), (422, Some ''ErrorEnvelope'')]\<rparr>"

definition doc_get_user :: operation where
  "doc_get_user =
     \<lparr>op_method = ''get'', op_path = ''/users/{id}'', op_id = ''getUser'',
      op_tag = ''users'', op_security = True,
      op_params = [(''id'', ''i64'', InPath, True)], op_body = None,
      op_responses = [(200, Some ''UserResponse''), (404, Some ''ErrorEnvelope'')]\<rparr>"

definition doc_update_user :: operation where
  "doc_update_user =
     \<lparr>op_method = ''put'', op_path = ''/users/{id}'', op_id = ''updateUser'',
      op_tag = ''users'', op_security = True,
      op_params = [(''id'', ''i64'', InPath, True), (''X-CSRF-Token'', ''String'', InHeader, True),
                   (''X-Step-Up-Token'', ''String'', InHeader, False)],
      op_body = Some ''UpdateUserRequest'',
      op_responses = [(200, Some ''UserResponse''), (403, Some ''ErrorEnvelope''),
                      (404, Some ''ErrorEnvelope''), (422, Some ''ErrorEnvelope'')]\<rparr>"

definition doc_delete_user :: operation where
  "doc_delete_user =
     \<lparr>op_method = ''delete'', op_path = ''/users/{id}'',
      op_id = ''deleteUser'', op_tag = ''users'', op_security = True,
      op_params = [(''id'', ''i64'', InPath, True), (''X-CSRF-Token'', ''String'', InHeader, True),
                   (''X-Step-Up-Token'', ''String'', InHeader, True)],
      op_body = None,
      op_responses = [(204, None), (403, Some ''ErrorEnvelope''),
                      (404, Some ''ErrorEnvelope'')]\<rparr>"

definition doc_batch_delete_users :: operation where
  "doc_batch_delete_users =
     \<lparr>op_method = ''post'', op_path = ''/users/batch-delete'',
      op_id = ''batchDeleteUsers'', op_tag = ''users'', op_security = True,
      op_params = [(''X-CSRF-Token'', ''String'', InHeader, True),
                   (''X-Step-Up-Token'', ''String'', InHeader, True)],
      op_body = Some ''BatchUserIdsRequest'',
      op_responses = [(204, None), (403, Some ''ErrorEnvelope''),
                      (422, Some ''ErrorEnvelope'')]\<rparr>"

definition doc_assign_user_roles :: operation where
  "doc_assign_user_roles =
     \<lparr>op_method = ''put'', op_path = ''/users/{id}/roles'',
      op_id = ''assignUserRoles'', op_tag = ''users'', op_security = True,
      op_params = [(''id'', ''i64'', InPath, True), (''X-CSRF-Token'', ''String'', InHeader, True),
                   (''X-Step-Up-Token'', ''String'', InHeader, True)],
      op_body = Some ''AssignRolesRequest'',
      op_responses = [(204, None), (403, Some ''ErrorEnvelope''), (404, Some ''ErrorEnvelope''),
                      (422, Some ''ErrorEnvelope'')]\<rparr>"

definition doc_batch_assign_user_roles :: operation where
  "doc_batch_assign_user_roles =
     \<lparr>op_method = ''put'', op_path = ''/users/batch-roles'',
      op_id = ''batchAssignUserRoles'', op_tag = ''users'',
      op_security = True,
      op_params = [(''X-CSRF-Token'', ''String'', InHeader, True),
                   (''X-Step-Up-Token'', ''String'', InHeader, True)],
      op_body = Some ''BatchAssignRolesRequest'',
      op_responses = [(204, None), (403, Some ''ErrorEnvelope''),
                      (422, Some ''ErrorEnvelope'')]\<rparr>"

definition doc_list_roles :: operation where
  "doc_list_roles =
     \<lparr>op_method = ''get'', op_path = ''/roles'', op_id = ''listRoles'',
      op_tag = ''roles'', op_security = True, op_params = [], op_body = None,
      op_responses = [(200, Some ''[RoleResponse]'')]\<rparr>"

definition doc_create_role :: operation where
  "doc_create_role =
     \<lparr>op_method = ''post'', op_path = ''/roles'', op_id = ''createRole'',
      op_tag = ''roles'', op_security = True,
      op_params = [(''X-CSRF-Token'', ''String'', InHeader, True),
                   (''X-Step-Up-Token'', ''String'', InHeader, False)],
      op_body = Some ''CreateRoleRequest'',
      op_responses = [(201, Some ''RoleResponse''), (403, Some ''ErrorEnvelope''),
                      (409, Some ''ErrorEnvelope''), (422, Some ''ErrorEnvelope'')]\<rparr>"

definition doc_get_role :: operation where
  "doc_get_role =
     \<lparr>op_method = ''get'', op_path = ''/roles/{id}'', op_id = ''getRole'',
      op_tag = ''roles'', op_security = True,
      op_params = [(''id'', ''i64'', InPath, True)], op_body = None,
      op_responses = [(200, Some ''RoleResponse''), (404, Some ''ErrorEnvelope'')]\<rparr>"

definition doc_update_role :: operation where
  "doc_update_role =
     \<lparr>op_method = ''put'', op_path = ''/roles/{id}'', op_id = ''updateRole'',
      op_tag = ''roles'', op_security = True,
      op_params = [(''id'', ''i64'', InPath, True), (''X-CSRF-Token'', ''String'', InHeader, True),
                   (''X-Step-Up-Token'', ''String'', InHeader, False)],
      op_body = Some ''UpdateRoleRequest'',
      op_responses = [(200, Some ''RoleResponse''), (403, Some ''ErrorEnvelope''),
                      (404, Some ''ErrorEnvelope''), (422, Some ''ErrorEnvelope'')]\<rparr>"

definition doc_delete_role :: operation where
  "doc_delete_role =
     \<lparr>op_method = ''delete'', op_path = ''/roles/{id}'',
      op_id = ''deleteRole'', op_tag = ''roles'', op_security = True,
      op_params = [(''id'', ''i64'', InPath, True), (''X-CSRF-Token'', ''String'', InHeader, True),
                   (''X-Step-Up-Token'', ''String'', InHeader, True)],
      op_body = None,
      op_responses = [(204, None), (403, Some ''ErrorEnvelope''), (404, Some ''ErrorEnvelope''),
                      (409, Some ''ErrorEnvelope'')]\<rparr>"

definition doc_get_role_permissions :: operation where
  "doc_get_role_permissions =
     \<lparr>op_method = ''get'', op_path = ''/roles/{id}/permissions'',
      op_id = ''getRolePermissions'', op_tag = ''roles'', op_security = True,
      op_params = [(''id'', ''i64'', InPath, True)], op_body = None,
      op_responses = [(200, Some ''RolePermissions''), (404, Some ''ErrorEnvelope'')]\<rparr>"

definition doc_update_role_permissions :: operation where
  "doc_update_role_permissions =
     \<lparr>op_method = ''put'', op_path = ''/roles/{id}/permissions'',
      op_id = ''updateRolePermissions'', op_tag = ''roles'',
      op_security = True,
      op_params = [(''id'', ''i64'', InPath, True), (''X-CSRF-Token'', ''String'', InHeader, True),
                   (''X-Step-Up-Token'', ''String'', InHeader, True)],
      op_body = Some ''UpdateRolePermissionsRequest'',
      op_responses = [(204, None), (403, Some ''ErrorEnvelope''), (404, Some ''ErrorEnvelope''),
                      (422, Some ''ErrorEnvelope'')]\<rparr>"

definition doc_list_departments :: operation where
  "doc_list_departments =
     \<lparr>op_method = ''get'', op_path = ''/departments'',
      op_id = ''listDepartments'', op_tag = ''departments'',
      op_security = True, op_params = [], op_body = None,
      op_responses = [(200, Some ''[DepartmentResponse]''), (403, Some ''ErrorEnvelope'')]\<rparr>"

definition doc_create_department :: operation where
  "doc_create_department =
     \<lparr>op_method = ''post'', op_path = ''/departments'',
      op_id = ''createDepartment'', op_tag = ''departments'',
      op_security = True,
      op_params = [(''X-CSRF-Token'', ''String'', InHeader, True),
                   (''X-Step-Up-Token'', ''String'', InHeader, True)],
      op_body = Some ''CreateDepartmentRequest'',
      op_responses = [(201, Some ''DepartmentResponse''), (403, Some ''ErrorEnvelope''),
                      (409, Some ''ErrorEnvelope''), (422, Some ''ErrorEnvelope'')]\<rparr>"

definition doc_get_department :: operation where
  "doc_get_department =
     \<lparr>op_method = ''get'', op_path = ''/departments/{id}'',
      op_id = ''getDepartment'', op_tag = ''departments'',
      op_security = True, op_params = [(''id'', ''i64'', InPath, True)],
      op_body = None,
      op_responses = [(200, Some ''DepartmentResponse''), (404, Some ''ErrorEnvelope'')]\<rparr>"

definition doc_update_department :: operation where
  "doc_update_department =
     \<lparr>op_method = ''put'', op_path = ''/departments/{id}'',
      op_id = ''updateDepartment'', op_tag = ''departments'',
      op_security = True,
      op_params = [(''id'', ''i64'', InPath, True), (''X-CSRF-Token'', ''String'', InHeader, True),
                   (''X-Step-Up-Token'', ''String'', InHeader, True)],
      op_body = Some ''UpdateDepartmentRequest'',
      op_responses = [(200, Some ''DepartmentResponse''), (403, Some ''ErrorEnvelope''),
                      (404, Some ''ErrorEnvelope''), (409, Some ''ErrorEnvelope''),
                      (422, Some ''ErrorEnvelope'')]\<rparr>"

definition doc_delete_department :: operation where
  "doc_delete_department =
     \<lparr>op_method = ''delete'', op_path = ''/departments/{id}'',
      op_id = ''deleteDepartment'', op_tag = ''departments'',
      op_security = True,
      op_params = [(''id'', ''i64'', InPath, True), (''X-CSRF-Token'', ''String'', InHeader, True),
                   (''X-Step-Up-Token'', ''String'', InHeader, True)],
      op_body = None,
      op_responses = [(204, None), (403, Some ''ErrorEnvelope''), (404, Some ''ErrorEnvelope''),
                      (409, Some ''ErrorEnvelope'')]\<rparr>"

definition doc_list_permission_groups :: operation where
  "doc_list_permission_groups =
     \<lparr>op_method = ''get'', op_path = ''/permissions/groups'',
      op_id = ''listPermissionGroups'', op_tag = ''permissions'',
      op_security = True, op_params = [], op_body = None,
      op_responses = [(200, Some ''[PermissionGroupResponse]'')]\<rparr>"

definition doc_dashboard_stats :: operation where
  "doc_dashboard_stats =
     \<lparr>op_method = ''get'', op_path = ''/dashboard/stats'',
      op_id = ''getDashboardStats'', op_tag = ''dashboard'',
      op_security = True, op_params = [], op_body = None,
      op_responses = [(200, Some ''DashboardStats'')]\<rparr>"

definition doc_list_audit_logs :: operation where
  "doc_list_audit_logs =
     \<lparr>op_method = ''get'', op_path = ''/audit-logs'',
      op_id = ''listAuditLogs'', op_tag = ''audit'', op_security = True,
      op_params = [(''AuditLogQuery'', ''AuditLogQuery'', InQuery, False)],
      op_body = None,
      op_responses = [(200, Some ''PageAuditLog''), (403, Some ''ErrorEnvelope'')]\<rparr>"

definition api_document :: "operation list" where
  "api_document =
     [doc_health_check, doc_readiness_check, doc_login, doc_logout,
      doc_current_user, doc_change_current_user_password,
      doc_issue_step_up_token, doc_unlock_current_user_module,
      doc_current_user_module_unlock_status, doc_current_user_permissions,
      doc_verify_mfa_totp, doc_verify_mfa_recovery_code,
      doc_start_mfa_passkey_authentication,
      doc_finish_mfa_passkey_authentication, doc_current_user_mfa_status,
      doc_start_current_user_passkey_registration,
      doc_finish_current_user_passkey_registration,
      doc_revoke_current_user_passkey,
      doc_regenerate_current_user_recovery_codes, doc_list_users,
      doc_create_user, doc_get_user, doc_update_user, doc_delete_user,
      doc_batch_delete_users, doc_assign_user_roles,
      doc_batch_assign_user_roles, doc_list_roles, doc_create_role,
      doc_get_role, doc_update_role, doc_delete_role,
      doc_get_role_permissions, doc_update_role_permissions,
      doc_list_departments, doc_create_department, doc_get_department,
      doc_update_department, doc_delete_department,
      doc_list_permission_groups, doc_dashboard_stats, doc_list_audit_logs]"

lemmas doc_defs =
  doc_health_check_def doc_readiness_check_def doc_login_def
  doc_logout_def doc_current_user_def doc_change_current_user_password_def
  doc_issue_step_up_token_def doc_unlock_current_user_module_def
  doc_current_user_module_unlock_status_def
  doc_current_user_permissions_def doc_verify_mfa_totp_def
  doc_verify_mfa_recovery_code_def doc_start_mfa_passkey_authentication_def
  doc_finish_mfa_passkey_authentication_def doc_current_user_mfa_status_def
  doc_start_current_user_passkey_registration_def
  doc_finish_current_user_passkey_registration_def
  doc_revoke_current_user_passkey_def
  doc_regenerate_current_user_recovery_codes_def doc_list_users_def
  doc_create_user_def doc_get_user_def doc_update_user_def
  doc_delete_user_def doc_batch_delete_users_def doc_assign_user_roles_def
  doc_batch_assign_user_roles_def doc_list_roles_def doc_create_role_def
  doc_get_role_def doc_update_role_def doc_delete_role_def
  doc_get_role_permissions_def doc_update_role_permissions_def
  doc_list_departments_def doc_create_department_def
  doc_get_department_def doc_update_department_def
  doc_delete_department_def doc_list_permission_groups_def
  doc_dashboard_stats_def doc_list_audit_logs_def

section \<open>Operations of calls\<close>

text \<open>The operation that describes a call.\<close>

primrec call_operation :: "api_call \<Rightarrow> operation" where
  "call_operation (Login peer req) = doc_login"
| "call_operation Logout = doc_logout"
| "call_operation Me = doc_current_user"
| "call_operation (ChangePassword req) = doc_change_current_user_password"
| "call_operation (StepUp req) = doc_issue_step_up_token"
| "call_operation (ModuleUnlockStatus m) = doc_current_user_module_unlock_status"
| "call_operation (ModuleUnlock req) = doc_unlock_current_user_module"
| "call_operation MePermissions = doc_current_user_permissions"
| "call_operation (VerifyTotp t c) = doc_verify_mfa_totp"
| "call_operation (VerifyRecoveryCode t c) = doc_verify_mfa_recovery_code"
| "call_operation (StartPasskeyAuthentication t) = doc_start_mfa_passkey_authentication"
| "call_operation (FinishPasskeyAuthentication t c) = doc_finish_mfa_passkey_authentication"
| "call_operation MfaStatus = doc_current_user_mfa_status"
| "call_operation (StartPasskeyRegistration req) = doc_start_current_user_passkey_registration"
| "call_operation (FinishPasskeyRegistration t c) = doc_finish_current_user_passkey_registration"
| "call_operation (RevokePasskey i req) = doc_revoke_current_user_passkey"
| "call_operation (RegenerateRecoveryCodes req) = doc_regenerate_current_user_recovery_codes"
| "call_operation (UsersList q) = doc_list_users"
| "call_operation (UsersGet i) = doc_get_user"
| "call_operation (UsersCreate req) = doc_create_user"
| "call_operation (UsersUpdate i req) = doc_update_user"
| "call_operation (UsersDelete i) = doc_delete_user"
| "call_operation (UsersBatchDelete is) = doc_batch_delete_users"
| "call_operation (UsersBatchAssignRoles is rs) = doc_batch_assign_user_roles"
| "call_operation (UsersAssignRoles i rs) = doc_assign_user_roles"
| "call_operation RolesList = doc_list_roles"
| "call_operation (RolesGet i) = doc_get_role"
| "call_operation (RolesCreate req) = doc_create_role"
| "call_operation (RolesUpdate i req) = doc_update_role"
| "call_operation (RolesDelete i) = doc_delete_role"
| "call_operation (RolesGetPermissions i) = doc_get_role_permissions"
| "call_operation (RolesPutPermissions i ps) = doc_update_role_permissions"
| "call_operation DepartmentsList = doc_list_departments"
| "call_operation (DepartmentsGet i) = doc_get_department"
| "call_operation (DepartmentsCreate req) = doc_create_department"
| "call_operation (DepartmentsUpdate i req) = doc_update_department"
| "call_operation (DepartmentsDelete i) = doc_delete_department"
| "call_operation PermissionGroups = doc_list_permission_groups"
| "call_operation DashboardStats = doc_dashboard_stats"
| "call_operation (AuditLogs q) = doc_list_audit_logs"

definition operation_key :: "operation \<Rightarrow> string \<times> string" where
  "operation_key o' = (api_prefix @ op_path o', op_method o')"

definition has_parameter :: "string \<Rightarrow> operation \<Rightarrow> bool" where
  "has_parameter name o' = list_ex (\<lambda>(n, _, _, _). n = name) (op_params o')"

definition needs_parameter :: "string \<Rightarrow> operation \<Rightarrow> bool" where
  "needs_parameter name o' = list_ex (\<lambda>(n, _, _, required). n = name \<and> required) (op_params o')"

end
