(* ===== verification/Thm_Api.thy ===== *)
theory Thm_Api
  imports Open_Api Thm_Access
begin

text \<open>
  The published description of the API against the routes and the behaviour of the handlers.
\<close>

section \<open>The tables agree\<close>

lemma operation_keys:
  "operation_key doc_health_check = (healthz_path, ''get'')"
  "operation_key doc_readiness_check = (readyz_path, ''get'')"
  "operation_key doc_login = (login_path, ''post'')"
  "operation_key doc_logout = (logout_path, ''post'')"
  "operation_key doc_current_user = (current_user_path, ''get'')"
  "operation_key doc_change_current_user_password = (current_user_password_path, ''put'')"
  "operation_key doc_issue_step_up_token = (step_up_path, ''post'')"
  "operation_key doc_unlock_current_user_module = (module_unlocks_path, ''post'')"
  "operation_key doc_current_user_module_unlock_status = (module_unlock_status_path, ''get'')"
  "operation_key doc_current_user_permissions = (current_user_permissions_path, ''get'')"
  "operation_key doc_verify_mfa_totp = (mfa_totp_verify_path, ''post'')"
  "operation_key doc_verify_mfa_recovery_code = (mfa_recovery_verify_path, ''post'')"
  "operation_key doc_start_mfa_passkey_authentication = (mfa_passkey_auth_start_path, ''post'')"
  "operation_key doc_finish_mfa_passkey_authentication = (mfa_passkey_auth_finish_path, ''post'')"
  "operation_key doc_current_user_mfa_status = (mfa_status_path, ''get'')"
  "operation_key doc_start_current_user_passkey_registration = (mfa_passkey_registration_start_path, ''post'')"
  "operation_key doc_finish_current_user_passkey_registration = (mfa_passkey_registration_finish_path, ''post'')"
  "operation_key doc_revoke_current_user_passkey = (mfa_passkey_path, ''delete'')"
  "operation_key doc_regenerate_current_user_recovery_codes = (mfa_recovery_codes_path, ''post'')"
  "operation_key doc_list_users = (users_path, ''get'')"
  "operation_key doc_create_user = (users_path, ''post'')"
  "operation_key doc_get_user = (user_path, ''get'')"
  "operation_key doc_update_user = (user_path, ''put'')"
  "operation_key doc_delete_user = (user_path, ''delete'')"
  "operation_key doc_batch_delete_users = (users_batch_delete_path, ''post'')"
  "operation_key doc_assign_user_roles = (user_roles_path, ''put'')"
  "operation_key doc_batch_assign_user_roles = (users_batch_roles_path, ''put'')"
  "operation_key doc_list_roles = (roles_path, ''get'')"
  "operation_key doc_create_role = (roles_path, ''post'')"
  "operation_key doc_get_role = (role_path, ''get'')"
  "operation_key doc_update_role = (role_path, ''put'')"
  "operation_key doc_delete_role = (role_path, ''delete'')"
  "operation_key doc_get_role_permissions = (role_permissions_path, ''get'')"
  "operation_key doc_update_role_permissions = (role_permissions_path, ''put'')"
  "operation_key doc_list_departments = (departments_path, ''get'')"
  "operation_key doc_create_department = (departments_path, ''post'')"
  "operation_key doc_get_department = (department_path, ''get'')"
  "operation_key doc_update_department = (department_path, ''put'')"
  "operation_key doc_delete_department = (department_path, ''delete'')"
  "operation_key doc_list_permission_groups = (permission_groups_path, ''get'')"
  "operation_key doc_dashboard_stats = (dashboard_stats_path, ''get'')"
  "operation_key doc_list_audit_logs = (audit_logs_path, ''get'')"
  by (simp_all add: operation_key_def api_prefix_def doc_defs path_defs)

lemma contract_is_routes:
  "map (\<lambda>(p, ms). (p, map fst ms)) base_routes = (metrics_path, [''get'']) # api_route_contract"
  by (simp add: base_routes_def api_route_contract_def)

lemma document_is_contract:
  "mset (map operation_key api_document) =
   mset (concat (map (\<lambda>(p, ms). map (Pair p) ms) api_route_contract))"
  by (simp add: api_document_def api_route_contract_def operation_keys)

lemma paths_distinct: "distinct (map fst base_routes)"
  by (simp add: base_routes_def path_defs)

lemma calls_routed:
  "routed (fst (operation_key (call_operation call))) (snd (operation_key (call_operation call)))
     (call_handler call)"
  by (cases call) (simp_all add: operation_keys routed_def base_routes_def)

section \<open>Calls behave as described\<close>

definition status_number :: "status_code \<Rightarrow> nat" where
  "status_number c =
     (case c of OK_200 \<Rightarrow> 200 | CREATED_201 \<Rightarrow> 201 | NO_CONTENT_204 \<Rightarrow> 204 | UNAUTHORIZED_401 \<Rightarrow> 401
      | FORBIDDEN_403 \<Rightarrow> 403 | NOT_FOUND_404 \<Rightarrow> 404 | CONFLICT_409 \<Rightarrow> 409
      | UNPROCESSABLE_ENTITY_422 \<Rightarrow> 422 | TOO_MANY_REQUESTS_429 \<Rightarrow> 429
      | INTERNAL_SERVER_ERROR_500 \<Rightarrow> 500)"

text \<open>The schema of a response body.\<close>

fun body_schema :: "body \<Rightarrow> string option" where
  "body_schema NoBody = None"
| "body_schema (LoginBody _) = Some ''LoginResponse''"
| "body_schema (UserBody _) = Some ''UserResponse''"
| "body_schema (PageUserBody _) = Some ''PageUser''"
| "body_schema (RoleBody _) = Some ''RoleResponse''"
| "body_schema (RolesBody _) = Some ''[RoleResponse]''"
| "body_schema (IdsBody _) = Some ''RolePermissions''"
| "body_schema (DepartmentBody _) = Some ''DepartmentResponse''"
| "body_schema (DepartmentsBody _) = Some ''[DepartmentResponse]''"
| "body_schema (GroupsBody _) = Some ''[PermissionGroupResponse]''"
| "body_schema (StatsBody _) = Some ''DashboardStats''"
| "body_schema (AuditBody _) = Some ''PageAuditLog''"
| "body_schema (CodesBody _) = Some ''PermissionCodes''"
| "body_schema (StepUpBody _) = Some ''StepUpResponse''"
| "body_schema (UnlockBody _) = Some ''ModuleUnlockStatusResponse''"
| "body_schema (MfaStatusBody _) = Some ''MfaStatusResponse''"
| "body_schema (WebauthnBody _) = Some ''MfaWebauthnChallengeResponse''"
| "body_schema (RecoveryCodesBody _) = Some ''RecoveryCodesResponse''"

definition reply_kind :: "reply \<Rightarrow> nat \<times> string option" where
  "reply_kind r = (status_number (rp_status r), body_schema (rp_body r))"

lemma reply_kinds [simp]:
  "reply_kind (json_reply b) = (200, body_schema b)" "reply_kind (created b) = (201, body_schema b)"
  "reply_kind no_content = (204, None)" "reply_kind (cleared st rq r) = reply_kind r"
  "reply_kind (set_login_response st rq out) = (200, Some ''LoginResponse'')"
  "reply_kind (r\<lparr>rp_no_store := b'\<rparr>) = reply_kind r"
  by (simp_all add: reply_kind_def json_reply_def created_def no_content_def cleared_def
      set_login_response_def status_number_def)










end
