(* ===== verification/Flow_Path.thy ===== *)
theory Flow_Path
  imports Std
begin

text \<open>
  Paths and the file system as the audit pipeline tool sees them: \<open>std::path\<close> and \<open>std::fs\<close> on
  Unix. A path is the list of its components, which is what \<open>Path\<close> compares by (redundant
  separators and inner dots are not kept). The file system maps absolute locations, lists of
  names, to files, directories and symbolic links; a path is resolved component by component and
  symbolic links are followed, at most forty of them, as the kernel does it.
\<close>

section \<open>Paths\<close>

datatype component = RootDir | CurDir | ParentDir | Normal string

type_synonym path = "component list"

definition component_of :: "string \<Rightarrow> component" where
  "component_of p = (if p = ''..'' then ParentDir else Normal p)"

definition components :: "string \<Rightarrow> path" where
  "components s =
     (let ps = split_on (CHR ''/'') s
      in (if starts_with s ''/'' then [RootDir] else if hd ps = ''.'' then [CurDir] else []) @
         map component_of (filter (\<lambda>p. p \<noteq> [] \<and> p \<noteq> ''.'') ps))"

definition is_absolute :: "path \<Rightarrow> bool" where
  "is_absolute p \<longleftrightarrow> p \<noteq> [] \<and> hd p = RootDir"

definition join_path :: "path \<Rightarrow> path \<Rightarrow> path" where
  "join_path a b =
     (if is_absolute b \<or> a = [] then b else a @ dropWhile (\<lambda>c. c = CurDir) b)"

definition parent :: "path \<Rightarrow> path option" where
  "parent p = (if p = [] \<or> last p = RootDir then None else Some (butlast p))"

definition file_name :: "path \<Rightarrow> string option" where
  "file_name p =
     (if p = [] then None else case last p of Normal n \<Rightarrow> Some n | _ \<Rightarrow> None)"

definition extension :: "path \<Rightarrow> string option" where
  "extension p =
     (case file_name p of None \<Rightarrow> None
      | Some n \<Rightarrow>
          (case split_once (CHR ''.'') (rev n) of None \<Rightarrow> None
           | Some (after, before) \<Rightarrow> if before = [] then None else Some (rev after)))"

definition strip_path_prefix :: "path \<Rightarrow> path \<Rightarrow> path option" where
  "strip_path_prefix base p = (if prefix base p then Some (drop (length base) p) else None)"

fun render_component :: "component \<Rightarrow> string" where
  "render_component RootDir = []"
| "render_component CurDir = ''.''"
| "render_component ParentDir = ''..''"
| "render_component (Normal n) = n"

definition render :: "path \<Rightarrow> string" where
  "render p = (if p = [RootDir] then ''/'' else join ''/'' (map render_component p))"

definition absolute :: "string list \<Rightarrow> path" where
  "absolute loc = RootDir # map Normal loc"

text \<open>The components that may not occur in a path that has to stay inside a directory.\<close>

definition climbs :: "path \<Rightarrow> bool" where
  "climbs p \<longleftrightarrow> ParentDir \<in> set p \<or> RootDir \<in> set p"

section \<open>The file system\<close>

datatype node = File string | Dir | Link path

type_synonym file_system = "string list \<Rightarrow> node option"

definition max_links :: nat where "max_links = 40"

function walk :: "file_system \<Rightarrow> nat \<Rightarrow> string list \<Rightarrow> path \<Rightarrow> string list option" where
  "walk F k cur [] = Some cur"
| "walk F k cur (RootDir # cs) = walk F k [] cs"
| "walk F k cur (CurDir # cs) = walk F k cur cs"
| "walk F k cur (ParentDir # cs) = walk F k (butlast cur) cs"
| "walk F k cur (Normal n # cs) =
     (case F (cur @ [n]) of
        None \<Rightarrow> None
      | Some Dir \<Rightarrow> walk F k (cur @ [n]) cs
      | Some (File _) \<Rightarrow> if cs = [] then Some (cur @ [n]) else None
      | Some (Link t) \<Rightarrow> if k = 0 then None else walk F (k - 1) cur (t @ cs))"
  by pat_completeness auto
termination
  by (relation "measures [\<lambda>(_, k, _, _). k, \<lambda>(_, _, _, cs). length cs]") auto

definition locate :: "file_system \<Rightarrow> string list \<Rightarrow> path \<Rightarrow> string list option" where
  "locate F cwd p = (if p = [] then None else walk F max_links cwd p)"

definition canonicalize :: "file_system \<Rightarrow> string list \<Rightarrow> path \<Rightarrow> path option" where
  "canonicalize F cwd p = map_option absolute (locate F cwd p)"

definition node_at :: "file_system \<Rightarrow> string list \<Rightarrow> path \<Rightarrow> node option" where
  "node_at F cwd p = (case locate F cwd p of None \<Rightarrow> None | Some loc \<Rightarrow> F loc)"

definition path_exists :: "file_system \<Rightarrow> string list \<Rightarrow> path \<Rightarrow> bool" where
  "path_exists F cwd p \<longleftrightarrow> locate F cwd p \<noteq> None"

definition is_dir :: "file_system \<Rightarrow> string list \<Rightarrow> path \<Rightarrow> bool" where
  "is_dir F cwd p \<longleftrightarrow> node_at F cwd p = Some Dir"

definition read_file :: "file_system \<Rightarrow> string list \<Rightarrow> path \<Rightarrow> string option" where
  "read_file F cwd p = (case node_at F cwd p of Some (File s) \<Rightarrow> Some s | _ \<Rightarrow> None)"

definition read_to_string :: "file_system \<Rightarrow> string list \<Rightarrow> path \<Rightarrow> string option" where
  "read_to_string F cwd p =
     (case read_file F cwd p of None \<Rightarrow> None | Some s \<Rightarrow> if valid_utf8 s then Some s else None)"

definition is_file :: "file_system \<Rightarrow> string list \<Rightarrow> path \<Rightarrow> bool" where
  "is_file F cwd p \<longleftrightarrow> read_file F cwd p \<noteq> None"

text \<open>\<open>fs::symlink_metadata\<close> succeeds: the last component is not followed.\<close>

definition symlink_metadata :: "file_system \<Rightarrow> string list \<Rightarrow> path \<Rightarrow> bool" where
  "symlink_metadata F cwd p =
     (if p = [] then False
      else case last p of
        Normal n \<Rightarrow>
          (case walk F max_links cwd (butlast p) of None \<Rightarrow> False
           | Some d \<Rightarrow> F d = Some Dir \<and> F (d @ [n]) \<noteq> None)
      | _ \<Rightarrow> locate F cwd p \<noteq> None)"

text \<open>
  Where a path leads once \<open>fs::create_dir_all\<close> has created the directories that are missing on
  the way, with the file system that has them. A symbolic link that leads nowhere is an error.
\<close>

function walk_creating ::
    "file_system \<Rightarrow> nat \<Rightarrow> string list \<Rightarrow> path \<Rightarrow> (file_system \<times> string list) option" where
  "walk_creating F k cur [] = Some (F, cur)"
| "walk_creating F k cur (RootDir # cs) = walk_creating F k [] cs"
| "walk_creating F k cur (CurDir # cs) = walk_creating F k cur cs"
| "walk_creating F k cur (ParentDir # cs) = walk_creating F k (butlast cur) cs"
| "walk_creating F k cur (Normal n # cs) =
     (case F (cur @ [n]) of
        None \<Rightarrow> walk_creating (F(cur @ [n] \<mapsto> Dir)) k (cur @ [n]) cs
      | Some Dir \<Rightarrow> walk_creating F k (cur @ [n]) cs
      | Some (File _) \<Rightarrow> if cs = [] then Some (F, cur @ [n]) else None
      | Some (Link t) \<Rightarrow>
          if k = 0 \<or> walk F (k - 1) cur t = None then None
          else walk_creating F (k - 1) cur (t @ cs))"
  by pat_completeness auto
termination
  by (relation "measures [\<lambda>(_, k, _, _). k, \<lambda>(_, _, _, cs). length cs]") auto

definition create_dir_all :: "file_system \<Rightarrow> string list \<Rightarrow> path \<Rightarrow> file_system option" where
  "create_dir_all F cwd p =
     (if p = [] then Some F
      else case walk_creating F max_links cwd p of None \<Rightarrow> None
        | Some (F', loc) \<Rightarrow> if F' loc = Some Dir then Some F' else None)"

text \<open>
  The location a file is written to: the entry named last, or what it links to. \<open>fs::write\<close>
  creates the file or replaces its content.
\<close>

fun write_at :: "file_system \<Rightarrow> nat \<Rightarrow> string list \<Rightarrow> string \<Rightarrow> string list option" where
  "write_at F k d n =
     (case F (d @ [n]) of
        None \<Rightarrow> Some (d @ [n])
      | Some (File _) \<Rightarrow> Some (d @ [n])
      | Some Dir \<Rightarrow> None
      | Some (Link t) \<Rightarrow>
          if k = 0 \<or> t = [] then None
          else case last t of
            Normal m \<Rightarrow>
              (case walk F (k - 1) d (butlast t) of None \<Rightarrow> None
               | Some d' \<Rightarrow> if F d' = Some Dir then write_at F (k - 1) d' m else None)
          | _ \<Rightarrow> None)"

declare write_at.simps [simp del]

definition entry_of :: "file_system \<Rightarrow> string list \<Rightarrow> path \<Rightarrow> (string list \<times> string) option" where
  "entry_of F cwd p =
     (case file_name p of None \<Rightarrow> None
      | Some n \<Rightarrow>
          (case walk F max_links cwd (butlast p) of None \<Rightarrow> None
           | Some d \<Rightarrow> if F d = Some Dir then Some (d, n) else None))"

definition write_place :: "file_system \<Rightarrow> string list \<Rightarrow> path \<Rightarrow> string list option" where
  "write_place F cwd p =
     (case entry_of F cwd p of None \<Rightarrow> None | Some (d, n) \<Rightarrow> write_at F max_links d n)"

definition write_file ::
    "file_system \<Rightarrow> string list \<Rightarrow> path \<Rightarrow> string \<Rightarrow> file_system option" where
  "write_file F cwd p content =
     map_option (\<lambda>loc. F(loc \<mapsto> File content)) (write_place F cwd p)"

text \<open>\<open>OpenOptions::create_new\<close>: the entry must not exist, not even as a symbolic link.\<close>

definition create_new ::
    "file_system \<Rightarrow> string list \<Rightarrow> path \<Rightarrow> string \<Rightarrow> file_system option" where
  "create_new F cwd p content =
     (case entry_of F cwd p of None \<Rightarrow> None
      | Some (d, n) \<Rightarrow>
          if F (d @ [n]) = None then Some (F(d @ [n] \<mapsto> File content)) else None)"

text \<open>\<open>fs::rename\<close> of a file: the entry moves, the target entry is replaced, not followed.\<close>

definition rename_file ::
    "file_system \<Rightarrow> string list \<Rightarrow> path \<Rightarrow> path \<Rightarrow> file_system option" where
  "rename_file F cwd p q =
     (case (entry_of F cwd p, entry_of F cwd q) of
        (Some (d, n), Some (e, m)) \<Rightarrow>
          (case F (d @ [n]) of
             Some (File s) \<Rightarrow>
               if F (e @ [m]) = Some Dir then None
               else Some (F(d @ [n] := None, e @ [m] \<mapsto> File s))
           | _ \<Rightarrow> None)
      | _ \<Rightarrow> None)"

text \<open>Every entry stands in a directory, and the root is one.\<close>

definition fs_wf :: "file_system \<Rightarrow> bool" where
  "fs_wf F \<longleftrightarrow> F [] = Some Dir \<and> (\<forall>loc n. F (loc @ [n]) \<noteq> None \<longrightarrow> F loc = Some Dir)"

section \<open>Facts about paths\<close>

lemma is_absolute_absolute [simp]: "is_absolute (absolute loc)"
  by (simp add: is_absolute_def absolute_def)

lemma absolute_inject [simp]: "absolute a = absolute b \<longleftrightarrow> a = b"
  by (auto simp: absolute_def inj_on_def dest: map_injective)

lemma absolute_not_Nil [simp]: "absolute a \<noteq> []"
  by (simp add: absolute_def)

lemma prefix_absolute [simp]: "prefix (absolute a) (absolute b) \<longleftrightarrow> prefix a b"
proof
  assume "prefix a b"
  then obtain c where "b = a @ c" by (auto simp: prefix_def)
  then show "prefix (absolute a) (absolute b)" by (simp add: absolute_def)
next
  assume "prefix (absolute a) (absolute b)"
  then obtain c where c: "map Normal b = map Normal a @ c" by (auto simp: absolute_def prefix_def)
  then have "take (length a) (map Normal b) = map Normal a" by simp
  then have "map Normal (take (length a) b) = map Normal a" by (simp only: take_map)
  then have "take (length a) b = a" by (rule map_injective) (simp add: inj_def)
  then show "prefix a b" by (metis take_is_prefix)
qed

lemma absolute_append: "absolute a @ map Normal b = absolute (a @ b)"
  by (simp add: absolute_def)

lemma components_Nil [simp]: "components s = [] \<longleftrightarrow> s = []"
proof
  assume e: "components s = []"
  show "s = []"
  proof (rule ccontr)
    assume "s \<noteq> []"
    then obtain c t where s: "s = c # t" by (cases s) auto
    from e have h: "\<not> starts_with s ''/''" "hd (split_on (CHR ''/'') s) \<noteq> ''.''"
      "\<forall>p \<in> set (split_on (CHR ''/'') s). p = [] \<or> p = ''.''"
      by (auto simp: components_def Let_def filter_empty_conv split: if_splits)
    have "c \<noteq> CHR ''/''" using h(1) s by auto
    then obtain q qs where q: "split_on (CHR ''/'') s = (c # q) # qs"
      using s by (cases "split_on (CHR ''/'') t") auto
    with h(2,3) show False by auto
  qed
next
  assume "s = []"
  then show "components s = []" by (simp add: components_def)
qed

lemma no_inner_CurDir: "CurDir \<notin> set (dropWhile (\<lambda>c. c = CurDir) (components s))"
  by (auto simp: components_def Let_def component_of_def split: if_splits dest: set_dropWhileD)

lemma plain_components:
  assumes "\<not> climbs (components s)"
  shows "\<exists>ns. dropWhile (\<lambda>c. c = CurDir) (components s) = map Normal ns"
proof -
  let ?q = "dropWhile (\<lambda>c. c = CurDir) (components s)"
  have "\<forall>c \<in> set ?q. \<exists>n. c = Normal n"
  proof
    fix c assume c: "c \<in> set ?q"
    then have "c \<in> set (components s)" by (rule set_dropWhileD)
    with assms have "c \<noteq> ParentDir" "c \<noteq> RootDir" by (auto simp: climbs_def)
    moreover have "c \<noteq> CurDir" using c no_inner_CurDir by metis
    ultimately show "\<exists>n. c = Normal n" by (cases c) auto
  qed
  then have "?q = map Normal (map (\<lambda>c. case c of Normal n \<Rightarrow> n | _ \<Rightarrow> []) ?q)"
    by (auto simp: map_idI intro!: sym [OF map_idI])
  then show ?thesis by blast
qed

section \<open>Resolution\<close>

text \<open>Locations without symbolic links: a chain of directories, perhaps with a file at its end.\<close>

definition dirs :: "file_system \<Rightarrow> string list \<Rightarrow> bool" where
  "dirs F loc \<longleftrightarrow> (\<forall>p. prefix p loc \<longrightarrow> p \<noteq> [] \<longrightarrow> F p = Some Dir)"

definition real :: "file_system \<Rightarrow> string list \<Rightarrow> bool" where
  "real F loc \<longleftrightarrow>
     dirs F loc \<or> (\<exists>d n s. loc = d @ [n] \<and> dirs F d \<and> F loc = Some (File s))"

lemma dirs_Nil [simp]: "dirs F []"
  by (simp add: dirs_def)

lemma dirs_snoc [simp]: "dirs F (loc @ [n]) \<longleftrightarrow> dirs F loc \<and> F (loc @ [n]) = Some Dir"
  unfolding dirs_def prefix_snoc by auto

lemma dirs_butlast: "dirs F loc \<Longrightarrow> dirs F (butlast loc)"
  by (cases loc rule: rev_cases) auto

lemma dirs_real: "dirs F loc \<Longrightarrow> real F loc"
  by (simp add: real_def)

lemma real_Nil [simp]: "real F []"
  by (simp add: real_def)

lemma walk_real:
  "walk F k cur cs = Some loc \<Longrightarrow> dirs F cur \<Longrightarrow> real F loc"
proof (induction F k cur cs rule: walk.induct)
  case (5 F k cur n cs)
  then show ?case
    by (auto simp: real_def split: option.splits node.splits if_splits)
qed (auto simp: dirs_real dirs_butlast)

lemma dirs_first: "dirs F (cur @ n # ns) \<Longrightarrow> F (cur @ [n]) = Some Dir"
  unfolding dirs_def by (metis append.assoc append_Cons append_Nil append_is_Nil_conv list.distinct(1) prefixI)

lemma walk_names:
  "dirs F (cur @ ns) \<Longrightarrow> walk F k cur (map Normal ns @ cs) = walk F k (cur @ ns) cs"
proof (induction ns arbitrary: cur)
  case (Cons n ns)
  then have "F (cur @ [n]) = Some Dir" by (simp add: dirs_first)
  with Cons.IH [of "cur @ [n]"] Cons.prems show ?case by simp
qed simp

lemma walk_creating_names:
  "dirs F (cur @ ns) \<Longrightarrow>
     walk_creating F k cur (map Normal ns @ cs) = walk_creating F k (cur @ ns) cs"
proof (induction ns arbitrary: cur)
  case (Cons n ns)
  then have "F (cur @ [n]) = Some Dir" by (simp add: dirs_first)
  with Cons.IH [of "cur @ [n]"] Cons.prems show ?case by simp
qed simp

lemma walk_creating_real:
  assumes "real F loc"
  shows "walk_creating F k cur (absolute loc) = Some (F, loc)"
  using assms unfolding real_def
proof
  assume "dirs F loc"
  then show ?thesis using walk_creating_names [of F "[]" loc k "[]"] by (simp add: absolute_def)
next
  assume "\<exists>d n s. loc = d @ [n] \<and> dirs F d \<and> F loc = Some (File s)"
  then obtain d n s where "loc = d @ [n]" "dirs F d" "F (d @ [n]) = Some (File s)" by auto
  then show ?thesis
    using walk_creating_names [of F "[]" d k "[Normal n]"] by (simp add: absolute_def)
qed

lemma walk_prefix: "walk F k cur xs = None \<Longrightarrow> walk F k cur (xs @ ys) = None"
proof (induction F k cur xs rule: walk.induct)
  case (5 F k cur n cs)
  then show ?case by (auto split: option.splits node.splits if_splits)
qed auto

lemma walk_creating_append:
  "walk F k cur xs = Some a \<Longrightarrow> F a = Some Dir \<Longrightarrow>
     \<exists>k'. walk_creating F k cur (xs @ ys) = walk_creating F k' a ys"
proof (induction F k cur xs rule: walk.induct)
  case (5 F k cur n cs)
  then show ?case
    by (auto simp: walk_prefix split: option.splits node.splits if_splits)
qed auto

lemma missing_below:
  "fs_wf F \<Longrightarrow> F loc = None \<Longrightarrow> F (loc @ ns) = None"
proof (induction ns rule: rev_induct)
  case (snoc n ns)
  then show ?case unfolding fs_wf_def by (metis append.assoc option.distinct(1))
qed simp

lemma walk_creating_missing:
  assumes "fs_wf F" and "F (cur @ [n]) = None"
  shows "\<exists>F'. walk_creating F k cur (map Normal (n # ns)) = Some (F', cur @ n # ns)"
proof -
  have "\<exists>F'. walk_creating G k c (map Normal ms) = Some (F', c @ ms)"
    if "\<forall>m bs. G (c @ m # bs) = None" for G c ms
    using that
  proof (induction ms arbitrary: G c)
    case (Cons m ms)
    have "\<forall>m' bs. (G(c @ [m] \<mapsto> Dir)) ((c @ [m]) @ m' # bs) = None"
      using Cons.prems by simp
    from Cons.IH [OF this] obtain F' where
      "walk_creating (G(c @ [m] \<mapsto> Dir)) k (c @ [m]) (map Normal ms) = Some (F', (c @ [m]) @ ms)"
      by blast
    moreover have "G (c @ [m]) = None" using Cons.prems by simp
    ultimately show ?case by (simp del: fun_upd_apply)
  qed simp
  note below = this
  have "\<forall>m bs. (F(cur @ [n] \<mapsto> Dir)) ((cur @ [n]) @ m # bs) = None"
    using missing_below [OF assms] by simp
  from below [OF this, of ns] assms(2) show ?thesis by (simp del: fun_upd_apply)
qed

lemma locate_real: "locate F [] p = Some loc \<Longrightarrow> real F loc"
  by (auto simp: locate_def split: if_splits intro: walk_real)

end
