(* ===== verification/Retention.thy ===== *)
theory Retention
  imports App_Config Repo_Audit Flow_Path
begin

text \<open>
  The retention run of the audit log (\<open>backend/src/bin/archive_audit_logs.rs\<close>): expired entries
  are written to an archive file with a manifest, batch by batch, and only then deleted. The
  archive directory is part of the file system of \<open>Flow_Path\<close>; the JSON encoder, the hash and the
  calendar are parameters.
\<close>

section \<open>Data\<close>

record archive_manifest =
  am_schema_version :: nat
  am_archive_file :: string
  am_sha256 :: string
  am_record_count :: nat
  am_first_id :: int
  am_last_id :: int
  am_cutoff :: time
  am_created_at :: time

text \<open>
  \<open>rt_sub_days\<close> is the subtraction of days from a point of time, \<open>None\<close> where it is out of the
  calendar's range; \<open>rt_time_text\<close> the format \<open>%Y%m%dT%H%M%SZ\<close>.
\<close>

record retention_env =
  rt_row_json :: "audit_archive_row \<Rightarrow> string"
  rt_manifest_json :: "archive_manifest \<Rightarrow> string"
  rt_sha256 :: "string \<Rightarrow> byte list"
  rt_time_text :: "time \<Rightarrow> string"
  rt_sub_days :: "time \<Rightarrow> int \<Rightarrow> time option"
  rt_pid :: nat
  rt_cwd :: "string list"
  rt_now :: time

datatype retention_error =
    EmptyBatch | CreateFailed path | RenameFailed path | DirectoryFailed path | ArchiveDb sqlx_error
  | DatabaseUrl | RetentionValue app_config_error | CutoffOutOfRange

type_synonym 'a file_action = "(file_system, retention_error, 'a) comp"

definition file_op ::
    "(file_system \<Rightarrow> file_system option) \<Rightarrow> retention_error \<Rightarrow> unit file_action" where
  "file_op f e = (\<lambda>F. case f F of None \<Rightarrow> (Inl e, F) | Some F' \<Rightarrow> (Inr (), F'))"

section \<open>One archive\<close>

definition archive_stem :: "retention_env \<Rightarrow> time \<Rightarrow> int \<Rightarrow> int \<Rightarrow> string" where
  "archive_stem R cutoff first_id last_id =
     ''audit-'' @ show_int first_id @ ''-'' @ show_int last_id @ ''-'' @ rt_time_text R cutoff"

definition temporary_of :: "retention_env \<Rightarrow> string \<Rightarrow> string" where
  "temporary_of R name = ''.'' @ name @ ''.'' @ show_nat (rt_pid R) @ ''.tmp''"

definition archive_line :: "retention_env \<Rightarrow> audit_archive_row \<Rightarrow> string" where
  "archive_line R row = rt_row_json R row @ [CHR 0x0A]"

definition archive_content :: "retention_env \<Rightarrow> audit_archive_row list \<Rightarrow> string" where
  "archive_content R rows = concat (map (archive_line R) rows)"

text \<open>A file is written under its temporary name, synchronised, and renamed.\<close>

definition publish :: "retention_env \<Rightarrow> path \<Rightarrow> string \<Rightarrow> string \<Rightarrow> unit file_action" where
  "publish R dir name content =
     (let temp = join_path dir [Normal (temporary_of R name)]; target = join_path dir [Normal name]
      in bind (file_op (\<lambda>F. create_new F (rt_cwd R) temp content) (CreateFailed temp)) (\<lambda>_.
         file_op (\<lambda>F. rename_file F (rt_cwd R) temp target) (RenameFailed target)))"

definition manifest_of ::
    "retention_env \<Rightarrow> string \<Rightarrow> time \<Rightarrow> audit_archive_row list \<Rightarrow> archive_manifest" where
  "manifest_of R archive_file cutoff rows =
     \<lparr>am_schema_version = 1, am_archive_file = archive_file,
      am_sha256 = hex (rt_sha256 R (archive_content R rows)), am_record_count = length rows,
      am_first_id = al_id (hd rows), am_last_id = al_id (last rows), am_cutoff = cutoff,
      am_created_at = rt_now R\<rparr>"

definition write_archive ::
    "retention_env \<Rightarrow> path \<Rightarrow> time \<Rightarrow> audit_archive_row list \<Rightarrow> path file_action" where
  "write_archive R dir cutoff rows =
     (if rows = [] then throw EmptyBatch
      else let stem = archive_stem R cutoff (al_id (hd rows)) (al_id (last rows));
               archive = stem @ ''.jsonl''
           in bind (publish R dir archive (archive_content R rows)) (\<lambda>_.
              bind (publish R dir (stem @ ''.manifest.json'')
                      (rt_manifest_json R (manifest_of R archive cutoff rows) @ [CHR 0x0A])) (\<lambda>_.
              bind (gets (\<lambda>F. path_exists F (rt_cwd R) dir)) (\<lambda>exists.
              bind (ensure exists (DirectoryFailed dir)) (\<lambda>_.
              ret (join_path dir [Normal archive]))))))"

section \<open>The run\<close>

text \<open>
  The loop over the batches, from the number of entries archived so far. \<open>None\<close> is a loop that
  never ends.
\<close>

partial_function (option) archive_loop ::
    "retention_env \<Rightarrow> path \<Rightarrow> time \<Rightarrow> int \<Rightarrow> nat \<Rightarrow> db \<Rightarrow> file_system \<Rightarrow>
     ((retention_error + nat) \<times> db \<times> file_system) option" where
  "archive_loop R dir cutoff batch_size archived db F =
     (let rows = archive_batch cutoff batch_size db
      in if rows = [] then Some (Inr archived, db, F)
         else case write_archive R dir cutoff rows F of
             (Inl e, F') \<Rightarrow> Some (Inl e, db, F')
           | (Inr _, F') \<Rightarrow>
               (case delete_archived (map al_id rows) cutoff db of
                  (Inl e, db') \<Rightarrow> Some (Inl (ArchiveDb e), db', F')
                | (Inr deleted, db') \<Rightarrow>
                    archive_loop R dir cutoff batch_size (archived + deleted) db' F'))"

declare archive_loop.simps [code]

definition max_batch_size :: int where
  "max_batch_size = 100000"

definition retention_settings ::
    "retention_env \<Rightarrow> (string \<Rightarrow> string option) \<Rightarrow> retention_error + int \<times> int \<times> path" where
  "retention_settings R env =
     and_then (or_err (env ''DATABASE_URL'') DatabaseUrl) (\<lambda>_.
     case positive_i64 ''AUDIT_RETENTION_DAYS'' (env ''AUDIT_RETENTION_DAYS'') 365 of
       Inl e \<Rightarrow> Inl (RetentionValue e)
     | Inr retention_days \<Rightarrow>
         (case positive_i64 ''AUDIT_ARCHIVE_BATCH_SIZE'' (env ''AUDIT_ARCHIVE_BATCH_SIZE'') 10000 of
            Inl e \<Rightarrow> Inl (RetentionValue e)
          | Inr batch_size \<Rightarrow>
              Inr (retention_days, min batch_size max_batch_size,
                   components (or_default (env ''AUDIT_ARCHIVE_DIR'') ''audit-archives''))))"

definition archive_audit_logs ::
    "retention_env \<Rightarrow> (string \<Rightarrow> string option) \<Rightarrow> db \<Rightarrow> file_system \<Rightarrow>
     ((retention_error + nat) \<times> db \<times> file_system) option" where
  "archive_audit_logs R env db F =
     (case retention_settings R env of
        Inl e \<Rightarrow> Some (Inl e, db, F)
      | Inr (retention_days, batch_size, dir) \<Rightarrow>
          (case create_dir_all F (rt_cwd R) dir of
             None \<Rightarrow> Some (Inl (DirectoryFailed dir), db, F)
           | Some F' \<Rightarrow>
               (case rt_sub_days R (rt_now R) retention_days of
                  None \<Rightarrow> Some (Inl CutoffOutOfRange, db, F')
                | Some cutoff \<Rightarrow>
                    (case pool_from_env env of
                       Inl e \<Rightarrow> Some (Inl (RetentionValue e), db, F')
                     | Inr _ \<Rightarrow> archive_loop R dir cutoff batch_size 0 db F'))))"

end
