(* ===== verification/Thm_Retention.thy ===== *)
theory Thm_Retention
  imports Retention Thm_Config Demo "HOL-Library.Multiset"
begin

text \<open>
  The retention run: it ends, and an entry is deleted only after an archive file holds it.
\<close>

section \<open>File names\<close>

lemma digits_before_dash:
  assumes "list_all is_ascii_digit ds" "list_all is_ascii_digit es"
    and "ds @ CHR ''-'' # x = es @ CHR ''-'' # y"
  shows "ds = es"
proof -
  have "takeWhile is_ascii_digit (ds @ CHR ''-'' # x) = ds"
    "takeWhile is_ascii_digit (es @ CHR ''-'' # y) = es"
    using assms(1,2) by (simp_all add: list_all_iff takeWhile_append2 is_ascii_digit_def)
  with assms(3) show ?thesis by metis
qed

lemma show_nat_inject [simp]: "show_nat a = show_nat b \<longleftrightarrow> a = b"
  by (metis option.inject parse_digits_show_nat)

lemma show_nat_dash:
  "show_nat a @ CHR ''-'' # x = show_nat b @ CHR ''-'' # y \<Longrightarrow> a = b"
  using digits_before_dash [OF show_nat_digits show_nat_digits] by (metis show_nat_inject)

lemma show_nat_no_dash: "show_nat n @ x \<noteq> CHR ''-'' # y"
proof
  assume e: "show_nat n @ x = CHR ''-'' # y"
  have "is_ascii_digit (hd (show_nat n @ x))" using show_nat_hd_digit by simp
  with e show False by (simp add: is_ascii_digit_def)
qed

lemma show_int_dash:
  assumes "show_int a @ CHR ''-'' # x = show_int b @ CHR ''-'' # y"
  shows "a = b"
proof (cases "a < 0"; cases "b < 0")
  assume "a < 0" "b < 0"
  with assms have "nat (- a) = nat (- b)" by (auto simp: show_int_def dest: show_nat_dash)
  with \<open>a < 0\<close> \<open>b < 0\<close> show ?thesis by simp
next
  assume "\<not> a < 0" "\<not> b < 0"
  with assms have "nat a = nat b" by (auto simp: show_int_def dest: show_nat_dash)
  with \<open>\<not> a < 0\<close> \<open>\<not> b < 0\<close> show ?thesis by simp
qed (use assms show_nat_no_dash in \<open>auto simp: show_int_def\<close>, metis show_nat_no_dash)

definition archive_name :: "retention_env \<Rightarrow> time \<Rightarrow> int \<Rightarrow> int \<Rightarrow> string" where
  "archive_name R cutoff i j = archive_stem R cutoff i j @ ''.jsonl''"

definition manifest_name :: "retention_env \<Rightarrow> time \<Rightarrow> int \<Rightarrow> int \<Rightarrow> string" where
  "manifest_name R cutoff i j = archive_stem R cutoff i j @ ''.manifest.json''"

lemma archive_name_inject: "archive_name R c i j = archive_name R c i' j' \<Longrightarrow> i = i'"
  by (auto simp: archive_name_def archive_stem_def dest: show_int_dash)

lemma manifest_name_inject: "manifest_name R c i j = manifest_name R c i' j' \<Longrightarrow> i = i'"
  by (auto simp: manifest_name_def archive_stem_def dest: show_int_dash)

lemma last_archive: "last (archive_name R c i j) = CHR ''l''"
  by (simp add: archive_name_def)

lemma last_manifest: "last (manifest_name R c i j) = CHR ''n''"
  by (simp add: manifest_name_def)

lemma hd_names: "hd (archive_name R c i j) = CHR ''a''" "hd (manifest_name R c i j) = CHR ''a''"
  "hd (temporary_of R n) = CHR ''.''"
  by (simp_all add: archive_name_def manifest_name_def archive_stem_def temporary_of_def)

lemma names_differ:
  "archive_name R c i j \<noteq> manifest_name R c' i' j'" "temporary_of R n \<noteq> archive_name R c i j"
  "temporary_of R n \<noteq> manifest_name R c i j"
proof -
  have "last (archive_name R c i j) \<noteq> last (manifest_name R c' i' j')"
    unfolding last_archive last_manifest by simp
  then show "archive_name R c i j \<noteq> manifest_name R c' i' j'" by (rule contrapos_nn) simp
  have "hd (temporary_of R n) \<noteq> hd (archive_name R c i j)"
    "hd (temporary_of R n) \<noteq> hd (manifest_name R c i j)"
    unfolding hd_names by simp_all
  then show "temporary_of R n \<noteq> archive_name R c i j" "temporary_of R n \<noteq> manifest_name R c i j"
    by (auto elim: contrapos_nn)
qed

section \<open>Writing an archive\<close>

lemma file_op_ok [ok_iff]: "file_op f e F = (Inr u, F') \<longleftrightarrow> f F = Some F'"
  by (auto simp: file_op_def split: option.splits)

text \<open>
  The location of the archive directory: an absolute path, or one relative to the current directory,
  of names only.
\<close>

definition at_place :: "retention_env \<Rightarrow> path \<Rightarrow> string list \<Rightarrow> bool" where
  "at_place R dir d \<longleftrightarrow> d \<noteq> [] \<and>
     (dir = absolute d \<or> (\<exists>ns. ns \<noteq> [] \<and> dir = map Normal ns \<and> d = rt_cwd R @ ns))"

lemma walk_place:
  assumes "at_place R dir d" "dirs F d"
  shows "walk F max_links (rt_cwd R) dir = Some d"
  using assms(1) walk_names [of F "[]" d max_links "[]"] assms(2)
    walk_names [of F "rt_cwd R" _ max_links "[]"]
  by (auto simp: at_place_def absolute_def)

lemma entry_in_directory:
  assumes "at_place R dir d" "dirs F d"
  shows "entry_of F (rt_cwd R) (join_path dir [Normal n]) = Some (d, n)"
proof -
  from assms(1) have "d \<noteq> []" "dir \<noteq> []" by (auto simp: at_place_def absolute_def)
  moreover from \<open>d \<noteq> []\<close> assms(2) have "F d = Some Dir" by (cases d rule: rev_cases) simp_all
  ultimately show ?thesis
    using walk_place [OF assms] by (simp add: entry_of_def file_name_def join_path_def is_absolute_def)
qed

text \<open>Creating it makes it a directory there, where no symbolic link is on the way.\<close>

lemma creating_names:
  assumes "walk_creating F k cur (map Normal ns) = Some (F', loc)" and "F' loc = Some Dir"
    and "dirs F cur" and "\<forall>p t. prefix p (cur @ ns) \<longrightarrow> F p \<noteq> Some (Link t)"
  shows "loc = cur @ ns \<and> dirs F' loc"
  using assms
proof (induction ns arbitrary: F cur)
  case (Cons n ns)
  have links: "\<forall>p t. prefix p ((cur @ [n]) @ ns) \<longrightarrow> F p \<noteq> Some (Link t)" using Cons.prems(4) by simp
  show ?case
  proof (cases "F (cur @ [n])")
    case None
    let ?G = "F(cur @ [n] \<mapsto> Dir)"
    have "dirs ?G cur" using Cons.prems(3) by (auto simp: dirs_def prefix_def)
    then have "dirs ?G (cur @ [n])" by simp
    moreover have "\<forall>p t. prefix p ((cur @ [n]) @ ns) \<longrightarrow> ?G p \<noteq> Some (Link t)" using links by simp
    moreover have "walk_creating ?G k (cur @ [n]) (map Normal ns) = Some (F', loc)"
      using Cons.prems(1) None by (simp del: fun_upd_apply)
    ultimately have "loc = (cur @ [n]) @ ns \<and> dirs F' loc"
      using Cons.IH [of ?G "cur @ [n]"] Cons.prems(2) by blast
    then show ?thesis by auto
  next
    case (Some x)
    moreover have "prefix (cur @ [n]) (cur @ n # ns)" by simp
    ultimately have "\<nexists>t. x = Link t" using Cons.prems(4) by metis
    with Some Cons.prems Cons.IH [of F "cur @ [n]"] links show ?thesis
      by (cases x) (auto split: if_splits)
  qed
qed simp

lemma create_place:
  assumes "at_place R dir d" "dirs F (rt_cwd R)" "\<forall>p t. prefix p d \<longrightarrow> F p \<noteq> Some (Link t)"
    and "create_dir_all F (rt_cwd R) dir = Some F'"
  shows "dirs F' d"
proof -
  from assms(4) obtain loc where w: "dir = [] \<or> walk_creating F max_links (rt_cwd R) dir = Some (F', loc) \<and> F' loc = Some Dir"
    by (auto simp: create_dir_all_def split: if_splits option.splits)
  show ?thesis
    using assms(1) w creating_names [of F max_links "[]" d F' loc] assms(2,3)
      creating_names [of F max_links "rt_cwd R" _ F' loc]
    by (auto simp: at_place_def absolute_def)
qed

lemma dirs_entry: "dirs F d \<Longrightarrow> (\<And>loc. loc \<noteq> [] \<Longrightarrow> prefix loc d \<Longrightarrow> F' loc = F loc) \<Longrightarrow> dirs F' d"
  by (auto simp: dirs_def)

lemma entry_not_prefix [simp]: "\<not> prefix (d @ [n]) d"
  by (auto simp: prefix_def)

text \<open>Publishing touches the two entries only, and a success puts the content there.\<close>

definition touches :: "string list \<Rightarrow> string set \<Rightarrow> file_system \<Rightarrow> file_system \<Rightarrow> bool" where
  "touches d N F F' \<longleftrightarrow> (\<forall>loc. F' loc = F loc \<or> (\<exists>n \<in> N. loc = d @ [n]))"

lemma touches_refl [simp]: "touches d N F F"
  by (simp add: touches_def)

lemma touches_trans: "touches d N F G \<Longrightarrow> touches d M G H \<Longrightarrow> touches d (N \<union> M) F H"
  unfolding touches_def by (metis UnI1 UnI2)

lemma touches_dirs: "touches d N F F' \<Longrightarrow> dirs F d \<Longrightarrow> dirs F' d"
  by (erule dirs_entry) (metis entry_not_prefix touches_def)

lemma touches_keeps: "touches d N F F' \<Longrightarrow> n \<notin> N \<Longrightarrow> F' (d @ [n]) = F (d @ [n])"
  by (auto simp: touches_def)

lemma publish_effect:
  assumes "dirs F d" "at_place R dir d" "name \<noteq> temporary_of R name"
    and p: "publish R dir name content F = (r, F')"
  shows "touches d {name, temporary_of R name} F F' \<and>
    (r = Inr () \<longrightarrow> F' (d @ [name]) = Some (File content))"
proof -
  let ?t = "temporary_of R name"
  note e = entry_in_directory [OF assms(2,1)]
  show ?thesis
  proof (cases "F (d @ [?t])")
    case (Some x)
    with p e show ?thesis
      by (auto simp: publish_def Let_def bind_def file_op_def create_new_def)
  next
    case None
    let ?G = "F(d @ [?t] \<mapsto> File content)"
    have G: "touches d {?t} F ?G" by (simp add: touches_def)
    note eG = entry_in_directory [OF assms(2) touches_dirs [OF G assms(1)]]
    have "publish R dir name content F =
        file_op (\<lambda>F. rename_file F (rt_cwd R) (join_path dir [Normal ?t])
          (join_path dir [Normal name])) (RenameFailed (join_path dir [Normal name])) ?G"
      using None e by (simp add: publish_def Let_def bind_def file_op_def create_new_def)
    moreover have "rename_file ?G (rt_cwd R) (join_path dir [Normal ?t])
          (join_path dir [Normal name]) =
        (if F (d @ [name]) = Some Dir then None
         else Some (?G(d @ [?t] := None, d @ [name] \<mapsto> File content)))"
      using eG assms(3) by (simp add: rename_file_def)
    ultimately show ?thesis
      using p by (auto simp: file_op_def touches_def split: if_splits)
  qed
qed

text \<open>
  A batch is published: under its final name in the archive directory there is a file with exactly
  its rows, and beside it the manifest, which names that file, its hash, the number of rows and
  their ids.
\<close>

definition published ::
    "retention_env \<Rightarrow> time \<Rightarrow> string list \<Rightarrow> audit_archive_row list \<Rightarrow> file_system \<Rightarrow> bool" where
  "published R cutoff d rows F \<longleftrightarrow> rows \<noteq> [] \<and>
     F (d @ [archive_name R cutoff (al_id (hd rows)) (al_id (last rows))]) =
       Some (File (archive_content R rows)) \<and>
     F (d @ [manifest_name R cutoff (al_id (hd rows)) (al_id (last rows))]) =
       Some (File (rt_manifest_json R (manifest_of R
         (archive_name R cutoff (al_id (hd rows)) (al_id (last rows))) cutoff rows) @ [CHR 0x0A]))"

lemma write_archive_effect:
  assumes "dirs F d" "at_place R dir d" "rows \<noteq> []"
    and w: "write_archive R dir cutoff rows F = (r, F')"
  defines "a \<equiv> archive_name R cutoff (al_id (hd rows)) (al_id (last rows))"
    and "m \<equiv> manifest_name R cutoff (al_id (hd rows)) (al_id (last rows))"
  shows "touches d {a, m, temporary_of R a, temporary_of R m} F F' \<and>
    (isl r \<or> published R cutoff d rows F')"
proof -
  have names: "a \<noteq> temporary_of R a" "m \<noteq> temporary_of R m" "a \<noteq> m" "a \<noteq> temporary_of R m"
    using names_differ by (auto simp: a_def m_def) metis+
  obtain r1 F1 where 1: "publish R dir a (archive_content R rows) F = (r1, F1)" by force
  note e1 = publish_effect [OF assms(1,2) names(1) 1]
  obtain r2 F2 where 2: "publish R dir m
      (rt_manifest_json R (manifest_of R a cutoff rows) @ [CHR 0x0A]) F1 = (r2, F2)" by force
  have "dirs F1 d" using touches_dirs e1 assms(1) by blast
  note e2 = publish_effect [OF this assms(2) names(2) 2]
  have w': "write_archive R dir cutoff rows F =
      (case r1 of Inl e \<Rightarrow> (Inl e, F1) | Inr _ \<Rightarrow>
         (case r2 of Inl e \<Rightarrow> (Inl e, F2) | Inr _ \<Rightarrow>
            ((if path_exists F2 (rt_cwd R) dir then Inr (join_path dir [Normal a])
              else Inl (DirectoryFailed dir)), F2)))"
    using assms(3) 1 2
    by (simp add: write_archive_def Let_def bind_def gets_def ensure_def ret_def throw_def
        archive_name_def [symmetric] manifest_name_def [symmetric] a_def [symmetric] m_def [symmetric]
        split: sum.split)
  have "F2 (d @ [a]) = F1 (d @ [a])"
    using e2 names by (intro touches_keeps [where N = "{m, temporary_of R m}"]) auto
  moreover have "touches d ({a, temporary_of R a} \<union> {m, temporary_of R m}) F F2"
    using e1 e2 touches_trans by blast
  moreover have "touches d {a, m, temporary_of R a, temporary_of R m} F F1"
    using e1 by (auto simp: touches_def)
  ultimately show ?thesis
    using w w' e1 e2 assms(3)
    by (auto simp: insert_commute published_def a_def [symmetric] m_def [symmetric]
        split: sum.splits if_splits)
qed

section \<open>Deleting\<close>

text \<open>The rows of a batch that was deleted are exactly the rows that are gone.\<close>

lemma batch_part:
  "mset (archive_batch cutoff n db) \<subseteq># mset (filter (\<lambda>a. al_created_at a < cutoff) (audit_logs db))"
proof -
  have "mset (take k xs) \<subseteq># mset xs" for k and xs :: "audit_archive_row list"
    by (metis append_take_drop_id mset_append mset_subset_eq_add_left)
  from this [of _ "sort_key al_id (filter (\<lambda>a. al_created_at a < cutoff) (audit_logs db))"]
  show ?thesis unfolding archive_batch_def by (simp only: mset_sort)
qed

lemma delete_archived_effect:
  assumes d: "delete_archived (map al_id rows) cutoff db = (r, db')"
    and rows: "rows = archive_batch cutoff n db" "rows \<noteq> []"
  shows "isl r \<and> db' = db \<or>
    r = Inr (length rows) \<and>
    (\<exists>P. db' = audit_logs_update (filter (\<lambda>a. \<not> P a)) db \<and>
         (\<forall>a. P a \<longleftrightarrow> al_id a \<in> al_id ` set rows \<and> al_created_at a < cutoff) \<and>
         mset rows = filter_mset P (mset (audit_logs db)))"
proof -
  define P :: "audit_archive_row \<Rightarrow> bool" where "P = (\<lambda>a. al_id a \<in> al_id ` set rows \<and> al_created_at a < cutoff)"
  have "filter_mset P (mset rows) \<subseteq># filter_mset P (mset (audit_logs db))"
    using batch_part [of cutoff n db] rows(1)
    by (intro multiset_filter_mono)
       (metis mset_filter multiset_filter_subset subset_mset.order_trans)
  moreover have "filter_mset P (mset rows) = mset rows"
    using archive_batch_old [of _ cutoff n db] rows(1) by (auto simp: P_def filter_mset_eq_conv)
  ultimately have sub: "mset rows \<subseteq># filter_mset P (mset (audit_logs db))" by simp
  have eq: "mset rows = filter_mset P (mset (audit_logs db))"
    if "length (filter P (audit_logs db)) = length rows"
  proof (rule ccontr)
    assume "mset rows \<noteq> filter_mset P (mset (audit_logs db))"
    with sub have "size (mset rows) < size (filter_mset P (mset (audit_logs db)))"
      by (intro mset_subset_size) (simp add: subset_mset.less_le)
    with that show False by (simp flip: mset_filter)
  qed
  have run: "delete_archived (map al_id rows) cutoff db =
      (if length (filter P (audit_logs db)) = length rows
       then (Inr (length rows), audit_logs_update (filter (\<lambda>a. \<not> P a)) db)
       else (Inl (Protocol ''audit archive delete mismatch''), db))"
    using rows(2)
    by (simp add: delete_archived_def transaction_def bind_def gets_def modify_def ensure_def ret_def
        throw_def rows_affected_def delete_where_def [abs_def] P_def)
  have P: "\<forall>a. P a \<longleftrightarrow> al_id a \<in> al_id ` set rows \<and> al_created_at a < cutoff"
    by (simp add: P_def)
  show ?thesis
  proof (cases "length (filter P (audit_logs db)) = length rows")
    case True
    with d run have "r = Inr (length rows)"
      "db' = audit_logs_update (filter (\<lambda>a. \<not> P a)) db" by simp_all
    with P eq [OF True] show ?thesis by blast
  qed (use d run in auto)
qed

section \<open>The loop\<close>

definition expired :: "time \<Rightarrow> db \<Rightarrow> audit_archive_row list" where
  "expired cutoff db = filter (\<lambda>a. al_created_at a < cutoff) (audit_logs db)"

text \<open>
  The row is in a published batch that no later batch of the run replaces: the first row of the
  batch is gone from the table.
\<close>

definition safely_archived ::
    "retention_env \<Rightarrow> time \<Rightarrow> string list \<Rightarrow> db \<Rightarrow> file_system \<Rightarrow> audit_archive_row \<Rightarrow> bool" where
  "safely_archived R cutoff d db F a \<longleftrightarrow>
     (\<exists>rows. a \<in> set rows \<and> published R cutoff d rows F \<and>
        (\<forall>b \<in> set (expired cutoff db). al_id b \<noteq> al_id (hd rows)))"

definition archived ::
    "retention_env \<Rightarrow> time \<Rightarrow> string list \<Rightarrow> file_system \<Rightarrow> audit_archive_row \<Rightarrow> bool" where
  "archived R cutoff d F a \<longleftrightarrow> (\<exists>rows. a \<in> set rows \<and> published R cutoff d rows F)"

lemma safely_archived_archived: "safely_archived R cutoff d db F a \<Longrightarrow> archived R cutoff d F a"
  by (auto simp: safely_archived_def archived_def)

lemma batch_empty:
  "0 < n \<Longrightarrow> archive_batch cutoff n db = [] \<longleftrightarrow> expired cutoff db = []"
proof -
  have "sort_key al_id xs = [] \<longleftrightarrow> xs = []" for xs :: "audit_archive_row list"
    using mset_sort [of al_id xs] by (metis mset_zero_iff)
  moreover assume "0 < n"
  ultimately show ?thesis by (simp add: archive_batch_def expired_def)
qed

lemma batch_expired: "set (archive_batch cutoff n db) \<subseteq> set (expired cutoff db)"
  by (auto simp: archive_batch_def expired_def dest!: in_set_takeD)

text \<open>What is known of a run that started with the table \<open>db0\<close>.\<close>

definition run_state ::
    "retention_env \<Rightarrow> time \<Rightarrow> string list \<Rightarrow> db \<Rightarrow> db \<Rightarrow> file_system \<Rightarrow> bool" where
  "run_state R cutoff d db0 db F \<longleftrightarrow>
     dirs F d \<and> (\<exists>Q. db = audit_logs_update (filter Q) db0 \<and>
       (\<forall>a \<in> set (audit_logs db0). \<not> Q a \<longrightarrow>
          al_created_at a < cutoff \<and> safely_archived R cutoff d db F a))"

lemma run_state_start: "dirs F d \<Longrightarrow> run_state R cutoff d db db F"
  unfolding run_state_def by (intro conjI exI [of _ "\<lambda>_. True"]) simp_all

text \<open>The cutoff of a run: the configured number of days before its start.\<close>

definition retention_cutoff :: "retention_env \<Rightarrow> (string \<Rightarrow> string option) \<Rightarrow> time option" where
  "retention_cutoff R env =
     (case retention_settings R env of Inl _ \<Rightarrow> None
      | Inr (age, _, _) \<Rightarrow> rt_sub_days R (rt_now R) age)"

lemma run_state_result:
  assumes "run_state R cutoff d db0 db F"
  shows "\<exists>Q. db = audit_logs_update (filter Q) db0 \<and>
    (\<forall>a \<in> set (audit_logs db0). \<not> Q a \<longrightarrow> al_created_at a < cutoff \<and> archived R cutoff d F a)"
proof -
  from assms obtain Q where "db = audit_logs_update (filter Q) db0"
    "\<And>a. a \<in> set (audit_logs db0) \<Longrightarrow> \<not> Q a \<Longrightarrow>
       al_created_at a < cutoff \<and> safely_archived R cutoff d db F a"
    by (auto simp: run_state_def)
  with safely_archived_archived show ?thesis by (intro exI [of _ Q]) blast
qed

lemma run_state_write:
  assumes "run_state R cutoff d db0 db F" "at_place R dir d" "rows \<noteq> []" "set rows \<subseteq> set (expired cutoff db)"
    and w: "write_archive R dir cutoff rows F = (r, F')"
  shows "run_state R cutoff d db0 db F' \<and> (isl r \<or> published R cutoff d rows F')"
proof -
  from assms(1) obtain Q where Q: "dirs F d" "db = audit_logs_update (filter Q) db0"
    "\<And>a. a \<in> set (audit_logs db0) \<Longrightarrow> \<not> Q a \<Longrightarrow>
       al_created_at a < cutoff \<and> safely_archived R cutoff d db F a"
    by (auto simp: run_state_def)
  note e = write_archive_effect [OF Q(1) assms(2,3) w]
  have "hd rows \<in> set (expired cutoff db)" using assms(3,4) by auto
  then have keep: "safely_archived R cutoff d db F' a" if a: "safely_archived R cutoff d db F a" for a
  proof -
    from a obtain rows' where s: "a \<in> set rows'" "published R cutoff d rows' F"
      "\<forall>b \<in> set (expired cutoff db). al_id b \<noteq> al_id (hd rows')"
      by (auto simp: safely_archived_def)
    with \<open>hd rows \<in> set (expired cutoff db)\<close> have "al_id (hd rows') \<noteq> al_id (hd rows)" by force
    then have other: "archive_name R cutoff (al_id (hd rows')) (al_id (last rows')) \<noteq>
        archive_name R cutoff (al_id (hd rows)) (al_id (last rows))"
      "manifest_name R cutoff (al_id (hd rows')) (al_id (last rows')) \<noteq>
        manifest_name R cutoff (al_id (hd rows)) (al_id (last rows))"
      using archive_name_inject manifest_name_inject by blast+
    have "F' (d @ [archive_name R cutoff (al_id (hd rows')) (al_id (last rows'))]) =
        F (d @ [archive_name R cutoff (al_id (hd rows')) (al_id (last rows'))])"
      "F' (d @ [manifest_name R cutoff (al_id (hd rows')) (al_id (last rows'))]) =
        F (d @ [manifest_name R cutoff (al_id (hd rows')) (al_id (last rows'))])"
      using other names_differ by (intro touches_keeps [OF conjunct1 [OF e]]; auto dest: sym)+
    with s show ?thesis by (auto simp: safely_archived_def published_def)
  qed
  with Q touches_dirs [OF conjunct1 [OF e]] e show ?thesis by (auto simp: run_state_def)
qed

lemma run_state_delete:
  assumes "run_state R cutoff d db0 db F"
    and "mset rows = filter_mset P (mset (audit_logs db))"
    and P: "\<And>a. P a \<longleftrightarrow> al_id a \<in> al_id ` set rows \<and> al_created_at a < cutoff"
    and "rows \<noteq> []"
    and f: "published R cutoff d rows F"
  shows "run_state R cutoff d db0 (audit_logs_update (filter (\<lambda>a. \<not> P a)) db) F"
proof -
  let ?db = "audit_logs_update (filter (\<lambda>a. \<not> P a)) db"
  from assms(1) obtain Q where Q: "dirs F d" "db = audit_logs_update (filter Q) db0"
    "\<And>a. a \<in> set (audit_logs db0) \<Longrightarrow> \<not> Q a \<Longrightarrow>
       al_created_at a < cutoff \<and> safely_archived R cutoff d db F a"
    by (auto simp: run_state_def)
  have gone: "al_id b \<noteq> al_id (hd rows)" if "b \<in> set (expired cutoff ?db)" for b
    using that assms(4) P by (auto simp: expired_def)
  have "set (expired cutoff ?db) \<subseteq> set (expired cutoff db)" by (auto simp: expired_def)
  then have old: "safely_archived R cutoff d ?db F a" if "safely_archived R cutoff d db F a" for a
    using that by (auto simp: safely_archived_def)
  have new: "safely_archived R cutoff d ?db F a" if "a \<in> set rows" for a
    using that f gone by (auto simp: safely_archived_def)
  have "set rows = {a \<in> set (audit_logs db). P a}"
    using arg_cong [OF assms(2), of set_mset] by auto
  with new have new': "safely_archived R cutoff d ?db F a" if "a \<in> set (audit_logs db)" "P a" for a
    using that by blast
  have "?db = audit_logs_update (filter (\<lambda>a. Q a \<and> \<not> P a)) db0"
    using Q(2) by (simp add: conj_commute)
  moreover have "\<forall>a \<in> set (audit_logs db0). \<not> (Q a \<and> \<not> P a) \<longrightarrow>
      al_created_at a < cutoff \<and> safely_archived R cutoff d ?db F a"
  proof (intro ballI impI)
    fix a assume a: "a \<in> set (audit_logs db0)" "\<not> (Q a \<and> \<not> P a)"
    show "al_created_at a < cutoff \<and> safely_archived R cutoff d ?db F a"
    proof (cases "Q a")
      case True
      with a Q(2) have "a \<in> set (audit_logs db)" "P a" by auto
      with new' P show ?thesis by blast
    qed (use Q(3) a(1) old in blast)
  qed
  ultimately show ?thesis using Q(1) by (auto simp: run_state_def)
qed

text \<open>A batch shrinks the expired rows, so the loop ends; the number returned is what was deleted.\<close>

lemma expired_deleted:
  assumes "\<And>a. P a \<longleftrightarrow> al_id a \<in> al_id ` set rows \<and> al_created_at a < cutoff"
    and "rows \<noteq> []" "set rows \<subseteq> set (expired cutoff db)"
  shows "length (expired cutoff (audit_logs_update (filter (\<lambda>a. \<not> P a)) db)) < length (expired cutoff db)"
proof -
  have "expired cutoff (audit_logs_update (filter (\<lambda>a. \<not> P a)) db) = filter (\<lambda>a. \<not> P a) (expired cutoff db)"
    by (auto simp: expired_def intro!: filter_cong)
  moreover have "hd rows \<in> set (expired cutoff db)" "P (hd rows)"
    using assms by (auto simp: expired_def subset_iff)
  ultimately show ?thesis using length_filter_less by metis
qed

lemma archive_loop_total:
  assumes "0 < n" "at_place R dir d" "run_state R cutoff d db0 db F"
  shows "\<exists>r db' F'. archive_loop R dir cutoff n k db F = Some (r, db', F') \<and>
    run_state R cutoff d db0 db' F' \<and>
    (\<forall>m. r = Inr m \<longrightarrow> expired cutoff db' = [] \<and>
       m + length (audit_logs db') = k + length (audit_logs db))"
  using assms(3)
proof (induction "length (expired cutoff db)" arbitrary: k db F rule: less_induct)
  case less
  let ?rows = "archive_batch cutoff n db"
  show ?case
  proof (cases "?rows = []")
    case True
    with less.prems batch_empty [OF assms(1)] show ?thesis
      by (subst archive_loop.simps) auto
  next
    case False
    obtain r1 F1 where w: "write_archive R dir cutoff ?rows F = (r1, F1)" by force
    from run_state_write [OF less.prems assms(2) False batch_expired w]
    have 1: "run_state R cutoff d db0 db F1"
      "isl r1 \<or> published R cutoff d ?rows F1" by auto
    show ?thesis
    proof (cases r1)
      case (Inl e)
      with 1 w False show ?thesis by (subst archive_loop.simps) (simp add: Let_def)
    next
      case (Inr q)
      obtain r2 db2 where del: "delete_archived (map al_id ?rows) cutoff db = (r2, db2)" by force
      from delete_archived_effect [OF del refl False] consider
        "isl r2" "db2 = db"
        | P where "r2 = Inr (length ?rows)" "db2 = audit_logs_update (filter (\<lambda>a. \<not> P a)) db"
            "\<And>a. P a \<longleftrightarrow> al_id a \<in> al_id ` set ?rows \<and> al_created_at a < cutoff"
            "mset ?rows = filter_mset P (mset (audit_logs db))"
        by blast
      then show ?thesis
      proof cases
        case 1
        then show ?thesis
          using w Inr del False \<open>run_state R cutoff d db0 db F1\<close>
          by (subst archive_loop.simps) (auto simp: Let_def isl_def)
      next
        case 2
        have "length ?rows = length (filter P (audit_logs db))"
          using 2(4) by (metis mset_filter size_mset)
        then have "length ?rows + length (audit_logs db2) = length (audit_logs db)"
          using 2(2) sum_length_filter_compl [of P "audit_logs db"] by simp
        moreover have "run_state R cutoff d db0 db2 F1"
          using run_state_delete [OF 1(1) 2(4) 2(3) False] 1(2) Inr 2(2) by simp
        moreover have "length (expired cutoff db2) < length (expired cutoff db)"
          using expired_deleted [OF 2(3) False batch_expired] 2(2) by simp
        ultimately show ?thesis
          using less.hyps [of db2 F1 "k + length ?rows"] w Inr del 2(1) False
          by (subst archive_loop.simps) (auto simp: Let_def add.assoc)
      qed
    qed
  qed
qed

section \<open>The run\<close>

lemma settings_batch_positive:
  "retention_settings R env = Inr (age, n, dir) \<Longrightarrow>
     0 < n \<and> dir = components (or_default (env ''AUDIT_ARCHIVE_DIR'') ''audit-archives'')"
  by (auto simp: retention_settings_def result_iff max_batch_size_def in_i64_def i64_min_def
      i64_max_def split: sum.splits dest!: positive_i64_ok)

text \<open>
  C36. The retention run ends. Its archive directory is absolute or relative to the current
  directory, existing or not, with no symbolic link on the way to it. Whether the run succeeds or
  stops with an error, every entry that is gone from the audit log was older than the cutoff and is
  in a published archive: the file under its final name holds the entry, and the manifest beside it
  describes that file. All other entries and all other tables are as they were. A run that succeeds
  has left no expired entry and returns the number of deleted ones.
\<close>

theorem retention_archives_before_deleting:
  assumes "at_place R (components (or_default (env ''AUDIT_ARCHIVE_DIR'') ''audit-archives'')) d"
    and "dirs F (rt_cwd R)" and "\<forall>p t. prefix p d \<longrightarrow> F p \<noteq> Some (Link t)"
  shows "\<exists>r db' F'. archive_audit_logs R env db F = Some (r, db', F') \<and>
    (\<exists>Q. db' = audit_logs_update (filter Q) db \<and>
       (\<forall>a \<in> set (audit_logs db). \<not> Q a \<longrightarrow>
          (\<exists>cutoff. retention_cutoff R env = Some cutoff \<and> al_created_at a < cutoff \<and>
             archived R cutoff d F' a))) \<and>
    (\<forall>n. r = Inr n \<longrightarrow> n + length (audit_logs db') = length (audit_logs db) \<and>
       (\<exists>cutoff. retention_cutoff R env = Some cutoff \<and> expired cutoff db' = []))"
proof -
  have same: "\<exists>Q. db = audit_logs_update (filter Q) db \<and> (\<forall>a \<in> set (audit_logs db). \<not> Q a \<longrightarrow> X a)" for X
    by (intro exI [of _ "\<lambda>_. True"]) simp
  show ?thesis
  proof (cases "retention_settings R env")
    case (Inl e)
    with same show ?thesis by (simp add: archive_audit_logs_def)
  next
    case (Inr s)
    obtain age n dir where s: "s = (age, n, dir)" by (cases s) auto
    with Inr assms(1) have n: "0 < n" and dir: "at_place R dir d"
      using settings_batch_positive by auto
    show ?thesis
    proof (cases "create_dir_all F (rt_cwd R) dir")
      case None
      with Inr s same show ?thesis by (simp add: archive_audit_logs_def)
    next
      case (Some F0)
      note created = create_place [OF dir assms(2,3) this]
      show ?thesis
      proof (cases "rt_sub_days R (rt_now R) age")
        case None
        with Inr s Some same show ?thesis by (simp add: archive_audit_logs_def)
      next
        case (Some cutoff)
        from archive_loop_total [OF n dir run_state_start [OF created, of R cutoff db], where k = 0]
        obtain r db' F' where
          l: "archive_loop R dir cutoff n 0 db F0 = Some (r, db', F')"
          "run_state R cutoff d db db' F'"
          "\<forall>m. r = Inr m \<longrightarrow> expired cutoff db' = [] \<and> m + length (audit_logs db') = length (audit_logs db)"
          by auto
        from Some Inr s have c: "retention_cutoff R env = Some cutoff" by (simp add: retention_cutoff_def)
        from run_state_result [OF l(2)] l c Inr s Some \<open>create_dir_all F (rt_cwd R) dir = Some F0\<close> same
        show ?thesis
          by (cases "pool_from_env env") (auto simp: archive_audit_logs_def)
      qed
    qed
  qed
qed

text \<open>Two expired entries and a recent one, archived one by one in the default directory, which is missing.\<close>

definition demo_row :: "int \<Rightarrow> time \<Rightarrow> audit_archive_row" where
  "demo_row i t =
     \<lparr>al_id = i, al_actor_user_id = None, al_action = ''login'', al_target_type = ''user'',
      al_target_id = None, al_details = JNull, al_trace_id = None, al_organization_id = None,
      al_department_id = None, al_created_at = t\<rparr>"

definition demo_retention :: retention_env where
  "demo_retention =
     \<lparr>rt_row_json = (\<lambda>a. show_int (al_id a)), rt_manifest_json = (\<lambda>m. am_archive_file m),
      rt_sha256 = (\<lambda>_. []), rt_time_text = (\<lambda>_. ''T''), rt_sub_days = (\<lambda>t n. Some (t - n)),
      rt_pid = 1, rt_cwd = [''a''], rt_now = 1000\<rparr>"

definition demo_retention_env :: "string \<Rightarrow> string option" where
  "demo_retention_env = map_of
     [(''DATABASE_URL'', ''postgres://db''), (''AUDIT_ARCHIVE_BATCH_SIZE'', ''1'')]"

theorem retention_archives_before_deleting_witness:
  "\<exists>r db' F'. archive_audit_logs demo_retention demo_retention_env
      (demo_db\<lparr>audit_logs := [demo_row 1 5, demo_row 2 999, demo_row 3 7]\<rparr>)
      (Map.empty([] \<mapsto> Dir, [''a''] \<mapsto> Dir)) = Some (r, db', F') \<and>
    (\<forall>n. r = Inr n \<longrightarrow> n + length (audit_logs db') = 3)"
proof -
  let ?F = "Map.empty([] \<mapsto> Dir, [''a''] \<mapsto> Dir)"
  have "components (or_default (demo_retention_env ''AUDIT_ARCHIVE_DIR'') ''audit-archives'') =
      map Normal [''audit-archives'']" by code_simp
  then have "at_place demo_retention
      (components (or_default (demo_retention_env ''AUDIT_ARCHIVE_DIR'') ''audit-archives''))
      [''a'', ''audit-archives'']"
    by (auto simp: at_place_def demo_retention_def intro!: exI [of _ "[''audit-archives'']"])
  moreover have "dirs ?F (rt_cwd demo_retention)"
    by (auto simp: dirs_def prefix_Cons demo_retention_def)
  moreover have "\<forall>p t. prefix p [''a'', ''audit-archives''] \<longrightarrow> ?F p \<noteq> Some (Link t)"
    by (auto split: if_splits)
  ultimately show ?thesis
    using retention_archives_before_deleting [of demo_retention demo_retention_env
        "[''a'', ''audit-archives'']" ?F
        "demo_db\<lparr>audit_logs := [demo_row 1 5, demo_row 2 999, demo_row 3 7]\<rparr>"]
    by fastforce
qed

end
