(* ===== verification/Flow_Config.thy ===== *)
theory Flow_Config
  imports Flow_Path
begin

text \<open>
  The workflow configuration of the audit pipeline tool (\<open>tools/arc-flow/src/config.rs\<close>): its
  data, the overrides from the environment, the validation that every loaded configuration has
  passed, and the classification of changed paths. The regular expression and glob crates are
  the parameters in \<open>flow_libs\<close>; the TOML decoder is a parameter of \<open>load\<close>.
\<close>

section \<open>Data\<close>

record path_alias =
  pa_path :: string
  pa_env :: "string option"

record project_config =
  pc_name :: string
  pc_default_profile :: string
  pc_hook_profile :: string

record paths_config =
  ps_reports :: string
  ps_audit_config :: string
  ps_secrets_config :: string
  ps_aliases :: "path_alias btree"

datatype path_type = AnyPath | FilePath | DirectoryPath

datatype doctor_check_kind =
    CommandCheck string "string list"
  | PathCheck string path_type
  | GlobCheck string
  | EnvCheck string
  | EnvOrFileCheck string string string
  | GitConfigCheck string string
  | GitRemotesCheck
  | VersionCheck string "string list" string string
  | ServiceCheck string

record doctor_check =
  dc_id :: string
  dc_label :: string
  dc_required :: bool
  dc_help :: "string option"
  dc_timeout_secs :: nat
  dc_kind :: doctor_check_kind

datatype external_value_policy = NoPolicy | IsolatedPostgres

record docker_service =
  ds_image :: string
  ds_image_env :: "string option"
  ds_external_env :: "string option"
  ds_inject_env :: string
  ds_external_value_policy :: external_value_policy
  ds_startup_timeout_secs :: nat
  ds_timeout_env :: "string option"
  ds_container_port :: nat
  ds_environment :: "string btree"
  ds_healthcheck :: "string list"
  ds_connection :: string

datatype service_config = Docker docker_service | Environment string string

text \<open>A parser: patterns, capture group, minimum.\<close>

datatype parser_config = RegexParser "string list" nat nat

datatype unmatched_scope = UnmatchedFail | UnmatchedAll | UnmatchedIgnore

record scope_rule =
  sr_patterns :: "string list"
  sr_components :: "string list"

record scope_config =
  sc_unmatched :: unmatched_scope
  sc_rules :: "scope_rule list"

record step_config =
  st_id :: string
  st_label :: string
  st_component :: string
  st_profiles :: "string list"
  st_program :: string
  st_args :: "string list"
  st_cwd :: string
  st_log :: string
  st_timeout_secs :: nat
  st_timeout_env :: "string option"
  st_parser :: "string option"
  st_services :: "string list"
  st_remove_env :: "string list"

record flow_config =
  fc_version :: nat
  fc_project :: project_config
  fc_paths :: paths_config
  fc_required_steps :: "string list"
  fc_doctor :: "doctor_check list"
  fc_services :: "service_config btree"
  fc_parsers :: "parser_config btree"
  fc_scope :: scope_config
  fc_steps :: "step_config list"

datatype service_error =
    NotImage string | StartupTimeoutRange string | ContainerPortZero string
  | PolicyNeedsExternalEnv string | HealthcheckMissing string | ConnectionWithoutPort string
  | ServiceNul string

datatype doctor_error =
    DuplicateCheck string | CheckLabelEmpty string | CheckTimeoutRange string
  | CheckContainsEmpty string | GitConfigIncomplete string | CheckServiceUnknown string string

datatype scope_error =
    RulesEmpty | RuleIncomplete nat | ComponentWithoutSteps nat string | UnsafePattern nat string
  | InvalidPattern string | PatternSetFailed

datatype step_error =
    StepsEmpty | DuplicateStep string | ProfileUnused string | DuplicateRequired string
  | RequiredStepMissing string | StepIncomplete string | ShellString string
  | CwdNotPlaceholder string | CwdUnknown string string | LogNotFileName string
  | StepTimeoutRange string | ParserUnknown string string | DuplicateStepService string string
  | StepServiceUnknown string string | DuplicateInjection string string
  | RemovesInjection string string

datatype config_error =
    UnsupportedVersion nat | NotIdentifier string string | NotProgram string string
  | NotEnvName string string | ReservedAlias string | PathNotRelative string
  | PathEscapes string string | ParserIncomplete string | InvalidRegex string
  | NoCaptureGroup string nat | NulValue string | UnterminatedPlaceholder string string
  | UnsupportedPlaceholder string string | EnvNotInteger string | ReadConfigFailed path
  | ParseConfigFailed | LegacyVersion nat
  | ServiceErr service_error | DoctorErr doctor_error | ScopeErr scope_error | StepErr step_error

text \<open>
  \<open>Regex::new\<close> with \<open>captures_len\<close>, \<open>Glob::new\<close>, \<open>GlobSetBuilder::build\<close> with \<open>is_match\<close>, and
  \<open>captures_iter\<close>: for each match the texts of its groups, the whole match first.
\<close>

record flow_libs =
  lib_captures_len :: "string \<Rightarrow> nat option"
  lib_glob :: "string \<Rightarrow> bool"
  lib_glob_set :: "string list \<Rightarrow> (string \<Rightarrow> bool) option"
  lib_captures :: "string \<Rightarrow> string \<Rightarrow> string option list list"

section \<open>Names and paths\<close>

definition is_id_char :: "char \<Rightarrow> bool" where
  "is_id_char c \<longleftrightarrow> is_ascii_lowercase c \<or> is_ascii_digit c \<or> c \<in> {CHR ''.'', CHR ''-'', CHR ''_''}"

definition validate_id :: "string \<Rightarrow> string \<Rightarrow> config_error + unit" where
  "validate_id name v = require (\<not> (v = [] \<or> \<not> list_all is_id_char v)) (NotIdentifier name v)"

definition is_program_char :: "char \<Rightarrow> bool" where
  "is_program_char c \<longleftrightarrow>
     is_ascii_alphanumeric c \<or> c \<in> {CHR ''-'', CHR ''_'', CHR ''.'', CHR ''+''}"

definition validate_program :: "string \<Rightarrow> string \<Rightarrow> config_error + unit" where
  "validate_program name v =
     require (\<not> (v = [] \<or> CHR ''/'' \<in> set v \<or> CHR 0x5C \<in> set v \<or> \<not> list_all is_program_char v))
       (NotProgram name v)"

definition is_env_char :: "char \<Rightarrow> bool" where
  "is_env_char c \<longleftrightarrow> is_ascii_uppercase c \<or> is_ascii_digit c \<or> c = CHR ''_''"

definition validate_env_name :: "string \<Rightarrow> string \<Rightarrow> config_error + unit" where
  "validate_env_name name v =
     require (\<not> (v = [] \<or> \<not> list_all is_env_char v)) (NotEnvName name v)"

definition is_image_char :: "char \<Rightarrow> bool" where
  "is_image_char c \<longleftrightarrow>
     is_ascii_alphanumeric c \<or>
     c \<in> {CHR ''.'', CHR ''_'', CHR ''/'', CHR '':'', CHR ''@'', CHR ''-''}"

definition validate_image :: "string \<Rightarrow> config_error + unit" where
  "validate_image v =
     require (\<not> (v = [] \<or> starts_with v ''-'' \<or> \<not> list_all is_image_char v))
       (ServiceErr (NotImage v))"

definition validate_repo_path :: "string \<Rightarrow> string \<Rightarrow> config_error + unit" where
  "validate_repo_path name v =
     checks [
       require (\<not> (v = [] \<or> is_absolute (components v))) (PathNotRelative name),
       require (\<not> climbs (components v)) (PathEscapes name v)]"

definition exact_placeholder :: "string \<Rightarrow> string option" where
  "exact_placeholder v =
     (case strip_prefix ''{'' v of None \<Rightarrow> None | Some r \<Rightarrow> strip_suffix ''}'' r)"

definition is_shell :: "string \<Rightarrow> bool" where
  "is_shell program \<longleftrightarrow> program \<in> {''sh'', ''bash'', ''dash'', ''zsh''}"

definition is_shell_command_argument :: "string \<Rightarrow> bool" where
  "is_shell_command_argument arg \<longleftrightarrow>
     starts_with arg ''--command'' \<or>
     (starts_with arg ''-'' \<and> \<not> starts_with arg ''--'' \<and> CHR ''c'' \<in> set (drop 1 arg))"

section \<open>Templates\<close>

definition reserved_names :: "string list" where
  "reserved_names = [''root'', ''reports'', ''audit_config'', ''secrets_config'']"

definition allowed_placeholder :: "flow_config \<Rightarrow> string \<Rightarrow> bool" where
  "allowed_placeholder c name \<longleftrightarrow>
     name \<in> set reserved_names \<or> bt_get (ps_aliases (fc_paths c)) name \<noteq> None"

function validate_placeholders ::
    "flow_config \<Rightarrow> string \<Rightarrow> string \<Rightarrow> string \<Rightarrow> config_error + unit" where
  "validate_placeholders c owner v rest =
     (case find_char (CHR ''{'') rest of None \<Rightarrow> Inr ()
      | Some start \<Rightarrow>
          (let tail = drop start rest
           in case find_char (CHR ''}'') tail of None \<Rightarrow> Inl (UnterminatedPlaceholder owner v)
              | Some stop \<Rightarrow>
                  (let name = take (stop - 1) (drop 1 tail)
                   in if \<not> allowed_placeholder c name then Inl (UnsupportedPlaceholder owner name)
                      else validate_placeholders c owner v (drop (stop + 1) tail))))"
  by pat_completeness auto
termination
  by (relation "measure (\<lambda>(_, _, _, rest). length rest)") (auto simp: find_char_Some)

declare validate_placeholders.simps [simp del]

definition validate_template ::
    "flow_config \<Rightarrow> string \<Rightarrow> string \<Rightarrow> config_error + unit" where
  "validate_template c owner v =
     checks [
       require (CHR 0x00 \<notin> set v) (NulValue owner),
       validate_placeholders c owner v v]"

definition validate_arguments ::
    "flow_config \<Rightarrow> string \<Rightarrow> string list \<Rightarrow> config_error + unit" where
  "validate_arguments c owner args = check_all (validate_template c owner) args"

section \<open>Parts of the configuration\<close>

definition config_components :: "flow_config \<Rightarrow> string list" where
  "config_components c = bs_collect (map st_component (fc_steps c))"

definition config_step :: "flow_config \<Rightarrow> string \<Rightarrow> step_config option" where
  "config_step c i = find (\<lambda>s. st_id s = i) (fc_steps c)"

definition config_parser :: "flow_config \<Rightarrow> string \<Rightarrow> parser_config option" where
  "config_parser c i = bt_get (fc_parsers c) i"

definition config_service :: "flow_config \<Rightarrow> string \<Rightarrow> service_config option" where
  "config_service c i = bt_get (fc_services c) i"

section \<open>Validation\<close>

definition validate_docker :: "string \<Rightarrow> docker_service \<Rightarrow> config_error + unit" where
  "validate_docker i d =
     checks [
       validate_image (ds_image d),
       require (\<not> (ds_startup_timeout_secs d = 0 \<or> ds_startup_timeout_secs d > 300))
         (ServiceErr (StartupTimeoutRange i)),
       require (ds_container_port d \<noteq> 0) (ServiceErr (ContainerPortZero i)),
       check_opt (validate_env_name ''service.image_env'') (ds_image_env d),
       check_opt (validate_env_name ''service.timeout_env'') (ds_timeout_env d),
       check_opt (validate_env_name ''service.external_env'') (ds_external_env d),
       require (\<not> (ds_external_value_policy d \<noteq> NoPolicy \<and> ds_external_env d = None))
         (ServiceErr (PolicyNeedsExternalEnv i)),
       validate_env_name ''service.inject_env'' (ds_inject_env d),
       require (ds_healthcheck d \<noteq> []) (ServiceErr (HealthcheckMissing i)),
       require (contains (ds_connection d) ''{host_port}'') (ServiceErr (ConnectionWithoutPort i)),
       check_all (validate_env_name ''service.environment key'') (bt_keys (ds_environment d)),
       check_all (\<lambda>v. require (CHR 0x00 \<notin> set v) (ServiceErr (ServiceNul i)))
         (bt_values (ds_environment d) @ ds_healthcheck d)]"

definition validate_services :: "flow_config \<Rightarrow> config_error + unit" where
  "validate_services c =
     check_all (\<lambda>(i, service).
       checks [
         validate_id ''service id'' i,
         (case service of
            Environment source_env inject_env \<Rightarrow>
              checks [
                validate_env_name ''service.source_env'' source_env,
                validate_env_name ''service.inject_env'' inject_env]
          | Docker d \<Rightarrow> validate_docker i d)])
       (fc_services c)"

definition validate_parsers :: "flow_libs \<Rightarrow> flow_config \<Rightarrow> config_error + unit" where
  "validate_parsers L c =
     check_all (\<lambda>(i, parser).
       checks [
         validate_id ''parser id'' i,
         (case parser of RegexParser patterns capture minimum \<Rightarrow>
            checks [
              require (\<not> (patterns = [] \<or> minimum = 0)) (ParserIncomplete i),
              check_all (\<lambda>p.
                and_then (or_err (lib_captures_len L p) (InvalidRegex i)) (\<lambda>n.
                require (\<not> capture \<ge> n) (NoCaptureGroup i capture))) patterns])])
       (fc_parsers c)"

definition validate_doctor_kind ::
    "flow_config \<Rightarrow> string \<Rightarrow> doctor_check_kind \<Rightarrow> config_error + unit" where
  "validate_doctor_kind c i kind =
     (case kind of
        CommandCheck program args \<Rightarrow>
          checks [validate_program ''doctor command'' program, validate_arguments c i args]
      | PathCheck p _ \<Rightarrow> validate_template c i p
      | GlobCheck p \<Rightarrow> validate_template c i p
      | EnvCheck name \<Rightarrow> validate_env_name ''doctor env'' name
      | EnvOrFileCheck env p content \<Rightarrow>
          checks [
            validate_env_name ''doctor env'' env,
            validate_template c i p,
            require (content \<noteq> []) (DoctorErr (CheckContainsEmpty i))]
      | GitConfigCheck key expected \<Rightarrow>
          require (\<not> (key = [] \<or> expected = [])) (DoctorErr (GitConfigIncomplete i))
      | GitRemotesCheck \<Rightarrow> Inr ()
      | VersionCheck program args p _ \<Rightarrow>
          checks [
            validate_program ''doctor version program'' program,
            validate_arguments c i args,
            validate_template c i p]
      | ServiceCheck service \<Rightarrow>
          require (bt_get (fc_services c) service \<noteq> None)
            (DoctorErr (CheckServiceUnknown i service)))"

fun validate_doctor_from ::
    "flow_config \<Rightarrow> string list \<Rightarrow> doctor_check list \<Rightarrow> config_error + unit" where
  "validate_doctor_from c ids [] = Inr ()"
| "validate_doctor_from c ids (k # ks) =
     checks [
       validate_id ''doctor check id'' (dc_id k),
       require (dc_id k \<notin> set ids) (DoctorErr (DuplicateCheck (dc_id k))),
       require (trim (dc_label k) \<noteq> []) (DoctorErr (CheckLabelEmpty (dc_id k))),
       require (\<not> (dc_timeout_secs k = 0 \<or> dc_timeout_secs k > 300))
         (DoctorErr (CheckTimeoutRange (dc_id k))),
       validate_doctor_kind c (dc_id k) (dc_kind k),
       validate_doctor_from c (dc_id k # ids) ks]"

definition validate_doctor :: "flow_config \<Rightarrow> config_error + unit" where
  "validate_doctor c = validate_doctor_from c [] (fc_doctor c)"

definition validate_rule ::
    "flow_libs \<Rightarrow> string list \<Rightarrow> nat \<Rightarrow> scope_rule \<Rightarrow> config_error + unit" where
  "validate_rule L cs index r =
     checks [
       require (\<not> (sr_patterns r = [] \<or> sr_components r = [])) (ScopeErr (RuleIncomplete index)),
       check_all (\<lambda>k.
         checks [
           validate_id ''scope component'' k,
           require (k \<in> set cs) (ScopeErr (ComponentWithoutSteps index k))]) (sr_components r),
       check_all (\<lambda>p.
         checks [
           require (\<not> (contains p ''..'' \<or> is_absolute (components p)))
             (ScopeErr (UnsafePattern index p)),
           require (lib_glob L p) (ScopeErr (InvalidPattern p))]) (sr_patterns r)]"

definition validate_scope :: "flow_libs \<Rightarrow> flow_config \<Rightarrow> config_error + unit" where
  "validate_scope L c =
     (let rules = sc_rules (fc_scope c); cs = config_components c
      in checks [
           require (rules \<noteq> []) (ScopeErr RulesEmpty),
           check_all (\<lambda>(index, r). validate_rule L cs index r) (enumerate 0 rules)])"

definition service_inject_env :: "service_config \<Rightarrow> string" where
  "service_inject_env s =
     (case s of Docker d \<Rightarrow> ds_inject_env d | Environment _ inject_env \<Rightarrow> inject_env)"

fun validate_step_services ::
    "flow_config \<Rightarrow> step_config \<Rightarrow> string list \<Rightarrow> string list \<Rightarrow> string list \<Rightarrow>
     config_error + unit" where
  "validate_step_services c s seen envs [] = Inr ()"
| "validate_step_services c s seen envs (i # is) =
     and_then (require (i \<notin> set seen) (StepErr (DuplicateStepService (st_id s) i))) (\<lambda>_.
     and_then (or_err (bt_get (fc_services c) i) (StepErr (StepServiceUnknown (st_id s) i))) (\<lambda>service.
     (let inject_env = service_inject_env service
      in checks [
           require (inject_env \<notin> set envs) (StepErr (DuplicateInjection (st_id s) inject_env)),
           require (inject_env \<notin> set (st_remove_env s))
             (StepErr (RemovesInjection (st_id s) inject_env)),
           validate_step_services c s (i # seen) (inject_env # envs) is])))"

definition validate_cwd :: "flow_config \<Rightarrow> step_config \<Rightarrow> config_error + unit" where
  "validate_cwd c s =
     and_then (or_err (exact_placeholder (st_cwd s)) (StepErr (CwdNotPlaceholder (st_id s)))) (\<lambda>name.
     require (\<not> (name \<noteq> ''root'' \<and> bt_get (ps_aliases (fc_paths c)) name = None))
       (StepErr (CwdUnknown (st_id s) name)))"

definition validate_step :: "flow_config \<Rightarrow> step_config \<Rightarrow> config_error + unit" where
  "validate_step c s =
     (let log = components (st_log s)
      in checks [
           validate_id ''verification step id'' (st_id s),
           validate_id ''step component'' (st_component s),
           require (\<not> (trim (st_label s) = [] \<or> st_profiles s = [])) (StepErr (StepIncomplete (st_id s))),
           check_all (validate_id ''step profile'') (st_profiles s),
           validate_program (''step '' @ st_id s @ '' program'') (st_program s),
           require (\<not> (is_shell (st_program s) \<and> list_ex is_shell_command_argument (st_args s)))
             (StepErr (ShellString (st_id s))),
           validate_arguments c (st_id s) (st_args s),
           validate_cwd c s,
           require (\<not> (length log \<noteq> 1 \<or> extension log \<noteq> Some ''log''))
             (StepErr (LogNotFileName (st_id s))),
           require (\<not> (st_timeout_secs s = 0 \<or> st_timeout_secs s > 3600))
             (StepErr (StepTimeoutRange (st_id s))),
           check_opt (validate_env_name ''step timeout_env'') (st_timeout_env s),
           check_opt (\<lambda>p. require (bt_get (fc_parsers c) p \<noteq> None) (StepErr (ParserUnknown (st_id s) p)))
             (st_parser s),
           validate_step_services c s [] [] (st_services s),
           check_all (validate_env_name ''step remove_env'') (st_remove_env s)])"

fun validate_steps_from ::
    "flow_config \<Rightarrow> string list \<Rightarrow> step_config list \<Rightarrow> config_error + unit" where
  "validate_steps_from c ids [] = Inr ()"
| "validate_steps_from c ids (s # ss) =
     checks [
       require (st_id s \<notin> set ids) (StepErr (DuplicateStep (st_id s))),
       validate_step c s,
       validate_steps_from c (st_id s # ids) ss]"

fun validate_required ::
    "string list \<Rightarrow> string list \<Rightarrow> string list \<Rightarrow> config_error + unit" where
  "validate_required ids seen [] = Inr ()"
| "validate_required ids seen (i # is) =
     checks [
       require (i \<notin> set seen) (StepErr (DuplicateRequired i)),
       require (i \<in> set ids) (StepErr (RequiredStepMissing i)),
       validate_required ids (i # seen) is]"

definition validate_steps :: "flow_config \<Rightarrow> config_error + unit" where
  "validate_steps c =
     (let profiles = concat (map st_profiles (fc_steps c))
      in checks [
           require (fc_steps c \<noteq> []) (StepErr StepsEmpty),
           validate_steps_from c [] (fc_steps c),
           check_all (\<lambda>p. require (p \<in> set profiles) (StepErr (ProfileUnused p)))
             [pc_default_profile (fc_project c), pc_hook_profile (fc_project c)],
           validate_required (map st_id (fc_steps c)) [] (fc_required_steps c)])"

definition config_version :: nat where
  "config_version = 2"

definition validate_alias :: "string \<times> path_alias \<Rightarrow> config_error + unit" where
  "validate_alias = (\<lambda>(alias, entry).
     checks [
       validate_id ''path alias'' alias,
       require
         (alias \<notin> {''root'', ''reports'', ''audit_config'', ''secrets_config'', ''host_port''})
         (ReservedAlias alias),
       validate_repo_path (''paths.aliases.'' @ alias) (pa_path entry),
       check_opt (validate_env_name (''paths.aliases.'' @ alias @ ''.env'')) (pa_env entry)])"

definition validate_config :: "flow_libs \<Rightarrow> flow_config \<Rightarrow> config_error + unit" where
  "validate_config L c =
     checks [
       require (fc_version c = config_version) (UnsupportedVersion (fc_version c)),
       validate_id ''project.name'' (pc_name (fc_project c)),
       validate_id ''project.default_profile'' (pc_default_profile (fc_project c)),
       validate_id ''project.hook_profile'' (pc_hook_profile (fc_project c)),
       validate_repo_path ''paths.reports'' (ps_reports (fc_paths c)),
       validate_repo_path ''paths.audit_config'' (ps_audit_config (fc_paths c)),
       validate_repo_path ''paths.secrets_config'' (ps_secrets_config (fc_paths c)),
       check_all validate_alias (ps_aliases (fc_paths c)),
       validate_services c,
       validate_parsers L c,
       validate_doctor c,
       validate_scope L c,
       validate_steps c]"

section \<open>Overrides from the environment\<close>

definition override_string :: "(string \<Rightarrow> string option) \<Rightarrow> string \<Rightarrow> string \<Rightarrow> string" where
  "override_string env name target = (case env name of None \<Rightarrow> target | Some v \<Rightarrow> v)"

definition override_u64 ::
    "(string \<Rightarrow> string option) \<Rightarrow> string \<Rightarrow> nat \<Rightarrow> config_error + nat" where
  "override_u64 env name target =
     (case env name of None \<Rightarrow> Inr target
      | Some v \<Rightarrow> or_err (parse_unsigned u64_max v) (EnvNotInteger name))"

definition override_optional ::
    "(string \<Rightarrow> string option) \<Rightarrow> string option \<Rightarrow> string \<Rightarrow> string" where
  "override_optional env name target =
     (case name of None \<Rightarrow> target | Some n \<Rightarrow> override_string env n target)"

definition override_timeout ::
    "(string \<Rightarrow> string option) \<Rightarrow> string option \<Rightarrow> nat \<Rightarrow> config_error + nat" where
  "override_timeout env name target =
     (case name of None \<Rightarrow> Inr target | Some n \<Rightarrow> override_u64 env n target)"

definition override_service ::
    "(string \<Rightarrow> string option) \<Rightarrow> string \<times> service_config \<Rightarrow>
     config_error + string \<times> service_config" where
  "override_service env = (\<lambda>(i, service).
     case service of Environment _ _ \<Rightarrow> Inr (i, service)
     | Docker d \<Rightarrow>
         and_then (override_timeout env (ds_timeout_env d) (ds_startup_timeout_secs d)) (\<lambda>t.
         Inr (i, Docker (d\<lparr>ds_image := override_optional env (ds_image_env d) (ds_image d),
                           ds_startup_timeout_secs := t\<rparr>))))"

definition override_step ::
    "(string \<Rightarrow> string option) \<Rightarrow> step_config \<Rightarrow> config_error + step_config" where
  "override_step env s =
     and_then (override_timeout env (st_timeout_env s) (st_timeout_secs s)) (\<lambda>t.
     Inr (s\<lparr>st_timeout_secs := t\<rparr>))"

definition override_paths :: "(string \<Rightarrow> string option) \<Rightarrow> paths_config \<Rightarrow> paths_config" where
  "override_paths env p =
     p\<lparr>ps_reports :=
         override_string env ''ARC_FLOW_REPORTS'' (override_string env ''REPORT_DIR'' (ps_reports p)),
       ps_audit_config :=
         override_string env ''ARC_FLOW_AUDIT_CONFIG''
           (override_string env ''AUDITOR_CONFIG'' (ps_audit_config p)),
       ps_secrets_config := override_string env ''ARC_FLOW_SECRETS_CONFIG'' (ps_secrets_config p),
       ps_aliases :=
         map (\<lambda>(alias, entry).
           (alias, entry\<lparr>pa_path := override_optional env (pa_env entry) (pa_path entry)\<rparr>))
           (ps_aliases p)\<rparr>"

definition apply_environment ::
    "(string \<Rightarrow> string option) \<Rightarrow> flow_config \<Rightarrow> config_error + flow_config" where
  "apply_environment env c =
     and_then (map_result (override_service env) (fc_services c)) (\<lambda>services.
     and_then (map_result (override_step env) (fc_steps c)) (\<lambda>steps.
     Inr (c\<lparr>fc_paths := override_paths env (fc_paths c),
            fc_services := services, fc_steps := steps\<rparr>)))"

definition config_from_source ::
    "flow_libs \<Rightarrow> (string \<Rightarrow> flow_config option) \<Rightarrow> string \<Rightarrow> config_error + flow_config" where
  "config_from_source L toml source =
     and_then (or_err (toml source) ParseConfigFailed) (\<lambda>c.
     and_then (validate_config L c) (\<lambda>_. Inr c))"

definition load_config ::
    "flow_libs \<Rightarrow> (string \<Rightarrow> flow_config option) \<Rightarrow> (string \<Rightarrow> string option) \<Rightarrow> file_system \<Rightarrow>
     string list \<Rightarrow> path \<Rightarrow> config_error + flow_config" where
  "load_config L toml env F cwd p =
     and_then (or_err (read_to_string F cwd p) (ReadConfigFailed p)) (\<lambda>source.
     and_then (or_err (toml source) ParseConfigFailed) (\<lambda>c.
     and_then (apply_environment env c) (\<lambda>c'.
     and_then (validate_config L c') (\<lambda>_. Inr c'))))"

section \<open>Classification of changed paths\<close>

fun classify_path ::
    "flow_libs \<Rightarrow> scope_rule list \<Rightarrow> string \<Rightarrow> bool \<Rightarrow> string list \<Rightarrow>
     config_error + bool \<times> string list" where
  "classify_path L [] p matched cs = Inr (matched, cs)"
| "classify_path L (r # rs) p matched cs =
     and_then (check_all (\<lambda>g. require (lib_glob L g) (ScopeErr (InvalidPattern g))) (sr_patterns r))
       (\<lambda>_.
     and_then (or_err (lib_glob_set L (sr_patterns r)) (ScopeErr PatternSetFailed)) (\<lambda>matcher.
     if matcher p then classify_path L rs p True (bs_extend cs (sr_components r))
     else classify_path L rs p matched cs))"

fun classify_from ::
    "flow_libs \<Rightarrow> scope_rule list \<Rightarrow> string list \<Rightarrow> string list \<Rightarrow> string list \<Rightarrow>
     config_error + string list \<times> string list" where
  "classify_from L rules [] cs unmatched = Inr (cs, unmatched)"
| "classify_from L rules (p # ps) cs unmatched =
     and_then (classify_path L rules p False cs) (\<lambda>(matched, cs').
     classify_from L rules ps cs' (if matched then unmatched else unmatched @ [p]))"

definition classify_paths ::
    "flow_libs \<Rightarrow> flow_config \<Rightarrow> string list \<Rightarrow> config_error + string list \<times> string list" where
  "classify_paths L c paths = classify_from L (sc_rules (fc_scope c)) paths [] []"

end
