(* ===== verification/Flow_Migrate.thy ===== *)
theory Flow_Migrate
  imports Flow_Config
begin

text \<open>
  The conversion of a version 1 workflow configuration to version 2 (\<open>migrate_v1\<close> in
  \<open>tools/arc-flow/src/config.rs\<close>). The decoder of the old file is a parameter.
\<close>

section \<open>The old configuration\<close>

record legacy_paths =
  lp_backend :: string
  lp_frontend :: string
  lp_reports :: string
  lp_tool_manifest :: string
  lp_audit_config :: string

record legacy_doctor =
  ld_required_commands :: "string list"
  ld_node_version_file :: string
  ld_hooks_path :: string

record legacy_database =
  lb_image :: string
  lb_startup_timeout_secs :: nat
  lb_container_port :: nat
  lb_user :: string
  lb_password :: string
  lb_name :: string

record legacy_step =
  lst_id :: string
  lst_label :: string
  lst_component :: string
  lst_profiles :: "string list"
  lst_program :: string
  lst_args :: "string list"
  lst_cwd :: string
  lst_log :: string
  lst_timeout_secs :: nat
  lst_timeout_env :: "string option"
  lst_parser :: "string option"
  lst_requires_test_database :: bool

record legacy_config =
  lc_version :: nat
  lc_paths :: legacy_paths
  lc_doctor :: legacy_doctor
  lc_database :: legacy_database
  lc_scope :: scope_config
  lc_steps :: "legacy_step list"

section \<open>The parts of the new one\<close>

definition default_doctor_timeout :: nat where
  "default_doctor_timeout = 15"

definition service_id :: string where
  "service_id = ''test-postgres''"

definition legacy_aliases :: "legacy_paths \<Rightarrow> path_alias btree" where
  "legacy_aliases p =
     bt_insert ''tool_manifest''
       \<lparr>pa_path = lp_tool_manifest p, pa_env = Some ''ARC_FLOW_TOOL_MANIFEST''\<rparr>
       (bt_insert ''frontend'' \<lparr>pa_path = lp_frontend p, pa_env = Some ''ARC_FLOW_FRONTEND''\<rparr>
         (bt_insert ''backend'' \<lparr>pa_path = lp_backend p, pa_env = Some ''ARC_FLOW_BACKEND''\<rparr> []))"

definition legacy_service :: "legacy_database \<Rightarrow> service_config" where
  "legacy_service d =
     Docker
       \<lparr>ds_image = lb_image d, ds_image_env = Some ''ARC_FLOW_POSTGRES_IMAGE'',
        ds_external_env = Some ''TEST_DATABASE_URL'', ds_inject_env = ''TEST_DATABASE_URL'',
        ds_external_value_policy = IsolatedPostgres,
        ds_startup_timeout_secs = lb_startup_timeout_secs d,
        ds_timeout_env = Some ''ARC_FLOW_DATABASE_TIMEOUT_SECS'',
        ds_container_port = lb_container_port d,
        ds_environment =
          bt_insert ''POSTGRES_DB'' (lb_name d)
            (bt_insert ''POSTGRES_PASSWORD'' (lb_password d)
              (bt_insert ''POSTGRES_USER'' (lb_user d) [])),
        ds_healthcheck = [''pg_isready'', ''-U'', lb_user d, ''-d'', lb_name d],
        ds_connection =
          ''postgres://'' @ lb_user d @ '':'' @ lb_password d @ ''@127.0.0.1:{host_port}/'' @ lb_name d\<rparr>"

definition legacy_parsers :: "parser_config btree" where
  "legacy_parsers =
     bt_insert ''angular'' (RegexParser [''Tests'' @ [CHR 0x5C] @ ''s+([0-9]+) passed''] 1 1)
       (bt_insert ''rust'' (RegexParser [''(?m)^running ([0-9]+) tests?$''] 1 1) [])"

definition legacy_step_config :: "legacy_step \<Rightarrow> step_config" where
  "legacy_step_config s =
     \<lparr>st_id = lst_id s, st_label = lst_label s, st_component = lst_component s,
      st_profiles = lst_profiles s, st_program = lst_program s, st_args = lst_args s,
      st_cwd = lst_cwd s, st_log = lst_log s, st_timeout_secs = lst_timeout_secs s,
      st_timeout_env = lst_timeout_env s, st_parser = lst_parser s,
      st_services = (if lst_requires_test_database s then [service_id] else []),
      st_remove_env = (if lst_requires_test_database s then [''DATABASE_URL''] else [])\<rparr>"

definition legacy_check :: "string \<Rightarrow> string \<Rightarrow> bool \<Rightarrow> string option \<Rightarrow> doctor_check_kind \<Rightarrow> doctor_check" where
  "legacy_check i label required help kind =
     \<lparr>dc_id = i, dc_label = label, dc_required = required, dc_help = help,
      dc_timeout_secs = default_doctor_timeout, dc_kind = kind\<rparr>"

definition legacy_checks :: "legacy_doctor \<Rightarrow> doctor_check list" where
  "legacy_checks d =
     map (\<lambda>program. legacy_check (''tool.'' @ program) program True None
            (CommandCheck program [''--version''])) (ld_required_commands d) @
     [legacy_check ''frontend.dependencies'' ''frontend dependencies'' True
        (Some ''run `cd frontend && npm ci`'') (PathCheck ''{frontend}/node_modules'' DirectoryPath),
      legacy_check ''runtime.database'' ''runtime database'' True
        (Some ''create backend/.env from backend/.env.example'')
        (EnvOrFileCheck ''DATABASE_URL'' ''{backend}/.env'' ''DATABASE_URL=''),
      legacy_check ''backend.migrations'' ''migrations'' True
        (Some ''add at least one SQL migration'') (GlobCheck ''{backend}/migrations/*.sql''),
      legacy_check ''git.hooks'' ''Git hooks'' False
        (Some (''run `git config core.hooksPath '' @ ld_hooks_path d @ ''`''))
        (GitConfigCheck ''core.hooksPath'' (ld_hooks_path d)),
      legacy_check ''node.version'' ''Node version'' True None
        (VersionCheck ''node'' [''--version''] (''{root}/'' @ ld_node_version_file d) ''v''),
      legacy_check ''git.remotes'' ''Git remotes'' True None GitRemotesCheck,
      legacy_check ''test.database'' ''test database'' False
        (Some ''configure TEST_DATABASE_URL or Docker'') (ServiceCheck service_id)]"

definition legacy_flow :: "legacy_config \<Rightarrow> string \<Rightarrow> flow_config" where
  "legacy_flow l project_name =
     (let steps = map legacy_step_config (lc_steps l)
      in \<lparr>fc_version = config_version,
          fc_project = \<lparr>pc_name = project_name, pc_default_profile = ''full'', pc_hook_profile = ''hook''\<rparr>,
          fc_paths =
            \<lparr>ps_reports = lp_reports (lc_paths l), ps_audit_config = lp_audit_config (lc_paths l),
             ps_secrets_config = ''.arc-flow/secrets.toml'',
             ps_aliases = legacy_aliases (lc_paths l)\<rparr>,
          fc_required_steps = map st_id steps,
          fc_doctor = legacy_checks (lc_doctor l),
          fc_services = bt_insert service_id (legacy_service (lc_database l)) [],
          fc_parsers = legacy_parsers,
          fc_scope = lc_scope l,
          fc_steps = steps\<rparr>)"

definition migrate_v1 ::
    "flow_libs \<Rightarrow> (string \<Rightarrow> legacy_config option) \<Rightarrow> string \<Rightarrow> string \<Rightarrow> config_error + flow_config" where
  "migrate_v1 L toml_legacy source project_name =
     and_then (or_err (toml_legacy source) ParseConfigFailed) (\<lambda>legacy.
     and_then (require (lc_version legacy = 1) (LegacyVersion (lc_version legacy))) (\<lambda>_.
     let config = legacy_flow legacy project_name
     in and_then (validate_config L config) (\<lambda>_. Inr config)))"

end
