(* ===== verification/Flow_Process.thy ===== *)
theory Flow_Process
  imports Flow_Config
begin

text \<open>
  Running commands (\<open>tools/arc-flow/src/process.rs\<close>), and the world the tool runs in. The state is
  the file system, the current directory, the commands started so far and the number of clock and
  signal readings; \<open>machine\<close> holds what the outside contributes: environment variables, the
  behaviour of each started command, the readings of the clock and of the cancellation flag, and
  the external crates (TOML, JSON, regular expressions, globs). A started command is described by what each poll of it observes, so every
  timing is covered.
\<close>

section \<open>The world\<close>

datatype exit_status = Exited int | Signalled

definition success :: "exit_status \<Rightarrow> bool" where
  "success s \<longleftrightarrow> s = Exited 0"

definition exit_code :: "exit_status \<Rightarrow> int option" where
  "exit_code s = (case s of Exited n \<Rightarrow> Some n | Signalled \<Rightarrow> None)"

text \<open>One turn of a waiting loop: \<open>try_wait\<close>, the cancellation flag, the time since the start.\<close>

record observation =
  ob_exit :: "exit_status option"
  ob_cancelled :: bool
  ob_elapsed :: nat

record command =
  cm_program :: string
  cm_args :: "string list"
  cm_cwd :: path
  cm_env :: "string \<Rightarrow> string option"

record child =
  ch_polls :: "nat \<Rightarrow> observation"
  ch_stdout :: string
  ch_stderr :: string
  ch_log :: string
  ch_duration :: nat
  ch_effect :: "file_system \<Rightarrow> file_system"

record machine =
  m_env :: "string \<Rightarrow> string option"
  m_libs :: flow_libs
  m_toml_flow :: "string \<Rightarrow> flow_config option"
  m_json_text :: "json_value \<Rightarrow> string"
  m_json_parse :: "string \<Rightarrow> json_value option"
  m_timestamp :: "nat \<Rightarrow> string"
  m_spawn :: "nat \<Rightarrow> command \<Rightarrow> child option"
  m_now :: "nat \<Rightarrow> nat"
  m_cancelled :: "nat \<Rightarrow> bool"

record world =
  w_fs :: file_system
  w_cwd :: "string list"
  w_commands :: "command list"
  w_clock :: nat
  w_signals :: nat

type_synonym ('e, 'a) action = "(world, 'e, 'a) comp"

definition clock_now :: "'m machine_scheme \<Rightarrow> ('e, nat) action" where
  "clock_now M = (\<lambda>w. (Inr (m_now M (w_clock w)), w\<lparr>w_clock := w_clock w + 1\<rparr>))"

definition cancelled :: "'m machine_scheme \<Rightarrow> ('e, bool) action" where
  "cancelled M = (\<lambda>w. (Inr (m_cancelled M (w_signals w)), w\<lparr>w_signals := w_signals w + 1\<rparr>))"

text \<open>An operation on the file system that may fail.\<close>

definition fs_op :: "(file_system \<Rightarrow> string list \<Rightarrow> file_system option) \<Rightarrow> 'e \<Rightarrow> ('e, unit) action" where
  "fs_op f e = (\<lambda>w. case f (w_fs w) (w_cwd w) of None \<Rightarrow> (Inl e, w)
     | Some F \<Rightarrow> (Inr (), w\<lparr>w_fs := F\<rparr>))"

definition spawn :: "'m machine_scheme \<Rightarrow> command \<Rightarrow> 'e \<Rightarrow> ('e, child) action" where
  "spawn M c e = (\<lambda>w.
     let w' = w\<lparr>w_commands := w_commands w @ [c]\<rparr>
     in case m_spawn M (length (w_commands w)) c of None \<Rightarrow> (Inl e, w')
        | Some ch \<Rightarrow> (Inr ch, w'\<lparr>w_fs := ch_effect ch (w_fs w')\<rparr>))"

section \<open>Waiting\<close>

datatype wait_end = Finished exit_status | Interrupted | Overdue

text \<open>
  The polling loop. \<open>None\<close> is a loop that never ends; how the readings of the clock exclude it is
  shown below.
\<close>

partial_function (option) wait_child ::
    "bool \<Rightarrow> nat \<Rightarrow> (nat \<Rightarrow> observation) \<Rightarrow> nat \<Rightarrow> wait_end option" where
  "wait_child observe_cancel timeout polls k =
     (let ob = polls k
      in case ob_exit ob of Some status \<Rightarrow> Some (Finished status)
         | None \<Rightarrow>
             if observe_cancel \<and> ob_cancelled ob then Some Interrupted
             else if ob_elapsed ob \<ge> timeout then Some Overdue
             else wait_child observe_cancel timeout polls (k + 1))"

lemmas wait_child_code [code] = wait_child.simps [unfolded Let_def]

section \<open>Captured commands\<close>

record captured_output =
  co_status :: exit_status
  co_stdout :: string
  co_stderr :: string

datatype process_error =
    SpawnFailed string | CommandCancelled string | CommandTimedOut string nat | CommandHangs
  | LogFailed path

definition capture_command ::
    "'m machine_scheme \<Rightarrow> string \<Rightarrow> string list \<Rightarrow> path \<Rightarrow> nat \<Rightarrow> bool \<Rightarrow>
     (process_error, captured_output) action" where
  "capture_command M program args cwd timeout observe_cancel =
     bind (spawn M \<lparr>cm_program = program, cm_args = args, cm_cwd = cwd, cm_env = m_env M\<rparr>
             (SpawnFailed program)) (\<lambda>ch.
     bind (ok_or (wait_child observe_cancel timeout (ch_polls ch) 0) CommandHangs) (\<lambda>how.
     case how of
       Interrupted \<Rightarrow> throw (CommandCancelled program)
     | Overdue \<Rightarrow> throw (CommandTimedOut program timeout)
     | Finished status \<Rightarrow>
         ret \<lparr>co_status = status, co_stdout = ch_stdout ch, co_stderr = ch_stderr ch\<rparr>))"

definition capture ::
    "'m machine_scheme \<Rightarrow> string \<Rightarrow> string list \<Rightarrow> path \<Rightarrow> nat \<Rightarrow> (process_error, captured_output) action" where
  "capture M program args cwd timeout = capture_command M program args cwd timeout True"

definition capture_cleanup ::
    "'m machine_scheme \<Rightarrow> string \<Rightarrow> string list \<Rightarrow> path \<Rightarrow> nat \<Rightarrow> (process_error, captured_output) action" where
  "capture_cleanup M program args cwd timeout = capture_command M program args cwd timeout False"

section \<open>Tasks\<close>

record task =
  tk_label :: string
  tk_program :: string
  tk_args :: "string list"
  tk_cwd :: path
  tk_env :: "(string \<times> string) list"
  tk_env_remove :: "string list"
  tk_timeout :: nat
  tk_log :: path

record task_result =
  tr_label :: string
  tr_passed :: bool
  tr_timed_out :: bool
  tr_cancelled :: bool
  tr_duration_ms :: nat
  tr_log :: string
  tr_detail :: "string option"

definition task_new :: "string \<Rightarrow> string \<Rightarrow> path \<Rightarrow> path \<Rightarrow> task" where
  "task_new label program cwd log =
     \<lparr>tk_label = label, tk_program = program, tk_args = [], tk_cwd = cwd, tk_env = [],
      tk_env_remove = [], tk_timeout = 180 * 1000, tk_log = log\<rparr>"

definition task_args :: "string list \<Rightarrow> task \<Rightarrow> task" where
  "task_args args t = t\<lparr>tk_args := tk_args t @ args\<rparr>"

definition task_env :: "string \<Rightarrow> string \<Rightarrow> task \<Rightarrow> task" where
  "task_env key v t = t\<lparr>tk_env := tk_env t @ [(key, v)]\<rparr>"

definition task_env_remove :: "string \<Rightarrow> task \<Rightarrow> task" where
  "task_env_remove key t = t\<lparr>tk_env_remove := tk_env_remove t @ [key]\<rparr>"

definition task_timeout :: "nat \<Rightarrow> task \<Rightarrow> task" where
  "task_timeout seconds t = t\<lparr>tk_timeout := seconds * 1000\<rparr>"

text \<open>The environment of the command: inherited, then the task's variables, then the removals.\<close>

definition task_environment ::
    "(string \<Rightarrow> string option) \<Rightarrow> task \<Rightarrow> string \<Rightarrow> string option" where
  "task_environment env t =
     fold (\<lambda>name e. e(name := None)) (tk_env_remove t)
       (fold (\<lambda>(key, v) e. e(key \<mapsto> v)) (tk_env t) env)"

definition task_detail :: "wait_end \<Rightarrow> string option" where
  "task_detail how =
     (case how of
        Interrupted \<Rightarrow> Some ''cancelled''
      | Overdue \<Rightarrow> Some ''timed out''
      | Finished status \<Rightarrow>
          if success status then None
          else map_option (\<lambda>code. ''exit code '' @ show_int code) (exit_code status))"

definition task_command :: "'m machine_scheme \<Rightarrow> task \<Rightarrow> command" where
  "task_command M t =
     \<lparr>cm_program = tk_program t, cm_args = tk_args t, cm_cwd = tk_cwd t,
      cm_env = task_environment (m_env M) t\<rparr>"

definition task_run :: "'m machine_scheme \<Rightarrow> task \<Rightarrow> (process_error, task_result) action" where
  "task_run M t =
     bind (case parent (tk_log t) of None \<Rightarrow> ret ()
           | Some d \<Rightarrow> fs_op (\<lambda>F cwd. create_dir_all F cwd d) (LogFailed d)) (\<lambda>_.
     bind (fs_op (\<lambda>F cwd. write_file F cwd (tk_log t) []) (LogFailed (tk_log t))) (\<lambda>_.
     bind (spawn M (task_command M t) (SpawnFailed (tk_program t))) (\<lambda>ch.
     bind (fs_op (\<lambda>F cwd. write_file F cwd (tk_log t) (ch_log ch)) (LogFailed (tk_log t))) (\<lambda>_.
     bind (ok_or (wait_child True (tk_timeout t) (ch_polls ch) 0) CommandHangs) (\<lambda>how.
     ret \<lparr>tr_label = tk_label t,
          tr_passed = (case how of Finished status \<Rightarrow> success status | _ \<Rightarrow> False),
          tr_timed_out = (how = Overdue), tr_cancelled = (how = Interrupted),
          tr_duration_ms = ch_duration ch, tr_log = render (tk_log t),
          tr_detail = task_detail how\<rparr>)))))"

section \<open>The polling loop ends\<close>

text \<open>
  Each turn sleeps, so the time observed grows. From some turn on it is at least the timeout, and
  the loop has ended there at the latest.
\<close>

lemma wait_child_ends:
  assumes "ob_elapsed (polls (k + n)) \<ge> timeout"
  shows "\<exists>how. wait_child c timeout polls k = Some how"
  using assms
proof (induction n arbitrary: k)
  case 0
  then show ?case
    by (subst wait_child.simps) (auto simp: Let_def split: option.splits)
next
  case (Suc n)
  from Suc.IH [of "k + 1"] Suc.prems obtain how
    where "wait_child c timeout polls (k + 1) = Some how" by auto
  then show ?case
    by (subst wait_child.simps) (auto simp: Let_def split: option.splits)
qed

definition waited ::
    "bool \<Rightarrow> nat \<Rightarrow> (nat \<Rightarrow> observation) \<Rightarrow> nat \<Rightarrow> wait_end \<Rightarrow> nat \<Rightarrow> bool" where
  "waited c timeout polls k how n \<longleftrightarrow>
     (\<forall>j < n. ob_exit (polls (k + j)) = None \<and> ob_elapsed (polls (k + j)) < timeout \<and>
              \<not> (c \<and> ob_cancelled (polls (k + j)))) \<and>
     (case how of
        Finished s \<Rightarrow> ob_exit (polls (k + n)) = Some s
      | Interrupted \<Rightarrow> ob_exit (polls (k + n)) = None \<and> c \<and> ob_cancelled (polls (k + n))
      | Overdue \<Rightarrow> ob_exit (polls (k + n)) = None \<and> ob_elapsed (polls (k + n)) \<ge> timeout)"

lemma waited_Suc:
  assumes "waited c timeout polls (k + 1) how n"
    and "ob_exit (polls k) = None" "\<not> (c \<and> ob_cancelled (polls k))" "ob_elapsed (polls k) < timeout"
  shows "waited c timeout polls k how (Suc n)"
  using assms unfolding waited_def
  by (auto simp: less_Suc_eq_0_disj split: wait_end.splits)

lemma wait_child_sound:
  assumes "wait_child c timeout polls k = Some how"
  shows "\<exists>n. waited c timeout polls k how n"
  using assms
proof (rule wait_child.raw_induct
    [of "\<lambda>c timeout polls k how. \<exists>n. waited c timeout polls k how n", rotated])
  fix wait c timeout polls k how
  assume IH: "\<And>c timeout polls k how. wait c timeout polls k = Some how \<Longrightarrow>
      \<exists>n. waited c timeout polls k how n"
    and step: "(let ob = polls k
      in case ob_exit ob of Some status \<Rightarrow> Some (Finished status)
         | None \<Rightarrow>
             if c \<and> ob_cancelled ob then Some Interrupted
             else if ob_elapsed ob \<ge> timeout then Some Overdue
             else wait c timeout polls (k + 1)) = Some how"
  have "waited c timeout polls k how 0 \<or> wait c timeout polls (k + 1) = Some how \<and>
     ob_exit (polls k) = None \<and> \<not> (c \<and> ob_cancelled (polls k)) \<and> ob_elapsed (polls k) < timeout"
    using step by (auto simp: waited_def Let_def split: option.splits if_splits)
  with IH waited_Suc show "\<exists>n. waited c timeout polls k how n" by blast
qed

section \<open>Executing actions\<close>

lemma clock_now_ok [ok_iff]:
  "clock_now M w = (Inr n, t) \<longleftrightarrow> n = m_now M (w_clock w) \<and> t = w\<lparr>w_clock := w_clock w + 1\<rparr>"
  by (auto simp: clock_now_def)

lemma cancelled_ok [ok_iff]:
  "cancelled M w = (Inr b, t) \<longleftrightarrow>
     b = m_cancelled M (w_signals w) \<and> t = w\<lparr>w_signals := w_signals w + 1\<rparr>"
  by (auto simp: cancelled_def)

lemma fs_op_ok [ok_iff]:
  "fs_op f e w = (Inr u, t) \<longleftrightarrow> (\<exists>F. f (w_fs w) (w_cwd w) = Some F \<and> t = w\<lparr>w_fs := F\<rparr>)"
  by (auto simp: fs_op_def split: option.splits)

lemma spawn_ok [ok_iff]:
  "spawn M c e w = (Inr ch, t) \<longleftrightarrow>
     m_spawn M (length (w_commands w)) c = Some ch \<and>
     t = w\<lparr>w_commands := w_commands w @ [c], w_fs := ch_effect ch (w_fs w)\<rparr>"
  by (auto simp: spawn_def Let_def split: option.splits)

lemmas action_defs = clock_now_def cancelled_def fs_op_def spawn_def

end
