(* ===== verification/Flow_Project.thy ===== *)
theory Flow_Project
  imports Flow_Process
begin

text \<open>
  Discovery of the project and its paths (\<open>tools/arc-flow/src/project.rs\<close>): the root directory,
  the configuration file, the resolution of configured paths inside the repository, and the
  expansion of placeholders.
\<close>

section \<open>Paths inside the repository\<close>

datatype project_error =
    NotRelative string | Escapes string path | CannotResolve string | EscapesRepository string path
  | MissingPath string path | RootNotDirectory path | RootNotFound path | NoCurrentDirectory
  | ConfigOutside path | ConfigErr config_error | AuditConfigMissing path
  | SecretsConfigMissing path | ReportsChanged | ReportsNotCreated

text \<open>The nearest ancestor that exists, itself not followed when it is a symbolic link.\<close>

function existing_ancestor :: "file_system \<Rightarrow> string list \<Rightarrow> path \<Rightarrow> path option" where
  "existing_ancestor F cwd p =
     (if symlink_metadata F cwd p then Some p
      else case parent p of None \<Rightarrow> None | Some q \<Rightarrow> existing_ancestor F cwd q)"
  by pat_completeness auto
termination
  by (relation "measure (\<lambda>(_, _, p). length p)") (auto simp: parent_def split: if_splits)

declare existing_ancestor.simps [simp del]

definition resolve_repo_path ::
    "file_system \<Rightarrow> string list \<Rightarrow> path \<Rightarrow> path \<Rightarrow> string \<Rightarrow> bool \<Rightarrow> project_error + path" where
  "resolve_repo_path F cwd root p label must_exist =
     (if p = [] \<or> is_absolute p then Inl (NotRelative label)
      else if climbs p then Inl (Escapes label p)
      else let candidate = join_path root p
           in if symlink_metadata F cwd candidate then
                (case canonicalize F cwd candidate of
                   None \<Rightarrow> Inl (CannotResolve label)
                 | Some resolved \<Rightarrow>
                     if \<not> prefix root resolved then Inl (EscapesRepository label candidate)
                     else Inr resolved)
              else if must_exist then Inl (MissingPath label candidate)
              else (case existing_ancestor F cwd candidate of
                      None \<Rightarrow> Inl (CannotResolve label)
                    | Some ancestor \<Rightarrow>
                        (case canonicalize F cwd ancestor of
                           None \<Rightarrow> Inl (CannotResolve label)
                         | Some resolved \<Rightarrow>
                             if \<not> prefix root resolved then Inl (EscapesRepository label candidate)
                             else Inr candidate)))"

section \<open>Discovery\<close>

record project =
  pj_root :: path
  pj_config_path :: path
  pj_config :: flow_config
  pj_reports :: path
  pj_audit_config :: path
  pj_secrets_config :: path
  pj_aliases :: "path btree"

definition default_config_path :: path where
  "default_config_path = components ''.arc-flow/flow.toml''"

definition canonical_directory ::
    "file_system \<Rightarrow> string list \<Rightarrow> path \<Rightarrow> project_error + path" where
  "canonical_directory F cwd p =
     and_then (or_err (canonicalize F cwd p) (CannotResolve ''project path'')) (\<lambda>q.
     if \<not> is_dir F cwd q then Inl (RootNotDirectory q) else Inr q)"

function ancestors :: "path \<Rightarrow> path list" where
  "ancestors p = p # (case parent p of None \<Rightarrow> [] | Some q \<Rightarrow> ancestors q)"
  by pat_completeness auto
termination
  by (relation "measure length") (auto simp: parent_def split: if_splits)

declare ancestors.simps [simp del]

definition first_some :: "'a option \<Rightarrow> 'a option \<Rightarrow> 'a option" where
  "first_some a b = (case a of None \<Rightarrow> b | Some x \<Rightarrow> Some x)"

definition find_root ::
    "'m machine_scheme \<Rightarrow> file_system \<Rightarrow> string list \<Rightarrow> path \<Rightarrow> path option \<Rightarrow> project_error + path" where
  "find_root M F cwd start0 config_override =
     and_then (canonical_directory F cwd start0) (\<lambda>start.
     let configured =
           first_some config_override (map_option components (m_env M ''ARC_FLOW_CONFIG''));
         search =
           or_err (find (\<lambda>a. is_file F cwd (join_path a default_config_path)) (ancestors start))
             (RootNotFound start)
     in case configured of
          None \<Rightarrow> search
        | Some config \<Rightarrow>
            and_then
              (or_err (canonicalize F cwd (if is_absolute config then config else join_path start config))
                 (CannotResolve ''workflow config'')) (\<lambda>resolved.
            case find (\<lambda>a. path_exists F cwd (join_path a (components ''.git''))) (ancestors resolved) of
              Some root \<Rightarrow> Inr root
            | None \<Rightarrow> search))"

definition resolve_config_path ::
    "'m machine_scheme \<Rightarrow> file_system \<Rightarrow> string list \<Rightarrow> path \<Rightarrow> path option \<Rightarrow> project_error + path" where
  "resolve_config_path M F cwd root override_path =
     (let p = (case first_some override_path (map_option components (m_env M ''ARC_FLOW_CONFIG'')) of
                 None \<Rightarrow> default_config_path | Some p \<Rightarrow> p);
          p' = (if is_absolute p then p else join_path root p)
      in and_then (or_err (canonicalize F cwd p') (CannotResolve ''workflow config'')) (\<lambda>q.
         if \<not> prefix root q then Inl (ConfigOutside q) else Inr q))"

definition config_result :: "config_error + 'a \<Rightarrow> project_error + 'a" where
  "config_result r = (case r of Inl e \<Rightarrow> Inl (ConfigErr e) | Inr x \<Rightarrow> Inr x)"

definition project_validate :: "file_system \<Rightarrow> string list \<Rightarrow> project \<Rightarrow> project_error + unit" where
  "project_validate F cwd p =
     checks [
       require (is_file F cwd (pj_audit_config p)) (AuditConfigMissing (pj_audit_config p)),
       require (is_file F cwd (pj_secrets_config p)) (SecretsConfigMissing (pj_secrets_config p))]"

definition resolve_aliases ::
    "file_system \<Rightarrow> string list \<Rightarrow> path \<Rightarrow> path_alias btree \<Rightarrow> project_error + path btree" where
  "resolve_aliases F cwd root aliases =
     map_result (\<lambda>(name, entry).
       and_then (resolve_repo_path F cwd root (components (pa_path entry)) (''path alias '' @ name) False)
         (\<lambda>p. Inr (name, p))) aliases"

definition discover_root ::
    "'m machine_scheme \<Rightarrow> world \<Rightarrow> path option \<Rightarrow> path option \<Rightarrow> project_error + path" where
  "discover_root M w override_root config_override =
     (case first_some override_root (map_option components (m_env M ''PROJECT_ROOT'')) of
        Some root \<Rightarrow> canonical_directory (w_fs w) (w_cwd w) root
      | None \<Rightarrow> find_root M (w_fs w) (w_cwd w) (absolute (w_cwd w)) config_override)"

definition discover ::
    "'m machine_scheme \<Rightarrow> path option \<Rightarrow> path option \<Rightarrow> world \<Rightarrow> project_error + project" where
  "discover M override_root config_override w =
     (let F = w_fs w; cwd = w_cwd w
      in and_then (discover_root M w override_root config_override) (\<lambda>root.
         and_then (resolve_config_path M F cwd root config_override) (\<lambda>config_path.
         and_then (config_result
             (load_config (m_libs M) (m_toml_flow M) (m_env M) F cwd config_path)) (\<lambda>config.
         let paths = fc_paths config
         in
         and_then (resolve_repo_path F cwd root (components (ps_reports paths))
             ''report directory'' False) (\<lambda>reports.
         and_then (resolve_repo_path F cwd root (components (ps_audit_config paths))
             ''audit configuration'' True) (\<lambda>audit_config.
         and_then (resolve_repo_path F cwd root (components (ps_secrets_config paths))
             ''secret scan configuration'' True) (\<lambda>secrets_config.
         and_then (resolve_aliases F cwd root (ps_aliases paths)) (\<lambda>aliases.
         let p = \<lparr>pj_root = root, pj_config_path = config_path, pj_config = config,
                  pj_reports = reports, pj_audit_config = audit_config,
                  pj_secrets_config = secrets_config, pj_aliases = aliases\<rparr>
         in and_then (project_validate F cwd p) (\<lambda>_. Inr p)))))))))"

definition prepare :: "project \<Rightarrow> (project_error, unit) action" where
  "prepare p =
     bind (gets (\<lambda>w. resolve_repo_path (w_fs w) (w_cwd w) (pj_root p)
             (components (ps_reports (fc_paths (pj_config p)))) ''report directory'' False)) (\<lambda>r.
     bind (lift r) (\<lambda>reports.
     bind (ensure (reports = pj_reports p) ReportsChanged) (\<lambda>_.
     bind (fs_op (\<lambda>F cwd. create_dir_all F cwd (join_path (pj_reports p) [Normal ''logs'']))
             ReportsNotCreated) (\<lambda>_.
     bind (gets (\<lambda>w. locate (w_fs w) (w_cwd w) (pj_root p))) (\<lambda>loc.
     bind (ok_or loc (CannotResolve ''project root'')) (\<lambda>cwd.
     modify (\<lambda>w. w\<lparr>w_cwd := cwd\<rparr>)))))))"

section \<open>Placeholders\<close>

definition project_path :: "project \<Rightarrow> string \<Rightarrow> path option" where
  "project_path p alias =
     (if alias = ''root'' then Some (pj_root p)
      else if alias = ''reports'' then Some (pj_reports p)
      else if alias = ''audit_config'' then Some (pj_audit_config p)
      else if alias = ''secrets_config'' then Some (pj_secrets_config p)
      else bt_get (pj_aliases p) alias)"

definition expand_names :: "project \<Rightarrow> string list \<Rightarrow> string \<Rightarrow> string" where
  "expand_names p names v =
     fold (\<lambda>name resolved.
       case project_path p name of None \<Rightarrow> resolved
       | Some q \<Rightarrow> replace_all (''{'' @ name @ ''}'') (render q) resolved) names v"

definition expand :: "project \<Rightarrow> string \<Rightarrow> string" where
  "expand p v =
     expand_names p [''audit_config'', ''secrets_config'', ''reports'', ''root'']
       (expand_names p (bt_keys (ps_aliases (fc_paths (pj_config p)))) v)"

end
