(* ===== verification/Flow_Scope.thy ===== *)
theory Flow_Scope
  imports Flow_Project
begin

text \<open>
  Which files changed and which components they select (\<open>tools/arc-flow/src/scope.rs\<close>).
\<close>

datatype scope_mode = WorkingTree | Staged | Base string | AllComponents

record scope_result =
  sp_mode :: string
  sp_changed_files :: "string list"
  sp_components :: "string list"
  sp_unmatched_files :: "string list"

datatype scope_failure =
    ScopeProcess process_error | GitFailed "string list" | NonUtf8Path | NotWorktree
  | BaseMissing string | UnmatchedFiles nat "string list" | ScopeConfig config_error
  | ScopeReport path

definition scope_all :: "project \<Rightarrow> scope_result" where
  "scope_all p =
     \<lparr>sp_mode = ''all'', sp_changed_files = [],
      sp_components = config_components (pj_config p), sp_unmatched_files = []\<rparr>"

definition scope_json :: "scope_result \<Rightarrow> json_value" where
  "scope_json s =
     VObject [
       (''mode'', VString (sp_mode s)),
       (''changed_files'', json_strings (sp_changed_files s)),
       (''components'', json_strings (sp_components s)),
       (''unmatched_files'', json_strings (sp_unmatched_files s))]"

definition report_file :: "project \<Rightarrow> string \<Rightarrow> path" where
  "report_file p name = join_path (pj_reports p) [Normal name]"

definition scope_write_reports ::
    "'m machine_scheme \<Rightarrow> project \<Rightarrow> scope_result \<Rightarrow> (scope_failure, unit) action" where
  "scope_write_reports M p s =
     (let changed =
        (if sp_changed_files s = [] then []
         else join [CHR 0x0A] (sp_changed_files s) @ [CHR 0x0A])
      in bind (fs_op (\<lambda>F cwd. create_dir_all F cwd (pj_reports p)) (ScopeReport (pj_reports p))) (\<lambda>_.
         bind (fs_op (\<lambda>F cwd. write_file F cwd (report_file p ''changed_files.txt'') changed)
                (ScopeReport (report_file p ''changed_files.txt''))) (\<lambda>_.
         fs_op (\<lambda>F cwd. write_file F cwd (report_file p ''scope.json'') (m_json_text M (scope_json s)))
           (ScopeReport (report_file p ''scope.json'')))))"

definition git_capture ::
    "'m machine_scheme \<Rightarrow> project \<Rightarrow> string list \<Rightarrow> (scope_failure, captured_output) action" where
  "git_capture M p args = map_err ScopeProcess (capture M ''git'' args (pj_root p) 30000)"

text \<open>Entries of a list separated by NUL, each of which has to be UTF-8.\<close>

definition nul_entries :: "string \<Rightarrow> string list" where
  "nul_entries out = filter (\<lambda>entry. entry \<noteq> []) (split_on (CHR 0x00) out)"

definition utf8_entries :: "string \<Rightarrow> 'e \<Rightarrow> 'e + string list" where
  "utf8_entries out e =
     map_result (\<lambda>entry. if valid_utf8 entry then Inr entry else Inl e) (nul_entries out)"

definition git_paths ::
    "'m machine_scheme \<Rightarrow> project \<Rightarrow> string list \<Rightarrow> (scope_failure, string list) action" where
  "git_paths M p args =
     bind (git_capture M p args) (\<lambda>output.
     bind (ensure (success (co_status output)) (GitFailed args)) (\<lambda>_.
     lift (utf8_entries (co_stdout output) NonUtf8Path)))"

definition ensure_git_worktree :: "'m machine_scheme \<Rightarrow> project \<Rightarrow> (scope_failure, unit) action" where
  "ensure_git_worktree M p =
     bind (git_capture M p [''rev-parse'', ''--is-inside-work-tree'']) (\<lambda>output.
     ensure (\<not> (\<not> success (co_status output) \<or> co_stdout output \<noteq> ''true'' @ [CHR 0x0A])) NotWorktree)"

definition changed_paths ::
    "'m machine_scheme \<Rightarrow> project \<Rightarrow> scope_mode \<Rightarrow> (scope_failure, string \<times> string list) action" where
  "changed_paths M p mode =
     (case mode of
        WorkingTree \<Rightarrow>
          bind (git_paths M p [''diff'', ''--name-only'', ''-z'']) (\<lambda>a.
          bind (git_paths M p [''diff'', ''--cached'', ''--name-only'', ''-z'']) (\<lambda>b.
          bind (git_paths M p [''ls-files'', ''--others'', ''--exclude-standard'', ''-z'']) (\<lambda>c.
          ret (''working-tree'', bs_extend (bs_extend (bs_extend [] a) b) c))))
      | Staged \<Rightarrow>
          bind (git_paths M p [''diff'', ''--cached'', ''--name-only'', ''-z'']) (\<lambda>a.
          ret (''staged'', bs_extend [] a))
      | Base reference \<Rightarrow>
          bind (git_capture M p [''rev-parse'', ''--verify'', reference @ ''^{commit}'']) (\<lambda>output.
          bind (ensure (success (co_status output)) (BaseMissing reference)) (\<lambda>_.
          bind (git_paths M p [''diff'', ''--name-only'', ''-z'', reference @ ''...HEAD'']) (\<lambda>a.
          ret (''base:'' @ reference, bs_extend [] a))))
      | AllComponents \<Rightarrow> ret (''all'', []))"

definition apply_unmatched ::
    "project \<Rightarrow> string \<Rightarrow> string list \<Rightarrow> string list \<times> string list \<Rightarrow>
     scope_failure + scope_result" where
  "apply_unmatched p mode_label changed_files = (\<lambda>(cs, unmatched_files).
     let result = (\<lambda>ks. \<lparr>sp_mode = mode_label, sp_changed_files = changed_files,
                         sp_components = ks, sp_unmatched_files = unmatched_files\<rparr>)
     in case sc_unmatched (fc_scope (pj_config p)) of
          UnmatchedFail \<Rightarrow>
            if unmatched_files \<noteq> [] then Inl (UnmatchedFiles (length unmatched_files) unmatched_files)
            else Inr (result cs)
        | UnmatchedAll \<Rightarrow> Inr (result (bs_extend cs (config_components (pj_config p))))
        | UnmatchedIgnore \<Rightarrow> Inr (result cs))"

definition detect ::
    "'m machine_scheme \<Rightarrow> project \<Rightarrow> scope_mode \<Rightarrow> (scope_failure, scope_result) action" where
  "detect M p mode =
     (if mode = AllComponents then ret (scope_all p)
      else
        bind (ensure_git_worktree M p) (\<lambda>_.
        bind (changed_paths M p mode) (\<lambda>(mode_label, changed_files).
        bind (map_err ScopeConfig (lift (classify_paths (m_libs M) (pj_config p) changed_files))) (\<lambda>cu.
        lift (apply_unmatched p mode_label changed_files cu)))))"

end
