(* ===== verification/Flow_Secrets.thy ===== *)
theory Flow_Secrets
  imports Flow_Scope
begin

text \<open>
  The secret scan (\<open>tools/arc-flow/src/secrets.rs\<close>): the scan configuration and its compilation,
  the rules, the test whether a value looks like a secret, and the scan of the working tree or of
  the staged snapshot. The regular expressions on bytes and the URL parser are parameters.
\<close>

section \<open>Data\<close>

record placeholder_config =
  ph_minimum_unique_characters :: nat
  ph_maximum_nonalphanumeric_characters :: nat
  ph_markers :: "string list"
  ph_exact :: "string list"
  ph_prefixes :: "string list"

record local_test_policy =
  lp_hosts :: "string list"
  lp_database_suffixes :: "string list"
  lp_require_username_equals_password :: bool

record value_rule =
  vr_capture :: nat
  vr_minimum_length :: nat

record postgres_rule =
  pr_username_capture :: nat
  pr_password_capture :: nat
  pr_host_capture :: nat
  pr_database_capture :: nat
  pr_minimum_length :: nat
  pr_local_test_policy :: "local_test_policy option"

record webhook_rule =
  wr_capture :: nat
  wr_query_parameters :: "string list"
  wr_query_minimum_length :: nat
  wr_path_minimum_length :: nat

text \<open>A rule has an identifier, a pattern and what is specific to its kind.\<close>

datatype rule_kind =
    DirectRule | ValueRule value_rule | PostgresRule postgres_rule | WebhookRule webhook_rule

record secret_rule =
  sr_id :: string
  sr_pattern :: string
  sr_kind :: rule_kind

record secret_config =
  sg_version :: nat
  sg_placeholders :: placeholder_config
  sg_rules :: "secret_rule list"

record compiled_rule =
  cr_pattern :: string
  cr_kind :: rule_kind

record secret_scanner =
  ss_placeholders :: placeholder_config
  ss_rules :: "compiled_rule list"

datatype url_host = Domain string | Ipv4Host "8 word list" | Ipv6Host "16 word list"

record url =
  u_scheme :: string
  u_host :: "url_host option"
  u_port :: "nat option"
  u_path_segments :: "string list option"
  u_query_pairs :: "(string \<times> string) list"

record secret_machine = machine +
  m_bytes_captures_len :: "string \<Rightarrow> nat option"
  m_bytes_captures :: "string \<Rightarrow> string \<Rightarrow> string option list list"
  m_url_parse :: "string \<Rightarrow> url option"
  m_toml_secrets :: "string \<Rightarrow> secret_config option"

datatype secrets_error =
    SecretParse | SecretVersion nat | SecretNoRules | SecretPlaceholders | SecretRuleId string
  | SecretRegex string | SecretCapture string nat | SecretMinimum string
  | SecretCapturesNotDistinct string | SecretLocalPolicy string | SecretQueryParameters string
  | SecretRead path | SecretStagedMissing string | SecretNotUtf8 | SecretOutside
  | SecretProcess process_error | SecretGit "string list" | SecretPath | SecretFile string
  | SecretReport path

section \<open>Does a value look like a secret\<close>

definition is_ascii_whitespace :: "char \<Rightarrow> bool" where
  "is_ascii_whitespace c \<longleftrightarrow>
     c \<in> {CHR 0x20, CHR 0x09, CHR 0x0A, CHR 0x0C, CHR 0x0D}"

definition looks_like_secret :: "string \<Rightarrow> nat \<Rightarrow> placeholder_config \<Rightarrow> bool" where
  "looks_like_secret bytes minimum_length ph =
     (let v = trim_matches (\<lambda>c. is_ascii_whitespace c \<or> c = CHR 0x22 \<or> c = CHR 0x27)
                (from_utf8_lossy bytes)
      in if length v < minimum_length \<or> list_ex (\<lambda>p. starts_with v p) (ph_prefixes ph) then False
         else let lowercase = to_ascii_lowercase v
              in if list_ex (\<lambda>m. contains lowercase (to_ascii_lowercase m)) (ph_markers ph) \<or>
                    list_ex (\<lambda>x. lowercase = to_ascii_lowercase x) (ph_exact ph) then False
                 else let significant = filter is_ascii_alphanumeric v
                      in length significant \<ge>
                           minimum_length - ph_maximum_nonalphanumeric_characters ph \<and>
                         length (remdups significant) \<ge> ph_minimum_unique_characters ph)"

definition is_local_test_database ::
    "string \<Rightarrow> string \<Rightarrow> string \<Rightarrow> string \<Rightarrow> local_test_policy \<Rightarrow> bool" where
  "is_local_test_database username password host database policy =
     (let h = to_ascii_lowercase (from_utf8_lossy host);
          d = to_ascii_lowercase (from_utf8_lossy database)
      in h \<in> set (lp_hosts policy) \<and>
         list_ex (\<lambda>sfx. ends_with d sfx) (lp_database_suffixes policy) \<and>
         (\<not> lp_require_username_equals_password policy \<or> username = password))"

definition last_segment :: "url \<Rightarrow> string option" where
  "last_segment u =
     (case u_path_segments u of None \<Rightarrow> None
      | Some segments \<Rightarrow> find (\<lambda>s. s \<noteq> []) (rev segments))"

definition webhook_url_contains_secret ::
    "'m secret_machine_scheme \<Rightarrow> string \<Rightarrow> webhook_rule \<Rightarrow> placeholder_config \<Rightarrow> bool" where
  "webhook_url_contains_secret M bytes r ph =
     (if \<not> valid_utf8 bytes then False
      else case m_url_parse M bytes of None \<Rightarrow> False
        | Some u \<Rightarrow>
            list_ex (\<lambda>(name, v). to_ascii_lowercase name \<in> set (wr_query_parameters r) \<and>
                looks_like_secret v (wr_query_minimum_length r) ph) (u_query_pairs u) \<or>
            (case last_segment u of None \<Rightarrow> False
             | Some segment \<Rightarrow> looks_like_secret segment (wr_path_minimum_length r) ph))"

section \<open>Rules\<close>

definition group :: "nat \<Rightarrow> string option list \<Rightarrow> string option" where
  "group i groups = (if i < length groups then groups ! i else None)"

definition postgres_match ::
    "postgres_rule \<Rightarrow> placeholder_config \<Rightarrow> string option list \<Rightarrow> bool" where
  "postgres_match r ph groups =
     (case (group (pr_username_capture r) groups, group (pr_password_capture r) groups,
            group (pr_host_capture r) groups, group (pr_database_capture r) groups) of
        (Some username, Some password, Some host, Some database) \<Rightarrow>
          if (case pr_local_test_policy r of None \<Rightarrow> False
              | Some policy \<Rightarrow> is_local_test_database username password host database policy)
          then False
          else looks_like_secret password (pr_minimum_length r) ph
      | _ \<Rightarrow> False)"

definition rule_is_match ::
    "'m secret_machine_scheme \<Rightarrow> string \<Rightarrow> placeholder_config \<Rightarrow> compiled_rule \<Rightarrow> bool" where
  "rule_is_match M bytes ph r =
     (let matches = m_bytes_captures M (cr_pattern r) bytes
      in case cr_kind r of
           DirectRule \<Rightarrow> matches \<noteq> []
         | ValueRule v \<Rightarrow>
             list_ex (\<lambda>groups. case group (vr_capture v) groups of None \<Rightarrow> False
               | Some x \<Rightarrow> looks_like_secret x (vr_minimum_length v) ph) matches
         | PostgresRule p \<Rightarrow> list_ex (postgres_match p ph) matches
         | WebhookRule w \<Rightarrow>
             list_ex (\<lambda>groups. case group (wr_capture w) groups of None \<Rightarrow> False
               | Some x \<Rightarrow> webhook_url_contains_secret M x w ph) matches)"

definition scanner_is_match :: "'m secret_machine_scheme \<Rightarrow> secret_scanner \<Rightarrow> string \<Rightarrow> bool" where
  "scanner_is_match M s bytes = list_ex (rule_is_match M bytes (ss_placeholders s)) (ss_rules s)"

section \<open>Compilation of the scan configuration\<close>

definition validate_capture :: "string \<Rightarrow> nat \<Rightarrow> nat \<Rightarrow> secrets_error + unit" where
  "validate_capture i capture_group capture_count =
     require (\<not> (capture_group = 0 \<or> capture_group \<ge> capture_count)) (SecretCapture i capture_group)"

definition validate_minimum :: "string \<Rightarrow> nat \<Rightarrow> secrets_error + unit" where
  "validate_minimum i minimum = require (minimum \<noteq> 0) (SecretMinimum i)"

definition compile_local_test_policy ::
    "string \<Rightarrow> local_test_policy \<Rightarrow> secrets_error + local_test_policy" where
  "compile_local_test_policy i p =
     (if lp_hosts p = [] \<or> lp_database_suffixes p = [] \<or>
         list_ex (\<lambda>v. trim v = []) (lp_hosts p @ lp_database_suffixes p)
      then Inl (SecretLocalPolicy i)
      else Inr (p\<lparr>lp_hosts := map to_ascii_lowercase (lp_hosts p),
                  lp_database_suffixes := map to_ascii_lowercase (lp_database_suffixes p)\<rparr>))"

definition compile_postgres ::
    "string \<Rightarrow> nat \<Rightarrow> postgres_rule \<Rightarrow> secrets_error + rule_kind" where
  "compile_postgres i capture_count r =
     (let captures = [pr_username_capture r, pr_password_capture r, pr_host_capture r,
                      pr_database_capture r]
      in and_then (check_all (\<lambda>k. validate_capture i k capture_count) captures) (\<lambda>_.
         and_then (require (\<not> length (remdups captures) \<noteq> length captures)
                     (SecretCapturesNotDistinct i)) (\<lambda>_.
         and_then (validate_minimum i (pr_minimum_length r)) (\<lambda>_.
         case pr_local_test_policy r of None \<Rightarrow> Inr (PostgresRule r)
         | Some policy \<Rightarrow>
             and_then (compile_local_test_policy i policy) (\<lambda>compiled.
             Inr (PostgresRule (r\<lparr>pr_local_test_policy := Some compiled\<rparr>)))))))"

definition compile_kind :: "string \<Rightarrow> nat \<Rightarrow> rule_kind \<Rightarrow> secrets_error + rule_kind" where
  "compile_kind i capture_count kind =
     (case kind of
        DirectRule \<Rightarrow> Inr DirectRule
      | ValueRule v \<Rightarrow>
          and_then (validate_capture i (vr_capture v) capture_count) (\<lambda>_.
          and_then (validate_minimum i (vr_minimum_length v)) (\<lambda>_. Inr (ValueRule v)))
      | PostgresRule p \<Rightarrow> compile_postgres i capture_count p
      | WebhookRule w \<Rightarrow>
          and_then (validate_capture i (wr_capture w) capture_count) (\<lambda>_.
          and_then (validate_minimum i (wr_query_minimum_length w)) (\<lambda>_.
          and_then (validate_minimum i (wr_path_minimum_length w)) (\<lambda>_.
          if wr_query_parameters w = [] \<or> list_ex (\<lambda>v. trim v = []) (wr_query_parameters w)
          then Inl (SecretQueryParameters i)
          else Inr (WebhookRule
                 (w\<lparr>wr_query_parameters := map to_ascii_lowercase (wr_query_parameters w)\<rparr>))))))"

definition is_rule_id :: "string \<Rightarrow> bool" where
  "is_rule_id i \<longleftrightarrow>
     i \<noteq> [] \<and> list_all (\<lambda>c. is_ascii_alphanumeric c \<or> c \<in> {CHR ''.'', CHR ''-'', CHR ''_''}) i"

fun compile_rules ::
    "'m secret_machine_scheme \<Rightarrow> string list \<Rightarrow> secret_rule list \<Rightarrow>
     secrets_error + compiled_rule list" where
  "compile_rules M ids [] = Inr []"
| "compile_rules M ids (r # rs) =
     (let i = sr_id r
      in and_then (require (is_rule_id i \<and> i \<notin> set ids) (SecretRuleId i)) (\<lambda>_.
         and_then (or_err (m_bytes_captures_len M (sr_pattern r)) (SecretRegex i)) (\<lambda>capture_count.
         and_then (compile_kind i capture_count (sr_kind r)) (\<lambda>kind.
         and_then (compile_rules M (i # ids) rs) (\<lambda>compiled.
         Inr (\<lparr>cr_pattern = sr_pattern r, cr_kind = kind\<rparr> # compiled))))))"

definition secret_config_version :: nat where
  "secret_config_version = 2"

definition scanner_from_source ::
    "'m secret_machine_scheme \<Rightarrow> string \<Rightarrow> secrets_error + secret_scanner" where
  "scanner_from_source M source =
     and_then (or_err (m_toml_secrets M source) SecretParse) (\<lambda>config.
     let ph = sg_placeholders config
     in
     and_then (require (sg_version config = secret_config_version)
         (SecretVersion (sg_version config))) (\<lambda>_.
     and_then (require (sg_rules config \<noteq> []) SecretNoRules) (\<lambda>_.
     and_then (require (\<not> (ph_minimum_unique_characters ph = 0 \<or>
           list_ex (\<lambda>v. trim v = []) (ph_markers ph @ ph_exact ph @ ph_prefixes ph)))
         SecretPlaceholders) (\<lambda>_.
     and_then (compile_rules M [] (sg_rules config)) (\<lambda>rules.
     Inr \<lparr>ss_placeholders = ph, ss_rules = rules\<rparr>)))))"

definition scanner_load ::
    "'m secret_machine_scheme \<Rightarrow> path \<Rightarrow> (secrets_error, secret_scanner) action" where
  "scanner_load M p =
     bind (gets (\<lambda>w. read_to_string (w_fs w) (w_cwd w) p)) (\<lambda>r.
     bind (ok_or r (SecretRead p)) (\<lambda>source.
     lift (scanner_from_source M source)))"

section \<open>The scan\<close>

datatype secret_mode = SecretWorkingTree | SecretStaged

definition staged_file_bytes ::
    "'m secret_machine_scheme \<Rightarrow> project \<Rightarrow> string \<Rightarrow> (secrets_error, string option) action" where
  "staged_file_bytes M p file =
     bind (map_err SecretProcess
             (capture M ''git'' [''show'', '':'' @ file] (pj_root p) 30000)) (\<lambda>output.
     ret (if success (co_status output) then Some (co_stdout output) else None))"

definition git_files ::
    "'m secret_machine_scheme \<Rightarrow> project \<Rightarrow> string list \<Rightarrow> (secrets_error, string list) action" where
  "git_files M p args =
     bind (map_err SecretProcess (capture M ''git'' args (pj_root p) 30000)) (\<lambda>output.
     bind (ensure (success (co_status output)) (SecretGit args)) (\<lambda>_.
     lift (utf8_entries (co_stdout output) SecretPath)))"

definition scanner_for_mode ::
    "'m secret_machine_scheme \<Rightarrow> project \<Rightarrow> secret_mode \<Rightarrow> (secrets_error, secret_scanner) action" where
  "scanner_for_mode M p mode =
     (case mode of
        SecretWorkingTree \<Rightarrow> scanner_load M (pj_secrets_config p)
      | SecretStaged \<Rightarrow>
          bind (ok_or (strip_path_prefix (pj_root p) (pj_secrets_config p)) SecretOutside) (\<lambda>rel.
          let relative = render rel
          in
          bind (ensure (valid_utf8 relative) SecretNotUtf8) (\<lambda>_.
          bind (staged_file_bytes M p relative) (\<lambda>r.
          bind (ok_or r (SecretStagedMissing relative)) (\<lambda>bytes.
          bind (ensure (valid_utf8 bytes) SecretNotUtf8) (\<lambda>_.
          lift (scanner_from_source M bytes)))))))"

text \<open>
  A path that cannot be resolved because some component does not exist: \<open>ErrorKind::NotFound\<close>, as
  opposed to a component that is no directory, or too many links.
\<close>

function walk_not_found :: "file_system \<Rightarrow> nat \<Rightarrow> string list \<Rightarrow> path \<Rightarrow> bool" where
  "walk_not_found F k cur [] = False"
| "walk_not_found F k cur (RootDir # cs) = walk_not_found F k [] cs"
| "walk_not_found F k cur (CurDir # cs) = walk_not_found F k cur cs"
| "walk_not_found F k cur (ParentDir # cs) = walk_not_found F k (butlast cur) cs"
| "walk_not_found F k cur (Normal n # cs) =
     (case F (cur @ [n]) of
        None \<Rightarrow> True
      | Some Dir \<Rightarrow> walk_not_found F k (cur @ [n]) cs
      | Some (File _) \<Rightarrow> False
      | Some (Link t) \<Rightarrow> k \<noteq> 0 \<and> (if k = 0 then False else walk_not_found F (k - 1) cur (t @ cs)))"
  by pat_completeness auto
termination
  by (relation "measures [\<lambda>(_, k, _, _). k, \<lambda>(_, _, _, cs). length cs]") auto

definition scanned_bytes ::
    "'m secret_machine_scheme \<Rightarrow> project \<Rightarrow> secret_mode \<Rightarrow> string \<Rightarrow>
     (secrets_error, string option) action" where
  "scanned_bytes M p mode file =
     (case mode of
        SecretStaged \<Rightarrow> staged_file_bytes M p file
      | SecretWorkingTree \<Rightarrow>
          (let q = join_path (pj_root p) (components file)
           in bind (gets (\<lambda>w. (read_file (w_fs w) (w_cwd w) q,
                                walk_not_found (w_fs w) max_links (w_cwd w) q))) (\<lambda>(r, missing).
              case r of Some bytes \<Rightarrow> ret (Some bytes)
              | None \<Rightarrow> if missing then ret None else throw (SecretFile file))))"

fun scan_each ::
    "'m secret_machine_scheme \<Rightarrow> project \<Rightarrow> secret_mode \<Rightarrow> secret_scanner \<Rightarrow> string list \<Rightarrow>
     (secrets_error, string list) action" where
  "scan_each M p mode s [] = ret []"
| "scan_each M p mode s (file # files) =
     bind (scanned_bytes M p mode file) (\<lambda>r.
     bind (scan_each M p mode s files) (\<lambda>findings.
     ret (case r of None \<Rightarrow> findings
          | Some bytes \<Rightarrow> if scanner_is_match M s bytes then file # findings else findings)))"

definition secret_listing :: "secret_mode \<Rightarrow> string list" where
  "secret_listing mode =
     (case mode of
        SecretWorkingTree \<Rightarrow> [''ls-files'', ''--cached'', ''--others'', ''--exclude-standard'', ''-z'']
      | SecretStaged \<Rightarrow> [''diff'', ''--cached'', ''--diff-filter=ACMR'', ''--name-only'', ''-z''])"

definition secret_mode_label :: "secret_mode \<Rightarrow> string" where
  "secret_mode_label mode =
     (case mode of SecretWorkingTree \<Rightarrow> ''working-tree'' | SecretStaged \<Rightarrow> ''staged'')"

definition secret_report_json :: "string \<Rightarrow> string \<Rightarrow> string list \<Rightarrow> json_value" where
  "secret_report_json timestamp mode findings =
     VObject [(''timestamp'', VString timestamp), (''mode'', VString mode),
              (''findings'', json_strings findings)]"

definition secrets_scan ::
    "'m secret_machine_scheme \<Rightarrow> project \<Rightarrow> secret_mode \<Rightarrow> (secrets_error, string list) action" where
  "secrets_scan M p mode =
     (let report = report_file p ''secret_scan.json''
      in
      bind (git_files M p (secret_listing mode)) (\<lambda>files.
      bind (scanner_for_mode M p mode) (\<lambda>patterns.
      bind (scan_each M p mode patterns files) (\<lambda>findings.
      bind (fs_op (\<lambda>F cwd. create_dir_all F cwd (pj_reports p)) (SecretReport (pj_reports p))) (\<lambda>_.
      bind (clock_now M) (\<lambda>n.
      bind (fs_op (\<lambda>F cwd. write_file F cwd report
              (m_json_text M (secret_report_json (m_timestamp M n) (secret_mode_label mode) findings)))
             (SecretReport report)) (\<lambda>_.
      ret findings)))))))"

end
