(* ===== verification/Flow_Lexer.thy ===== *)
theory Flow_Lexer
  imports Std "HOL-Library.While_Combinator"
begin

text \<open>
  Positions in a source text, from \<open>tools/arc-flow/src/audit.rs\<close>: the line a match stands in, and
  the ranges of the comments, found by a small lexer that is configured per file extension. The
  lexer's loop is a \<open>while_option\<close>: that it ends is a theorem, which needs the tokens of the
  configuration not to be empty.
\<close>

section \<open>Lines\<close>

text \<open>
  \<open>slice::partition_point\<close>, on a slice whose elements that satisfy the predicate come first, as
  they do at each call.
\<close>

definition partition_point :: "('a \<Rightarrow> bool) \<Rightarrow> 'a list \<Rightarrow> nat" where
  "partition_point P xs = length (takeWhile P xs)"

fun newline_offsets :: "nat \<Rightarrow> string \<Rightarrow> nat list" where
  "newline_offsets i [] = []"
| "newline_offsets i (c # s) =
     (if c = CHR 0x0A then i # newline_offsets (i + 1) s else newline_offsets (i + 1) s)"

definition source_line_starts :: "string \<Rightarrow> nat list" where
  "source_line_starts content = 0 # map (\<lambda>n. n + 1) (newline_offsets 0 content)"

definition source_line_at :: "string \<Rightarrow> nat list \<Rightarrow> nat \<Rightarrow> nat \<times> string \<times> nat" where
  "source_line_at content line_starts match_start =
     (let line_index = partition_point (\<lambda>s. s \<le> match_start) line_starts - 1;
          line_start = line_starts ! line_index;
          line_end = (case find_char (CHR 0x0A) (drop line_start content) of
                        None \<Rightarrow> length content | Some offset \<Rightarrow> line_start + offset)
      in (line_index + 1, take (line_end - line_start) (drop line_start content),
          match_start - line_start))"

section \<open>Comments\<close>

record block_syntax =
  bl_start :: string
  bl_end :: string
  bl_nested :: bool

record string_syntax =
  sx_start :: string
  sx_end :: string
  sx_escape :: "string option"

record comment_syntax =
  cs_line :: "string list"
  cs_block :: "block_syntax list"
  cs_strings :: "string_syntax list"

datatype lexical_state =
    Code
  | InString string_syntax
  | LineComment nat
  | BlockComment block_syntax nat nat

definition token_at :: "string \<Rightarrow> nat \<Rightarrow> string \<Rightarrow> bool" where
  "token_at bytes offset token \<longleftrightarrow> prefix token (drop offset bytes)"

text \<open>\<open>Iterator::max_by_key\<close>: the last of the elements with the greatest key.\<close>

fun max_by_key :: "('a \<Rightarrow> nat) \<Rightarrow> 'a list \<Rightarrow> 'a option" where
  "max_by_key f [] = None"
| "max_by_key f (x # xs) =
     (case max_by_key f xs of None \<Rightarrow> Some x
      | Some y \<Rightarrow> if f x > f y then Some x else Some y)"

type_synonym lexer = "lexical_state \<times> nat \<times> (nat \<times> nat) list"

definition step_code :: "string \<Rightarrow> comment_syntax \<Rightarrow> nat \<Rightarrow> lexical_state \<times> nat" where
  "step_code bytes syntax offset =
     (case max_by_key (\<lambda>s. length (sx_start s))
             (filter (\<lambda>s. token_at bytes offset (sx_start s)) (cs_strings syntax)) of
        Some s \<Rightarrow> (InString s, offset + length (sx_start s))
      | None \<Rightarrow>
     (case max_by_key (\<lambda>b. length (bl_start b))
             (filter (\<lambda>b. token_at bytes offset (bl_start b)) (cs_block syntax)) of
        Some b \<Rightarrow> (BlockComment b offset 1, offset + length (bl_start b))
      | None \<Rightarrow>
     (case max_by_key length (filter (token_at bytes offset) (cs_line syntax)) of
        Some l \<Rightarrow> (LineComment offset, offset + length l)
      | None \<Rightarrow> (Code, offset + 1))))"

definition step_string :: "string \<Rightarrow> string_syntax \<Rightarrow> nat \<Rightarrow> lexical_state \<times> nat" where
  "step_string bytes s offset =
     (case sx_escape s of
        Some escape \<Rightarrow>
          if token_at bytes offset escape
          then (InString s, min (offset + length escape + 1) (length bytes))
          else if token_at bytes offset (sx_end s) then (Code, offset + length (sx_end s))
          else (InString s, offset + 1)
      | None \<Rightarrow>
          if token_at bytes offset (sx_end s) then (Code, offset + length (sx_end s))
          else (InString s, offset + 1))"

definition step_block ::
    "string \<Rightarrow> block_syntax \<Rightarrow> nat \<Rightarrow> nat \<Rightarrow> nat \<Rightarrow> (nat \<times> nat) list \<Rightarrow> lexer" where
  "step_block bytes b start depth offset ranges =
     (if bl_nested b \<and> token_at bytes offset (bl_start b)
      then (BlockComment b start (depth + 1), offset + length (bl_start b), ranges)
      else if token_at bytes offset (bl_end b)
      then (let offset' = offset + length (bl_end b)
            in if depth - 1 = 0 then (Code, offset', ranges @ [(start, offset')])
               else (BlockComment b start (depth - 1), offset', ranges))
      else (BlockComment b start depth, offset + 1, ranges))"

fun lexer_step :: "string \<Rightarrow> comment_syntax \<Rightarrow> lexer \<Rightarrow> lexer" where
  "lexer_step bytes syntax (Code, offset, ranges) =
     (let (state, offset') = step_code bytes syntax offset in (state, offset', ranges))"
| "lexer_step bytes syntax (InString s, offset, ranges) =
     (let (state, offset') = step_string bytes s offset in (state, offset', ranges))"
| "lexer_step bytes syntax (LineComment start, offset, ranges) =
     (if bytes ! offset = CHR 0x0A then (Code, offset + 1, ranges @ [(start, offset)])
      else (LineComment start, offset + 1, ranges))"
| "lexer_step bytes syntax (BlockComment b start depth, offset, ranges) =
     step_block bytes b start depth offset ranges"

definition lexer_running :: "string \<Rightarrow> lexer \<Rightarrow> bool" where
  "lexer_running bytes = (\<lambda>(_, offset, _). offset < length bytes)"

definition lexer_result :: "string \<Rightarrow> lexer \<Rightarrow> (nat \<times> nat) list" where
  "lexer_result bytes = (\<lambda>(state, _, ranges).
     case state of
       LineComment start \<Rightarrow> ranges @ [(start, length bytes)]
     | BlockComment _ start _ \<Rightarrow> ranges @ [(start, length bytes)]
     | Code \<Rightarrow> ranges
     | InString _ \<Rightarrow> ranges)"

definition comment_ranges :: "string \<Rightarrow> comment_syntax \<Rightarrow> (nat \<times> nat) list option" where
  "comment_ranges content syntax =
     map_option (lexer_result content)
       (while_option (lexer_running content) (lexer_step content syntax) (Code, 0, []))"

definition is_comment_offset :: "(nat \<times> nat) list \<Rightarrow> nat \<Rightarrow> bool" where
  "is_comment_offset ranges offset =
     (let index = partition_point (\<lambda>r. fst r \<le> offset) ranges
      in index > 0 \<and> fst (ranges ! (index - 1)) \<le> offset \<and> offset < snd (ranges ! (index - 1)))"

section \<open>Facts about lines\<close>

lemma newline_offsets_ge: "n \<in> set (newline_offsets i s) \<Longrightarrow> i \<le> n \<and> n < i + length s"
  by (induction s arbitrary: i) (fastforce split: if_splits)+

lemma newline_offsets_sorted: "sorted_wrt (<) (newline_offsets i s)"
  by (induction s arbitrary: i) (auto dest: newline_offsets_ge)

lemma newline_offsets_iff:
  "n \<in> set (newline_offsets i s) \<longleftrightarrow> i \<le> n \<and> n < i + length s \<and> s ! (n - i) = CHR 0x0A"
proof (induction s arbitrary: i)
  case (Cons c s)
  show ?case
  proof (cases "n = i")
    case True
    then show ?thesis using newline_offsets_ge [of n "i + 1" s] by auto
  next
    case False
    then have "n \<in> set (newline_offsets i (c # s)) \<longleftrightarrow> n \<in> set (newline_offsets (i + 1) s)" by auto
    also have "\<dots> \<longleftrightarrow> i < n \<and> n < i + length (c # s) \<and> (c # s) ! (n - i) = CHR 0x0A"
      unfolding Cons.IH using False by (auto simp: nth_Cons' Suc_le_eq)
    finally show ?thesis using False by auto
  qed
qed simp

lemma length_newline_offsets: "length (newline_offsets i s) = count_list s (CHR 0x0A)"
  by (induction s arbitrary: i) auto

lemma newline_offsets_append:
  "newline_offsets i (a @ b) = newline_offsets i a @ newline_offsets (i + length a) b"
  by (induction a arbitrary: i) auto

lemma take_newline_offsets:
  "takeWhile (\<lambda>n. n < m) (newline_offsets 0 s) = newline_offsets 0 (take m s)"
proof -
  have all: "\<forall>n \<in> set (newline_offsets 0 (take m s)). n < m"
    using newline_offsets_ge [of _ 0 "take m s"] by fastforce
  have rest: "\<forall>n \<in> set (newline_offsets (length (take m s)) (drop m s)). \<not> n < m"
  proof
    fix n assume n: "n \<in> set (newline_offsets (length (take m s)) (drop m s))"
    then have "drop m s \<noteq> []" by auto
    then have "length (take m s) = m" by simp
    with newline_offsets_ge [OF n] show "\<not> n < m" by simp
  qed
  have "newline_offsets 0 s =
      newline_offsets 0 (take m s) @ newline_offsets (length (take m s)) (drop m s)"
    using newline_offsets_append [of 0 "take m s" "drop m s"] by simp
  moreover have "takeWhile (\<lambda>n. n < m) (newline_offsets (length (take m s)) (drop m s)) = []"
    using rest by (cases "newline_offsets (length (take m s)) (drop m s)") auto
  ultimately show ?thesis using all by (simp add: takeWhile_append)
qed

lemma line_index:
  "partition_point (\<lambda>k. k \<le> m) (source_line_starts s) = Suc (count_list (take m s) (CHR 0x0A))"
proof -
  have "takeWhile (\<lambda>k. k \<le> m) (map (\<lambda>n. n + 1) (newline_offsets 0 s)) =
      map (\<lambda>n. n + 1) (newline_offsets 0 (take m s))"
    by (simp add: takeWhile_map o_def Suc_le_eq take_newline_offsets)
  then show ?thesis
    by (simp add: partition_point_def source_line_starts_def length_newline_offsets)
qed

text \<open>The start of the line that offset \<open>m\<close> stands in: after the last line feed before it.\<close>

lemma line_start:
  fixes s :: string and m :: nat
  defines "l \<equiv> source_line_starts s ! count_list (take m s) (CHR 0x0A)"
  assumes m: "m \<le> length s"
  shows "l \<le> m" and "CHR 0x0A \<notin> set (take (m - l) (drop l s))"
    and "l = 0 \<or> s ! (l - 1) = CHR 0x0A"
proof -
  let ?t = "take m s"
  let ?ns = "newline_offsets 0 ?t"
  have split: "newline_offsets 0 s = ?ns @ newline_offsets (length ?t) (drop m s)"
    using newline_offsets_append [of 0 ?t "drop m s"] by simp
  have l: "l = (if ?ns = [] then 0 else last ?ns + 1)"
  proof (cases "?ns = []")
    case True
    then show ?thesis
      using length_newline_offsets [of 0 ?t] by (simp add: l_def source_line_starts_def)
  next
    case False
    then have "count_list ?t (CHR 0x0A) = Suc (length ?ns - 1)"
      by (simp flip: length_newline_offsets [of 0])
    with False show ?thesis
      by (simp add: l_def source_line_starts_def split last_conv_nth nth_append)
  qed
  have lastin: "last ?ns < m \<and> s ! last ?ns = CHR 0x0A" if "?ns \<noteq> []"
    using last_in_set [OF that] newline_offsets_iff [of "last ?ns" 0 ?t] by auto
  show "l \<le> m" using l lastin by auto
  show "l = 0 \<or> s ! (l - 1) = CHR 0x0A" using l lastin by auto
  have no: "s ! n \<noteq> CHR 0x0A" if "l \<le> n" "n < m" for n
  proof
    assume "s ! n = CHR 0x0A"
    with that m have n: "n \<in> set ?ns" by (simp add: newline_offsets_iff)
    then have "n \<le> last ?ns"
      using newline_offsets_sorted [of 0 ?t]
      by (cases ?ns rule: rev_cases) (auto simp: sorted_wrt_append)
    with n l that(1) show False by (auto split: if_splits)
  qed
  show "CHR 0x0A \<notin> set (take (m - l) (drop l s))"
  proof
    assume "CHR 0x0A \<in> set (take (m - l) (drop l s))"
    then obtain i where i: "i < m - l" "i < length s - l" "s ! (l + i) = CHR 0x0A"
      by (auto simp: in_set_conv_nth)
    then have "l + i < m" using \<open>l \<le> m\<close> by linarith
    with no [of "l + i"] i(3) show False by simp
  qed
qed

section \<open>Facts about comments\<close>

lemma max_by_key_in: "max_by_key f xs = Some x \<Longrightarrow> x \<in> set xs"
  by (induction xs arbitrary: x) (auto split: option.splits if_splits)

lemma token_at_length:
  "token_at bytes offset token \<Longrightarrow> offset < length bytes \<Longrightarrow> offset + length token \<le> length bytes"
  unfolding token_at_def by (drule prefix_length_le) simp

text \<open>What the validation of the engine configuration guarantees: no token is empty.\<close>

definition tokens_ok :: "comment_syntax \<Rightarrow> bool" where
  "tokens_ok syntax \<longleftrightarrow>
     [] \<notin> set (cs_line syntax) \<and>
     (\<forall>b \<in> set (cs_block syntax). bl_start b \<noteq> [] \<and> bl_end b \<noteq> []) \<and>
     (\<forall>s \<in> set (cs_strings syntax). sx_start s \<noteq> [] \<and> sx_end s \<noteq> [] \<and> sx_escape s \<noteq> Some [])"

definition opens_comment :: "string \<Rightarrow> comment_syntax \<Rightarrow> nat \<Rightarrow> bool" where
  "opens_comment bytes syntax offset \<longleftrightarrow>
     (\<exists>l \<in> set (cs_line syntax). token_at bytes offset l) \<or>
     (\<exists>b \<in> set (cs_block syntax). token_at bytes offset (bl_start b))"

fun state_ok :: "string \<Rightarrow> comment_syntax \<Rightarrow> lexical_state \<Rightarrow> nat \<Rightarrow> bool" where
  "state_ok bytes syntax Code offset = True"
| "state_ok bytes syntax (InString s) offset = (s \<in> set (cs_strings syntax))"
| "state_ok bytes syntax (LineComment start) offset =
     (start < offset \<and> opens_comment bytes syntax start)"
| "state_ok bytes syntax (BlockComment b start depth) offset =
     (start < offset \<and> b \<in> set (cs_block syntax) \<and> opens_comment bytes syntax start)"

fun state_limit :: "lexical_state \<Rightarrow> nat \<Rightarrow> nat" where
  "state_limit (LineComment start) offset = start"
| "state_limit (BlockComment b start depth) offset = start"
| "state_limit _ offset = offset"

definition ranges_ok :: "string \<Rightarrow> comment_syntax \<Rightarrow> (nat \<times> nat) list \<Rightarrow> bool" where
  "ranges_ok bytes syntax ranges \<longleftrightarrow>
     sorted_wrt (\<lambda>r q. snd r \<le> fst q) ranges \<and>
     (\<forall>r \<in> set ranges. fst r < snd r \<and> snd r \<le> length bytes \<and> opens_comment bytes syntax (fst r))"

definition lexer_inv :: "string \<Rightarrow> comment_syntax \<Rightarrow> lexer \<Rightarrow> bool" where
  "lexer_inv bytes syntax = (\<lambda>(state, offset, ranges).
     offset \<le> length bytes \<and> state_ok bytes syntax state offset \<and> ranges_ok bytes syntax ranges \<and>
     (\<forall>r \<in> set ranges. snd r \<le> state_limit state offset))"

lemma ranges_ok_snoc:
  "ranges_ok bytes syntax ranges \<Longrightarrow> (\<forall>r \<in> set ranges. snd r \<le> start) \<Longrightarrow> start < stop \<Longrightarrow>
     stop \<le> length bytes \<Longrightarrow> opens_comment bytes syntax start \<Longrightarrow>
     ranges_ok bytes syntax (ranges @ [(start, stop)])"
  by (auto simp: ranges_ok_def sorted_wrt_append)

lemma step_code_ok:
  assumes "tokens_ok syntax" and "offset < length bytes" and "step_code bytes syntax offset = (st, o')"
  shows "offset < o' \<and> o' \<le> length bytes \<and> state_ok bytes syntax st o' \<and> offset \<le> state_limit st o'"
  using assms
  by (auto simp: step_code_def tokens_ok_def opens_comment_def split: option.splits
      dest!: max_by_key_in dest: token_at_length)

lemma step_string_ok:
  assumes "tokens_ok syntax" and "offset < length bytes" and "s \<in> set (cs_strings syntax)"
    and "step_string bytes s offset = (st, o')"
  shows "offset < o' \<and> o' \<le> length bytes \<and> state_ok bytes syntax st o' \<and> offset \<le> state_limit st o'"
  using assms
  by (auto simp: step_string_def tokens_ok_def split: option.splits if_splits
      dest: token_at_length)

lemma lexer_step_ok:
  assumes "tokens_ok syntax" and "lexer_inv bytes syntax x" and "lexer_running bytes x"
  shows "lexer_inv bytes syntax (lexer_step bytes syntax x)"
    and "fst (snd x) < fst (snd (lexer_step bytes syntax x))"
proof -
  obtain state offset ranges where x: "x = (state, offset, ranges)" by (cases x)
  from assms x have run: "offset < length bytes" and ok: "state_ok bytes syntax state offset"
    and ranges: "ranges_ok bytes syntax ranges" and limit: "\<forall>r \<in> set ranges. snd r \<le> state_limit state offset"
    by (auto simp: lexer_inv_def lexer_running_def)
  have "lexer_inv bytes syntax (lexer_step bytes syntax x) \<and>
        fst (snd x) < fst (snd (lexer_step bytes syntax x))"
  proof (cases state)
    case Code
    obtain st o' where s: "step_code bytes syntax offset = (st, o')"
      by (cases "step_code bytes syntax offset")
    from step_code_ok [OF assms(1) run s] Code limit ranges show ?thesis
      by (auto simp: x s lexer_inv_def)
  next
    case (InString t)
    obtain st o' where s: "step_string bytes t offset = (st, o')"
      by (cases "step_string bytes t offset")
    from step_string_ok [OF assms(1) run _ s] InString ok limit ranges show ?thesis
      by (auto simp: x s lexer_inv_def)
  next
    case (LineComment start)
    with ok limit ranges run show ?thesis
      by (auto simp: x lexer_inv_def intro!: ranges_ok_snoc)
  next
    case (BlockComment b start depth)
    with ok assms(1) have tok: "bl_start b \<noteq> []" "bl_end b \<noteq> []" by (auto simp: tokens_ok_def)
    from BlockComment ok limit ranges run tok show ?thesis
      by (auto simp: x lexer_inv_def step_block_def Let_def intro!: ranges_ok_snoc
          dest!: token_at_length)
  qed
  then show "lexer_inv bytes syntax (lexer_step bytes syntax x)"
    and "fst (snd x) < fst (snd (lexer_step bytes syntax x))" by auto
qed

lemma lexer_ends:
  assumes "tokens_ok syntax"
  shows "\<exists>t. while_option (lexer_running bytes) (lexer_step bytes syntax) (Code, 0, []) = Some t"
proof (rule measure_while_option_Some
    [where P = "lexer_inv bytes syntax" and f = "\<lambda>(_, offset, _). length bytes - offset"])
  fix x assume "lexer_inv bytes syntax x" "lexer_running bytes x"
  with lexer_step_ok [OF assms this] show "lexer_inv bytes syntax (lexer_step bytes syntax x) \<and>
      (case lexer_step bytes syntax x of (_, offset, _) \<Rightarrow> length bytes - offset) <
      (case x of (_, offset, _) \<Rightarrow> length bytes - offset)"
    by (auto simp: lexer_running_def split: prod.splits)
qed (simp add: lexer_inv_def ranges_ok_def)

lemma comment_ranges_ok:
  assumes "tokens_ok syntax"
  shows "\<exists>ranges. comment_ranges bytes syntax = Some ranges \<and> ranges_ok bytes syntax ranges"
proof -
  obtain t where t: "while_option (lexer_running bytes) (lexer_step bytes syntax) (Code, 0, []) = Some t"
    using lexer_ends [OF assms] by blast
  have inv: "lexer_inv bytes syntax t"
    using while_option_rule [where P = "lexer_inv bytes syntax", OF _ t]
      lexer_step_ok(1) [OF assms] by (simp add: lexer_inv_def ranges_ok_def)
  have "\<not> lexer_running bytes t" using t by (rule while_option_stop)
  then have "ranges_ok bytes syntax (lexer_result bytes t)"
    using inv by (cases t; cases "fst t")
      (auto simp: lexer_inv_def lexer_result_def lexer_running_def intro!: ranges_ok_snoc)
  with t show ?thesis by (simp add: comment_ranges_def)
qed

text \<open>On ranges in order the binary search finds the range that contains an offset.\<close>

lemma is_comment_offset_iff:
  assumes "ranges_ok bytes syntax ranges"
  shows "is_comment_offset ranges offset \<longleftrightarrow> (\<exists>r \<in> set ranges. fst r \<le> offset \<and> offset < snd r)"
proof
  assume "is_comment_offset ranges offset"
  moreover have "partition_point (\<lambda>r. fst r \<le> offset) ranges \<le> length ranges"
    by (simp add: partition_point_def length_takeWhile_le)
  ultimately show "\<exists>r \<in> set ranges. fst r \<le> offset \<and> offset < snd r"
    by (auto simp: is_comment_offset_def Let_def
        intro!: bexI [of _ "ranges ! (partition_point (\<lambda>r. fst r \<le> offset) ranges - 1)"])
next
  assume "\<exists>r \<in> set ranges. fst r \<le> offset \<and> offset < snd r"
  then obtain a r b where ranges: "ranges = a @ r # b" and r: "fst r \<le> offset" "offset < snd r"
    by (metis split_list)
  with assms have a: "\<forall>q \<in> set a. snd q \<le> fst r \<and> fst q < snd q" and b: "\<forall>q \<in> set b. snd r \<le> fst q"
    by (auto simp: ranges_ok_def sorted_wrt_append)
  have "takeWhile (\<lambda>q. fst q \<le> offset) ranges = a @ [r]"
  proof -
    have "\<forall>q \<in> set a. fst q \<le> offset" using a r by fastforce
    moreover have "takeWhile (\<lambda>q. fst q \<le> offset) b = []"
      using b r by (cases b) auto
    ultimately show ?thesis using r by (simp add: ranges takeWhile_append)
  qed
  then show "is_comment_offset ranges offset"
    using r by (simp add: is_comment_offset_def partition_point_def Let_def ranges nth_append)
qed

end
