(* ===== verification/Flow_Audit.thy ===== *)
theory Flow_Audit
  imports Flow_Secrets Flow_Lexer
begin

text \<open>
  The architecture audit (\<open>tools/arc-flow/src/audit.rs\<close>): its configuration and validation, the
  scan of source files for violations, the reports and the run. The directory walk (with its ignore
  files) and the multi-line regular expressions are parameters; the texts of the Markdown report are
  the UTF-8 bytes of the source's literals.
\<close>

section \<open>Configuration\<close>

datatype allowlist_entry = PathPrefix string | AllowRegex string

record engine_config =
  en_ignore_filename :: string
  en_json_report_filename :: string
  en_markdown_report_filename :: string
  en_markdown_max_bytes :: nat
  en_markdown_occurrences_per_rule :: nat
  en_comment_syntax :: "(string \<times> comment_syntax) list"

record hard_rule =
  hr_name :: string
  hr_severity :: string
  hr_paths :: "string list"
  hr_extensions :: "string list"
  hr_patterns :: "string list"
  hr_exclude_patterns :: "string list"
  hr_allowlist :: "allowlist_entry list"

record arch_rule =
  arr_name :: string
  arr_layer :: string
  arr_paths :: "string list"
  arr_extensions :: "string list"
  arr_forbidden_patterns :: "string list"
  arr_allowed_patterns :: "string list"
  arr_suggestion :: string
  arr_exclude_patterns :: "string list"
  arr_allowlist :: "allowlist_entry list"

record audit_paths =
  ap_exclude :: "string list"
  ap_aliases :: "(string \<times> string) list"

record audit_config =
  au_version :: nat
  au_engine :: engine_config
  au_paths :: audit_paths
  au_hard_rules :: "hard_rule list"
  au_arch_rules :: "arch_rule list"

text \<open>\<open>toml::Value\<close>, as far as the schema check looks at it.\<close>

datatype toml =
    TString string | TInteger int | TArray "toml list" | TTable "(string \<times> toml) list" | TOther

record audit_machine = secret_machine +
  m_multiline_ok :: "string \<Rightarrow> bool"
  m_multiline_find :: "string \<Rightarrow> string \<Rightarrow> (nat \<times> nat) list"
  m_walk :: "file_system \<Rightarrow> string list \<Rightarrow> path list \<Rightarrow> string \<Rightarrow> path list option"
  m_toml_value :: "string \<Rightarrow> toml option"
  m_toml_audit :: "string \<Rightarrow> audit_config option"

datatype audit_schema_error =
    AuditToml | AuditNotTable | AuditVersionType | AuditVersionMissing | AuditVersion int
  | AuditEngineMissing | AuditLegacyAllowlist | AuditParse | AuditRead path

datatype audit_engine_error =
    NotFileName string | ReportNamesEqual | MarkdownLimits | EmptyToken string
  | NestedDelimiters string

datatype audit_rule_error =
    EmptyExtension string | ExtensionWithoutSyntax string string | RuleWithoutPath string
  | RuleName string | RuleSeverity string string | RuleWithoutPatterns string
  | ArchRuleIncomplete string | AuditRegex string | AllowlistRegex string string

datatype audit_error =
    SchemaErr audit_schema_error | EngineErr audit_engine_error | RuleErr audit_rule_error
  | AuditPath project_error | WalkFailed | SourceRead path | LexerHangs | AuditReport path

section \<open>The schema of the configuration file\<close>

fun toml_get :: "string \<Rightarrow> toml \<Rightarrow> toml option" where
  "toml_get k (TTable t) = map_of t k"
| "toml_get k _ = None"

fun toml_array :: "toml \<Rightarrow> toml list option" where
  "toml_array (TArray xs) = Some xs"
| "toml_array _ = None"

fun toml_is_str :: "toml \<Rightarrow> bool" where
  "toml_is_str (TString _) = True"
| "toml_is_str _ = False"

fun toml_integer :: "toml \<Rightarrow> int option" where
  "toml_integer (TInteger i) = Some i"
| "toml_integer _ = None"

definition array_at :: "string \<Rightarrow> toml \<Rightarrow> toml list option" where
  "array_at k v = (case toml_get k v of None \<Rightarrow> None | Some x \<Rightarrow> toml_array x)"

definition contains_legacy_string_allowlist :: "toml \<Rightarrow> bool" where
  "contains_legacy_string_allowlist config =
     list_ex (\<lambda>rules_key.
       case array_at rules_key config of None \<Rightarrow> False
       | Some rules \<Rightarrow>
           list_ex (\<lambda>rule. case array_at ''allowlist'' rule of None \<Rightarrow> False
             | Some entries \<Rightarrow> list_ex toml_is_str entries) rules)
       [''hard_rules'', ''arch_rules'']"

definition audit_config_version :: nat where
  "audit_config_version = 2"

definition parse_audit_config ::
    "'m audit_machine_scheme \<Rightarrow> string \<Rightarrow> audit_schema_error + audit_config" where
  "parse_audit_config M source =
     and_then (or_err (m_toml_value M source) AuditToml) (\<lambda>raw.
     and_then (case raw of TTable t \<Rightarrow> Inr t | _ \<Rightarrow> Inl AuditNotTable) (\<lambda>table.
     and_then (case map_of table ''version'' of
                 Some v \<Rightarrow> or_err (toml_integer v) AuditVersionType
               | None \<Rightarrow> Inl AuditVersionMissing) (\<lambda>version.
     and_then (require (version = int audit_config_version) (AuditVersion version)) (\<lambda>_.
     and_then (require (map_of table ''engine'' \<noteq> None) AuditEngineMissing) (\<lambda>_.
     and_then (require (\<not> contains_legacy_string_allowlist raw) AuditLegacyAllowlist) (\<lambda>_.
     or_err (m_toml_audit M source) AuditParse))))))"

section \<open>Validation\<close>

definition validate_filename :: "string \<Rightarrow> string \<Rightarrow> audit_engine_error + unit" where
  "validate_filename v field =
     (let p = components v
      in require (\<not> (trim v = [] \<or> length p \<noteq> 1 \<or> file_name p = None)) (NotFileName field))"

definition validate_syntax :: "string \<times> comment_syntax \<Rightarrow> audit_engine_error + unit" where
  "validate_syntax = (\<lambda>(ext, syntax).
     checks [
       require (\<not> (trim ext = [] \<or> list_ex (\<lambda>token. token = []) (cs_line syntax) \<or>
           list_ex (\<lambda>b. bl_start b = [] \<or> bl_end b = []) (cs_block syntax) \<or>
           list_ex (\<lambda>s. sx_start s = [] \<or> sx_end s = [] \<or>
             (case sx_escape s of None \<Rightarrow> False | Some e \<Rightarrow> e = [])) (cs_strings syntax)))
         (EmptyToken ext),
       require (\<not> list_ex (\<lambda>b. bl_nested b \<and> bl_start b = bl_end b) (cs_block syntax))
         (NestedDelimiters ext)])"

definition validate_engine_config :: "engine_config \<Rightarrow> audit_engine_error + unit" where
  "validate_engine_config e =
     checks [
       validate_filename (en_ignore_filename e) ''ignore_filename'',
       validate_filename (en_json_report_filename e) ''json_report_filename'',
       validate_filename (en_markdown_report_filename e) ''markdown_report_filename'',
       require (en_json_report_filename e \<noteq> en_markdown_report_filename e) ReportNamesEqual,
       require (\<not> (en_markdown_max_bytes e = 0 \<or> en_markdown_occurrences_per_rule e = 0)) MarkdownLimits,
       check_all validate_syntax (en_comment_syntax e)]"

definition validate_rule_extensions ::
    "engine_config \<Rightarrow> string list \<Rightarrow> string \<Rightarrow> audit_rule_error + unit" where
  "validate_rule_extensions e extensions name =
     check_all (\<lambda>ext.
       checks [
         require (trim ext \<noteq> []) (EmptyExtension name),
         require (map_of (en_comment_syntax e) ext \<noteq> None) (ExtensionWithoutSyntax name ext)])
       extensions"

definition compile_regexes :: "'m audit_machine_scheme \<Rightarrow> string list \<Rightarrow> audit_rule_error + unit" where
  "compile_regexes M patterns =
     check_all (\<lambda>p. require (m_multiline_ok M p) (AuditRegex p)) patterns"

definition rule_result :: "audit_rule_error + 'a \<Rightarrow> audit_error + 'a" where
  "rule_result r = (case r of Inl e \<Rightarrow> Inl (RuleErr e) | Inr x \<Rightarrow> Inr x)"

definition path_result :: "project_error + 'a \<Rightarrow> audit_error + 'a" where
  "path_result r = (case r of Inl e \<Rightarrow> Inl (AuditPath e) | Inr x \<Rightarrow> Inr x)"

definition engine_result :: "audit_engine_error + 'a \<Rightarrow> audit_error + 'a" where
  "engine_result r = (case r of Inl e \<Rightarrow> Inl (EngineErr e) | Inr x \<Rightarrow> Inr x)"

definition resolve_rule_roots ::
    "file_system \<Rightarrow> string list \<Rightarrow> path \<Rightarrow> string list \<Rightarrow> (string \<times> string) list \<Rightarrow> string \<Rightarrow>
     audit_error + path list" where
  "resolve_rule_roots F cwd root entries aliases name =
     (if entries = [] then Inl (RuleErr (RuleWithoutPath name))
      else map_result (\<lambda>entry.
        path_result (resolve_repo_path F cwd root
          (components (case map_of aliases entry of None \<Rightarrow> entry | Some p \<Rightarrow> p))
          (''audit rule '' @ name @ '' path'') True)) entries)"

definition resolve_excludes ::
    "file_system \<Rightarrow> string list \<Rightarrow> path \<Rightarrow> string list \<Rightarrow> audit_error + path list" where
  "resolve_excludes F cwd root entries =
     map_result (\<lambda>entry.
       path_result (resolve_repo_path F cwd root (components entry) ''audit excluded path'' False))
       entries"

definition validate_allowlist ::
    "'m audit_machine_scheme \<Rightarrow> file_system \<Rightarrow> string list \<Rightarrow> path \<Rightarrow> allowlist_entry list \<Rightarrow> string \<Rightarrow>
     audit_error + unit" where
  "validate_allowlist M F cwd root allowlist name =
     check_all (\<lambda>entry.
       case entry of
         PathPrefix p \<Rightarrow>
           and_then (path_result (resolve_repo_path F cwd root (components p)
               (''audit rule '' @ name @ '' allowlist path'') False)) (\<lambda>_. Inr ())
       | AllowRegex pattern \<Rightarrow>
           require (lib_captures_len (m_libs M) pattern \<noteq> None) (RuleErr (AllowlistRegex name pattern)))
       allowlist"

definition validate_hard_rule ::
    "'m audit_machine_scheme \<Rightarrow> file_system \<Rightarrow> string list \<Rightarrow> path \<Rightarrow> audit_config \<Rightarrow> string list \<Rightarrow>
     hard_rule \<Rightarrow> audit_error + unit" where
  "validate_hard_rule M F cwd root c names r =
     checks [
       require (\<not> (trim (hr_name r) = [] \<or> hr_name r \<in> set names)) (RuleErr (RuleName (hr_name r))),
       require (hr_severity r \<in> {''blocker'', ''error'', ''warning''})
         (RuleErr (RuleSeverity (hr_name r) (hr_severity r))),
       require (\<not> (hr_extensions r = [] \<or> hr_patterns r = [])) (RuleErr (RuleWithoutPatterns (hr_name r))),
       rule_result (validate_rule_extensions (au_engine c) (hr_extensions r) (hr_name r)),
       and_then (resolve_rule_roots F cwd root (hr_paths r) (ap_aliases (au_paths c)) (hr_name r))
         (\<lambda>_. Inr ()),
       rule_result (compile_regexes M (hr_patterns r)),
       rule_result (compile_regexes M (hr_exclude_patterns r)),
       validate_allowlist M F cwd root (hr_allowlist r) (hr_name r)]"

definition validate_arch_rule ::
    "'m audit_machine_scheme \<Rightarrow> file_system \<Rightarrow> string list \<Rightarrow> path \<Rightarrow> audit_config \<Rightarrow> string list \<Rightarrow>
     arch_rule \<Rightarrow> audit_error + unit" where
  "validate_arch_rule M F cwd root c names r =
     checks [
       require (\<not> (trim (arr_name r) = [] \<or> arr_name r \<in> set names)) (RuleErr (RuleName (arr_name r))),
       require (\<not> (trim (arr_layer r) = [] \<or> trim (arr_suggestion r) = [] \<or>
           arr_extensions r = [] \<or> arr_forbidden_patterns r = [])) (RuleErr (ArchRuleIncomplete (arr_name r))),
       rule_result (validate_rule_extensions (au_engine c) (arr_extensions r) (arr_name r)),
       and_then (resolve_rule_roots F cwd root (arr_paths r) (ap_aliases (au_paths c)) (arr_name r))
         (\<lambda>_. Inr ()),
       rule_result (compile_regexes M (arr_forbidden_patterns r)),
       rule_result (compile_regexes M (arr_allowed_patterns r)),
       rule_result (compile_regexes M (arr_exclude_patterns r)),
       validate_allowlist M F cwd root (arr_allowlist r) (arr_name r)]"

text \<open>The rules one after the other, with the names seen so far.\<close>

fun validate_rules :: "(string list \<Rightarrow> 'r \<Rightarrow> 'e + unit) \<Rightarrow> ('r \<Rightarrow> string) \<Rightarrow> string list \<Rightarrow> 'r list \<Rightarrow> 'e + unit" where
  "validate_rules f name seen [] = Inr ()"
| "validate_rules f name seen (r # rs) =
     checks [f seen r, validate_rules f name (name r # seen) rs]"

definition validate_audit_config ::
    "'m audit_machine_scheme \<Rightarrow> file_system \<Rightarrow> string list \<Rightarrow> path \<Rightarrow> audit_config \<Rightarrow>
     audit_error + path list" where
  "validate_audit_config M F cwd root c =
     and_then (require (au_version c = audit_config_version)
         (SchemaErr (AuditVersion (int (au_version c))))) (\<lambda>_.
     and_then (engine_result (validate_engine_config (au_engine c))) (\<lambda>_.
     and_then (check_all (\<lambda>(alias, p).
         and_then (path_result (resolve_repo_path F cwd root (components p)
             (''audit path alias '' @ alias) False)) (\<lambda>_. Inr ())) (ap_aliases (au_paths c))) (\<lambda>_.
     and_then (resolve_excludes F cwd root (ap_exclude (au_paths c))) (\<lambda>exclude_dirs.
     and_then (validate_rules (validate_hard_rule M F cwd root c) hr_name [] (au_hard_rules c)) (\<lambda>_.
     and_then (validate_rules (validate_arch_rule M F cwd root c) arr_name
         (map hr_name (au_hard_rules c)) (au_arch_rules c)) (\<lambda>_.
     Inr exclude_dirs))))))"

section \<open>Scanning\<close>

record violation =
  vi_file :: path
  vi_line :: nat
  vi_content :: string
  vi_rule_name :: string

definition relative_to :: "path \<Rightarrow> path \<Rightarrow> path" where
  "relative_to root p = (case strip_path_prefix root p of None \<Rightarrow> p | Some q \<Rightarrow> q)"

definition path_str :: "path \<Rightarrow> string" where
  "path_str p = (if valid_utf8 (render p) then render p else [])"

definition is_allowlisted ::
    "'m audit_machine_scheme \<Rightarrow> path \<Rightarrow> path \<Rightarrow> allowlist_entry list \<Rightarrow> bool" where
  "is_allowlisted M p root allowlist =
     (let relative = relative_to root p
      in list_ex (\<lambda>entry.
           case entry of
             PathPrefix q \<Rightarrow> prefix (components q) relative
           | AllowRegex pattern \<Rightarrow>
               lib_captures_len (m_libs M) pattern \<noteq> None \<and>
               lib_captures (m_libs M) pattern (path_str relative) \<noteq> []) allowlist)"

definition is_selected ::
    "'m audit_machine_scheme \<Rightarrow> file_system \<Rightarrow> string list \<Rightarrow> path \<Rightarrow> path list \<Rightarrow> string list \<Rightarrow>
     string list \<Rightarrow> allowlist_entry list \<Rightarrow> path \<Rightarrow> bool" where
  "is_selected M F cwd root exclude_dirs extensions exclude_patterns allowlist p =
     (if is_dir F cwd p then False
      else case extension p of None \<Rightarrow> False
        | Some ext \<Rightarrow>
            if \<not> valid_utf8 ext \<or> ext \<notin> set extensions then False
            else if list_ex (\<lambda>excl. prefix excl p) exclude_dirs then False
            else if list_ex (\<lambda>re. m_multiline_find M re (path_str (relative_to root p)) \<noteq> [])
                      exclude_patterns then False
            else \<not> is_allowlisted M p root allowlist)"

text \<open>
  The matches of all patterns in a file, as offsets with the name to report; at most one violation
  is reported per line, none in a comment or on an allowed line.
\<close>

fun collect_violations ::
    "string \<Rightarrow> nat list \<Rightarrow> (nat \<times> nat) list \<Rightarrow> (string \<Rightarrow> bool) \<Rightarrow> path \<Rightarrow> nat list \<Rightarrow>
     (nat \<times> string) list \<Rightarrow> violation list" where
  "collect_violations content line_starts comments allowed file reported [] = []"
| "collect_violations content line_starts comments allowed file reported ((m, name) # ms) =
     (let (line_number, line, _) = source_line_at content line_starts m
      in if is_comment_offset comments m \<or> allowed line \<or> line_number \<in> set reported
         then collect_violations content line_starts comments allowed file reported ms
         else \<lparr>vi_file = file, vi_line = line_number, vi_content = trim line, vi_rule_name = name\<rparr> #
              collect_violations content line_starts comments allowed file (line_number # reported) ms)"

definition file_comments :: "engine_config \<Rightarrow> path \<Rightarrow> string \<Rightarrow> audit_error + (nat \<times> nat) list" where
  "file_comments e p content =
     (case extension p of None \<Rightarrow> Inr []
      | Some ext \<Rightarrow>
          if \<not> valid_utf8 ext then Inr []
          else case map_of (en_comment_syntax e) ext of None \<Rightarrow> Inr []
            | Some syntax \<Rightarrow> or_err (comment_ranges content syntax) LexerHangs)"

definition pattern_matches ::
    "'m audit_machine_scheme \<Rightarrow> string \<Rightarrow> (string \<times> string) list \<Rightarrow> (nat \<times> string) list" where
  "pattern_matches M content named =
     concat (map (\<lambda>(pattern, name).
       map (\<lambda>span. (fst span, name)) (m_multiline_find M pattern content)) named)"

definition scan_file ::
    "'m audit_machine_scheme \<Rightarrow> file_system \<Rightarrow> string list \<Rightarrow> path \<Rightarrow> engine_config \<Rightarrow>
     (string \<times> string) list \<Rightarrow> (string \<Rightarrow> bool) \<Rightarrow> path \<Rightarrow> audit_error + violation list" where
  "scan_file M F cwd root e named allowed p =
     and_then (or_err (read_to_string F cwd p) (SourceRead p)) (\<lambda>content.
     and_then (file_comments e p content) (\<lambda>comments.
     Inr (sort_key vi_line
       (collect_violations content (source_line_starts content) comments allowed
          (relative_to root p) [] (pattern_matches M content named)))))"

definition hard_names :: "hard_rule \<Rightarrow> (string \<times> string) list" where
  "hard_names r = map (\<lambda>pattern. (pattern, hr_name r @ '':'' @ pattern)) (hr_patterns r)"

definition scan_files ::
    "'m audit_machine_scheme \<Rightarrow> file_system \<Rightarrow> string list \<Rightarrow> path \<Rightarrow> path list \<Rightarrow> path list \<Rightarrow>
     hard_rule \<Rightarrow> engine_config \<Rightarrow> audit_error + violation list" where
  "scan_files M F cwd root root_paths exclude_dirs r e =
     (if root_paths = [] \<or> hr_patterns r = [] then Inr []
      else
        and_then (rule_result (compile_regexes M (hr_patterns r))) (\<lambda>_.
        and_then (rule_result (compile_regexes M (hr_exclude_patterns r))) (\<lambda>_.
        and_then (or_err (m_walk M F cwd root_paths (en_ignore_filename e)) WalkFailed) (\<lambda>entries.
        and_then (map_result (scan_file M F cwd root e (hard_names r) (\<lambda>_. False))
            (filter (is_selected M F cwd root exclude_dirs (hr_extensions r)
               (hr_exclude_patterns r) (hr_allowlist r)) entries)) (\<lambda>violations.
        Inr (concat violations))))))"

definition scan_arch_rule ::
    "'m audit_machine_scheme \<Rightarrow> file_system \<Rightarrow> string list \<Rightarrow> path \<Rightarrow> audit_config \<Rightarrow> path list \<Rightarrow>
     arch_rule \<Rightarrow> audit_error + violation list" where
  "scan_arch_rule M F cwd root c exclude_dirs r =
     and_then (resolve_rule_roots F cwd root (arr_paths r) (ap_aliases (au_paths c)) (arr_name r)) (\<lambda>root_paths.
     if arr_forbidden_patterns r = [] then Inr []
     else
       and_then (rule_result (compile_regexes M (arr_forbidden_patterns r))) (\<lambda>_.
       and_then (rule_result (compile_regexes M (arr_allowed_patterns r))) (\<lambda>_.
       and_then (rule_result (compile_regexes M (arr_exclude_patterns r))) (\<lambda>_.
       and_then (or_err (m_walk M F cwd root_paths (en_ignore_filename (au_engine c))) WalkFailed) (\<lambda>entries.
       and_then (map_result
           (scan_file M F cwd root (au_engine c)
              (map (\<lambda>pattern. (pattern, arr_name r)) (arr_forbidden_patterns r))
              (\<lambda>line. list_ex (\<lambda>allowed. m_multiline_find M allowed line \<noteq> []) (arr_allowed_patterns r)))
           (filter (is_selected M F cwd root exclude_dirs (arr_extensions r)
              (arr_exclude_patterns r) (arr_allowlist r)) entries)) (\<lambda>violations.
       Inr (concat violations)))))))"

definition scan_arch_rules ::
    "'m audit_machine_scheme \<Rightarrow> file_system \<Rightarrow> string list \<Rightarrow> path \<Rightarrow> audit_config \<Rightarrow> path list \<Rightarrow>
     audit_error + violation list" where
  "scan_arch_rules M F cwd root c exclude_dirs =
     and_then (map_result (scan_arch_rule M F cwd root c exclude_dirs) (au_arch_rules c)) (\<lambda>violations.
     Inr (concat violations))"

definition scan_hard_rules ::
    "'m audit_machine_scheme \<Rightarrow> file_system \<Rightarrow> string list \<Rightarrow> path \<Rightarrow> audit_config \<Rightarrow> path list \<Rightarrow>
     audit_error + violation list" where
  "scan_hard_rules M F cwd root c exclude_dirs =
     and_then (map_result (\<lambda>r.
       and_then (resolve_rule_roots F cwd root (hr_paths r) (ap_aliases (au_paths c)) (hr_name r)) (\<lambda>root_paths.
       scan_files M F cwd root root_paths exclude_dirs r (au_engine c))) (au_hard_rules c)) (\<lambda>violations.
     Inr (concat violations))"

section \<open>The JSON report\<close>

record json_occurrence =
  jo_file :: string
  jo_line :: nat
  jo_content :: string

record json_violation =
  jv_rule :: string
  jv_severity :: string
  jv_count :: nat
  jv_occurrences :: "json_occurrence list"

record json_arch_violation =
  ja_rule :: string
  ja_layer :: string
  ja_count :: nat
  ja_suggestion :: string
  ja_occurrences :: "json_occurrence list"

record json_summary =
  js_total_violations :: nat
  js_blocker_count :: nat
  js_error_count :: nat
  js_warning_count :: nat

record json_report =
  jr_timestamp :: string
  jr_hard_violations :: "json_violation list"
  jr_arch_violations :: "json_arch_violation list"
  jr_summary :: json_summary

definition occurrence :: "violation \<Rightarrow> json_occurrence" where
  "occurrence v =
     \<lparr>jo_file = from_utf8_lossy (render (vi_file v)), jo_line = vi_line v, jo_content = vi_content v\<rparr>"

definition hard_violations_of :: "hard_rule \<Rightarrow> violation list \<Rightarrow> violation list" where
  "hard_violations_of r vs = filter (\<lambda>v. starts_with (vi_rule_name v) (hr_name r)) vs"

definition arch_violations_of :: "arch_rule \<Rightarrow> violation list \<Rightarrow> violation list" where
  "arch_violations_of r vs = filter (\<lambda>v. vi_rule_name v = arr_name r) vs"

definition hard_entry :: "violation list \<Rightarrow> hard_rule \<Rightarrow> json_violation" where
  "hard_entry vs r =
     (let occurrences = map occurrence (hard_violations_of r vs)
      in \<lparr>jv_rule = hr_name r, jv_severity = hr_severity r, jv_count = length occurrences,
          jv_occurrences = occurrences\<rparr>)"

definition arch_entry :: "violation list \<Rightarrow> arch_rule \<Rightarrow> json_arch_violation" where
  "arch_entry vs r =
     (let occurrences = map occurrence (arch_violations_of r vs)
      in \<lparr>ja_rule = arr_name r, ja_layer = arr_layer r, ja_count = length occurrences,
          ja_suggestion = arr_suggestion r, ja_occurrences = occurrences\<rparr>)"

definition severity_count :: "string \<Rightarrow> json_violation list \<Rightarrow> nat" where
  "severity_count severity vs =
     sum_list (map jv_count (filter (\<lambda>v. jv_severity v = severity) vs))"

definition generate_report ::
    "string \<Rightarrow> audit_config \<Rightarrow> violation list \<Rightarrow> violation list \<Rightarrow> json_report" where
  "generate_report timestamp c hard_violations arch_violations =
     (let hard_json = map (hard_entry hard_violations) (au_hard_rules c);
          arch_json = map (arch_entry arch_violations) (au_arch_rules c)
      in \<lparr>jr_timestamp = timestamp, jr_hard_violations = hard_json, jr_arch_violations = arch_json,
          jr_summary =
            \<lparr>js_total_violations = sum_list (map jv_count hard_json) + sum_list (map ja_count arch_json),
             js_blocker_count = severity_count ''blocker'' hard_json,
             js_error_count = severity_count ''error'' hard_json,
             js_warning_count = severity_count ''warning'' hard_json\<rparr>\<rparr>)"

definition json_nat :: "nat \<Rightarrow> json_value" where
  "json_nat n = VNumber (show_nat n)"

definition occurrence_json :: "json_occurrence \<Rightarrow> json_value" where
  "occurrence_json o' =
     VObject [(''file'', VString (jo_file o')), (''line'', json_nat (jo_line o')),
              (''content'', VString (jo_content o'))]"

definition report_json :: "json_report \<Rightarrow> json_value" where
  "report_json r =
     VObject [
       (''timestamp'', VString (jr_timestamp r)),
       (''hard_violations'', VArray (map (\<lambda>v. VObject [
          (''rule'', VString (jv_rule v)), (''severity'', VString (jv_severity v)),
          (''count'', json_nat (jv_count v)),
          (''occurrences'', VArray (map occurrence_json (jv_occurrences v)))]) (jr_hard_violations r))),
       (''arch_violations'', VArray (map (\<lambda>v. VObject [
          (''rule'', VString (ja_rule v)), (''layer'', VString (ja_layer v)),
          (''count'', json_nat (ja_count v)), (''suggestion'', VString (ja_suggestion v)),
          (''occurrences'', VArray (map occurrence_json (ja_occurrences v)))]) (jr_arch_violations r))),
       (''summary'', VObject [
          (''total_violations'', json_nat (js_total_violations (jr_summary r))),
          (''blocker_count'', json_nat (js_blocker_count (jr_summary r))),
          (''error_count'', json_nat (js_error_count (jr_summary r))),
          (''warning_count'', json_nat (js_warning_count (jr_summary r)))])]"

section \<open>The Markdown report\<close>

definition md_hard_header :: string where
  "md_hard_header =
     ''=== '' @ [CHR 0xE3, CHR 0x80, CHR 0x90, CHR 0xE8, CHR 0x87, CHR 0xAA, CHR 0xE5, CHR 0x8A,
     CHR 0xA8, CHR 0xE5, CHR 0x8C, CHR 0x96, CHR 0xE7, CHR 0xA1, CHR 0xAC, CHR 0xE6, CHR 0x80,
     CHR 0xA7, CHR 0xE7, CHR 0xBA, CHR 0xA6, CHR 0xE6, CHR 0x9D, CHR 0x9F, CHR 0xE6, CHR 0x89,
     CHR 0xAB, CHR 0xE6, CHR 0x8F, CHR 0x8F, CHR 0xE7, CHR 0xBB, CHR 0x93, CHR 0xE6, CHR 0x9E,
     CHR 0x9C, CHR 0xE3, CHR 0x80, CHR 0x91] @ '' ==='' @ [CHR 0x0A, CHR 0x0A]"

definition md_count :: string where
  "md_count =
     '': '' @ [CHR 0xE8, CHR 0xBF, CHR 0x9D, CHR 0xE8, CHR 0xA7, CHR 0x84, CHR 0xE6, CHR 0x95,
     CHR 0xB0, CHR 0xE9, CHR 0x87, CHR 0x8F] @ '' ''"

definition md_more_open :: string where
  "md_more_open =
     ''    ... '' @ [CHR 0xE5, CHR 0x89, CHR 0xA9, CHR 0xE4, CHR 0xBD, CHR 0x99] @ '' ''"

definition md_more_close :: string where
  "md_more_close =
     '' '' @ [CHR 0xE5, CHR 0xA4, CHR 0x84, CHR 0x0A]"

definition md_none_hard :: string where
  "md_none_hard =
     ''  '' @ [CHR 0xE2, CHR 0x9C, CHR 0x85] @ '' '' @ [CHR 0xE6, CHR 0x9C, CHR 0xAA, CHR 0xE5,
     CHR 0x8F, CHR 0x91, CHR 0xE7, CHR 0x8E, CHR 0xB0, CHR 0x0A]"

definition md_arch_header :: string where
  "md_arch_header =
     ''=== '' @ [CHR 0xE3, CHR 0x80, CHR 0x90, CHR 0xE6, CHR 0x9E, CHR 0xB6, CHR 0xE6, CHR 0x9E,
     CHR 0x84, CHR 0xE5, CHR 0x88, CHR 0x86, CHR 0xE5, CHR 0xB1, CHR 0x82, CHR 0xE8, CHR 0xBF,
     CHR 0x9D, CHR 0xE8, CHR 0xA7, CHR 0x84, CHR 0xE9, CHR 0xA2, CHR 0x84, CHR 0xE6, CHR 0x89,
     CHR 0xAB, CHR 0xE6, CHR 0x8F, CHR 0x8F, CHR 0xE3, CHR 0x80, CHR 0x91] @ '' ==='' @
     [CHR 0x0A, CHR 0x0A]"

definition md_suggestion :: string where
  "md_suggestion =
     ''  '' @ [CHR 0xF0, CHR 0x9F, CHR 0x92, CHR 0xA1] @ '' '' @ [CHR 0xE5, CHR 0xBB, CHR 0xBA,
     CHR 0xE8, CHR 0xAE, CHR 0xAE] @ '': ''"

definition md_none_arch :: string where
  "md_none_arch =
     ''  '' @ [CHR 0xE2, CHR 0x9C, CHR 0x85] @ '' '' @ [CHR 0xE6, CHR 0x9C, CHR 0xAA, CHR 0xE5,
     CHR 0x8F, CHR 0x91, CHR 0xE7, CHR 0x8E, CHR 0xB0, CHR 0xE8, CHR 0xBF, CHR 0x9D, CHR 0xE8,
     CHR 0xA7, CHR 0x84, CHR 0x0A]"

definition newline :: string where
  "newline = [CHR 0x0A]"

definition md_occurrences :: "nat \<Rightarrow> violation list \<Rightarrow> string" where
  "md_occurrences limit vs =
     concat (map (\<lambda>v. ''    '' @ from_utf8_lossy (render (vi_file v)) @ '':'' @
         show_nat (vi_line v) @ '': '' @ vi_content v @ newline) (take limit vs)) @
     (if length vs > limit then md_more_open @ show_nat (length vs - limit) @ md_more_close else [])"

definition md_hard_rule :: "nat \<Rightarrow> violation list \<Rightarrow> hard_rule \<Rightarrow> string" where
  "md_hard_rule limit violations r =
     (let vs = hard_violations_of r violations
      in ''>> '' @ hr_name r @ md_count @ show_nat (length vs) @ newline @
         (if length vs > 0 then md_occurrences limit vs else md_none_hard) @ newline)"

definition md_arch_rule :: "nat \<Rightarrow> violation list \<Rightarrow> arch_rule \<Rightarrow> string" where
  "md_arch_rule limit violations r =
     (let vs = arch_violations_of r violations
      in ''>> '' @ arr_name r @ md_count @ show_nat (length vs) @ newline @
         (if length vs > 0 then md_occurrences limit vs @ md_suggestion @ arr_suggestion r @ newline
          else md_none_arch) @ newline)"

definition generate_markdown :: "audit_config \<Rightarrow> violation list \<Rightarrow> violation list \<Rightarrow> string" where
  "generate_markdown c hard_violations arch_violations =
     (let limit = en_markdown_occurrences_per_rule (au_engine c)
      in md_hard_header @ concat (map (md_hard_rule limit hard_violations) (au_hard_rules c)) @
         md_arch_header @ concat (map (md_arch_rule limit arch_violations) (au_arch_rules c)))"

text \<open>\<open>str::is_char_boundary\<close>, and the boundary at or before a position.\<close>

definition is_char_boundary :: "string \<Rightarrow> nat \<Rightarrow> bool" where
  "is_char_boundary s i \<longleftrightarrow>
     i = 0 \<or> i = length s \<or> (i < length s \<and> \<not> is_continuation (s ! i))"

fun char_boundary_before :: "string \<Rightarrow> nat \<Rightarrow> nat" where
  "char_boundary_before s 0 = 0"
| "char_boundary_before s (Suc i) =
     (if is_char_boundary s (Suc i) then Suc i else char_boundary_before s i)"

definition truncate_markdown :: "engine_config \<Rightarrow> string \<Rightarrow> string" where
  "truncate_markdown e markdown =
     (if length markdown > en_markdown_max_bytes e then
        take (char_boundary_before markdown (en_markdown_max_bytes e)) markdown @
        newline @ newline @ ''... (report truncated to '' @ show_nat (en_markdown_max_bytes e) @
        '' bytes; see '' @ en_json_report_filename e @ '')''
      else markdown)"

section \<open>The run\<close>

record audit_outcome =
  ao_total_violations :: nat
  ao_blocker_count :: nat
  ao_error_count :: nat
  ao_warning_count :: nat
  ao_report_file :: path

definition audit_run ::
    "'m audit_machine_scheme \<Rightarrow> path \<Rightarrow> path \<Rightarrow> path \<Rightarrow> (audit_error, audit_outcome) action" where
  "audit_run M root config_path report_dir =
     bind (gets (\<lambda>w. read_to_string (w_fs w) (w_cwd w) config_path)) (\<lambda>source.
     bind (ok_or source (SchemaErr (AuditRead config_path))) (\<lambda>config_str.
     bind (map_err SchemaErr (lift (parse_audit_config M config_str))) (\<lambda>c.
     bind (gets (\<lambda>w. validate_audit_config M (w_fs w) (w_cwd w) root c)) (\<lambda>validated.
     bind (lift validated) (\<lambda>exclude_dirs.
     bind (gets (\<lambda>w. scan_hard_rules M (w_fs w) (w_cwd w) root c exclude_dirs)) (\<lambda>hard.
     bind (lift hard) (\<lambda>hard_violations.
     bind (gets (\<lambda>w. scan_arch_rules M (w_fs w) (w_cwd w) root c exclude_dirs)) (\<lambda>arch.
     bind (lift arch) (\<lambda>arch_violations.
     bind (clock_now M) (\<lambda>n.
     let report = generate_report (m_timestamp M n) c hard_violations arch_violations;
         summary = jr_summary report;
         json_file = join_path report_dir (components (en_json_report_filename (au_engine c)));
         markdown_file = join_path report_dir (components (en_markdown_report_filename (au_engine c)))
     in
     bind (fs_op (\<lambda>F cwd. create_dir_all F cwd report_dir) (AuditReport report_dir)) (\<lambda>_.
     bind (fs_op (\<lambda>F cwd. write_file F cwd json_file (m_json_text M (report_json report)))
            (AuditReport json_file)) (\<lambda>_.
     bind (fs_op (\<lambda>F cwd. write_file F cwd markdown_file
              (truncate_markdown (au_engine c) (generate_markdown c hard_violations arch_violations)))
            (AuditReport markdown_file)) (\<lambda>_.
     ret \<lparr>ao_total_violations = js_total_violations summary,
          ao_blocker_count = js_blocker_count summary, ao_error_count = js_error_count summary,
          ao_warning_count = js_warning_count summary, ao_report_file = json_file\<rparr>)))))))))))))"

end
