(* ===== verification/Flow_Logs.thy ===== *)
theory Flow_Logs
  imports Flow_Audit
begin

text \<open>
  Extraction of one trace's error context from JSON Lines logs (module \<open>log_parser\<close> of
  \<open>tools/arc-flow/src/audit.rs\<close>). \<open>str::to_uppercase\<close> is applied to the level of a log entry only
  and is modelled on ASCII letters.
\<close>

section \<open>Fields of a log entry\<close>

record log_machine = audit_machine +
  m_json_compact :: "json_value \<Rightarrow> string"

definition trace_id_field :: "json_value \<Rightarrow> json_value option" where
  "trace_id_field j = first_some (json_get ''trace_id'' j) (json_get ''request_id'' j)"

definition trace_id_in :: "string \<Rightarrow> json_value \<Rightarrow> json_value option" where
  "trace_id_in k j = (case json_get k j of None \<Rightarrow> None | Some x \<Rightarrow> trace_id_field x)"

fun find_map :: "('a \<Rightarrow> 'b option) \<Rightarrow> 'a list \<Rightarrow> 'b option" where
  "find_map f [] = None"
| "find_map f (x # xs) = (case f x of None \<Rightarrow> find_map f xs | Some y \<Rightarrow> Some y)"

definition span_trace_id :: "json_value \<Rightarrow> json_value option" where
  "span_trace_id j =
     (case json_get ''spans'' j of None \<Rightarrow> None
      | Some spans \<Rightarrow>
          (case json_array spans of None \<Rightarrow> None
           | Some xs \<Rightarrow> find_map trace_id_field (rev xs)))"

definition extract_trace_id :: "json_value \<Rightarrow> string option" where
  "extract_trace_id j =
     (case first_some (trace_id_field j)
          (first_some (trace_id_in ''fields'' j)
          (first_some (trace_id_in ''data'' j)
          (first_some (trace_id_in ''span'' j) (span_trace_id j)))) of
        None \<Rightarrow> None | Some v \<Rightarrow> json_str v)"

definition str_or :: "string \<Rightarrow> json_value option \<Rightarrow> string" where
  "str_or d v =
     (case v of None \<Rightarrow> d
      | Some x \<Rightarrow> (case json_str x of None \<Rightarrow> d | Some s \<Rightarrow> s))"

definition level_of :: "json_value \<Rightarrow> string" where
  "level_of j =
     to_ascii_uppercase (str_or ''INFO'' (first_some (json_get ''level'' j) (json_get ''severity'' j)))"

definition json_then :: "json_value option \<Rightarrow> (json_value \<Rightarrow> json_value option) \<Rightarrow> json_value option" where
  "json_then v f = (case v of None \<Rightarrow> None | Some x \<Rightarrow> f x)"

definition entry_error :: "'m log_machine_scheme \<Rightarrow> json_value \<Rightarrow> json_value option \<Rightarrow> string" where
  "entry_error M log flds =
     (case first_some (json_then flds (json_get ''error'')) (json_get ''error'' log) of
        None \<Rightarrow> []
      | Some v \<Rightarrow> (case json_str v of Some s \<Rightarrow> s | None \<Rightarrow> m_json_compact M v))"

record log_entry =
  le_timestamp :: string
  le_level :: string
  le_target :: string
  le_msg :: string
  le_error :: string
  le_trace_id :: string

definition compact_entry :: "'m log_machine_scheme \<Rightarrow> string \<Rightarrow> json_value \<Rightarrow> log_entry" where
  "compact_entry M target_trace_id log =
     (let flds = first_some (json_get ''fields'' log) (json_get ''data'' log)
      in \<lparr>le_timestamp = str_or [] (first_some (json_get ''timestamp'' log) (json_get ''time'' log)),
          le_level = level_of log,
          le_target = str_or [] (first_some (json_get ''target'' log) (json_get ''module'' log)),
          le_msg = str_or [] (json_then flds
            (\<lambda>f. first_some (json_get ''message'' f) (json_get ''msg'' f))),
          le_error = entry_error M log flds,
          le_trace_id = target_trace_id\<rparr>)"

text \<open>The members of a \<open>serde_json\<close> object are written in the order of their keys.\<close>

definition entry_json :: "log_entry \<Rightarrow> json_value" where
  "entry_json e =
     VObject [
       (''error'', VString (le_error e)), (''level'', VString (le_level e)),
       (''msg'', VString (le_msg e)), (''target'', VString (le_target e)),
       (''timestamp'', VString (le_timestamp e)), (''trace_id'', VString (le_trace_id e))]"

section \<open>Selection\<close>

record log_scan =
  lo_error_trace_id :: string
  lo_last_trace_id :: string
  lo_logs :: "json_value list"

fun scan_lines :: "'m log_machine_scheme \<Rightarrow> string list \<Rightarrow> log_scan \<Rightarrow> log_scan" where
  "scan_lines M [] s = s"
| "scan_lines M (line # ls) s =
     (if trim line = [] then scan_lines M ls s
      else case m_json_parse M line of
        None \<Rightarrow> scan_lines M ls s
      | Some j \<Rightarrow>
          scan_lines M ls
            ((case extract_trace_id j of None \<Rightarrow> s
              | Some tid \<Rightarrow>
                  s\<lparr>lo_last_trace_id := tid,
                    lo_error_trace_id :=
                      (if lo_error_trace_id s = [] \<and> level_of j = ''ERROR'' then tid
                       else lo_error_trace_id s)\<rparr>)
             \<lparr>lo_logs := lo_logs s @ [j]\<rparr>))"

definition target_trace_id :: "log_scan \<Rightarrow> string" where
  "target_trace_id s =
     (if lo_error_trace_id s = [] then lo_last_trace_id s else lo_error_trace_id s)"

fun position :: "('a \<Rightarrow> bool) \<Rightarrow> 'a list \<Rightarrow> nat option" where
  "position P [] = None"
| "position P (x # xs) = (if P x then Some 0 else map_option Suc (position P xs))"

definition context_window :: "log_entry list \<Rightarrow> log_entry list" where
  "context_window output =
     (if length output > 30 then
        let error_index =
              (case position (\<lambda>e. le_level e = ''ERROR'') output of
                 Some i \<Rightarrow> i | None \<Rightarrow> length output - 1);
            start0 = error_index - 20;
            stop = min (start0 + 30) (length output);
            start = stop - 30
        in take (stop - start) (drop start output)
      else output)"

definition trace_entries :: "'m log_machine_scheme \<Rightarrow> log_scan \<Rightarrow> log_entry list" where
  "trace_entries M s =
     map (compact_entry M (target_trace_id s))
       (filter (\<lambda>log. extract_trace_id log = Some (target_trace_id s)) (lo_logs s))"

definition last_n_lines :: "nat \<Rightarrow> string list \<Rightarrow> string" where
  "last_n_lines n ls = join newline (drop (length ls - n) ls)"

datatype log_error = LogRead path | LogWrite path

definition extract_error_context ::
    "'m log_machine_scheme \<Rightarrow> path \<Rightarrow> path \<Rightarrow> (log_error, unit) action" where
  "extract_error_context M input_path output_path =
     bind (gets (\<lambda>w. read_to_string (w_fs w) (w_cwd w) input_path)) (\<lambda>r.
     bind (ok_or r (LogRead input_path)) (\<lambda>content.
     let s = scan_lines M (lines content) \<lparr>lo_error_trace_id = [], lo_last_trace_id = [], lo_logs = []\<rparr>
     in if target_trace_id s = [] then
          fs_op (\<lambda>F cwd. write_file F cwd output_path (last_n_lines 30 (lines content)))
            (LogWrite output_path)
        else
          fs_op (\<lambda>F cwd. write_file F cwd output_path
              (m_json_text M (VArray (map entry_json (context_window (trace_entries M s))))))
            (LogWrite output_path)))"

definition parse_logs :: "'m log_machine_scheme \<Rightarrow> path \<Rightarrow> path \<Rightarrow> (log_error, unit) action" where
  "parse_logs M input output =
     extract_error_context M (components (from_utf8_lossy (render input)))
       (components (from_utf8_lossy (render output)))"

section \<open>Facts\<close>

lemma position_Some:
  "position P xs = Some i \<longleftrightarrow> i < length xs \<and> P (xs ! i) \<and> (\<forall>j < i. \<not> P (xs ! j))"
proof (induction xs arbitrary: i)
  case (Cons x xs)
  then show ?case by (cases i) (auto simp: less_Suc_eq_0_disj)
qed simp

lemma position_None: "position P xs = None \<longleftrightarrow> (\<forall>x \<in> set xs. \<not> P x)"
  by (induction xs) auto

text \<open>The window is a contiguous part that contains the first error with what led to it.\<close>

lemma context_window_slice:
  assumes long: "length output > 30"
  shows "\<exists>start. context_window output = take 30 (drop start output) \<and> start + 30 \<le> length output \<and>
    (\<forall>i. position (\<lambda>e. le_level e = ''ERROR'') output = Some i \<longrightarrow>
       start \<le> i \<and> i < start + 30 \<and> (i < 20 \<longrightarrow> start = 0) \<and>
       (20 \<le> i \<longrightarrow> start \<le> i - 20))"
proof -
  define error_index where "error_index =
    (case position (\<lambda>e. le_level e = ''ERROR'') output of Some i \<Rightarrow> i | None \<Rightarrow> length output - 1)"
  define stop where "stop = min (error_index - 20 + 30) (length output)"
  have idx: "error_index < length output"
    using long by (auto simp: error_index_def position_Some split: option.splits)
  have "context_window output = take (stop - (stop - 30)) (drop (stop - 30) output)"
    using long by (simp add: context_window_def error_index_def stop_def Let_def)
  moreover have "30 \<le> stop" "stop \<le> length output" using long by (auto simp: stop_def)
  moreover have "stop - 30 \<le> error_index \<and> error_index < stop \<and> (error_index < 20 \<longrightarrow> stop = 30) \<and>
      (20 \<le> error_index \<longrightarrow> stop - 30 \<le> error_index - 20)"
    using idx long by (auto simp: stop_def)
  ultimately show ?thesis
    by (intro exI [of _ "stop - 30"]) (auto simp: error_index_def)
qed

end
