(* ===== verification/Flow_Service.thy ===== *)
theory Flow_Service
  imports Flow_Logs Session
begin

text \<open>
  The services that verification steps need (\<open>tools/arc-flow/src/service.rs\<close>): databases from the
  environment or in a Docker container that is started, awaited and removed. A failed service is
  remembered; a database given from outside has to be an isolated test database. The address
  parser is the one of \<open>Session\<close>. Both the monotonic and the system clock are read through \<open>clock_now\<close>.
\<close>

section \<open>Isolated test databases\<close>

record postgres_target =
  pt_host :: string
  pt_port :: nat
  pt_database :: string
  pt_loopback :: bool

datatype target_error =
    UrlInvalid | UrlScheme | UrlHost | UrlDatabase | UrlExtraSegments
  | DatabaseSuffix | RemoteNotAllowed | EqualsProduction | TargetsProduction

definition ip_is_loopback :: "ip_addr \<Rightarrow> bool" where
  "ip_is_loopback ip =
     (case ip of
        V4 os \<Rightarrow> os \<noteq> [] \<and> hd os = 127
      | V6 gs \<Rightarrow> gs = [0, 0, 0, 0, 0, 0, 0, 1])"

definition ipv4_to_string :: "8 word list \<Rightarrow> string" where
  "ipv4_to_string os = join ''.'' (map (\<lambda>o'. show_nat (unat o')) os)"

fun show_hex :: "nat \<Rightarrow> string" where
  "show_hex n = (if n < 16 then [hex_digit n] else show_hex (n div 16) @ [hex_digit (n mod 16)])"

declare show_hex.simps [simp del]

text \<open>The first longest run of zero groups, as its start and length.\<close>

fun zero_run :: "nat \<Rightarrow> 16 word list \<Rightarrow> nat \<times> nat \<Rightarrow> nat \<times> nat \<Rightarrow> nat \<times> nat" where
  "zero_run i [] current longest = longest"
| "zero_run i (g # gs) current longest =
     (if g = 0 then
        let current' = (if snd current = 0 then (i, 1) else (fst current, snd current + 1))
        in zero_run (i + 1) gs current'
             (if snd current' > snd longest then current' else longest)
      else zero_run (i + 1) gs (0, 0) longest)"

definition hex_groups :: "16 word list \<Rightarrow> string" where
  "hex_groups gs = join '':'' (map (\<lambda>g. show_hex (unat g)) gs)"

definition ipv6_to_string :: "16 word list \<Rightarrow> string" where
  "ipv6_to_string gs =
     (case canonical_ip (V6 gs) of
        V4 os \<Rightarrow> ''::ffff:'' @ ipv4_to_string os
      | V6 _ \<Rightarrow>
          (let (start, len) = zero_run 0 gs (0, 0) (0, 0)
           in if len > 1 then hex_groups (take start gs) @ ''::'' @ hex_groups (drop (start + len) gs)
              else hex_groups gs))"

definition target_host :: "url_host \<Rightarrow> string \<times> bool" where
  "target_host h =
     (case h of
        Domain host \<Rightarrow>
          (to_ascii_lowercase host,
           to_ascii_lowercase host = ''localhost'' \<or>
           (case parse_with read_ip_addr host of None \<Rightarrow> False | Some ip \<Rightarrow> ip_is_loopback ip))
      | Ipv4Host os \<Rightarrow> (ipv4_to_string os, ip_is_loopback (V4 os))
      | Ipv6Host gs \<Rightarrow> (ipv6_to_string gs, ip_is_loopback (V6 gs)))"

definition parse_postgres_target ::
    "'m secret_machine_scheme \<Rightarrow> string \<Rightarrow> target_error + postgres_target" where
  "parse_postgres_target M v =
     and_then (or_err (m_url_parse M v) UrlInvalid) (\<lambda>u.
     and_then (require (u_scheme u \<in> {''postgres'', ''postgresql''}) UrlScheme) (\<lambda>_.
     and_then (or_err (u_host u) UrlHost) (\<lambda>h.
     let (host, loopback) = target_host h
     in
     and_then (or_err (u_path_segments u) UrlDatabase) (\<lambda>segments.
     and_then (case segments of [] \<Rightarrow> Inl UrlDatabase
               | s # _ \<Rightarrow> if s = [] then Inl UrlDatabase else Inr (to_ascii_lowercase s)) (\<lambda>database.
     and_then (require (\<not> list_ex (\<lambda>s. s \<noteq> []) (drop 1 segments)) UrlExtraSegments) (\<lambda>_.
     Inr \<lparr>pt_host = host, pt_port = (case u_port u of None \<Rightarrow> 5432 | Some n \<Rightarrow> n),
          pt_database = database, pt_loopback = loopback\<rparr>))))))"

definition same_target :: "postgres_target \<Rightarrow> postgres_target \<Rightarrow> bool" where
  "same_target t p \<longleftrightarrow>
     (pt_host t = pt_host p \<or> pt_loopback t \<and> pt_loopback p) \<and>
     pt_port t = pt_port p \<and> pt_database t = pt_database p"

definition validate_isolated_postgres_url ::
    "'m secret_machine_scheme \<Rightarrow> string \<Rightarrow> string option \<Rightarrow> bool \<Rightarrow> target_error + unit" where
  "validate_isolated_postgres_url M v production_url allow_remote =
     and_then (parse_postgres_target M v) (\<lambda>target.
     checks [
       require (ends_with (pt_database target) ''_test'' \<or> ends_with (pt_database target) ''-test'')
         DatabaseSuffix,
       require (\<not> (\<not> pt_loopback target \<and> \<not> allow_remote)) RemoteNotAllowed,
       (case production_url of None \<Rightarrow> Inr ()
        | Some production \<Rightarrow>
            if v = production then Inl EqualsProduction
            else case parse_postgres_target M production of Inl _ \<Rightarrow> Inr ()
              | Inr p \<Rightarrow> require (\<not> same_target target p) TargetsProduction)])"

definition validate_external_value ::
    "'m secret_machine_scheme \<Rightarrow> external_value_policy \<Rightarrow> string \<Rightarrow> target_error + unit" where
  "validate_external_value M policy v =
     (case policy of
        NoPolicy \<Rightarrow> Inr ()
      | IsolatedPostgres \<Rightarrow>
          validate_isolated_postgres_url M v (m_env M ''DATABASE_URL'')
            (case m_env M ''ARC_FLOW_ALLOW_REMOTE_TEST_DATABASE'' of None \<Rightarrow> False
             | Some flag \<Rightarrow> flag \<in> {''1'', ''true''}))"

section \<open>Running services\<close>

record running_service =
  rn_inject_env :: string
  rn_value :: string
  rn_container :: "string option"

datatype service_failure =
    PreviouslyFailed string service_failure | UnknownService string | SourceMissing string string
  | SourceEmpty string string | ExternalRejected target_error | OperationTimedOut
  | DockerUnavailable string | DockerFailed string string string | ServiceProcess process_error
  | ServiceCancelled string | ServiceNotReady string nat | ServiceHangs
  | ImageMissing string

record service_machine = log_machine +
  m_pid :: nat
  m_failure_text :: "service_failure \<Rightarrow> string"

definition remaining :: "'m machine_scheme \<Rightarrow> nat \<Rightarrow> (service_failure, nat) action" where
  "remaining M deadline =
     bind (clock_now M) (\<lambda>t. if deadline > t then ret (deadline - t) else throw OperationTimedOut)"

definition docker ::
    "'m machine_scheme \<Rightarrow> project \<Rightarrow> string list \<Rightarrow> nat \<Rightarrow> (service_failure, captured_output) action" where
  "docker M p args timeout = map_err ServiceProcess (capture M ''docker'' args (pj_root p) timeout)"

definition ensure_docker ::
    "'m machine_scheme \<Rightarrow> project \<Rightarrow> string \<Rightarrow> nat \<Rightarrow> (service_failure, unit) action" where
  "ensure_docker M p i timeout =
     bind (docker M p [''info''] timeout) (\<lambda>info.
     ensure (success (co_status info)) (DockerUnavailable i))"

text \<open>The part after the last colon of the first line.\<close>

definition host_port :: "string \<Rightarrow> string option" where
  "host_port out =
     (case lines out of [] \<Rightarrow> None | line # _ \<Rightarrow> Some (last (split_on CHR '':'' line)))"

definition service_port ::
    "'m machine_scheme \<Rightarrow> project \<Rightarrow> string \<Rightarrow> nat \<Rightarrow> nat \<Rightarrow> (service_failure, string option) action" where
  "service_port M p container container_port timeout =
     bind (docker M p [''port'', container, show_nat container_port @ ''/tcp''] timeout) (\<lambda>output.
     ret (if success (co_status output) then host_port (from_utf8_lossy (co_stdout output)) else None))"

text \<open>\<open>Drop\<close> of a running service: errors of the removal are ignored.\<close>

definition remove_container :: "'m machine_scheme \<Rightarrow> project \<Rightarrow> string \<Rightarrow> world \<Rightarrow> world" where
  "remove_container M p container w =
     snd (capture_cleanup M ''docker'' [''rm'', ''--force'', container] (pj_root p) 5000 w)"

definition drop_service :: "'m machine_scheme \<Rightarrow> project \<Rightarrow> running_service \<Rightarrow> world \<Rightarrow> world" where
  "drop_service M p s w =
     (case rn_container s of None \<Rightarrow> w | Some container \<Rightarrow> remove_container M p container w)"

definition docker_run_args :: "docker_service \<Rightarrow> string \<Rightarrow> string list" where
  "docker_run_args d name =
     [''run'', ''--rm'', ''--detach'', ''--pull=never'', ''--name'', name] @
     concat (map (\<lambda>(key, v). [''--env'', key @ ''='' @ v]) (ds_environment d)) @
     [''--publish'', ''127.0.0.1::'' @ show_nat (ds_container_port d), ds_image d]"

text \<open>One turn of the loop that waits for a container: the value of the service once it is ready.\<close>

definition await_turn ::
    "'m machine_scheme \<Rightarrow> project \<Rightarrow> string \<Rightarrow> docker_service \<Rightarrow> string \<Rightarrow> nat \<Rightarrow>
     (service_failure, string option) action" where
  "await_turn M p i d container deadline =
     bind (cancelled M) (\<lambda>c.
     bind (ensure (\<not> c) (ServiceCancelled i)) (\<lambda>_.
     bind (remaining M deadline) (\<lambda>timeout.
     bind (service_port M p container (ds_container_port d) timeout) (\<lambda>port.
     case port of None \<Rightarrow> ret None
     | Some port \<Rightarrow>
         bind (remaining M deadline) (\<lambda>timeout.
         bind (docker M p ([''exec'', container] @ ds_healthcheck d) timeout) (\<lambda>ready.
         ret (if success (co_status ready)
              then Some (replace_all ''{host_port}'' port (ds_connection d)) else None)))))))"

partial_function (option) await_ready ::
    "'m machine_scheme \<Rightarrow> project \<Rightarrow> string \<Rightarrow> docker_service \<Rightarrow> string \<Rightarrow> nat \<Rightarrow> world \<Rightarrow>
     ((service_failure + string) \<times> world) option" where
  "await_ready M p i d container deadline w =
     (let t = m_now M (w_clock w); w1 = w\<lparr>w_clock := w_clock w + 1\<rparr>
      in if t < deadline then
           (case await_turn M p i d container deadline w1 of
              (Inl e, w2) \<Rightarrow> Some (Inl e, w2)
            | (Inr (Some v), w2) \<Rightarrow> Some (Inr v, w2)
            | (Inr None, w2) \<Rightarrow> await_ready M p i d container deadline w2)
         else Some (Inl (ServiceNotReady i (ds_startup_timeout_secs d)), w1))"

lemmas await_ready_code [code] = await_ready.simps [unfolded Let_def]

definition await_container ::
    "'m machine_scheme \<Rightarrow> project \<Rightarrow> string \<Rightarrow> docker_service \<Rightarrow> string \<Rightarrow> nat \<Rightarrow>
     (service_failure, string) action" where
  "await_container M p i d container deadline = (\<lambda>w.
     case await_ready M p i d container deadline w of
       None \<Rightarrow> (Inl ServiceHangs, w)
     | Some (Inl e, w') \<Rightarrow> (Inl e, remove_container M p container w')
     | Some (Inr v, w') \<Rightarrow> (Inr v, w'))"

definition container_name ::
    "'m service_machine_scheme \<Rightarrow> project \<Rightarrow> string \<Rightarrow> nat \<Rightarrow> string" where
  "container_name M p i unique =
     ''arc-flow-'' @ pc_name (fc_project (pj_config p)) @ ''-'' @ i @ ''-'' @ show_nat (m_pid M) @
     ''-'' @ show_nat unique"

definition start_docker ::
    "'m service_machine_scheme \<Rightarrow> project \<Rightarrow> string \<Rightarrow> docker_service \<Rightarrow> nat \<Rightarrow>
     (service_failure, running_service) action" where
  "start_docker M p i d deadline =
     bind (clock_now M) (\<lambda>unique.
     let name = container_name M p i unique
     in
     bind (remaining M deadline) (\<lambda>timeout.
     bind (docker M p (docker_run_args d name) timeout) (\<lambda>output.
     bind (ensure (success (co_status output))
         (DockerFailed i (ds_image d) (trim (from_utf8_lossy (co_stderr output))))) (\<lambda>_.
     bind (await_container M p i d name deadline) (\<lambda>v.
     ret \<lparr>rn_inject_env = ds_inject_env d, rn_value = v, rn_container = Some name\<rparr>)))))"

text \<open>A variable that is set to more than white space.\<close>

definition external_value :: "(string \<Rightarrow> string option) \<Rightarrow> string option \<Rightarrow> string option" where
  "external_value env name =
     (case name of None \<Rightarrow> None
      | Some n \<Rightarrow> (case env n of None \<Rightarrow> None | Some v \<Rightarrow> if trim v = [] then None else Some v))"

definition external_result :: "target_error + 'a \<Rightarrow> (service_failure, 'a) action" where
  "external_result r = map_err ExternalRejected (lift r)"

definition start_service ::
    "'m service_machine_scheme \<Rightarrow> project \<Rightarrow> string \<Rightarrow> service_config \<Rightarrow>
     (service_failure, running_service) action" where
  "start_service M p i c =
     (case c of
        Environment source_env inject_env \<Rightarrow>
          bind (ok_or (m_env M source_env) (SourceMissing i source_env)) (\<lambda>v.
          bind (ensure (trim v \<noteq> []) (SourceEmpty i source_env)) (\<lambda>_.
          ret \<lparr>rn_inject_env = inject_env, rn_value = v, rn_container = None\<rparr>))
      | Docker d \<Rightarrow>
          (case external_value (m_env M) (ds_external_env d) of
             Some v \<Rightarrow>
               bind (external_result (validate_external_value M (ds_external_value_policy d) v)) (\<lambda>_.
               ret \<lparr>rn_inject_env = ds_inject_env d, rn_value = v, rn_container = None\<rparr>)
           | None \<Rightarrow>
               bind (clock_now M) (\<lambda>t.
               let deadline = t + ds_startup_timeout_secs d * 1000
               in
               bind (remaining M deadline) (\<lambda>timeout.
               bind (ensure_docker M p i timeout) (\<lambda>_.
               start_docker M p i d deadline)))))"

section \<open>The manager\<close>

record service_manager =
  sm_running :: "running_service btree"
  sm_failures :: "service_failure btree"

definition manager_new :: service_manager where
  "manager_new = \<lparr>sm_running = [], sm_failures = []\<rparr>"

text \<open>The manager is updated by a failing start too, so it is part of the state.\<close>

definition manager_environment ::
    "'m service_machine_scheme \<Rightarrow> project \<Rightarrow> string \<Rightarrow>
     (world \<times> service_manager, service_failure, string \<times> string) comp" where
  "manager_environment M p i = (\<lambda>(w, sm).
     case bt_get (sm_failures sm) i of
       Some e \<Rightarrow> (Inl (PreviouslyFailed i e), (w, sm))
     | None \<Rightarrow>
         (case bt_get (sm_running sm) i of
            Some s \<Rightarrow> (Inr (rn_inject_env s, rn_value s), (w, sm))
          | None \<Rightarrow>
              (case config_service (pj_config p) i of
                 None \<Rightarrow> (Inl (UnknownService i), (w, sm))
               | Some c \<Rightarrow>
                   (case start_service M p i c w of
                      (Inl e, w') \<Rightarrow>
                        (Inl e, (w', sm\<lparr>sm_failures := bt_insert i e (sm_failures sm)\<rparr>))
                    | (Inr s, w') \<Rightarrow>
                        (Inr (rn_inject_env s, rn_value s),
                         (w', sm\<lparr>sm_running := bt_insert i s (sm_running sm)\<rparr>))))))"

definition manager_drop :: "'m machine_scheme \<Rightarrow> project \<Rightarrow> service_manager \<Rightarrow> world \<Rightarrow> world" where
  "manager_drop M p sm w = fold (drop_service M p) (bt_values (sm_running sm)) w"

section \<open>Availability\<close>

definition check_available ::
    "'m secret_machine_scheme \<Rightarrow> project \<Rightarrow> string \<Rightarrow> nat \<Rightarrow> (service_failure, string) action" where
  "check_available M p i timeout =
     bind (ok_or (config_service (pj_config p) i) (UnknownService i)) (\<lambda>service.
     case service of
       Environment source_env _ \<Rightarrow>
         bind (ok_or (m_env M source_env) (SourceMissing i source_env)) (\<lambda>v.
         bind (ensure (trim v \<noteq> []) (SourceEmpty i source_env)) (\<lambda>_.
         ret (source_env @ '' is configured'')))
     | Docker d \<Rightarrow>
         (case (ds_external_env d, external_value (m_env M) (ds_external_env d)) of
            (Some name, Some v) \<Rightarrow>
              bind (external_result (validate_external_value M (ds_external_value_policy d) v)) (\<lambda>_.
              ret (name @ '' is configured''))
          | _ \<Rightarrow>
              bind (clock_now M) (\<lambda>t.
              let deadline = t + timeout
              in
              bind (remaining M deadline) (\<lambda>left.
              bind (ensure_docker M p i left) (\<lambda>_.
              bind (remaining M deadline) (\<lambda>left'.
              bind (docker M p [''image'', ''inspect'', ds_image d] left') (\<lambda>image.
              bind (ensure (success (co_status image)) (ImageMissing (ds_image d))) (\<lambda>_.
              ret (''Docker and '' @ ds_image d @ '' ready''))))))))) "

end
