(* ===== verification/Flow_Verify.thy ===== *)
theory Flow_Verify
  imports Flow_Service
begin

text \<open>
  The verification run (\<open>tools/arc-flow/src/verify.rs\<close>): the secret scan and the architecture audit
  as gates, then the configured steps that the scope and the profile select, each with its
  services, and the report. Progress output is not modelled.
\<close>

section \<open>Data\<close>

record verification_report =
  rep_timestamp :: string
  rep_profile :: string
  rep_scope :: scope_result
  rep_steps :: "task_result list"
  rep_passed :: bool

datatype verify_error =
    UnknownProfile string | UnknownStep string | VerifyCancelled
  | VerifyScope scope_failure | VerifySecrets secrets_error | VerifyAudit audit_error
  | VerifyProcess process_error | VerifyRegex string | VerifyReport path

definition explicit_scope :: "string list \<Rightarrow> scope_result" where
  "explicit_scope cs =
     \<lparr>sp_mode = ''components'', sp_changed_files = [], sp_components = bs_collect cs,
      sp_unmatched_files = []\<rparr>"

section \<open>Counting results in a log\<close>

text \<open>
  \<open>replace_all\<close> of the pattern for terminal control sequences by nothing: escape, bracket, parameter
  bytes, intermediate bytes and one final byte.
\<close>

definition ansi_length :: "string \<Rightarrow> nat option" where
  "ansi_length s =
     (let t = dropWhile (\<lambda>c. byte_in 0x20 0x2F [c]) (dropWhile (\<lambda>c. byte_in 0x30 0x3F [c]) (drop 2 s))
      in if take 2 s = [CHR 0x1B, CHR ''[''] \<and> byte_in 0x40 0x7E t
         then Some (length s - length t + 1) else None)"

function strip_ansi :: "string \<Rightarrow> string" where
  "strip_ansi [] = []"
| "strip_ansi (c # s) =
     (case ansi_length (c # s) of None \<Rightarrow> c # strip_ansi s
      | Some n \<Rightarrow> if n = 0 then [] else strip_ansi (drop n (c # s)))"
  by pat_completeness auto
termination
  by (relation "measure length") auto

definition count_matches :: "flow_libs \<Rightarrow> nat \<Rightarrow> string \<Rightarrow> string \<Rightarrow> nat" where
  "count_matches L capture_group normalized pattern =
     sum_list (map (\<lambda>groups.
       case group capture_group groups of None \<Rightarrow> 0
       | Some t \<Rightarrow> (case parse_unsigned u64_max t of None \<Rightarrow> 0 | Some n \<Rightarrow> n))
       (lib_captures L pattern normalized)) mod 2 ^ 64"

fun count_patterns ::
    "flow_libs \<Rightarrow> nat \<Rightarrow> string \<Rightarrow> string list \<Rightarrow> nat \<Rightarrow> verify_error + nat" where
  "count_patterns L capture_group normalized [] count = Inr count"
| "count_patterns L capture_group normalized (pattern # ps) count =
     and_then (require (lib_captures_len L pattern \<noteq> None) (VerifyRegex pattern)) (\<lambda>_.
     count_patterns L capture_group normalized ps
       ((count + count_matches L capture_group normalized pattern) mod 2 ^ 64))"

definition parse_result_count ::
    "flow_libs \<Rightarrow> string \<Rightarrow> parser_config \<Rightarrow> verify_error + nat \<times> nat" where
  "parse_result_count L content parser =
     (case parser of RegexParser patterns capture_group minimum \<Rightarrow>
        and_then (count_patterns L capture_group (strip_ansi content) patterns 0) (\<lambda>count.
        Inr (count, minimum)))"

section \<open>One step\<close>

definition step_log :: "project \<Rightarrow> string \<Rightarrow> path" where
  "step_log p name = join_path (join_path (pj_reports p) [Normal ''logs'']) (components name)"

definition configured_task :: "project \<Rightarrow> step_config \<Rightarrow> (string \<times> string) list \<Rightarrow> task" where
  "configured_task p s service_env =
     fold task_env_remove (st_remove_env s)
       (fold (\<lambda>(name, v). task_env name v) service_env
         (task_timeout (st_timeout_secs s)
           (task_args (map (expand p) (st_args s))
             (task_new (st_label s) (st_program s) (components (expand p (st_cwd s)))
                (step_log p (st_log s))))))"

definition judge_count :: "task_result \<Rightarrow> nat \<times> nat \<Rightarrow> task_result" where
  "judge_count r = (\<lambda>(count, minimum).
     if count < minimum then
       r\<lparr>tr_passed := False,
         tr_detail := Some (''parsed '' @ show_nat count @ '' result(s), expected at least '' @
           show_nat minimum)\<rparr>
     else r\<lparr>tr_detail := Some (show_nat count @ '' result(s)'')\<rparr>)"

definition execute ::
    "'m machine_scheme \<Rightarrow> task \<Rightarrow> parser_config option \<Rightarrow> (verify_error, task_result) action" where
  "execute M t parser =
     bind (map_err VerifyProcess (task_run M t)) (\<lambda>r.
     bind (case parser of
             Some q \<Rightarrow>
               if tr_passed r then
                 bind (gets (\<lambda>w. case read_to_string (w_fs w) (w_cwd w) (components (tr_log r)) of
                         None \<Rightarrow> [] | Some s \<Rightarrow> s)) (\<lambda>content.
                 bind (lift (parse_result_count (m_libs M) content q)) (\<lambda>cm.
                 ret (judge_count r cm)))
               else ret r
           | None \<Rightarrow> ret r) (\<lambda>r'.
     bind (ensure (\<not> tr_cancelled r') VerifyCancelled) (\<lambda>_.
     ret r')))"

section \<open>The configured steps\<close>

type_synonym 'a verify_comp = "(world \<times> service_manager, verify_error, 'a) comp"

definition on_world :: "('e, 'a) action \<Rightarrow> (world \<times> service_manager, 'e, 'a) comp" where
  "on_world m = (\<lambda>(w, sm). case m w of (r, w') \<Rightarrow> (r, (w', sm)))"

text \<open>The services of a step in order, up to the first that fails.\<close>

fun step_environment ::
    "'m service_machine_scheme \<Rightarrow> project \<Rightarrow> string list \<Rightarrow>
     (world \<times> service_manager, string \<times> service_failure, (string \<times> string) list) comp" where
  "step_environment M p [] = ret []"
| "step_environment M p (i # is) =
     bind (map_err (Pair i) (manager_environment M p i)) (\<lambda>e.
     bind (step_environment M p is) (\<lambda>es. ret (e # es)))"

definition setup_failure ::
    "'m service_machine_scheme \<Rightarrow> step_config \<Rightarrow> string \<times> service_failure \<Rightarrow> task_result" where
  "setup_failure M s = (\<lambda>(i, e).
     \<lparr>tr_label = st_label s @ '': service '' @ i @ '' setup'', tr_passed = False,
      tr_timed_out = False, tr_cancelled = False, tr_duration_ms = 0, tr_log = [],
      tr_detail = Some (m_failure_text M e)\<rparr>)"

definition run_one_step ::
    "'m service_machine_scheme \<Rightarrow> project \<Rightarrow> step_config \<Rightarrow> task_result verify_comp" where
  "run_one_step M p s =
     bind (on_world (cancelled M)) (\<lambda>c.
     bind (ensure (\<not> c) VerifyCancelled) (\<lambda>_.
     (\<lambda>x. case step_environment M p (st_services s) x of
        (Inl e, x') \<Rightarrow> (Inr (setup_failure M s e), x')
      | (Inr service_env, x') \<Rightarrow>
          on_world (execute M (configured_task p s service_env)
            (case st_parser s of None \<Rightarrow> None | Some i \<Rightarrow> config_parser (pj_config p) i)) x')))"

fun run_steps ::
    "'m service_machine_scheme \<Rightarrow> project \<Rightarrow> step_config list \<Rightarrow> task_result list verify_comp" where
  "run_steps M p [] = ret []"
| "run_steps M p (s # ss) =
     bind (run_one_step M p s) (\<lambda>r.
     bind (run_steps M p ss) (\<lambda>rs. ret (r # rs)))"

definition selected_steps ::
    "project \<Rightarrow> scope_result \<Rightarrow> string \<Rightarrow> string option \<Rightarrow> step_config list" where
  "selected_steps p scope profile only_step =
     filter (\<lambda>s. st_component s \<in> set (sp_components scope) \<and>
                  (case only_step of Some i \<Rightarrow> st_id s = i | None \<Rightarrow> profile \<in> set (st_profiles s)))
       (fc_steps (pj_config p))"

definition run_configured_steps ::
    "'m service_machine_scheme \<Rightarrow> project \<Rightarrow> scope_result \<Rightarrow> string \<Rightarrow> string option \<Rightarrow>
     (verify_error, task_result list) action" where
  "run_configured_steps M p scope profile only_step = (\<lambda>w.
     case run_steps M p (selected_steps p scope profile only_step) (w, manager_new) of
       (r, (w', sm)) \<Rightarrow> (r, manager_drop M p sm w'))"

section \<open>The report\<close>

definition task_result_json :: "task_result \<Rightarrow> json_value" where
  "task_result_json r =
     VObject [
       (''label'', VString (tr_label r)), (''passed'', VBool (tr_passed r)),
       (''timed_out'', VBool (tr_timed_out r)), (''cancelled'', VBool (tr_cancelled r)),
       (''duration_ms'', json_nat (tr_duration_ms r)), (''log'', VString (tr_log r)),
       (''detail'', case tr_detail r of None \<Rightarrow> VNull | Some d \<Rightarrow> VString d)]"

definition verification_json :: "verification_report \<Rightarrow> json_value" where
  "verification_json r =
     VObject [
       (''timestamp'', VString (rep_timestamp r)), (''profile'', VString (rep_profile r)),
       (''scope'', scope_json (rep_scope r)), (''steps'', VArray (map task_result_json (rep_steps r))),
       (''passed'', VBool (rep_passed r))]"

definition status_text :: "bool \<Rightarrow> string" where
  "status_text passed = (if passed then ''PASS'' else ''FAIL'')"

definition md_step :: "task_result \<Rightarrow> string" where
  "md_step r =
     ''- '' @ status_text (tr_passed r) @ '': '' @ tr_label r @ '' ('' @ show_nat (tr_duration_ms r) @
     '' ms)'' @ (case tr_detail r of None \<Rightarrow> [] | Some d \<Rightarrow> '' - '' @ d) @
     (if tr_passed r then [] else ''; log: '' @ tr_log r) @ newline"

definition md_verification :: "verification_report \<Rightarrow> string" where
  "md_verification r =
     ''=== Verification report ==='' @ newline @
     ''Timestamp: '' @ rep_timestamp r @ newline @
     ''Profile: '' @ rep_profile r @ newline @
     ''Components: '' @ join '','' (sp_components (rep_scope r)) @ newline @ newline @
     concat (map md_step (rep_steps r)) @
     newline @ ''TEST_SUMMARY: '' @ status_text (rep_passed r) @ newline"

definition report_write ::
    "'m machine_scheme \<Rightarrow> project \<Rightarrow> verification_report \<Rightarrow> (verify_error, unit) action" where
  "report_write M p r =
     bind (fs_op (\<lambda>F cwd. create_dir_all F cwd (pj_reports p)) (VerifyReport (pj_reports p))) (\<lambda>_.
     bind (fs_op (\<lambda>F cwd. write_file F cwd (report_file p ''test_result.json'')
              (m_json_text M (verification_json r))) (VerifyReport (report_file p ''test_result.json''))) (\<lambda>_.
     fs_op (\<lambda>F cwd. write_file F cwd (report_file p ''test_result.md'') (md_verification r))
       (VerifyReport (report_file p ''test_result.md''))))"

section \<open>The run\<close>

definition secret_result :: "project \<Rightarrow> string list \<Rightarrow> nat \<Rightarrow> task_result" where
  "secret_result p findings duration =
     \<lparr>tr_label = ''secret scan'', tr_passed = (findings = []), tr_timed_out = False,
      tr_cancelled = False, tr_duration_ms = duration,
      tr_log = from_utf8_lossy (render (report_file p ''secret_scan.json'')),
      tr_detail =
        (if findings = [] then None
         else Some (show_nat (length findings) @ '' file(s) require review''))\<rparr>"

definition audit_result :: "audit_outcome \<Rightarrow> nat \<Rightarrow> task_result" where
  "audit_result outcome duration =
     \<lparr>tr_label = ''architecture audit'', tr_passed = (ao_total_violations outcome = 0),
      tr_timed_out = False, tr_cancelled = False, tr_duration_ms = duration,
      tr_log = from_utf8_lossy (render (ao_report_file outcome)),
      tr_detail =
        Some (show_nat (ao_total_violations outcome) @ '' violation(s), '' @
              show_nat (ao_blocker_count outcome) @ '' blocker(s), '' @
              show_nat (ao_error_count outcome) @ '' error(s), '' @
              show_nat (ao_warning_count outcome) @ '' warning(s)'')\<rparr>"

definition secret_gate ::
    "'m service_machine_scheme \<Rightarrow> project \<Rightarrow> bool \<Rightarrow> (verify_error, task_result) action" where
  "secret_gate M p staged =
     bind (clock_now M) (\<lambda>started.
     bind (map_err VerifySecrets
             (secrets_scan M p (if staged then SecretStaged else SecretWorkingTree))) (\<lambda>findings.
     bind (clock_now M) (\<lambda>ended.
     ret (secret_result p findings (ended - started)))))"

definition audit_gate ::
    "'m service_machine_scheme \<Rightarrow> project \<Rightarrow> (verify_error, task_result) action" where
  "audit_gate M p =
     bind (clock_now M) (\<lambda>started.
     bind (map_err VerifyAudit (audit_run M (pj_root p) (pj_audit_config p) (pj_reports p))) (\<lambda>outcome.
     bind (clock_now M) (\<lambda>ended.
     ret (audit_result outcome (ended - started)))))"

definition run_gates ::
    "'m service_machine_scheme \<Rightarrow> project \<Rightarrow> bool \<Rightarrow> (verify_error, task_result list) action" where
  "run_gates M p staged =
     bind (secret_gate M p staged) (\<lambda>s.
     if tr_passed s then bind (audit_gate M p) (\<lambda>a. ret [s, a]) else ret [s])"

definition run_selected ::
    "'m service_machine_scheme \<Rightarrow> project \<Rightarrow> scope_result \<Rightarrow> string \<Rightarrow> bool \<Rightarrow> string option \<Rightarrow>
     (verify_error, verification_report) action" where
  "run_selected M p scope profile staged only_step =
     bind (map_err VerifyScope (scope_write_reports M p scope)) (\<lambda>_.
     bind (run_gates M p staged) (\<lambda>gates.
     bind (cancelled M) (\<lambda>c.
     bind (ensure (\<not> c) VerifyCancelled) (\<lambda>_.
     bind (if list_all tr_passed gates
           then run_configured_steps M p scope profile only_step else ret []) (\<lambda>configured.
     bind (clock_now M) (\<lambda>n.
     let steps = gates @ configured;
         report =
           \<lparr>rep_timestamp = m_timestamp M n,
            rep_profile = (case only_step of None \<Rightarrow> profile | Some i \<Rightarrow> ''step:'' @ i),
            rep_scope = scope, rep_steps = steps, rep_passed = list_all tr_passed steps\<rparr>
     in bind (report_write M p report) (\<lambda>_. ret report)))))))"

definition verify_run ::
    "'m service_machine_scheme \<Rightarrow> project \<Rightarrow> scope_result \<Rightarrow> string \<Rightarrow> bool \<Rightarrow>
     (verify_error, verification_report) action" where
  "verify_run M p scope profile staged =
     bind (ensure (list_ex (\<lambda>s. profile \<in> set (st_profiles s)) (fc_steps (pj_config p)))
             (UnknownProfile profile)) (\<lambda>_.
     run_selected M p scope profile staged None)"

definition verify_run_step ::
    "'m service_machine_scheme \<Rightarrow> project \<Rightarrow> string \<Rightarrow> (verify_error, verification_report) action" where
  "verify_run_step M p i =
     bind (ok_or (config_step (pj_config p) i) (UnknownStep i)) (\<lambda>s.
     run_selected M p (explicit_scope [st_component s])
       (pc_default_profile (fc_project (pj_config p))) False (Some i))"

end
