(* ===== verification/Flow_Doctor.thy ===== *)
theory Flow_Doctor
  imports Flow_Verify
begin

text \<open>
  The checks of the local installation (\<open>tools/arc-flow/src/doctor.rs\<close>). The walk over the files of
  the project (the \<open>ignore\<close> crate) and the text of an error are parameters; printing the report is
  not modelled.
\<close>

section \<open>The report\<close>

datatype level = LevelPass | LevelWarn | LevelFail

record check_entry =
  ce_level :: level
  ce_name :: string
  ce_detail :: string

record doctor_report =
  dr_project_root :: string
  dr_checks :: "check_entry list"
  dr_failures :: nat
  dr_warnings :: nat

definition doctor_report_new :: "project \<Rightarrow> doctor_report" where
  "doctor_report_new p =
     \<lparr>dr_project_root = from_utf8_lossy (render (pj_root p)), dr_checks = [], dr_failures = 0,
      dr_warnings = 0\<rparr>"

definition doctor_report_push :: "level \<Rightarrow> string \<Rightarrow> string \<Rightarrow> doctor_report \<Rightarrow> doctor_report" where
  "doctor_report_push l name detail r =
     r\<lparr>dr_failures := dr_failures r + (if l = LevelFail then 1 else 0),
       dr_warnings := dr_warnings r + (if l = LevelWarn then 1 else 0),
       dr_checks := dr_checks r @ [\<lparr>ce_level = l, ce_name = name, ce_detail = detail\<rparr>]\<rparr>"

datatype doctor_failure =
    DoctorProcess process_error | CommandExited string exit_status string | NoOutput string
  | PathMissing string | GlobInvalid string | NoFilesMatch string | EnvNotConfigured string
  | EnvAndFileMissing string string string | GitConfigUnset string
  | GitConfigDiffers string string string | NotGitWorktree string | RemoteUrls string
  | RemoteCredentials string | DoctorTimedOut | VersionFile string | VersionDiffers string string
  | DoctorService service_failure

record doctor_machine = service_machine +
  m_project_files :: "file_system \<Rightarrow> string list \<Rightarrow> path \<Rightarrow> path list"
  m_doctor_text :: "doctor_failure \<Rightarrow> string"

type_synonym 'a doctor_action = "(doctor_failure, 'a) action"

section \<open>Checks\<close>

definition doctor_remaining :: "'m machine_scheme \<Rightarrow> nat \<Rightarrow> nat doctor_action" where
  "doctor_remaining M deadline =
     bind (clock_now M) (\<lambda>t. if deadline > t then ret (deadline - t) else throw DoctorTimedOut)"

definition command_output ::
    "'m machine_scheme \<Rightarrow> project \<Rightarrow> string \<Rightarrow> string list \<Rightarrow> nat \<Rightarrow> string doctor_action" where
  "command_output M p program args timeout =
     bind (map_err DoctorProcess (capture M program args (pj_root p) timeout)) (\<lambda>output.
     bind (ensure (success (co_status output))
         (CommandExited program (co_status output) (trim (from_utf8_lossy (co_stderr output))))) (\<lambda>_.
     case lines (from_utf8_lossy (co_stdout output)) of
       [] \<Rightarrow> throw (NoOutput program)
     | line # _ \<Rightarrow> if line = [] then throw (NoOutput program) else ret line))"

definition check_glob :: "'m doctor_machine_scheme \<Rightarrow> project \<Rightarrow> string \<Rightarrow> string doctor_action" where
  "check_glob M p pattern0 =
     (let pattern = expand p pattern0
      in bind (ensure (lib_glob (m_libs M) pattern) (GlobInvalid pattern)) (\<lambda>_.
         bind (ok_or (lib_glob_set (m_libs M) [pattern]) (GlobInvalid pattern)) (\<lambda>matcher.
         bind (gets (\<lambda>w. list_ex (\<lambda>f. matcher (render f))
                 (m_project_files M (w_fs w) (w_cwd w) (pj_root p)))) (\<lambda>found.
         bind (ensure found (NoFilesMatch pattern)) (\<lambda>_.
         ret (''matched '' @ pattern))))))"

text \<open>\<open>str::split_once\<close> with a string pattern.\<close>

fun split_once_str :: "string \<Rightarrow> string \<Rightarrow> (string \<times> string) option" where
  "split_once_str p [] = (if p = [] then Some ([], []) else None)"
| "split_once_str p (c # s) =
     (if prefix p (c # s) then Some ([], drop (length p) (c # s))
      else map_option (\<lambda>(a, b). (c # a, b)) (split_once_str p s))"

definition unsafe_url :: "string \<Rightarrow> bool" where
  "unsafe_url url \<longleftrightarrow>
     (starts_with url ''https://'' \<or> starts_with url ''http://'') \<and>
     (case split_once_str ''//'' url of None \<Rightarrow> False
      | Some (_, tail) \<Rightarrow>
          (case split_once CHR ''@'' tail of None \<Rightarrow> False | Some (credentials, _) \<Rightarrow> credentials \<noteq> []))"

definition check_remote :: "'m machine_scheme \<Rightarrow> path \<Rightarrow> nat \<Rightarrow> string \<Rightarrow> unit doctor_action" where
  "check_remote M root deadline remote =
     bind (doctor_remaining M deadline) (\<lambda>timeout.
     bind (map_err DoctorProcess
             (capture M ''git'' [''remote'', ''get-url'', ''--all'', remote] root timeout)) (\<lambda>urls.
     bind (ensure (success (co_status urls)) (RemoteUrls remote)) (\<lambda>_.
     ensure (\<not> list_ex unsafe_url (lines (from_utf8_lossy (co_stdout urls))))
       (RemoteCredentials remote))))"

definition check_remotes :: "'m machine_scheme \<Rightarrow> path \<Rightarrow> nat \<Rightarrow> string doctor_action" where
  "check_remotes M root timeout =
     bind (clock_now M) (\<lambda>t.
     let deadline = t + timeout
     in
     bind (doctor_remaining M deadline) (\<lambda>left.
     bind (map_err DoctorProcess (capture M ''git'' [''remote''] root left)) (\<lambda>remotes.
     bind (ensure (success (co_status remotes))
         (NotGitWorktree (trim (from_utf8_lossy (co_stderr remotes))))) (\<lambda>_.
     bind (for_each (lines (from_utf8_lossy (co_stdout remotes))) (check_remote M root deadline)) (\<lambda>_.
     ret ''no embedded credentials'')))))"

definition check_path :: "project \<Rightarrow> string \<Rightarrow> path_type \<Rightarrow> string doctor_action" where
  "check_path p template kind =
     (let path = expand p template
      in bind (gets (\<lambda>w. (case kind of AnyPath \<Rightarrow> path_exists | FilePath \<Rightarrow> is_file | DirectoryPath \<Rightarrow> is_dir)
                 (w_fs w) (w_cwd w) (components path))) (\<lambda>exists.
         bind (ensure exists (PathMissing path)) (\<lambda>_.
         ret path)))"

definition check_env :: "'m machine_scheme \<Rightarrow> string \<Rightarrow> string doctor_action" where
  "check_env M name =
     bind (ensure (m_env M name \<noteq> None) (EnvNotConfigured name)) (\<lambda>_.
     ret (name @ '' is configured''))"

definition check_env_or_file ::
    "'m machine_scheme \<Rightarrow> project \<Rightarrow> string \<Rightarrow> string \<Rightarrow> string \<Rightarrow> string doctor_action" where
  "check_env_or_file M p env template content =
     (if m_env M env \<noteq> None then ret (env @ '' is configured'')
      else let path = expand p template
           in bind (gets (\<lambda>w.
                  case read_to_string (w_fs w) (w_cwd w) (components path) of None \<Rightarrow> False
                  | Some s \<Rightarrow> list_ex (\<lambda>line. starts_with (trim_start line) content) (lines s))) (\<lambda>found.
              bind (ensure found (EnvAndFileMissing env path content)) (\<lambda>_.
              ret (content @ '' found in '' @ path))))"

definition check_git_config ::
    "'m machine_scheme \<Rightarrow> project \<Rightarrow> string \<Rightarrow> string \<Rightarrow> nat \<Rightarrow> string doctor_action" where
  "check_git_config M p key expected timeout =
     bind (map_err DoctorProcess
             (capture M ''git'' [''config'', ''--get'', key] (pj_root p) timeout)) (\<lambda>output.
     bind (ensure (success (co_status output)) (GitConfigUnset key)) (\<lambda>_.
     let actual = trim (from_utf8_lossy (co_stdout output))
     in bind (ensure (actual = expected) (GitConfigDiffers key actual expected)) (\<lambda>_.
        ret (key @ ''='' @ expected))))"

definition check_version ::
    "'m machine_scheme \<Rightarrow> project \<Rightarrow> string \<Rightarrow> string list \<Rightarrow> string \<Rightarrow> string \<Rightarrow> nat \<Rightarrow>
     string doctor_action" where
  "check_version M p program args template trim_prefix timeout =
     bind (command_output M p program (map (expand p) args) timeout) (\<lambda>line.
     let actual = trim_start_matches trim_prefix line; path = expand p template
     in
     bind (gets (\<lambda>w. read_to_string (w_fs w) (w_cwd w) (components path))) (\<lambda>r.
     bind (ok_or r (VersionFile path)) (\<lambda>content.
     let expected = trim content
     in bind (ensure (actual = expected) (VersionDiffers actual expected)) (\<lambda>_.
        ret expected))))"

definition run_check ::
    "'m doctor_machine_scheme \<Rightarrow> project \<Rightarrow> doctor_check \<Rightarrow> string doctor_action" where
  "run_check M p k =
     (let timeout = dc_timeout_secs k * 1000
      in case dc_kind k of
           CommandCheck program args \<Rightarrow> command_output M p program (map (expand p) args) timeout
         | PathCheck path kind \<Rightarrow> check_path p path kind
         | GlobCheck pattern \<Rightarrow> check_glob M p pattern
         | EnvCheck name \<Rightarrow> check_env M name
         | EnvOrFileCheck env path content \<Rightarrow> check_env_or_file M p env path content
         | GitConfigCheck key expected \<Rightarrow> check_git_config M p key expected timeout
         | GitRemotesCheck \<Rightarrow> check_remotes M (pj_root p) timeout
         | VersionCheck program args path trim_prefix \<Rightarrow>
             check_version M p program args path trim_prefix timeout
         | ServiceCheck service \<Rightarrow> map_err DoctorService (check_available M p service timeout))"

section \<open>The run\<close>

definition doctor_check_step ::
    "'m doctor_machine_scheme \<Rightarrow> project \<Rightarrow> doctor_check \<Rightarrow> doctor_report \<times> world \<Rightarrow>
     doctor_report \<times> world" where
  "doctor_check_step M p k = (\<lambda>(r, w).
     case run_check M p k w of
       (Inr detail, w') \<Rightarrow> (doctor_report_push LevelPass (dc_label k) detail r, w')
     | (Inl e, w') \<Rightarrow>
         (doctor_report_push (if dc_required k then LevelFail else LevelWarn) (dc_label k)
            (case dc_help k of Some help \<Rightarrow> m_doctor_text M e @ ''; '' @ help
             | None \<Rightarrow> m_doctor_text M e) r, w'))"

definition doctor_run :: "'m doctor_machine_scheme \<Rightarrow> project \<Rightarrow> ('e, doctor_report) action" where
  "doctor_run M p = (\<lambda>w.
     let (r, w') = fold (doctor_check_step M p) (fc_doctor (pj_config p)) (doctor_report_new p, w)
     in (Inr r, w'))"

end
