(* ===== verification/Flow_Preset.thy ===== *)
theory Flow_Preset
  imports Flow_Migrate Flow_Doctor
begin

text \<open>
  Setting up a project and migrating an old one (\<open>tools/arc-flow/src/preset.rs\<close>). The texts of the
  embedded presets, the TOML encoder and the decoder of the old configuration are parameters. A
  file is replaced by writing a temporary file beside it and renaming it.
\<close>

datatype preset_error =
    UnknownPreset string | PresetDirectory path | PresetResolve path | PresetNoParent path
  | PresetOutside path | PresetExists path | PresetTemporary path | PresetReplace path
  | PresetConfig config_error | PresetRead path | PresetVersion nat

record preset_machine = doctor_machine +
  m_preset_flow :: "string \<Rightarrow> string"
  m_audit_template :: string
  m_secrets_template :: string
  m_toml_text :: "flow_config \<Rightarrow> string"
  m_toml_legacy :: "string \<Rightarrow> legacy_config option"

type_synonym 'a preset_action = "(preset_error, 'a) action"

definition presets :: "string list" where
  "presets = [''generic'', ''rust-api'', ''angular-only'', ''angular-rust-postgres'']"

definition gitignore_template :: string where
  "gitignore_template = ''reports/'' @ [CHR 0x0A]"

section \<open>Files\<close>

definition remove_file :: "file_system \<Rightarrow> string list \<Rightarrow> path \<Rightarrow> file_system option" where
  "remove_file F cwd p =
     (case entry_of F cwd p of None \<Rightarrow> None
      | Some (d, n) \<Rightarrow>
          (case F (d @ [n]) of None \<Rightarrow> None | Some Dir \<Rightarrow> None
           | Some _ \<Rightarrow> Some (F(d @ [n] := None))))"

definition ensure_writable :: "path \<Rightarrow> bool \<Rightarrow> unit preset_action" where
  "ensure_writable p force =
     bind (gets (\<lambda>w. path_exists (w_fs w) (w_cwd w) p)) (\<lambda>exists.
     ensure (\<not> (exists \<and> \<not> force)) (PresetExists p))"

definition temporary_name :: "string \<Rightarrow> nat \<Rightarrow> nat \<Rightarrow> string" where
  "temporary_name name pid unique =
     ''.'' @ name @ ''.arc-flow-'' @ show_nat pid @ ''-'' @ show_nat unique @ ''.tmp''"

definition utf8_file_name :: "path \<Rightarrow> string \<Rightarrow> string" where
  "utf8_file_name p fallback =
     (case file_name p of None \<Rightarrow> fallback | Some n \<Rightarrow> if valid_utf8 n then n else fallback)"

definition replace_file :: "path \<Rightarrow> path \<Rightarrow> string \<Rightarrow> unit preset_action" where
  "replace_file temporary p content =
     bind (fs_op (\<lambda>F cwd. create_new F cwd temporary content) (PresetTemporary temporary)) (\<lambda>_.
     fs_op (\<lambda>F cwd. rename_file F cwd temporary p) (PresetReplace p))"

text \<open>After a failure the temporary file is removed; an error of the removal is ignored.\<close>

definition atomic_write ::
    "'m preset_machine_scheme \<Rightarrow> path \<Rightarrow> string \<Rightarrow> unit preset_action" where
  "atomic_write M p content =
     bind (ok_or (parent p) (PresetNoParent p)) (\<lambda>directory.
     bind (fs_op (\<lambda>F cwd. create_dir_all F cwd directory) (PresetDirectory directory)) (\<lambda>_.
     bind (clock_now M) (\<lambda>unique.
     let temporary =
           join_path directory [Normal (temporary_name (utf8_file_name p ''arc-flow'') (m_pid M) unique)]
     in (\<lambda>w. case replace_file temporary p content w of
               (Inr _, w') \<Rightarrow> (Inr (), w')
             | (Inl e, w') \<Rightarrow>
                 (Inl e, case remove_file (w_fs w') (w_cwd w') temporary of None \<Rightarrow> w'
                    | Some F \<Rightarrow> w'\<lparr>w_fs := F\<rparr>)))))"

section \<open>Paths inside the project\<close>

function existing_parent :: "file_system \<Rightarrow> string list \<Rightarrow> path \<Rightarrow> path option" where
  "existing_parent F cwd p =
     (if path_exists F cwd p then Some p
      else case parent p of None \<Rightarrow> None | Some q \<Rightarrow> existing_parent F cwd q)"
  by pat_completeness auto
termination
  by (relation "measure (\<lambda>(_, _, p). length p)") (auto simp: parent_def split: if_splits)

declare existing_parent.simps [simp del]

definition resolve_inside ::
    "file_system \<Rightarrow> string list \<Rightarrow> path \<Rightarrow> path \<Rightarrow> preset_error + path" where
  "resolve_inside F cwd root p0 =
     (let p = (if is_absolute p0 then p0 else join_path root p0)
      in if symlink_metadata F cwd p then
           and_then (or_err (canonicalize F cwd p) (PresetResolve p)) (\<lambda>resolved.
           and_then (require (prefix root resolved) (PresetOutside p)) (\<lambda>_. Inr p))
         else
           and_then (or_err (parent p) (PresetNoParent p)) (\<lambda>directory.
           and_then
             (if path_exists F cwd directory then
                or_err (canonicalize F cwd directory) (PresetResolve directory)
              else and_then (or_err (existing_parent F cwd directory) (PresetResolve p)) (\<lambda>existing.
                   or_err (canonicalize F cwd existing) (PresetResolve existing))) (\<lambda>resolved_parent.
           and_then (require (prefix root resolved_parent) (PresetOutside p)) (\<lambda>_. Inr p))))"

definition resolve_inside_now :: "path \<Rightarrow> path \<Rightarrow> path preset_action" where
  "resolve_inside_now root p =
     bind (gets (\<lambda>w. resolve_inside (w_fs w) (w_cwd w) root p)) lift"

definition canonical_root :: "path \<Rightarrow> path preset_action" where
  "canonical_root p =
     bind (gets (\<lambda>w. canonicalize (w_fs w) (w_cwd w) p)) (\<lambda>r. ok_or r (PresetResolve p))"

section \<open>The name of a project\<close>

fun push_id :: "string \<Rightarrow> string \<Rightarrow> string" where
  "push_id i [] = i"
| "push_id i (c # cs) =
     (if is_ascii_alphanumeric c then push_id (i @ to_ascii_lowercase [c]) cs
      else if \<not> ends_with i ''-'' then push_id (i @ ''-'') cs
      else push_id i cs)"

definition project_id :: "path \<Rightarrow> string" where
  "project_id root =
     (let i = trim_matches (\<lambda>c. c = CHR ''-'') (push_id [] (utf8_file_name root ''project''))
      in if i = [] then ''project'' else i)"

section \<open>Commands\<close>

definition audit_toml :: path where "audit_toml = components ''.arc-flow/audit.toml''"
definition secrets_toml :: path where "secrets_toml = components ''.arc-flow/secrets.toml''"

definition init_config ::
    "'m preset_machine_scheme \<Rightarrow> string \<Rightarrow> path \<Rightarrow> config_error + flow_config" where
  "init_config M name root =
     and_then (config_from_source (m_libs M) (m_toml_flow M) (m_preset_flow M name)) (\<lambda>c.
     let config = c\<lparr>fc_project := (fc_project c)\<lparr>pc_name := project_id root\<rparr>\<rparr>
     in and_then (validate_config (m_libs M) config) (\<lambda>_. Inr config))"

definition write_gitignore :: "'m preset_machine_scheme \<Rightarrow> path \<Rightarrow> unit preset_action" where
  "write_gitignore M root =
     bind (resolve_inside_now root (components ''.arc-flow/.gitignore'')) (\<lambda>gitignore.
     bind (gets (\<lambda>w. path_exists (w_fs w) (w_cwd w) gitignore)) (\<lambda>exists.
     if \<not> exists then atomic_write M gitignore gitignore_template else ret ()))"

definition preset_init ::
    "'m preset_machine_scheme \<Rightarrow> path \<Rightarrow> string \<Rightarrow> bool \<Rightarrow> unit preset_action" where
  "preset_init M target name force =
     bind (ensure (name \<in> set presets) (UnknownPreset name)) (\<lambda>_.
     bind (fs_op (\<lambda>F cwd. create_dir_all F cwd target) (PresetDirectory target)) (\<lambda>_.
     bind (canonical_root target) (\<lambda>root.
     bind (resolve_inside_now root default_config_path) (\<lambda>flow_path.
     bind (resolve_inside_now root audit_toml) (\<lambda>audit_path.
     bind (resolve_inside_now root secrets_toml) (\<lambda>secrets_path.
     bind (for_each [flow_path, audit_path, secrets_path] (\<lambda>p. ensure_writable p force)) (\<lambda>_.
     bind (map_err PresetConfig (lift (init_config M name root))) (\<lambda>config.
     bind (ok_or (parent flow_path) (PresetNoParent flow_path)) (\<lambda>directory.
     bind (fs_op (\<lambda>F cwd. create_dir_all F cwd directory) (PresetDirectory directory)) (\<lambda>_.
     bind (atomic_write M audit_path (m_audit_template M)) (\<lambda>_.
     bind (atomic_write M secrets_path (m_secrets_template M)) (\<lambda>_.
     bind (atomic_write M flow_path (m_toml_text M config)) (\<lambda>_.
     write_gitignore M root)))))))))))))"

definition default_legacy_path :: path where
  "default_legacy_path = components ''codex-audit-pipeline/.codex/flow.toml''"

definition preset_migrate ::
    "'m preset_machine_scheme \<Rightarrow> path \<Rightarrow> path option \<Rightarrow> path option \<Rightarrow> bool \<Rightarrow> unit preset_action" where
  "preset_migrate M root0 input0 output0 force =
     bind (canonical_root root0) (\<lambda>root.
     bind (resolve_inside_now root (case input0 of None \<Rightarrow> default_legacy_path | Some p \<Rightarrow> p)) (\<lambda>input.
     bind (resolve_inside_now root (case output0 of None \<Rightarrow> default_config_path | Some p \<Rightarrow> p)) (\<lambda>output.
     bind (ensure_writable output force) (\<lambda>_.
     bind (gets (\<lambda>w. read_to_string (w_fs w) (w_cwd w) input)) (\<lambda>r.
     bind (ok_or r (PresetRead input)) (\<lambda>source.
     bind (map_err PresetConfig
             (lift (migrate_v1 (m_libs M) (m_toml_legacy M) source (project_id root)))) (\<lambda>config.
     bind (ensure (fc_version config = config_version) (PresetVersion config_version)) (\<lambda>_.
     bind (case parent output of None \<Rightarrow> ret ()
           | Some d \<Rightarrow> fs_op (\<lambda>F cwd. create_dir_all F cwd d) (PresetDirectory d)) (\<lambda>_.
     bind (resolve_inside_now root secrets_toml) (\<lambda>secrets_path.
     bind (gets (\<lambda>w. path_exists (w_fs w) (w_cwd w) secrets_path)) (\<lambda>exists.
     bind (if \<not> exists then atomic_write M secrets_path (m_secrets_template M) else ret ()) (\<lambda>_.
     atomic_write M output (m_toml_text M config)))))))))))))"

end
