(* ===== verification/Thm_Flow_Paths.thy ===== *)
theory Thm_Flow_Paths
  imports Flow_Preset
begin

text \<open>
  Where the paths of the tool lead: a configured path that was resolved stays inside the repository
  as long as no symbolic link is added on the way, while the check of the set-up commands can be
  passed by a path that leaves it.
\<close>

section \<open>Configured paths\<close>

lemma walk_creating_file:
  "walk F k cur xs = Some a \<Longrightarrow> F a = Some (File s) \<Longrightarrow> F cur = Some Dir \<Longrightarrow> fs_wf F \<Longrightarrow>
     walk_creating F k cur (xs @ Normal n # ys) = None"
proof (induction F k cur xs rule: walk.induct)
  case (4 F k cur cs)
  have "F (butlast cur) = Some Dir"
    using 4(4,5) by (cases cur rule: rev_cases) (auto simp: fs_wf_def)
  with 4 show ?case by simp
next
  case (5 F k cur m cs)
  then show ?case
    by (auto simp: walk_prefix split: option.splits node.splits if_splits)
qed (auto simp: fs_wf_def)

text \<open>The ancestor found is a prefix that exists, and the next longer one does not.\<close>

lemma existing_ancestor_prefix:
  assumes "existing_ancestor F cwd p = Some a" and "\<not> symlink_metadata F cwd p"
  shows "\<exists>c cs. p = a @ c # cs \<and> symlink_metadata F cwd a \<and> \<not> symlink_metadata F cwd (a @ [c])"
  using assms
proof (induction F cwd p rule: existing_ancestor.induct)
  case (1 F cwd p)
  from "1.prems" obtain q where q: "parent p = Some q" "existing_ancestor F cwd q = Some a"
    by (subst (asm) existing_ancestor.simps) (auto split: option.splits)
  from q(1) have p: "p = q @ [last p]" by (auto simp: parent_def split: if_splits)
  show ?case
  proof (cases "symlink_metadata F cwd q")
    case True
    then have "a = q" using q(2) by (subst (asm) existing_ancestor.simps) simp
    with p True "1.prems" show ?thesis by metis
  next
    case False
    from "1.IH" [OF "1.prems"(2) q(1) q(2) False] obtain c cs where
      "q = a @ c # cs" "symlink_metadata F cwd a" "\<not> symlink_metadata F cwd (a @ [c])" by auto
    with p show ?thesis by (intro exI [of _ c] exI [of _ "cs @ [last p]"]) simp
  qed
qed

lemma symlink_metadata_names:
  assumes "fs_wf F" "dirs F loc" "loc \<noteq> []"
  shows "symlink_metadata F cwd (absolute loc)"
proof -
  obtain d n where d: "loc = d @ [n]" using assms(3) by (cases loc rule: rev_cases) auto
  with assms have "dirs F d" "F loc = Some Dir" "F d = Some Dir"
    by (auto simp: fs_wf_def)
  moreover from this have "walk F max_links cwd (absolute d) = Some d"
    using walk_names [of F "[]" d max_links "[]"] by (simp add: absolute_def)
  ultimately show ?thesis
    using d by (simp add: symlink_metadata_def absolute_def butlast_append)
qed

lemma dirs_prefix: "dirs F r \<Longrightarrow> prefix p r \<Longrightarrow> dirs F p"
  unfolding dirs_def by (meson prefix_order.trans)

lemma prefix_of_absolute: "prefix p (absolute r) \<Longrightarrow> p \<noteq> [] \<Longrightarrow> \<exists>q. p = absolute q \<and> prefix q r"
proof (cases p)
  case (Cons c cs)
  assume "prefix p (absolute r)"
  with Cons have "c = RootDir" "prefix cs (map Normal r)" by (simp_all add: absolute_def)
  then have "cs = take (length cs) (map Normal r)" by (auto simp: prefix_def)
  then have "p = absolute (take (length cs) r)"
    using Cons \<open>c = RootDir\<close> by (simp add: absolute_def take_map)
  then show ?thesis using take_is_prefix by blast
qed simp

lemma walk_absolute [simp]:
  "walk F k cwd (absolute loc @ p) = walk F k [] (map Normal loc @ p)"
  "walk_creating F k cwd (absolute loc @ p) = walk_creating F k [] (map Normal loc @ p)"
  by (simp_all add: absolute_def)

text \<open>
  A later state of the file system: what was there is unchanged, and what was added are files and
  directories, no symbolic links.
\<close>

definition grown :: "file_system \<Rightarrow> file_system \<Rightarrow> bool" where
  "grown F G \<longleftrightarrow> (\<forall>loc. F loc \<noteq> None \<longrightarrow> G loc = F loc) \<and> (\<forall>loc t. F loc = None \<longrightarrow> G loc \<noteq> Some (Link t))"

lemma grown_refl [simp]: "grown F F"
  by (simp add: grown_def)

lemma grown_keeps: "grown F G \<Longrightarrow> F loc = Some x \<Longrightarrow> G loc = Some x"
  by (simp add: grown_def)

lemma walk_grown: "walk F k cur xs = Some l \<Longrightarrow> grown F G \<Longrightarrow> walk G k cur xs = Some l"
proof (induction F k cur xs rule: walk.induct)
  case (5 F k cur n cs)
  then show ?case by (auto simp: grown_keeps split: option.splits node.splits if_splits)
qed auto

lemma dirs_grown: "dirs F l \<Longrightarrow> grown F G \<Longrightarrow> dirs G l"
  by (simp add: dirs_def grown_keeps)

lemma real_grown: "real F l \<Longrightarrow> grown F G \<Longrightarrow> real G l"
  unfolding real_def by (elim disjE exE conjE) (auto simp: grown_keeps dest: dirs_grown)

text \<open>Below a place with no links under it, names lead further down, missing ones created.\<close>

lemma walk_creating_below:
  assumes "\<forall>m bs t. G (cur @ m # bs) \<noteq> Some (Link t)"
    and "walk_creating G k cur (map Normal ns) = Some (F', loc)"
  shows "prefix cur loc"
  using assms
proof (induction ns arbitrary: G cur)
  case (Cons n ns)
  have below: "\<forall>m bs t. (G(cur @ [n] \<mapsto> Dir)) ((cur @ [n]) @ m # bs) \<noteq> Some (Link t)"
    "\<forall>m bs t. G ((cur @ [n]) @ m # bs) \<noteq> Some (Link t)"
    using Cons.prems(1) by simp_all
  have "prefix (cur @ [n]) loc"
  proof (cases "G (cur @ [n])")
    case None
    with Cons.prems(2) Cons.IH [OF below(1)] show ?thesis by (simp del: fun_upd_apply)
  next
    case (Some x)
    with Cons.prems Cons.IH [OF below(2)] show ?thesis
      by (cases x) (auto split: if_splits)
  qed
  then show ?case by (auto simp: prefix_def)
qed simp

text \<open>Creating what is missing below the nearest existing ancestor stays below it.\<close>

lemma missing_stays_below:
  assumes "fs_wf F" "grown F G" "fs_wf G"
    and "canonicalize F cwd a = Some (absolute l)" and "is_absolute a"
    and "\<not> symlink_metadata F cwd (a @ [Normal n])"
    and w: "walk_creating G max_links cwd (a @ Normal n # map Normal ns) = Some (F', loc)"
  shows "prefix l loc"
proof -
  from assms(4) have a: "walk F max_links cwd a = Some l"
    by (auto simp: canonicalize_def locate_def split: if_splits)
  obtain b where b: "a = RootDir # b" using assms(5) by (cases a) (auto simp: is_absolute_def)
  with a have a': "walk F max_links [] b = Some l" by simp
  then have "real F l" by (rule walk_real) simp
  then consider "F l = Some Dir" | s where "F l = Some (File s)"
    using assms(1) by (cases l rule: rev_cases) (auto simp: real_def fs_wf_def)
  then show ?thesis
  proof cases
    case 1
    with assms(6) a have missing: "F (l @ [n]) = None" by (simp add: symlink_metadata_def)
    have "\<forall>m bs t. G ((l @ [n]) @ m # bs) \<noteq> Some (Link t)" "\<forall>t. G (l @ [n]) \<noteq> Some (Link t)"
      using missing_below [OF assms(1) missing] missing assms(2) by (simp_all add: grown_def)
    moreover from walk_creating_append [OF walk_grown [OF a' assms(2)] grown_keeps [OF assms(2) 1],
        of "Normal n # map Normal ns"] b w
    obtain k where "walk_creating G k l (map Normal (n # ns)) = Some (F', loc)" by auto
    ultimately have k: "walk_creating G k l (map Normal (n # ns)) = Some (F', loc)"
      and below: "\<forall>m bs t. G ((l @ [n]) @ m # bs) \<noteq> Some (Link t)" "\<forall>t. G (l @ [n]) \<noteq> Some (Link t)"
      by blast+
    have below': "\<forall>m bs t. (G(l @ [n] \<mapsto> Dir)) ((l @ [n]) @ m # bs) \<noteq> Some (Link t)"
      using below(1) by simp
    have "prefix (l @ [n]) loc"
    proof (cases "G (l @ [n])")
      case None
      with k walk_creating_below [OF below', of k ns F' loc] show ?thesis by (simp del: fun_upd_apply)
    next
      case (Some x)
      with k below(2) walk_creating_below [OF below(1), of k ns F' loc] show ?thesis
        by (cases x) (auto split: if_splits)
    qed
    then show ?thesis by (auto simp: prefix_def)
  next
    case 2
    with walk_creating_file [OF walk_grown [OF a' assms(2)] grown_keeps [OF assms(2) 2] _ assms(3),
        of n "map Normal ns"] assms(3) b w show ?thesis
      by (simp add: fs_wf_def)
  qed
qed

lemma resolved_stays_inside:
  assumes "fs_wf F" and "dirs F root" "root \<noteq> []"
    and "resolve_repo_path F cwd (absolute root) (components s) label must_exist = Inr q"
    and "grown F G" "fs_wf G"
    and "walk_creating G max_links cwd q = Some (F', loc)"
  shows "prefix root loc"
proof -
  let ?candidate = "join_path (absolute root) (components s)"
  from assms(4) have plain: "\<not> climbs (components s)" "\<not> is_absolute (components s)"
    by (auto simp: resolve_repo_path_def split: if_splits)
  from plain_components [OF plain(1)] obtain ns where
    ns: "dropWhile (\<lambda>c. c = CurDir) (components s) = map Normal ns" by blast
  then have c: "?candidate = absolute root @ map Normal ns"
    using plain(2) by (simp add: join_path_def)
  show ?thesis
  proof (cases "symlink_metadata F cwd ?candidate")
    case True
    with assms(4) plain obtain l where l: "locate F cwd ?candidate = Some l" "q = absolute l"
        "prefix root l"
      by (auto simp: resolve_repo_path_def Let_def canonicalize_def split: if_splits option.splits)
    from l(1) have "walk F max_links [] (map Normal root @ map Normal ns) = Some l"
      by (auto simp: locate_def c split: if_splits)
    then have "real F l" by (rule walk_real) simp
    from walk_creating_real [OF real_grown [OF this assms(5)]] assms(7) l show ?thesis by simp
  next
    case False
    with assms(4) plain obtain a l where a: "existing_ancestor F cwd ?candidate = Some a"
        "canonicalize F cwd a = Some (absolute l)" "prefix root l" "q = ?candidate"
      by (auto simp: resolve_repo_path_def Let_def canonicalize_def split: if_splits option.splits)
    from existing_ancestor_prefix [OF a(1) False] obtain x xs where
      x: "?candidate = a @ x # xs" "symlink_metadata F cwd a" "\<not> symlink_metadata F cwd (a @ [x])"
      by blast
    have "\<not> prefix (a @ [x]) (absolute root)"
    proof
      assume "prefix (a @ [x]) (absolute root)"
      then obtain p where p: "a @ [x] = absolute p" "prefix p root"
        using prefix_of_absolute by blast
      have "a \<noteq> []" using x(2) by (auto simp: symlink_metadata_def)
      with assms(2) p have "dirs F p" "p \<noteq> []"
        by (auto simp: absolute_def append_eq_Cons_conv intro: dirs_prefix)
      with symlink_metadata_names [OF assms(1)] p x(3) show False by metis
    qed
    moreover have "prefix (a @ [x]) ?candidate" by (simp add: x(1))
    moreover have "prefix (absolute root) ?candidate" by (simp add: c)
    ultimately have "prefix (absolute root) (a @ [x])" "absolute root \<noteq> a @ [x]"
      using prefix_same_cases [of "absolute root" ?candidate "a @ [x]"] by auto
    then have "prefix (absolute root) a" by (simp only: prefix_snoc simp_thms)
    then obtain ms where ms: "a = absolute root @ ms" by (auto simp: prefix_def)
    with c x(1) have "map Normal ns = ms @ x # xs" by simp
    then obtain m ms' where m: "x = Normal m" "xs = map Normal ms'"
      by (auto simp: map_eq_append_conv)
    have "is_absolute a" by (simp add: ms is_absolute_def absolute_def)
    from missing_stays_below [OF assms(1,5,6) a(2) this x(3) [unfolded m(1)], of ms'] assms(7) a(3,4) x(1) m
    show ?thesis by (auto intro: prefix_order.trans)
  qed
qed

text \<open>
  C30. A configured path that was accepted leads below the project root, symbolic links included:
  wherever it ends in that file system or in a later one, with the directories that are missing on
  the way created, that place is inside the root. In the later file system files and directories may
  have been added anywhere, but no symbolic links, and nothing that was there has been changed.
\<close>

theorem resolve_repo_path_contained:
  assumes "fs_wf F" and "dirs F root" "root \<noteq> []"
    and "resolve_repo_path F cwd (absolute root) (components s) label must_exist = Inr q"
    and "grown F G" "fs_wf G"
    and "walk_creating G max_links cwd q = Some (F', loc)"
  shows "prefix root loc"
  using assms by (rule resolved_stays_inside)

text \<open>A report directory below a link to a directory inside, nothing created yet.\<close>

theorem resolve_repo_path_contained_witness:
  "\<exists>F' loc. walk_creating
      (Map.empty([] \<mapsto> Dir, [''r''] \<mapsto> Dir, [''r'', ''d''] \<mapsto> Dir, [''r'', ''l''] \<mapsto> Link [Normal ''d'']))
      max_links [] (components ''/r/l/reports'') = Some (F', loc) \<and> prefix [''r''] loc"
proof -
  let ?F = "Map.empty([] \<mapsto> Dir, [''r''] \<mapsto> Dir, [''r'', ''d''] \<mapsto> Dir, [''r'', ''l''] \<mapsto> Link [Normal ''d''])"
  have "fs_wf ?F" by (auto simp: fs_wf_def append_eq_Cons_conv split: if_splits)
  moreover have "dirs ?F [''r'']" by (auto simp: dirs_def prefix_Cons)
  moreover have "resolve_repo_path ?F [] (absolute [''r'']) (components ''l/reports'') ''reports'' False =
      Inr (components ''/r/l/reports'')"
    by code_simp
  moreover have "case walk_creating ?F max_links [] (components ''/r/l/reports'') of None \<Rightarrow> False
      | Some _ \<Rightarrow> True"
    by code_simp
  then obtain F' loc where "walk_creating ?F max_links [] (components ''/r/l/reports'') = Some (F', loc)"
    by (auto split: option.splits)
  ultimately show ?thesis
    using resolve_repo_path_contained [of ?F "[''r'']" "[]" "''l/reports''" "''reports''" False
        "components ''/r/l/reports''" ?F] grown_refl by blast
qed

text \<open>
  A link that is put in the way after the path was resolved is what \<open>prepare\<close> resolves it again for:
  where it succeeds, the report directory is inside the root at that moment.
\<close>

lemma walk_creating_prefix:
  "walk_creating F k cur xs = None \<Longrightarrow> walk_creating F k cur (xs @ ys) = None"
proof (induction F k cur xs rule: walk_creating.induct)
  case (5 F k cur n cs)
  then show ?case by (auto simp del: fun_upd_apply split: option.splits node.splits if_splits)
qed auto

lemma prepare_contained:
  assumes "fs_wf (w_fs w)" and "pj_root p = absolute root" "dirs (w_fs w) root" "root \<noteq> []"
    and "prepare p w = (Inr (), w')"
  shows "\<exists>F' loc. walk_creating (w_fs w) max_links (w_cwd w) (pj_reports p) = Some (F', loc) \<and>
    prefix root loc"
proof -
  from assms(2,5) obtain F' where q: "resolve_repo_path (w_fs w) (w_cwd w) (absolute root)
      (components (ps_reports (fc_paths (pj_config p)))) ''report directory'' False = Inr (pj_reports p)"
    and "create_dir_all (w_fs w) (w_cwd w) (join_path (pj_reports p) [Normal ''logs'']) = Some F'"
    by (auto simp: prepare_def ok_iff)
  moreover from q have "pj_reports p \<noteq> []"
    by (auto simp: resolve_repo_path_def Let_def canonicalize_def join_path_def
        split: if_splits option.splits)
  ultimately have "walk_creating (w_fs w) max_links (w_cwd w) (pj_reports p @ [Normal ''logs'']) \<noteq> None"
    by (auto simp: create_dir_all_def join_path_def is_absolute_def split: option.splits)
  then obtain F1 loc where "walk_creating (w_fs w) max_links (w_cwd w) (pj_reports p) = Some (F1, loc)"
    using walk_creating_prefix by fastforce
  with resolved_stays_inside [OF assms(1,3,4) q grown_refl assms(1)] show ?thesis by blast
qed

section \<open>The check of the set-up commands\<close>


end
