(* ===== verification/Flow_Main.thy ===== *)
theory Flow_Main
  imports Flow_Preset
begin

text \<open>
  The command line (\<open>tools/arc-flow/src/main.rs\<close>): the commands, their dispatch and the exit code.
  The argument parser (the \<open>clap\<close> crate) delivers the parsed command; output is not modelled.
\<close>

record scope_args =
  ar_staged :: bool
  ar_all :: bool
  ar_base :: "string option"

datatype config_command =
    ConfigCheck
  | ConfigPrint bool
  | ConfigMigrate "path option" "path option" bool

datatype cli_command =
    DoctorCommand bool bool
  | ScopeCommand scope_args bool
  | SecretsCommand bool bool
  | AuditCommand bool
  | VerifyCommand scope_args "string list" "string option"
  | HookCommand
  | ParseLogsCommand path path
  | ConfigCommand config_command
  | StepCommand string
  | InitCommand string bool
  | PresetsCommand

record cli =
  cl_project_root :: "path option"
  cl_config :: "path option"
  cl_command :: cli_command

datatype cli_error =
    PresetFailure preset_error | ProjectFailure project_error | ScopeFailure scope_failure
  | SecretsFailure secrets_error | AuditFailure audit_error | VerifyFailure verify_error
  | LogFailure log_error | UnknownComponent string | ReadConfig path

definition scope_mode_of :: "scope_args \<Rightarrow> scope_mode" where
  "scope_mode_of a =
     (if ar_staged a then Staged
      else if ar_all a then AllComponents
      else case ar_base a of Some reference \<Rightarrow> Base reference | None \<Rightarrow> WorkingTree)"

definition verify_command ::
    "'m preset_machine_scheme \<Rightarrow> project \<Rightarrow> scope_args \<Rightarrow> string list \<Rightarrow> string option \<Rightarrow>
     (cli_error, bool) action" where
  "verify_command M p args cs profile =
     bind (if cs = [] then map_err ScopeFailure (detect M p (scope_mode_of args))
           else bind (for_each cs (\<lambda>k.
                  ensure (k \<in> set (config_components (pj_config p))) (UnknownComponent k))) (\<lambda>_.
                ret (explicit_scope cs))) (\<lambda>selected.
     bind (map_err VerifyFailure (verify_run M p selected
             (case profile of None \<Rightarrow> pc_default_profile (fc_project (pj_config p)) | Some q \<Rightarrow> q)
             False)) (\<lambda>report.
     ret (rep_passed report)))"

definition hook_command ::
    "'m preset_machine_scheme \<Rightarrow> project \<Rightarrow> (cli_error, bool) action" where
  "hook_command M p =
     bind (map_err ScopeFailure (detect M p Staged)) (\<lambda>selected.
     bind (map_err VerifyFailure (verify_run M p selected
             (pc_hook_profile (fc_project (pj_config p))) True)) (\<lambda>report.
     ret (rep_passed report)))"

definition run_project_command ::
    "'m preset_machine_scheme \<Rightarrow> project \<Rightarrow> cli_command \<Rightarrow> (cli_error, bool) action" where
  "run_project_command M p c =
     (case c of
        DoctorCommand _ strict \<Rightarrow>
          bind (doctor_run M p) (\<lambda>report.
          ret (dr_failures report = 0 \<and> (\<not> strict \<or> dr_warnings report = 0)))
      | ScopeCommand args _ \<Rightarrow>
          bind (map_err ScopeFailure (detect M p (scope_mode_of args))) (\<lambda>result.
          bind (map_err ScopeFailure (scope_write_reports M p result)) (\<lambda>_.
          ret True))
      | SecretsCommand staged _ \<Rightarrow>
          bind (map_err SecretsFailure
                  (secrets_scan M p (if staged then SecretStaged else SecretWorkingTree))) (\<lambda>findings.
          ret (findings = []))
      | AuditCommand _ \<Rightarrow>
          bind (map_err AuditFailure
                  (audit_run M (pj_root p) (pj_audit_config p) (pj_reports p))) (\<lambda>outcome.
          ret (ao_total_violations outcome = 0))
      | VerifyCommand args cs profile \<Rightarrow> verify_command M p args cs profile
      | HookCommand \<Rightarrow> hook_command M p
      | ParseLogsCommand input output \<Rightarrow>
          bind (map_err LogFailure (parse_logs M input output)) (\<lambda>_. ret True)
      | ConfigCommand (ConfigPrint False) \<Rightarrow>
          bind (gets (\<lambda>w. read_to_string (w_fs w) (w_cwd w) (pj_config_path p))) (\<lambda>r.
          bind (ok_or r (ReadConfig (pj_config_path p))) (\<lambda>_.
          ret True))
      | ConfigCommand _ \<Rightarrow> ret True
      | StepCommand i \<Rightarrow>
          bind (map_err VerifyFailure (verify_run_step M p i)) (\<lambda>report.
          ret (rep_passed report))
      | _ \<Rightarrow> ret True)"

definition cli_root :: "cli \<Rightarrow> world \<Rightarrow> path" where
  "cli_root c w = (case cl_project_root c of None \<Rightarrow> absolute (w_cwd w) | Some p \<Rightarrow> p)"

definition cli_run :: "'m preset_machine_scheme \<Rightarrow> cli \<Rightarrow> (cli_error, bool) action" where
  "cli_run M c =
     (case cl_command c of
        InitCommand name force \<Rightarrow>
          bind (gets (cli_root c)) (\<lambda>target.
          bind (map_err PresetFailure (preset_init M target name force)) (\<lambda>_. ret True))
      | PresetsCommand \<Rightarrow> ret True
      | ConfigCommand (ConfigMigrate input output force) \<Rightarrow>
          bind (gets (cli_root c)) (\<lambda>root.
          bind (map_err PresetFailure
                  (preset_migrate M root (first_some input (cl_config c)) output force)) (\<lambda>_. ret True))
      | command \<Rightarrow>
          bind (gets (discover M (cl_project_root c) (cl_config c))) (\<lambda>r.
          bind (map_err ProjectFailure (lift r)) (\<lambda>p.
          bind (map_err ProjectFailure (prepare p)) (\<lambda>_.
          run_project_command M p command))))"

text \<open>\<open>ExitCode::SUCCESS\<close> is 0 and \<open>ExitCode::FAILURE\<close> is 1.\<close>

definition cli_main :: "'m preset_machine_scheme \<Rightarrow> cli \<Rightarrow> world \<Rightarrow> nat \<times> world" where
  "cli_main M c w =
     (case cli_run M c w of
        (Inr passed, w') \<Rightarrow> (if passed then 0 else 1, w')
      | (Inl _, w') \<Rightarrow> (1, w'))"

end
