(* ===== verification/Flow_Demo.thy ===== *)
theory Flow_Demo
  imports Flow_Main "HOL-Library.Code_Target_Numeral"
begin

text \<open>
  A small project for the witnesses of the tool's properties: one source file, one audit rule, one
  secret rule, a step with a service from the environment, and a machine whose commands succeed.
  The numerals of the library keep the evaluation of its timeouts and clock readings short.
\<close>

definition demo_syntax :: comment_syntax where
  "demo_syntax =
     \<lparr>cs_line = [''//''], cs_block = [\<lparr>bl_start = ''/*'', bl_end = ''*/'', bl_nested = True\<rparr>],
      cs_strings = [\<lparr>sx_start = [CHR 0x22], sx_end = [CHR 0x22], sx_escape = None\<rparr>]\<rparr>"

definition demo_rules_engine :: engine_config where
  "demo_rules_engine =
     \<lparr>en_ignore_filename = ''.auditignore'', en_json_report_filename = ''r.json'',
      en_markdown_report_filename = ''r.md'', en_markdown_max_bytes = 100,
      en_markdown_occurrences_per_rule = 3, en_comment_syntax = [(''rs'', demo_syntax)]\<rparr>"

definition demo_audit_config :: audit_config where
  "demo_audit_config =
     \<lparr>au_version = 2, au_engine = demo_rules_engine, au_paths = \<lparr>ap_exclude = [], ap_aliases = []\<rparr>,
      au_hard_rules =
        [\<lparr>hr_name = ''no-bad'', hr_severity = ''error'', hr_paths = [''a.rs''], hr_extensions = [''rs''],
          hr_patterns = [''bad''], hr_exclude_patterns = [], hr_allowlist = []\<rparr>],
      au_arch_rules = []\<rparr>"

definition demo_secret_config :: secret_config where
  "demo_secret_config =
     \<lparr>sg_version = 2,
      sg_placeholders =
        \<lparr>ph_minimum_unique_characters = 1, ph_maximum_nonalphanumeric_characters = 0,
         ph_markers = [], ph_exact = [], ph_prefixes = []\<rparr>,
      sg_rules = [\<lparr>sr_id = ''key'', sr_pattern = ''KEY'', sr_kind = DirectRule\<rparr>]\<rparr>"

definition demo_step :: step_config where
  "demo_step =
     \<lparr>st_id = ''t'', st_label = ''tests'', st_component = ''core'', st_profiles = [''full''],
      st_program = ''cargo'', st_args = [''--root={root}''], st_cwd = ''{root}'', st_log = ''t.log'',
      st_timeout_secs = 10, st_timeout_env = None, st_parser = None, st_services = [''db''],
      st_remove_env = [''TOKEN'']\<rparr>"

definition demo_flow :: flow_config where
  "demo_flow =
     \<lparr>fc_version = 2,
      fc_project = \<lparr>pc_name = ''demo'', pc_default_profile = ''full'', pc_hook_profile = ''full''\<rparr>,
      fc_paths =
        \<lparr>ps_reports = ''out'', ps_audit_config = ''audit'', ps_secrets_config = ''secrets'', ps_aliases = []\<rparr>,
      fc_required_steps = [], fc_doctor = [],
      fc_services = [(''db'', Environment ''TEST_DB'' ''DATABASE_URL'')], fc_parsers = [],
      fc_scope =
        \<lparr>sc_unmatched = UnmatchedFail,
         sc_rules = [\<lparr>sr_patterns = [''*''], sr_components = [''core'']\<rparr>]\<rparr>,
      fc_steps = [demo_step]\<rparr>"

definition demo_project :: project where
  "demo_project =
     \<lparr>pj_root = absolute [''r''], pj_config_path = absolute [''r'', ''flow''], pj_config = demo_flow,
      pj_reports = absolute [''r'', ''out''], pj_audit_config = absolute [''r'', ''audit''],
      pj_secrets_config = absolute [''r'', ''secrets''], pj_aliases = []\<rparr>"

definition demo_fs :: file_system where
  "demo_fs =
     Map.empty([] \<mapsto> Dir, [''r''] \<mapsto> Dir, [''r'', ''a.rs''] \<mapsto> File ''ok //bad'',
       [''r'', ''audit''] \<mapsto> File ''audit'', [''r'', ''secrets''] \<mapsto> File ''secrets'')"

definition demo_world :: world where
  "demo_world = \<lparr>w_fs = demo_fs, w_cwd = [''r''], w_commands = [], w_clock = 0, w_signals = 0\<rparr>"

text \<open>A regular expression without operators: its occurrences, overlapping.\<close>

fun demo_spans :: "nat \<Rightarrow> string \<Rightarrow> string \<Rightarrow> (nat \<times> nat) list" where
  "demo_spans i p [] = []"
| "demo_spans i p (c # s) =
     (if prefix p (c # s) then (i, i + length p) # demo_spans (i + 1) p s else demo_spans (i + 1) p s)"

definition demo_captures :: "string \<Rightarrow> string \<Rightarrow> string option list list" where
  "demo_captures p s = map (\<lambda>_. [Some p]) (demo_spans 0 p s)"

text \<open>Every command exits with 0 at its first poll; the listing of \<open>git\<close> names the source file.\<close>

definition demo_child :: "command \<Rightarrow> child" where
  "demo_child c =
     \<lparr>ch_polls = \<lambda>k. \<lparr>ob_exit = Some (Exited 0), ob_cancelled = False, ob_elapsed = k\<rparr>,
      ch_stdout = (if cm_program c = ''git'' then ''a.rs'' @ [CHR 0x00] else []), ch_stderr = [],
      ch_log = [], ch_duration = 1, ch_effect = \<lambda>F. F\<rparr>"

definition demo_machine :: preset_machine where
  "demo_machine =
     \<lparr>m_env = Map.empty(''TEST_DB'' \<mapsto> ''db'', ''TOKEN'' \<mapsto> ''x''),
      m_libs = \<lparr>lib_captures_len = \<lambda>_. Some 1, lib_glob = \<lambda>_. True, lib_glob_set = \<lambda>_. Some (\<lambda>_. True),
        lib_captures = demo_captures\<rparr>,
      m_toml_flow = \<lambda>_. Some demo_flow, m_json_text = \<lambda>_. [], m_json_parse = \<lambda>_. None,
      m_timestamp = show_nat, m_spawn = \<lambda>_ c. Some (demo_child c), m_now = \<lambda>n. n, m_cancelled = \<lambda>_. False,
      m_bytes_captures_len = \<lambda>_. Some 1, m_bytes_captures = demo_captures, m_url_parse = \<lambda>_. None,
      m_toml_secrets = \<lambda>_. Some demo_secret_config,
      m_multiline_ok = \<lambda>_. True, m_multiline_find = demo_spans 0,
      m_walk = \<lambda>_ _ roots _. Some roots,
      m_toml_value = \<lambda>_. Some (TTable [(''version'', TInteger 2), (''engine'', TTable [])]),
      m_toml_audit = \<lambda>_. Some demo_audit_config,
      m_json_compact = \<lambda>_. [], m_pid = 1, m_failure_text = \<lambda>_. [],
      m_project_files = \<lambda>_ _ _. [], m_doctor_text = \<lambda>_. [],
      m_preset_flow = \<lambda>_. [], m_audit_template = [], m_secrets_template = [], m_toml_text = \<lambda>_. [],
      m_toml_legacy = \<lambda>_. None\<rparr>"

end
