(* ===== verification/Thm_Flow_Audit.thy ===== *)
theory Thm_Flow_Audit
  imports Flow_Demo
begin

text \<open>
  The architecture audit: its lexer ends and finds the comments, and it passes exactly when the
  selected files are clean.
\<close>

section \<open>Comments\<close>

lemma validate_syntax_tokens: "validate_syntax (ext, syntax) = Inr () \<Longrightarrow> tokens_ok syntax"
  by (auto simp: validate_syntax_def result_iff tokens_ok_def list_ex_iff split: option.splits)

text \<open>
  C34. For every comment syntax of an accepted configuration the lexer ends on every text. The
  ranges it returns do not overlap, are in order, lie in the text and start where a comment token
  stands; the binary search of the rules answers exactly whether an offset lies in one of them.
\<close>

theorem comment_lexer_total:
  assumes "validate_engine_config e = Inr ()" and "map_of (en_comment_syntax e) ext = Some syntax"
  shows "\<exists>ranges. comment_ranges content syntax = Some ranges \<and>
    sorted_wrt (\<lambda>r q. snd r \<le> fst q) ranges \<and>
    (\<forall>r \<in> set ranges. fst r < snd r \<and> snd r \<le> length content \<and> opens_comment content syntax (fst r)) \<and>
    (\<forall>offset. is_comment_offset ranges offset \<longleftrightarrow>
       (\<exists>r \<in> set ranges. fst r \<le> offset \<and> offset < snd r))"
proof -
  have "(ext, syntax) \<in> set (en_comment_syntax e)" using assms(2) by (rule map_of_SomeD)
  moreover have "\<forall>x \<in> set (en_comment_syntax e). validate_syntax x = Inr ()"
    using assms(1) unfolding validate_engine_config_def checks_ok by (simp add: check_all_ok)
  ultimately have "tokens_ok syntax" using validate_syntax_tokens by blast
  from comment_ranges_ok [OF this, of content] obtain ranges where
    "comment_ranges content syntax = Some ranges" "ranges_ok content syntax ranges" by blast
  with is_comment_offset_iff [OF this(2)] show ?thesis by (auto simp: ranges_ok_def)
qed

lemma demo_rules_engine_valid: "validate_engine_config demo_rules_engine = Inr ()"
  by code_simp

theorem comment_lexer_total_witness:
  "\<exists>syntax ranges. map_of (en_comment_syntax demo_rules_engine) ''rs'' = Some syntax \<and>
     comment_ranges ''a //b'' syntax = Some ranges"
proof -
  obtain sx where s: "map_of (en_comment_syntax demo_rules_engine) ''rs'' = Some sx"
    by (simp add: demo_rules_engine_def)
  from comment_lexer_total [OF demo_rules_engine_valid s] s show ?thesis by blast
qed

section \<open>Scanning\<close>

text \<open>
  A match that is reported: outside the comments and on a line that is not allowed. A file is clean
  when no pattern has one.
\<close>

definition reportable :: "string \<Rightarrow> (nat \<times> nat) list \<Rightarrow> (string \<Rightarrow> bool) \<Rightarrow> nat \<Rightarrow> bool" where
  "reportable content comments allowed m \<longleftrightarrow>
     \<not> is_comment_offset comments m \<and>
     \<not> allowed (fst (snd (source_line_at content (source_line_starts content) m)))"

definition clean_file ::
    "'m audit_machine_scheme \<Rightarrow> file_system \<Rightarrow> string list \<Rightarrow> engine_config \<Rightarrow> string list \<Rightarrow>
     (string \<Rightarrow> bool) \<Rightarrow> path \<Rightarrow> bool" where
  "clean_file M F cwd e patterns allowed p \<longleftrightarrow>
     (\<exists>content comments. read_to_string F cwd p = Some content \<and> file_comments e p content = Inr comments \<and>
        (\<forall>pattern \<in> set patterns. \<forall>span \<in> set (m_multiline_find M pattern content).
           \<not> reportable content comments allowed (fst span)))"

lemma collect_violations_Nil:
  "collect_violations content (source_line_starts content) comments allowed file [] ms = [] \<longleftrightarrow>
     (\<forall>m \<in> set ms. \<not> reportable content comments allowed (fst m))"
proof (induction ms)
  case (Cons m ms)
  obtain offset name where m: "m = (offset, name)" by (cases m)
  obtain ln l hi where at: "source_line_at content (source_line_starts content) offset = (ln, l, hi)"
    using prod_cases3 by blast
  from Cons show ?case by (simp add: m at reportable_def)
qed simp

lemma pattern_matches_all:
  "(\<forall>m \<in> set (pattern_matches M content named). P (fst m)) \<longleftrightarrow>
     (\<forall>pattern \<in> set (map fst named). \<forall>span \<in> set (m_multiline_find M pattern content). P (fst span))"
proof (induction named)
  case (Cons n named)
  have "pattern_matches M content (n # named) =
    map (\<lambda>span. (fst span, snd n)) (m_multiline_find M (fst n) content) @ pattern_matches M content named"
    by (simp add: pattern_matches_def split: prod.splits)
  with Cons show ?case by (simp add: ball_Un)
qed (simp add: pattern_matches_def)

lemma scan_file_clean:
  assumes "scan_file M F cwd root e named allowed p = Inr vs"
  shows "vs = [] \<longleftrightarrow> clean_file M F cwd e (map fst named) allowed p"
proof -
  from assms obtain content comments where c: "read_to_string F cwd p = Some content"
    "file_comments e p content = Inr comments"
    "vs = sort_key vi_line (collect_violations content (source_line_starts content) comments allowed
       (relative_to root p) [] (pattern_matches M content named))"
    by (auto simp: scan_file_def result_iff)
  have "sort_key vi_line xs = [] \<longleftrightarrow> xs = []" for xs :: "violation list"
    by (metis length_0_conv length_sort)
  with c pattern_matches_all [of M content named "\<lambda>m. \<not> reportable content comments allowed m"]
  show ?thesis
    by (simp add: clean_file_def collect_violations_Nil)
qed

lemma scan_all_clean:
  assumes "map_result (scan_file M F cwd root e named allowed) ps = Inr vss"
  shows "concat vss = [] \<longleftrightarrow> (\<forall>p \<in> set ps. clean_file M F cwd e (map fst named) allowed p)"
  using assms unfolding result_iff
  by (induction rule: list_all2_induct) (auto simp: scan_file_clean)

definition hard_rule_clean ::
    "'m audit_machine_scheme \<Rightarrow> file_system \<Rightarrow> string list \<Rightarrow> path \<Rightarrow> audit_config \<Rightarrow> path list \<Rightarrow>
     hard_rule \<Rightarrow> bool" where
  "hard_rule_clean M F cwd root c exclude_dirs r \<longleftrightarrow>
     (\<exists>roots. resolve_rule_roots F cwd root (hr_paths r) (ap_aliases (au_paths c)) (hr_name r) = Inr roots \<and>
        (roots = [] \<or> hr_patterns r = [] \<or>
         (\<exists>entries. m_walk M F cwd roots (en_ignore_filename (au_engine c)) = Some entries \<and>
            (\<forall>p \<in> set entries.
               is_selected M F cwd root exclude_dirs (hr_extensions r) (hr_exclude_patterns r)
                 (hr_allowlist r) p \<longrightarrow>
               clean_file M F cwd (au_engine c) (hr_patterns r) (\<lambda>_. False) p))))"

definition arch_rule_clean ::
    "'m audit_machine_scheme \<Rightarrow> file_system \<Rightarrow> string list \<Rightarrow> path \<Rightarrow> audit_config \<Rightarrow> path list \<Rightarrow>
     arch_rule \<Rightarrow> bool" where
  "arch_rule_clean M F cwd root c exclude_dirs r \<longleftrightarrow>
     (\<exists>roots. resolve_rule_roots F cwd root (arr_paths r) (ap_aliases (au_paths c)) (arr_name r) = Inr roots \<and>
        (arr_forbidden_patterns r = [] \<or>
         (\<exists>entries. m_walk M F cwd roots (en_ignore_filename (au_engine c)) = Some entries \<and>
            (\<forall>p \<in> set entries.
               is_selected M F cwd root exclude_dirs (arr_extensions r) (arr_exclude_patterns r)
                 (arr_allowlist r) p \<longrightarrow>
               clean_file M F cwd (au_engine c) (arr_forbidden_patterns r)
                 (\<lambda>line. list_ex (\<lambda>a. m_multiline_find M a line \<noteq> []) (arr_allowed_patterns r)) p))))"

lemma map_hard_names: "map fst (hard_names r) = hr_patterns r"
  by (simp add: hard_names_def comp_def)

lemma scan_files_clean:
  assumes "scan_files M F cwd root roots exclude_dirs r (au_engine c) = Inr vs"
    and "resolve_rule_roots F cwd root (hr_paths r) (ap_aliases (au_paths c)) (hr_name r) = Inr roots"
  shows "vs = [] \<longleftrightarrow> hard_rule_clean M F cwd root c exclude_dirs r"
proof (cases "roots = [] \<or> hr_patterns r = []")
  case False
  with assms(1) obtain entries vss where e: "m_walk M F cwd roots (en_ignore_filename (au_engine c)) = Some entries"
    "map_result (scan_file M F cwd root (au_engine c) (hard_names r) (\<lambda>_. False))
      (filter (is_selected M F cwd root exclude_dirs (hr_extensions r) (hr_exclude_patterns r)
         (hr_allowlist r)) entries) = Inr vss" "vs = concat vss"
    by (auto simp: scan_files_def and_then_ok or_err_ok)
  from scan_all_clean [OF e(2)] e assms(2) False show ?thesis
    by (auto simp: hard_rule_clean_def map_hard_names)
qed (use assms in \<open>auto simp: scan_files_def hard_rule_clean_def\<close>)

lemma scan_arch_rule_clean:
  assumes "scan_arch_rule M F cwd root c exclude_dirs r = Inr vs"
  shows "vs = [] \<longleftrightarrow> arch_rule_clean M F cwd root c exclude_dirs r"
proof -
  from assms obtain roots where
    roots: "resolve_rule_roots F cwd root (arr_paths r) (ap_aliases (au_paths c)) (arr_name r) = Inr roots"
    by (auto simp: scan_arch_rule_def and_then_ok)
  show ?thesis
  proof (cases "arr_forbidden_patterns r = []")
    case False
    with assms roots obtain entries vss where e:
      "m_walk M F cwd roots (en_ignore_filename (au_engine c)) = Some entries"
      "map_result (scan_file M F cwd root (au_engine c)
          (map (\<lambda>pattern. (pattern, arr_name r)) (arr_forbidden_patterns r))
          (\<lambda>line. list_ex (\<lambda>a. m_multiline_find M a line \<noteq> []) (arr_allowed_patterns r)))
        (filter (is_selected M F cwd root exclude_dirs (arr_extensions r) (arr_exclude_patterns r)
           (arr_allowlist r)) entries) = Inr vss" "vs = concat vss"
      by (auto simp: scan_arch_rule_def and_then_ok or_err_ok)
    from scan_all_clean [OF e(2)] e roots False show ?thesis
      by (auto simp: arch_rule_clean_def comp_def)
  qed (use assms roots in \<open>auto simp: scan_arch_rule_def and_then_ok arch_rule_clean_def\<close>)
qed

lemma concat_results:
  assumes "map_result f rs = Inr vss" and "\<And>r vs. f r = Inr vs \<Longrightarrow> vs = [] \<longleftrightarrow> Q r"
  shows "concat vss = [] \<longleftrightarrow> (\<forall>r \<in> set rs. Q r)"
  using assms(1) unfolding map_result_ok
  by (induction rule: list_all2_induct) (simp_all add: assms(2))

lemma scan_hard_rules_clean:
  assumes "scan_hard_rules M F cwd root c exclude_dirs = Inr vs"
  shows "vs = [] \<longleftrightarrow> (\<forall>r \<in> set (au_hard_rules c). hard_rule_clean M F cwd root c exclude_dirs r)"
proof -
  from assms obtain vss where v: "vs = concat vss"
    "map_result (\<lambda>r. and_then (resolve_rule_roots F cwd root (hr_paths r) (ap_aliases (au_paths c)) (hr_name r))
       (\<lambda>root_paths. scan_files M F cwd root root_paths exclude_dirs r (au_engine c))) (au_hard_rules c) = Inr vss"
    by (auto simp: scan_hard_rules_def and_then_ok)
  show ?thesis
    unfolding v(1) by (rule concat_results [OF v(2)])
      (unfold and_then_ok, elim exE conjE, rule scan_files_clean)
qed

lemma scan_arch_rules_clean:
  assumes "scan_arch_rules M F cwd root c exclude_dirs = Inr vs"
  shows "vs = [] \<longleftrightarrow> (\<forall>r \<in> set (au_arch_rules c). arch_rule_clean M F cwd root c exclude_dirs r)"
proof -
  from assms obtain vss where v: "vs = concat vss"
    "map_result (scan_arch_rule M F cwd root c exclude_dirs) (au_arch_rules c) = Inr vss"
    by (auto simp: scan_arch_rules_def and_then_ok)
  show ?thesis
    unfolding v(1) by (rule concat_results [OF v(2)]) (rule scan_arch_rule_clean)
qed

section \<open>Names\<close>

lemma collect_names:
  "v \<in> set (collect_violations content ls comments allowed file reported ms) \<Longrightarrow>
     vi_rule_name v \<in> snd ` set ms"
proof (induction ms arbitrary: reported)
  case (Cons m ms)
  obtain offset name where m: "m = (offset, name)" by (cases m)
  obtain ln l hi where at: "source_line_at content ls offset = (ln, l, hi)"
    using prod_cases3 by blast
  from Cons.prems have "vi_rule_name v = name \<or> (\<exists>reported.
      v \<in> set (collect_violations content ls comments allowed file reported ms))"
    by (auto simp: m at split: if_splits)
  with Cons.IH m show ?case by auto
qed simp

lemma scan_file_names:
  "scan_file M F cwd root e named allowed p = Inr vs \<Longrightarrow> v \<in> set vs \<Longrightarrow> vi_rule_name v \<in> snd ` set named"
  by (auto simp: scan_file_def result_iff pattern_matches_def dest!: collect_names) force

lemma scan_all_names:
  assumes "map_result (scan_file M F cwd root e named allowed) ps = Inr vss" and "v \<in> set (concat vss)"
  shows "vi_rule_name v \<in> snd ` set named"
  using assms unfolding map_result_ok
  by (induction rule: list_all2_induct) (auto dest: scan_file_names)

lemma result_in:
  assumes "map_result f rs = Inr vss" and "v \<in> set (concat vss)"
  shows "\<exists>r \<in> set rs. \<exists>vs. f r = Inr vs \<and> v \<in> set vs"
  using assms unfolding map_result_ok by (induction rule: list_all2_induct) auto

lemma hard_violation_rule:
  assumes "scan_hard_rules M F cwd root c exclude_dirs = Inr vs" and "v \<in> set vs"
  shows "\<exists>r \<in> set (au_hard_rules c). starts_with (vi_rule_name v) (hr_name r)"
proof -
  from assms obtain r roots us where r: "r \<in> set (au_hard_rules c)" "v \<in> set us"
    "scan_files M F cwd root roots exclude_dirs r (au_engine c) = Inr us"
    unfolding scan_hard_rules_def by (auto simp: and_then_ok dest!: result_in [unfolded set_concat])
  then have "vi_rule_name v \<in> snd ` set (hard_names r)"
    by (auto simp: scan_files_def and_then_ok or_err_ok split: if_splits
        dest!: scan_all_names [unfolded set_concat])
  with r(1) show ?thesis by (intro bexI [of _ r]) (auto simp: hard_names_def)
qed

lemma arch_violation_rule:
  assumes "scan_arch_rules M F cwd root c exclude_dirs = Inr vs" and "v \<in> set vs"
  shows "\<exists>r \<in> set (au_arch_rules c). vi_rule_name v = arr_name r"
proof -
  from assms obtain r us where r: "r \<in> set (au_arch_rules c)" "v \<in> set us"
    "scan_arch_rule M F cwd root c exclude_dirs r = Inr us"
    unfolding scan_arch_rules_def by (auto simp: and_then_ok dest!: result_in [unfolded set_concat])
  then have "vi_rule_name v = arr_name r"
    by (auto simp: scan_arch_rule_def and_then_ok or_err_ok split: if_splits
        dest!: scan_all_names [unfolded set_concat])
  with r(1) show ?thesis by blast
qed

section \<open>The verdict\<close>

lemma report_total_0:
  assumes "\<And>v. v \<in> set hard \<Longrightarrow> \<exists>r \<in> set (au_hard_rules c). starts_with (vi_rule_name v) (hr_name r)"
    and "\<And>v. v \<in> set arch \<Longrightarrow> \<exists>r \<in> set (au_arch_rules c). vi_rule_name v = arr_name r"
  shows "js_total_violations (jr_summary (generate_report t c hard arch)) = 0 \<longleftrightarrow> hard = [] \<and> arch = []"
proof -
  have "(\<forall>r \<in> set (au_hard_rules c). jv_count (hard_entry hard r) = 0) \<longleftrightarrow> hard = []"
    using assms(1) by (fastforce simp: hard_entry_def hard_violations_of_def filter_empty_conv Let_def
        neq_Nil_conv)
  moreover have "(\<forall>r \<in> set (au_arch_rules c). ja_count (arch_entry arch r) = 0) \<longleftrightarrow> arch = []"
    using assms(2) by (fastforce simp: arch_entry_def arch_violations_of_def filter_empty_conv Let_def
        neq_Nil_conv)
  ultimately show ?thesis by (simp add: generate_report_def Let_def sum_list_eq_0_iff)
qed

text \<open>
  C29. An audit that returns has read and accepted its configuration, and it counts no violation
  exactly when the repository is clean: no file that the walk of a rule's paths yields and the
  rule selects has a match of one of its patterns outside the comments, for an architecture rule
  also outside the lines it allows.
\<close>

theorem audit_passes_iff_clean:
  assumes "audit_run M root config_path report_dir w = (Inr outcome, w')"
  shows "\<exists>source c exclude_dirs.
    read_to_string (w_fs w) (w_cwd w) config_path = Some source \<and>
    parse_audit_config M source = Inr c \<and>
    validate_audit_config M (w_fs w) (w_cwd w) root c = Inr exclude_dirs \<and>
    (ao_total_violations outcome = 0 \<longleftrightarrow>
       (\<forall>r \<in> set (au_hard_rules c). hard_rule_clean M (w_fs w) (w_cwd w) root c exclude_dirs r) \<and>
       (\<forall>r \<in> set (au_arch_rules c). arch_rule_clean M (w_fs w) (w_cwd w) root c exclude_dirs r))"
proof -
  let ?F = "w_fs w" and ?d = "w_cwd w"
  from assms obtain source c excl hard arch n where run:
    "read_to_string ?F ?d config_path = Some source" "parse_audit_config M source = Inr c"
    "validate_audit_config M ?F ?d root c = Inr excl"
    "scan_hard_rules M ?F ?d root c excl = Inr hard" "scan_arch_rules M ?F ?d root c excl = Inr arch"
    "ao_total_violations outcome =
       js_total_violations (jr_summary (generate_report (m_timestamp M n) c hard arch))"
    unfolding audit_run_def Let_def ok_iff by fastforce
  note total = report_total_0 [OF hard_violation_rule [OF run(4)] arch_violation_rule [OF run(5)]]
  from run total scan_hard_rules_clean [OF run(4)] scan_arch_rules_clean [OF run(5)] show ?thesis
    by metis
qed

theorem audit_passes_iff_clean_witness:
  "\<exists>source c exclude_dirs.
     read_to_string demo_fs [''r''] (absolute [''r'', ''audit'']) = Some source \<and>
     parse_audit_config demo_machine source = Inr c \<and>
     (\<forall>r \<in> set (au_hard_rules c).
        hard_rule_clean demo_machine demo_fs [''r''] (absolute [''r'']) c exclude_dirs r)"
proof -
  have "case audit_run demo_machine (absolute [''r'']) (absolute [''r'', ''audit'']) (absolute [''r'', ''out''])
      demo_world of (Inl _, _) \<Rightarrow> False | (Inr outcome, _) \<Rightarrow> ao_total_violations outcome = 0"
    by code_simp
  then obtain outcome w' where "audit_run demo_machine (absolute [''r'']) (absolute [''r'', ''audit''])
      (absolute [''r'', ''out'']) demo_world = (Inr outcome, w')" "ao_total_violations outcome = 0"
    by (auto split: prod.splits sum.splits)
  with audit_passes_iff_clean [OF this(1)] show ?thesis by (auto simp: demo_world_def)
qed

section \<open>Rules with similar names\<close>

text \<open>
  The reports give a violation to every rule whose name starts its label. With the names \<open>no\<close> and
  \<open>no-bad\<close>, which the validation accepts together, one violation of the second is counted twice.
\<close>

lemma prefix_names_counted_twice:
  "let named = (\<lambda>name severity.
         \<lparr>hr_name = name, hr_severity = severity, hr_paths = [''a.rs''], hr_extensions = [''rs''],
          hr_patterns = [''bad''], hr_exclude_patterns = [], hr_allowlist = []\<rparr>);
       c = demo_audit_config\<lparr>au_hard_rules := [named ''no'' ''blocker'', named ''no-bad'' ''warning'']\<rparr>;
       v = \<lparr>vi_file = [Normal ''a.rs''], vi_line = 1, vi_content = ''bad'', vi_rule_name = ''no-bad:bad''\<rparr>
   in js_total_violations (jr_summary (generate_report t c [v] [])) = 2 \<and>
      js_blocker_count (jr_summary (generate_report t c [v] [])) = 1"
  by (simp add: Let_def generate_report_def hard_entry_def hard_violations_of_def severity_count_def
      demo_audit_config_def occurrence_def)

end
