(* ===== verification/Thm_Flow_Steps.thy ===== *)
theory Thm_Flow_Steps
  imports Flow_Demo
begin

text \<open>
  The command of a step: the expansion of its placeholders is the simultaneous substitution of a
  reference definition, and its environment carries the values of exactly its services.
\<close>

section \<open>Templates\<close>

text \<open>The reference: a template is a sequence of texts and placeholders.\<close>

datatype token = Text string | Placeholder string

function tokens_of :: "string \<Rightarrow> token list" where
  "tokens_of v =
     (case find_char (CHR ''{'') v of None \<Rightarrow> [Text v]
      | Some start \<Rightarrow>
          (let tail = drop start v
           in case find_char (CHR ''}'') tail of None \<Rightarrow> [Text v]
              | Some stop \<Rightarrow>
                  Text (take start v) # Placeholder (take (stop - 1) (drop 1 tail)) #
                  tokens_of (drop (stop + 1) tail)))"
  by pat_completeness auto
termination
  by (relation "measure length") (auto simp: find_char_Some)

declare tokens_of.simps [simp del]

fun token_text :: "token \<Rightarrow> string" where
  "token_text (Text s) = s"
| "token_text (Placeholder n) = ''{'' @ n @ ''}''"

definition flatten :: "token list \<Rightarrow> string" where
  "flatten ts = concat (map token_text ts)"

lemma flatten_simps [simp]:
  "flatten [] = []" "flatten (t # ts) = token_text t @ flatten ts"
  by (simp_all add: flatten_def)

text \<open>What a placeholder stands for; the path of a name that is unknown is not looked for.\<close>

fun substitute :: "project \<Rightarrow> token \<Rightarrow> string" where
  "substitute p (Text s) = s"
| "substitute p (Placeholder n) =
     (case project_path p n of None \<Rightarrow> token_text (Placeholder n) | Some q \<Rightarrow> render q)"

definition name_ok :: "string \<Rightarrow> bool" where
  "name_ok n \<longleftrightarrow> CHR ''{'' \<notin> set n \<and> CHR ''}'' \<notin> set n"

fun token_ok :: "(string \<Rightarrow> bool) \<Rightarrow> token \<Rightarrow> bool" where
  "token_ok A (Text s) \<longleftrightarrow> CHR ''{'' \<notin> set s"
| "token_ok A (Placeholder n) \<longleftrightarrow> A n"

lemma token_ok_mono: "token_ok A t \<Longrightarrow> (\<And>n. A n \<Longrightarrow> B n) \<Longrightarrow> token_ok B t"
  by (cases t) auto

lemma tokens_ok_mono: "list_all (token_ok A) ts \<Longrightarrow> (\<And>n. A n \<Longrightarrow> B n) \<Longrightarrow> list_all (token_ok B) ts"
  by (auto simp: list_all_iff intro: token_ok_mono)

text \<open>A validated template consists of texts without braces and of allowed placeholders.\<close>

lemma tokens_of_validated:
  assumes "validate_placeholders c owner v rest = Inr ()"
  shows "flatten (tokens_of rest) = rest \<and> list_all (token_ok (allowed_placeholder c)) (tokens_of rest)"
  using assms
proof (induction c owner v rest rule: validate_placeholders.induct)
  case (1 c owner v rest)
  show ?case
  proof (cases "find_char (CHR ''{'') rest")
    case None
    then have "tokens_of rest = [Text rest]" by (subst tokens_of.simps) simp
    with None show ?thesis by (simp add: find_char_None)
  next
    case (Some start)
    with "1.prems" obtain stop where stop: "find_char (CHR ''}'') (drop start rest) = Some stop"
      by (subst (asm) validate_placeholders.simps) (auto simp: Let_def split: option.splits)
    let ?name = "take (stop - 1) (drop 1 (drop start rest))"
    have "validate_placeholders c owner v rest =
        (if \<not> allowed_placeholder c ?name then Inl (UnsupportedPlaceholder owner ?name)
         else validate_placeholders c owner v (drop (stop + 1) (drop start rest)))"
      by (subst validate_placeholders.simps) (simp add: Some stop Let_def)
    with "1.prems" have ok: "allowed_placeholder c ?name"
      "validate_placeholders c owner v (drop (stop + 1) (drop start rest)) = Inr ()"
      by (simp_all split: if_splits)
    from "1.IH" [OF Some refl stop refl _ ok(2)] ok(1)
    have IH: "flatten (tokens_of (drop (stop + 1) (drop start rest))) = drop (stop + 1) (drop start rest)"
      "list_all (token_ok (allowed_placeholder c)) (tokens_of (drop (stop + 1) (drop start rest)))"
      by simp_all
    have parts: "start < length rest" "rest ! start = CHR ''{''" "CHR ''{'' \<notin> set (take start rest)"
      "stop < length (drop start rest)" "drop start rest ! stop = CHR ''}''"
      using Some stop by (simp_all add: find_char_Some)
    have "stop \<noteq> 0" using parts by (cases stop) auto
    have "rest = take start rest @ drop start rest" by simp
    moreover have "drop start rest = CHR ''{'' # drop 1 (drop start rest)"
      using parts by (metis Cons_nth_drop_Suc One_nat_def drop_drop plus_1_eq_Suc add.commute)
    moreover have "drop 1 (drop start rest) = ?name @ CHR ''}'' # drop (stop + 1) (drop start rest)"
      using parts \<open>stop \<noteq> 0\<close> id_take_nth_drop [of "stop - 1" "drop 1 (drop start rest)"] by simp
    ultimately have "rest = take start rest @ CHR ''{'' # ?name @ CHR ''}'' # drop (stop + 1) (drop start rest)"
      by metis
    moreover have "tokens_of rest = Text (take start rest) # Placeholder ?name #
        tokens_of (drop (stop + 1) (drop start rest))"
      by (subst tokens_of.simps) (simp only: Some stop Let_def option.case)
    ultimately show ?thesis
      using IH ok(1) parts(3) by (simp only: flatten_simps token_text.simps list_all_iff) simp
  qed
qed

section \<open>Replacing one name\<close>

lemma replace_all_skip:
  "c \<notin> set s \<Longrightarrow> replace_all (c # p) r (s @ t) = s @ replace_all (c # p) r t"
  by (induction s) auto

lemma prefix_placeholder:
  "CHR ''}'' \<notin> set n \<Longrightarrow> CHR ''}'' \<notin> set m \<Longrightarrow> prefix (n @ ''}'') (m @ CHR ''}'' # rest) \<longleftrightarrow> n = m"
proof (induction n arbitrary: m)
  case Nil
  then show ?case by (cases m) auto
next
  case (Cons x n)
  then show ?case by (cases m) auto
qed

fun replace_token :: "string \<Rightarrow> string \<Rightarrow> token \<Rightarrow> token" where
  "replace_token n r (Text s) = Text s"
| "replace_token n r (Placeholder m) = (if m = n then Text r else Placeholder m)"

lemma replace_all_tokens:
  assumes "name_ok n" and "list_all (token_ok name_ok) ts"
  shows "replace_all (CHR ''{'' # n @ ''}'') r (flatten ts) = flatten (map (replace_token n r) ts)"
  using assms(2)
proof (induction ts)
  case (Cons t ts)
  show ?case
  proof (cases t)
    case (Text s)
    with Cons show ?thesis by (simp add: replace_all_skip)
  next
    case (Placeholder m)
    with Cons assms(1) have m: "CHR ''{'' \<notin> set (m @ ''}'')" "CHR ''}'' \<notin> set m" "CHR ''}'' \<notin> set n"
      by (auto simp: name_ok_def)
    have "flatten (t # ts) = CHR ''{'' # m @ CHR ''}'' # flatten ts" by (simp add: Placeholder)
    moreover have "replace_all (CHR ''{'' # n @ ''}'') r (CHR ''{'' # m @ CHR ''}'' # flatten ts) =
      (if n = m then r @ replace_all (CHR ''{'' # n @ ''}'') r (flatten ts)
       else CHR ''{'' # replace_all (CHR ''{'' # n @ ''}'') r ((m @ ''}'') @ flatten ts))"
      by (simp add: prefix_placeholder m)
    ultimately show ?thesis
      using Cons replace_all_skip [OF m(1)] by (auto simp: Placeholder)
  qed
qed simp


section \<open>Replacing all names\<close>

fun replace_names :: "project \<Rightarrow> string set \<Rightarrow> token \<Rightarrow> token" where
  "replace_names p N (Text s) = Text s"
| "replace_names p N (Placeholder m) =
     (if m \<in> N then (case project_path p m of None \<Rightarrow> Placeholder m | Some q \<Rightarrow> Text (render q))
      else Placeholder m)"

definition paths_plain :: "project \<Rightarrow> bool" where
  "paths_plain p \<longleftrightarrow> (\<forall>n q. project_path p n = Some q \<longrightarrow> CHR ''{'' \<notin> set (render q))"

lemma replace_names_step:
  "project_path p n = Some q \<Longrightarrow>
     replace_names p N (replace_token n (render q) t) = replace_names p (insert n N) t"
  by (cases t) auto

lemma replace_names_skip:
  "project_path p n = None \<Longrightarrow> replace_names p (insert n N) t = replace_names p N t"
  by (cases t) auto

lemma replace_token_ok:
  "CHR ''{'' \<notin> set r \<Longrightarrow> token_ok A t \<Longrightarrow> token_ok A (replace_token n r t)"
  by (cases t) auto

lemma replace_names_ok: "paths_plain p \<Longrightarrow> token_ok A t \<Longrightarrow> token_ok A (replace_names p N t)"
  by (cases t) (auto simp: paths_plain_def split: option.splits)

lemma expand_names_tokens:
  assumes "paths_plain p" and "\<forall>n \<in> set names. name_ok n" and "list_all (token_ok name_ok) ts"
  shows "expand_names p names (flatten ts) = flatten (map (replace_names p (set names)) ts)"
  using assms(2,3)
proof (induction names arbitrary: ts)
  case Nil
  have "replace_names p {} t = t" for t by (cases t) auto
  then show ?case by (simp add: expand_names_def)
next
  case (Cons n names)
  show ?case
  proof (cases "project_path p n")
    case None
    with Cons show ?thesis by (simp add: expand_names_def replace_names_skip)
  next
    case (Some q)
    with assms(1) have "list_all (token_ok name_ok) (map (replace_token n (render q)) ts)"
      using Cons.prems(2) by (auto simp: list_all_iff paths_plain_def intro!: replace_token_ok)
    from Cons.IH [OF _ this] Cons.prems Some show ?thesis
      by (simp add: expand_names_def replace_all_tokens replace_names_step comp_def)
  qed
qed

lemma replace_names_twice:
  "replace_names p N (replace_names p K t) = replace_names p (N \<union> K) t"
  by (cases t) (auto split: option.splits)

lemma replace_names_substitute:
  "token_ok (\<lambda>n. n \<in> N) t \<Longrightarrow> token_text (replace_names p N t) = substitute p t"
  by (cases t) (auto split: option.splits)

lemma validate_id_name_ok: "validate_id what n = Inr () \<Longrightarrow> name_ok n"
  by (auto simp: validate_id_def result_iff name_ok_def list_all_iff is_id_char_def
      is_ascii_lowercase_def is_ascii_digit_def)

lemma alias_names_ok:
  assumes "validate_config L c = Inr ()" and "n \<in> set (bt_keys (ps_aliases (fc_paths c)))"
  shows "name_ok n"
proof -
  from assms(1) have "\<forall>x \<in> set (ps_aliases (fc_paths c)). validate_alias x = Inr ()"
    unfolding validate_config_def checks_ok by (simp add: check_all_ok)
  with assms(2) obtain entry where "validate_alias (n, entry) = Inr ()"
    by auto
  then have "validate_id ''path alias'' n = Inr ()"
    unfolding validate_alias_def case_prod_conv checks_ok by simp
  then show ?thesis by (rule validate_id_name_ok)
qed

text \<open>
  C33. The chain of textual replacements that expands a configured argument is the simultaneous
  substitution of its placeholders: for every template that the validation accepts the result is the
  text with each placeholder replaced by its path, whatever the order of the replacements, provided
  that no path holds an opening brace.
\<close>

theorem expand_is_substitution:
  assumes "validate_config L (pj_config p) = Inr ()"
    and "validate_template (pj_config p) owner v = Inr ()" and "paths_plain p"
  shows "flatten (tokens_of v) = v \<and> expand p v = concat (map (substitute p) (tokens_of v))"
proof -
  let ?A = "bt_keys (ps_aliases (fc_paths (pj_config p)))" and ?ts = "tokens_of v"
  let ?R = "[''audit_config'', ''secrets_config'', ''reports'', ''root'']"
  have "validate_placeholders (pj_config p) owner v v = Inr ()"
    using assms(2) unfolding validate_template_def checks_ok by simp
  then have ts: "flatten ?ts = v" "list_all (token_ok (allowed_placeholder (pj_config p))) ?ts"
    using tokens_of_validated by blast+
  have allowed: "allowed_placeholder (pj_config p) n \<Longrightarrow> n \<in> set ?R \<union> set ?A" for n
    by (auto simp: allowed_placeholder_def reserved_names_def map_of_eq_None_iff)
  have names: "\<forall>n \<in> set ?R. name_ok n" "\<forall>n \<in> set ?A. name_ok n"
    using alias_names_ok [OF assms(1)] by (auto simp: name_ok_def)
  have in_names: "list_all (token_ok (\<lambda>n. n \<in> set ?R \<union> set ?A)) ?ts"
    using ts(2) by (rule tokens_ok_mono) (rule allowed)
  then have "list_all (token_ok name_ok) ?ts"
    by (rule tokens_ok_mono) (use names in blast)
  moreover from this assms(3) have "list_all (token_ok name_ok) (map (replace_names p (set ?A)) ?ts)"
    by (auto simp: list_all_iff intro: replace_names_ok)
  ultimately have "expand p v = flatten (map (replace_names p (set ?R \<union> set ?A)) ?ts)"
    using expand_names_tokens [OF assms(3) names(2), of ?ts]
      expand_names_tokens [OF assms(3) names(1), of "map (replace_names p (set ?A)) ?ts"] ts(1)
    by (simp add: expand_def comp_def replace_names_twice)
  also have "\<dots> = concat (map (substitute p) ?ts)"
    using in_names replace_names_substitute [of "set ?R \<union> set ?A" _ p]
    by (simp add: flatten_def comp_def list_all_iff cong: map_cong)
  finally show ?thesis using ts(1) by blast
qed

text \<open>The argument of the demonstration's step.\<close>

lemma demo_flow_valid: "validate_config (m_libs demo_machine) demo_flow = Inr ()"
  by code_simp

lemma demo_paths_plain: "paths_plain demo_project"
proof -
  have "CHR ''{'' \<notin> set (render q)" if "project_path demo_project n = Some q" for n q
  proof -
    from that have "q \<in> {absolute [''r''], absolute [''r'', ''out''], absolute [''r'', ''audit''],
        absolute [''r'', ''secrets'']}"
      by (auto simp: project_path_def demo_project_def split: if_splits)
    moreover have "\<forall>q \<in> set [absolute [''r''], absolute [''r'', ''out''], absolute [''r'', ''audit''],
        absolute [''r'', ''secrets'']]. CHR ''{'' \<notin> set (render q)"
      by code_simp
    ultimately show ?thesis by auto
  qed
  then show ?thesis by (auto simp: paths_plain_def)
qed

theorem expand_is_substitution_witness:
  "expand demo_project ''--root={root}'' =
     concat (map (substitute demo_project) (tokens_of ''--root={root}'')) \<and>
   expand demo_project ''--root={root}'' = ''--root=/r''"
proof
  have "pj_config demo_project = demo_flow" by (simp add: demo_project_def)
  moreover have "validate_template demo_flow ''t'' ''--root={root}'' = Inr ()" by code_simp
  ultimately show "expand demo_project ''--root={root}'' =
     concat (map (substitute demo_project) (tokens_of ''--root={root}''))"
    using expand_is_substitution [of "m_libs demo_machine" demo_project "''t''" "''--root={root}''"]
      demo_flow_valid demo_paths_plain by simp
  show "expand demo_project ''--root={root}'' = ''--root=/r''" by code_simp
qed

section \<open>The services of a step\<close>

text \<open>Every running service carries the variable that its configuration injects.\<close>

definition manager_ok :: "project \<Rightarrow> service_manager \<Rightarrow> bool" where
  "manager_ok p sm \<longleftrightarrow>
     (\<forall>i s. bt_get (sm_running sm) i = Some s \<longrightarrow>
        (\<exists>c. config_service (pj_config p) i = Some c \<and> rn_inject_env s = service_inject_env c))"

lemma manager_new_ok: "manager_ok p manager_new"
  by (simp add: manager_ok_def manager_new_def)

lemma start_service_injects:
  "start_service M p i c w = (Inr s, w') \<Longrightarrow> rn_inject_env s = service_inject_env c"
  by (cases c) (auto simp: start_service_def start_docker_def service_inject_env_def Let_def ok_iff
      split: option.splits)

lemma manager_environment_injects:
  assumes "manager_environment M p i (w, sm) = (Inr e, (w', sm'))" and "manager_ok p sm"
  shows "manager_ok p sm' \<and>
    (\<exists>c. config_service (pj_config p) i = Some c \<and> fst e = service_inject_env c)"
  using assms
  by (auto simp: manager_environment_def manager_ok_def
      split: option.splits prod.splits sum.splits if_splits
      dest!: start_service_injects)

lemma step_environment_injects:
  assumes "step_environment M p is (w, sm) = (Inr env, (w', sm'))" and "manager_ok p sm"
  shows "manager_ok p sm' \<and>
    list_all2 (\<lambda>i e. \<exists>c. config_service (pj_config p) i = Some c \<and> fst e = service_inject_env c) is env"
  using assms
proof (induction "is" arbitrary: w sm env)
  case (Cons i "is")
  from Cons.prems(1) obtain e es w1 sm1 where env: "env = e # es"
    "manager_environment M p i (w, sm) = (Inr e, (w1, sm1))"
    "step_environment M p is (w1, sm1) = (Inr es, (w', sm'))"
    by (auto simp: ok_iff)
  from manager_environment_injects [OF env(2) Cons.prems(2)] Cons.IH [OF env(3)] env(1) show ?case
    by simp
qed (simp add: ok_iff)

lemma validated_steps_from:
  "validate_steps_from c ids ss = Inr () \<Longrightarrow> s \<in> set ss \<Longrightarrow> validate_step c s = Inr ()"
proof (induction ss arbitrary: ids)
  case (Cons t ss)
  from Cons.prems(1) have "validate_step c t = Inr ()" "validate_steps_from c (st_id t # ids) ss = Inr ()"
    unfolding validate_steps_from.simps checks_ok by auto
  with Cons.IH Cons.prems(2) show ?case by auto
qed simp

lemma validated_step:
  assumes "validate_config L c = Inr ()" and "s \<in> set (fc_steps c)"
  shows "validate_step c s = Inr ()"
proof -
  have "validate_steps c = Inr ()"
    using assms(1) unfolding validate_config_def checks_ok by simp
  then have "validate_steps_from c [] (fc_steps c) = Inr ()"
    unfolding validate_steps_def Let_def checks_ok by simp
  then show ?thesis using assms(2) by (rule validated_steps_from)
qed

definition injected :: "flow_config \<Rightarrow> string \<Rightarrow> string" where
  "injected c i = service_inject_env (the (config_service c i))"

lemma validated_services:
  assumes "validate_step_services c s seen envs is = Inr ()"
  shows "distinct (map (injected c) is) \<and> set (map (injected c) is) \<inter> set envs = {} \<and>
    set (map (injected c) is) \<inter> set (st_remove_env s) = {}"
  using assms
proof (induction "is" arbitrary: seen envs)
  case (Cons i "is")
  from Cons.prems obtain service where service: "config_service c i = Some service"
    "service_inject_env service \<notin> set envs" "service_inject_env service \<notin> set (st_remove_env s)"
    "validate_step_services c s (i # seen) (service_inject_env service # envs) is = Inr ()"
    unfolding validate_step_services.simps and_then_ok or_err_ok Let_def checks_ok
    by (auto simp: require_ok config_service_def)
  from Cons.IH [OF service(4)] service(1-3) show ?case by (auto simp: injected_def)
qed simp

section \<open>The command of a step\<close>

lemma fold_task_env:
  "tk_env (fold (\<lambda>(name, v). task_env name v) es t) = tk_env t @ es \<and>
   tk_env_remove (fold (\<lambda>(name, v). task_env name v) es t) = tk_env_remove t \<and>
   tk_program (fold (\<lambda>(name, v). task_env name v) es t) = tk_program t \<and>
   tk_args (fold (\<lambda>(name, v). task_env name v) es t) = tk_args t \<and>
   tk_timeout (fold (\<lambda>(name, v). task_env name v) es t) = tk_timeout t"
  by (induction es arbitrary: t) (auto simp: task_env_def)

lemma fold_task_env_remove:
  "tk_env (fold task_env_remove ns t) = tk_env t \<and>
   tk_env_remove (fold task_env_remove ns t) = tk_env_remove t @ ns \<and>
   tk_program (fold task_env_remove ns t) = tk_program t \<and>
   tk_args (fold task_env_remove ns t) = tk_args t \<and>
   tk_timeout (fold task_env_remove ns t) = tk_timeout t"
  by (induction ns arbitrary: t) (auto simp: task_env_remove_def)

lemma configured_task_parts [simp]:
  "tk_program (configured_task p s env) = st_program s"
  "tk_args (configured_task p s env) = map (expand p) (st_args s)"
  "tk_env (configured_task p s env) = env"
  "tk_env_remove (configured_task p s env) = st_remove_env s"
  "tk_timeout (configured_task p s env) = st_timeout_secs s * 1000"
  by (simp_all add: configured_task_def fold_task_env fold_task_env_remove task_timeout_def
      task_args_def task_new_def)

lemma fold_remove: "fold (\<lambda>n e. e(n := None)) ns f name = (if name \<in> set ns then None else f name)"
  by (induction ns arbitrary: f) auto

lemma fold_assign:
  "distinct (map fst es) \<Longrightarrow>
     fold (\<lambda>(k, v) e. e(k \<mapsto> v)) es f name = (case map_of es name of None \<Rightarrow> f name | Some v \<Rightarrow> Some v)"
proof (induction es arbitrary: f)
  case (Cons kv es)
  obtain k v where kv: "kv = (k, v)" by (cases kv)
  from Cons.prems kv have "map_of es k = None" by (simp add: map_of_eq_None_iff)
  with Cons show ?case by (auto simp: kv split: option.splits)
qed simp

text \<open>
  C32. The command that a step of an accepted configuration starts: the configured program and the
  expanded arguments; in its environment the value of every service of the step under the variable
  that the service's configuration names, no variable that the step removes, and everything else
  as inherited. Neither two services nor a service and a removal get in each other's way.
\<close>

theorem step_command_environment:
  assumes "validate_config L (pj_config p) = Inr ()" and "s \<in> set (fc_steps (pj_config p))"
    and "manager_ok p sm" and "step_environment M p (st_services s) (w, sm) = (Inr env, (w', sm'))"
  shows "manager_ok p sm' \<and>
    cm_program (task_command M (configured_task p s env)) = st_program s \<and>
    cm_args (task_command M (configured_task p s env)) = map (expand p) (st_args s) \<and>
    list_all2 (\<lambda>i e. \<exists>c. config_service (pj_config p) i = Some c \<and> fst e = service_inject_env c \<and>
        cm_env (task_command M (configured_task p s env)) (service_inject_env c) = Some (snd e))
      (st_services s) env \<and>
    (\<forall>name. name \<notin> fst ` set env \<longrightarrow> cm_env (task_command M (configured_task p s env)) name =
       (if name \<in> set (st_remove_env s) then None else m_env M name))"
proof -
  let ?c = "pj_config p"
  note injects = step_environment_injects [OF assms(4,3)]
  have "validate_step_services ?c s [] [] (st_services s) = Inr ()"
    using validated_step [OF assms(1,2)] unfolding validate_step_def Let_def checks_ok by simp
  note services = validated_services [OF this]
  have "list_all2 (\<lambda>i e. fst e = injected ?c i) (st_services s) env"
    using injects by (auto simp: injected_def elim!: list.rel_mono_strong)
  then have names: "map fst env = map (injected ?c) (st_services s)"
    by (induction rule: list_all2_induct) auto
  have lookup: "cm_env (task_command M (configured_task p s env)) name =
      (if name \<in> set (st_remove_env s) then None
       else case map_of env name of None \<Rightarrow> m_env M name | Some v \<Rightarrow> Some v)" for name
    using services names by (simp add: task_command_def task_environment_def fold_remove fold_assign)
  have valued: "cm_env (task_command M (configured_task p s env)) (fst e) = Some (snd e)"
    if "e \<in> set env" for e
  proof -
    have "fst e \<in> set (map (injected ?c) (st_services s))" using that names [symmetric] by simp
    moreover have "map_of env (fst e) = Some (snd e)"
      using that services names map_of_is_SomeI [of env "fst e" "snd e"] by simp
    ultimately show ?thesis using services lookup by auto
  qed
  have "list_all2 (\<lambda>i e. \<exists>c. config_service ?c i = Some c \<and> fst e = service_inject_env c \<and>
        cm_env (task_command M (configured_task p s env)) (service_inject_env c) = Some (snd e))
      (st_services s) env"
    using injects valued by (auto elim!: list.rel_mono_strong)
  moreover have "map_of env name = None" if "name \<notin> fst ` set env" for name
    using that by (simp add: map_of_eq_None_iff)
  ultimately show ?thesis using injects lookup by (simp add: task_command_def)
qed

theorem step_command_environment_witness:
  "\<exists>env x. step_environment demo_machine demo_project [''db''] (demo_world, manager_new) = (Inr env, x) \<and>
     (\<exists>c e. env = [e] \<and> config_service demo_flow ''db'' = Some c \<and>
        cm_env (task_command demo_machine (configured_task demo_project demo_step env))
          (service_inject_env c) = Some (snd e))"
proof -
  have "case step_environment demo_machine demo_project [''db''] (demo_world, manager_new) of
      (Inl _, _) \<Rightarrow> False | (Inr _, _) \<Rightarrow> True"
    by code_simp
  then obtain env w' sm' where env: "step_environment demo_machine demo_project (st_services demo_step)
      (demo_world, manager_new) = (Inr env, (w', sm'))"
    by (auto simp: demo_step_def split: prod.splits sum.splits)
  have "pj_config demo_project = demo_flow" "demo_step \<in> set (fc_steps demo_flow)"
    by (simp_all add: demo_project_def demo_flow_def)
  with step_command_environment [of "m_libs demo_machine" demo_project demo_step manager_new
      demo_machine demo_world env w' sm'] demo_flow_valid manager_new_ok env
  show ?thesis by (auto simp: demo_step_def list_all2_Cons1)
qed

end
