(* ===== verification/Thm_Flow_Exit.thy ===== *)
theory Thm_Flow_Exit
  imports Thm_Flow_Steps
begin

text \<open>
  What the exit code 0 of the pre-commit hook means: every gate was passed and every selected step
  was run to a successful end. The list of started commands only grows, so a command that was
  started once is still there at the end.
\<close>

section \<open>Started commands stay started\<close>

definition commands_grow :: "world \<Rightarrow> world \<Rightarrow> bool" where
  "commands_grow w w' \<longleftrightarrow> prefix (w_commands w) (w_commands w')"

interpretation grows: state_preorder commands_grow
  by unfold_locales (auto simp: commands_grow_def intro: prefix_order.trans)

lemma grows_basic [keeps_intro]:
  "within commands_grow (clock_now M)" "within commands_grow (cancelled M)"
  "within commands_grow (fs_op f e)" "within commands_grow (spawn M c e)"
  by (auto simp: within_def commands_grow_def action_defs Let_def split: option.splits)

lemma grows_wait_end [keeps_intro]:
  "(\<And>s. within R (f s)) \<Longrightarrow> within R m \<Longrightarrow> within R n \<Longrightarrow> within R (case how of Finished s \<Rightarrow> f s | Interrupted \<Rightarrow> m | Overdue \<Rightarrow> n)"
  by (cases how) auto

lemma grows_capture [keeps_intro]:
  "within commands_grow (capture_command M program args cwd timeout b)"
  "within commands_grow (capture M program args cwd timeout)"
  "within commands_grow (capture_cleanup M program args cwd timeout)"
  by (auto simp: capture_command_def capture_def capture_cleanup_def intro!: keeps_intro)

lemma grows_task_run [keeps_intro]: "within commands_grow (task_run M t)"
  unfolding task_run_def by (auto intro!: keeps_intro)

lemma grows_execute [keeps_intro]: "within commands_grow (execute M t parser)"
  unfolding execute_def by (auto intro!: keeps_intro split: option.split)

lemma grows_await_turn: "within commands_grow (await_turn M p i d container deadline)"
  unfolding await_turn_def remaining_def service_port_def docker_def
  by (auto intro!: keeps_intro split: option.split)

lemma grows_snd: "within commands_grow m \<Longrightarrow> commands_grow w (snd (m w))"
  by (simp add: within_def)

lemma grows_remove: "commands_grow w (remove_container M p container w)"
  unfolding remove_container_def by (rule grows_snd) (rule grows_capture)

lemma grows_await_ready:
  assumes "await_ready M p i d container deadline w = Some (r, w')"
  shows "commands_grow w w'"
proof -
  have "\<forall>r w'. rw = (r, w') \<longrightarrow> commands_grow w w'"
    if "await_ready M p i d container deadline w = Some rw" for rw
    using that
  proof (rule await_ready.raw_induct
      [of "\<lambda>M p i d container deadline w rw. \<forall>r w'. rw = (r, w') \<longrightarrow> commands_grow w w'", rotated])
    fix await M p i d container deadline w and rw :: "(service_failure + string) \<times> world"
    assume IH: "\<And>M p i d container deadline w rw. await M p i d container deadline w = Some rw \<Longrightarrow>
        \<forall>r w'. rw = (r, w') \<longrightarrow> commands_grow w w'"
      and step: "(let t = m_now M (w_clock w); w1 = w\<lparr>w_clock := w_clock w + 1\<rparr>
        in if t < deadline then
             (case await_turn M p i d container deadline w1 of
                (Inl e, w2) \<Rightarrow> Some (Inl e, w2)
              | (Inr (Some v), w2) \<Rightarrow> Some (Inr v, w2)
              | (Inr None, w2) \<Rightarrow> await M p i d container deadline w2)
           else Some (Inl (ServiceNotReady i (ds_startup_timeout_secs d)), w1)) = Some rw"
    define w1 where "w1 = w\<lparr>w_clock := w_clock w + 1\<rparr>"
    obtain x w2 where turn: "await_turn M p i d container deadline w1 = (x, w2)" by fastforce
    have "commands_grow w w1" by (simp add: commands_grow_def w1_def)
    moreover have "commands_grow w1 w2"
      using grows_snd [OF grows_await_turn, of w1 M p i d container deadline] turn by simp
    ultimately have "commands_grow w w1" "commands_grow w w2" by (auto intro: grows.trans)
    with step [folded w1_def, unfolded Let_def turn] IH show "\<forall>r w'. rw = (r, w') \<longrightarrow> commands_grow w w'"
      by (auto split: if_splits sum.splits option.splits intro: grows.trans)
  qed
  with assms show ?thesis by blast
qed

lemma grows_await_container [keeps_intro]:
  "within commands_grow (await_container M p i d container deadline)"
  unfolding within_def await_container_def
  by (auto split: option.splits prod.splits sum.splits simp: grows.refl
      dest!: grows_await_ready intro: grows.trans grows_remove)

lemma grows_start_service: "within commands_grow (start_service M p i c)"
  unfolding start_service_def start_docker_def remaining_def docker_def ensure_docker_def
    external_result_def Let_def
  by (cases c) (auto intro!: keeps_intro split: option.split)

lemma grows_manager:
  "manager_environment M p i (w, sm) = (r, (w', sm')) \<Longrightarrow> commands_grow w w'"
  using grows_snd [OF grows_start_service, of w M p i]
  by (auto simp: manager_environment_def grows.refl split: option.splits prod.splits sum.splits)
    (metis snd_conv)+

section \<open>Steps that passed were run\<close>

text \<open>
  A step was run: among the commands is its command, with the services of the step in the
  environment, and the started process was observed to exit with 0 before its timeout, no
  cancellation having been seen.
\<close>

definition step_ran ::
    "'m machine_scheme \<Rightarrow> project \<Rightarrow> command list \<Rightarrow> step_config \<Rightarrow> bool" where
  "step_ran M p commands s \<longleftrightarrow>
     (\<exists>k env ch n. k < length commands \<and> commands ! k = task_command M (configured_task p s env) \<and>
        list_all2 (\<lambda>i e. \<exists>c. config_service (pj_config p) i = Some c \<and> fst e = service_inject_env c)
          (st_services s) env \<and>
        m_spawn M k (commands ! k) = Some ch \<and>
        waited True (st_timeout_secs s * 1000) (ch_polls ch) 0 (Finished (Exited 0)) n)"

lemma step_ran_grows:
  assumes "step_ran M p (w_commands w) s" and "commands_grow w w'"
  shows "step_ran M p (w_commands w') s"
proof -
  from assms(1) obtain k env ch n where ran: "k < length (w_commands w)"
    "w_commands w ! k = task_command M (configured_task p s env)"
    "list_all2 (\<lambda>i e. \<exists>c. config_service (pj_config p) i = Some c \<and> fst e = service_inject_env c)
      (st_services s) env"
    "m_spawn M k (w_commands w ! k) = Some ch"
    "waited True (st_timeout_secs s * 1000) (ch_polls ch) 0 (Finished (Exited 0)) n"
    unfolding step_ran_def by blast
  from assms(2) ran(1) have "k < length (w_commands w')" "w_commands w' ! k = w_commands w ! k"
    by (auto simp: commands_grow_def prefix_def nth_append)
  with ran have "k < length (w_commands w') \<and>
    w_commands w' ! k = task_command M (configured_task p s env) \<and>
    list_all2 (\<lambda>i e. \<exists>c. config_service (pj_config p) i = Some c \<and> fst e = service_inject_env c)
      (st_services s) env \<and>
    m_spawn M k (w_commands w' ! k) = Some ch \<and>
    waited True (st_timeout_secs s * 1000) (ch_polls ch) 0 (Finished (Exited 0)) n"
    by simp
  then show ?thesis unfolding step_ran_def by (intro exI)
qed

lemma task_run_passed:
  assumes "task_run M t w = (Inr r, w')" and "tr_passed r"
  shows "\<exists>ch n. w_commands w' = w_commands w @ [task_command M t] \<and>
    m_spawn M (length (w_commands w)) (task_command M t) = Some ch \<and>
    waited True (tk_timeout t) (ch_polls ch) 0 (Finished (Exited 0)) n"
proof -
  from assms(1) obtain ch how where run: "w_commands w' = w_commands w @ [task_command M t]"
    "m_spawn M (length (w_commands w)) (task_command M t) = Some ch"
    "wait_child True (tk_timeout t) (ch_polls ch) 0 = Some how"
    "tr_passed r = (case how of Finished status \<Rightarrow> success status | _ \<Rightarrow> False)"
    by (auto simp: task_run_def ok_iff split: option.splits)
  with assms(2) have "how = Finished (Exited 0)" by (auto simp: success_def split: wait_end.splits)
  with run wait_child_sound [OF run(3)] show ?thesis by blast
qed

lemma judge_count_passed: "tr_passed (judge_count r cm) \<Longrightarrow> tr_passed r"
  by (cases cm) (simp add: judge_count_def split: if_splits)

lemma execute_passed:
  assumes "execute M t parser w = (Inr r, w')" and "tr_passed r"
  shows "\<exists>ch n. w_commands w' = w_commands w @ [task_command M t] \<and>
    m_spawn M (length (w_commands w)) (task_command M t) = Some ch \<and>
    waited True (tk_timeout t) (ch_polls ch) 0 (Finished (Exited 0)) n"
proof -
  from assms(1) obtain r' w1 where run: "task_run M t w = (Inr r', w1)"
    "(case parser of
        Some q \<Rightarrow>
          if tr_passed r' then
            bind (gets (\<lambda>w. case read_to_string (w_fs w) (w_cwd w) (components (tr_log r')) of
                    None \<Rightarrow> [] | Some s \<Rightarrow> s)) (\<lambda>content.
            bind (lift (parse_result_count (m_libs M) content q)) (\<lambda>cm. ret (judge_count r' cm)))
          else ret r'
      | None \<Rightarrow> ret r') w1 = (Inr r, w')"
    by (auto simp only: execute_def ok_iff)
  then have "w1 = w'" "tr_passed r'"
    using assms(2) by (auto simp: ok_iff split: option.splits if_splits dest: judge_count_passed)
  with run(1) show ?thesis using task_run_passed by blast
qed

lemma manager_environment_keeps:
  assumes "manager_environment M p i (w, sm) = (r, (w', sm'))" and "manager_ok p sm"
  shows "manager_ok p sm'"
proof (cases r)
  case (Inl e)
  with assms show ?thesis
    by (auto simp: manager_environment_def manager_ok_def split: option.splits prod.splits sum.splits)
next
  case (Inr e)
  with assms manager_environment_injects show ?thesis by blast
qed

lemma step_environment_keeps:
  "step_environment M p is (w, sm) = (r, (w', sm')) \<Longrightarrow>
     commands_grow w w' \<and> (manager_ok p sm \<longrightarrow> manager_ok p sm')"
proof (induction "is" arbitrary: w sm r w' sm')
  case Nil
  then show ?case by (simp add: ret_def grows.refl)
next
  case (Cons i "is")
  obtain x w1 sm1 where m: "manager_environment M p i (w, sm) = (x, (w1, sm1))" by (metis prod.exhaust)
  obtain y w2 sm2 where e: "step_environment M p is (w1, sm1) = (y, (w2, sm2))" by (metis prod.exhaust)
  from Cons.prems m e have "(w', sm') = (w1, sm1) \<or> (w', sm') = (w2, sm2)"
    by (cases x; cases y) (auto simp: bind_def map_err_def ret_def)
  with grows_manager [OF m] manager_environment_keeps [OF m] Cons.IH [OF e] show ?case
    by (auto intro: grows.trans)
qed

lemma run_one_step_passed:
  assumes "run_one_step M p s (w, sm) = (Inr r, (w', sm'))" and "manager_ok p sm"
  shows "manager_ok p sm' \<and> commands_grow w w' \<and> (tr_passed r \<longrightarrow> step_ran M p (w_commands w') s)"
proof -
  let ?parser = "case st_parser s of None \<Rightarrow> None | Some i \<Rightarrow> config_parser (pj_config p) i"
  let ?w1 = "w\<lparr>w_signals := w_signals w + 1\<rparr>"
  from assms(1) have start:
    "(case step_environment M p (st_services s) (?w1, sm) of
        (Inl e, x') \<Rightarrow> (Inr (setup_failure M s e), x')
      | (Inr service_env, x') \<Rightarrow>
          on_world (execute M (configured_task p s service_env) ?parser) x') = (Inr r, (w', sm'))"
    by (simp add: run_one_step_def bind_def on_world_def cancelled_def ensure_def throw_def ret_def
        split: if_splits)
  have w1: "commands_grow w ?w1" by (simp add: commands_grow_def)
  obtain x w2 sm2 where env: "step_environment M p (st_services s) (?w1, sm) = (x, (w2, sm2))"
    by (metis prod.exhaust)
  note keeps = step_environment_keeps [OF env]
  from w1 keeps have grown: "commands_grow w w2" by (blast intro: grows.trans)
  show ?thesis
  proof (cases x)
    case (Inl e)
    with start env have "(r, w', sm') = (setup_failure M s e, w2, sm2)" by simp
    then show ?thesis
      using grown keeps assms(2) by (simp add: setup_failure_def split: prod.splits)
  next
    case (Inr service_env)
    from step_environment_injects [OF env [unfolded Inr] assms(2)]
    have injected: "manager_ok p sm2" "list_all2 (\<lambda>i e. \<exists>c. config_service (pj_config p) i = Some c \<and>
      fst e = service_inject_env c) (st_services s) service_env" by simp_all
    from start env Inr have run: "execute M (configured_task p s service_env) ?parser w2 = (Inr r, w')"
      "sm' = sm2"
      by (auto simp: on_world_def split: prod.splits)
    have "step_ran M p (w_commands w') s" if passed: "tr_passed r"
    proof -
      from execute_passed [OF run(1) passed] obtain ch n where
        ran: "w_commands w' = w_commands w2 @ [task_command M (configured_task p s service_env)]"
        "m_spawn M (length (w_commands w2)) (task_command M (configured_task p s service_env)) = Some ch"
        "waited True (st_timeout_secs s * 1000) (ch_polls ch) 0 (Finished (Exited 0)) n"
        by auto
      let ?k = "length (w_commands w2)"
      from ran(1) have k: "?k < length (w_commands w')"
        "w_commands w' ! ?k = task_command M (configured_task p s service_env)" by simp_all
      with ran(2) have "m_spawn M ?k (w_commands w' ! ?k) = Some ch" by simp
      with k ran(3) injected(2) show ?thesis unfolding step_ran_def by blast
    qed
    moreover have "commands_grow w2 w'"
      using grows_snd [OF grows_execute, of w2 M "configured_task p s service_env" ?parser] run(1) by simp
    ultimately show ?thesis using grown injected(1) run(2) grows.trans by blast
  qed
qed

lemma run_steps_passed:
  assumes "run_steps M p ss (w, sm) = (Inr rs, (w', sm'))" and "manager_ok p sm"
    and "list_all tr_passed rs"
  shows "commands_grow w w' \<and> (\<forall>s \<in> set ss. step_ran M p (w_commands w') s)"
  using assms
proof (induction ss arbitrary: w sm rs)
  case Nil
  then show ?case by (simp add: ok_iff grows.refl)
next
  case (Cons s ss)
  from Cons.prems(1) obtain r rs' w1 sm1 where run: "rs = r # rs'"
    "run_one_step M p s (w, sm) = (Inr r, (w1, sm1))" "run_steps M p ss (w1, sm1) = (Inr rs', (w', sm'))"
    by (auto simp: ok_iff)
  from run_one_step_passed [OF run(2) Cons.prems(2)] Cons.prems(3) run(1) Cons.IH [OF run(3)]
  show ?case by (auto intro: grows.trans step_ran_grows)
qed

lemma grows_drop: "commands_grow w (manager_drop M p sm w)"
proof -
  have "commands_grow w (fold (drop_service M p) ss w)" for ss
  proof (induction ss arbitrary: w)
    case (Cons s ss)
    have "commands_grow w (drop_service M p s w)"
      by (auto simp: drop_service_def grows.refl grows_remove split: option.split)
    with Cons show ?case by (auto intro: grows.trans)
  qed (simp add: grows.refl)
  then show ?thesis by (simp add: manager_drop_def)
qed

lemma run_configured_steps_passed:
  assumes "run_configured_steps M p scope profile only_step w = (Inr rs, w')" and "list_all tr_passed rs"
    and "s \<in> set (selected_steps p scope profile only_step)"
  shows "step_ran M p (w_commands w') s"
proof -
  from assms(1) obtain w1 sm where run:
    "run_steps M p (selected_steps p scope profile only_step) (w, manager_new) = (Inr rs, (w1, sm))"
    "w' = manager_drop M p sm w1"
    by (auto simp: run_configured_steps_def split: prod.splits)
  from run_steps_passed [OF run(1) manager_new_ok assms(2)] assms(3) run(2) show ?thesis
    by (auto intro: step_ran_grows grows_drop)
qed

lemma run_selected_passed:
  assumes "run_selected M p scope profile staged only_step w = (Inr report, w')" and "rep_passed report"
  shows "\<exists>w3 w4 w5 outcome. scope_write_reports M p scope w = (Inr (), w3) \<and>
    secrets_scan M p (if staged then SecretStaged else SecretWorkingTree)
      (w3\<lparr>w_clock := w_clock w3 + 1\<rparr>) = (Inr [], w4) \<and>
    audit_run M (pj_root p) (pj_audit_config p) (pj_reports p) (w4\<lparr>w_clock := w_clock w4 + 2\<rparr>) =
      (Inr outcome, w5) \<and> ao_total_violations outcome = 0 \<and>
    (\<forall>s \<in> set (selected_steps p scope profile only_step). step_ran M p (w_commands w') s)"
proof -
  from assms(1) obtain gates w3 w6 w7 configured u v where run:
    "scope_write_reports M p scope w = (Inr u, w3)" "run_gates M p staged w3 = (Inr gates, w6)"
    "(if list_all tr_passed gates then run_configured_steps M p scope profile only_step else ret [])
       (w6\<lparr>w_signals := w_signals w6 + 1\<rparr>) = (Inr configured, w7)"
    and report: "report = \<lparr>rep_timestamp = m_timestamp M (m_now M (w_clock w7)),
            rep_profile = (case only_step of None \<Rightarrow> profile | Some i \<Rightarrow> ''step:'' @ i),
            rep_scope = scope, rep_steps = gates @ configured,
            rep_passed = list_all tr_passed (gates @ configured)\<rparr>"
    and written: "report_write M p report (w7\<lparr>w_clock := w_clock w7 + 1\<rparr>) = (Inr v, w')"
    unfolding run_selected_def Let_def bind_ok map_err_ok cancelled_ok ensure_ok clock_now_ok ret_ok by blast
  have "within commands_grow (report_write M p report)"
    unfolding report_write_def by (auto intro!: keeps_intro)
  from grows_snd [OF this] written have "commands_grow (w7\<lparr>w_clock := w_clock w7 + 1\<rparr>) w'"
    by (metis snd_conv)
  then have grown: "commands_grow w7 w'" by (simp add: commands_grow_def)
  from report assms(2) have passed: "list_all tr_passed gates" "list_all tr_passed configured" by simp_all
  from run(2) passed(1) obtain w4 w5 outcome where gates:
    "secrets_scan M p (if staged then SecretStaged else SecretWorkingTree)
      (w3\<lparr>w_clock := w_clock w3 + 1\<rparr>) = (Inr [], w4)"
    "audit_run M (pj_root p) (pj_audit_config p) (pj_reports p) (w4\<lparr>w_clock := w_clock w4 + 2\<rparr>) =
      (Inr outcome, w5)" "ao_total_violations outcome = 0"
    by (auto simp: run_gates_def secret_gate_def audit_gate_def secret_result_def audit_result_def ok_iff
        split: if_splits)
  from run(3) passed(1) have "run_configured_steps M p scope profile only_step
      (w6\<lparr>w_signals := w_signals w6 + 1\<rparr>) = (Inr configured, w7)" by simp
  note ran = run_configured_steps_passed [OF this passed(2)]
  with run(1) grown gates show ?thesis by (simp, blast intro: step_ran_grows)
qed

section \<open>The hook\<close>

text \<open>
  C31. When the pre-commit hook exits with 0, the project was discovered and prepared, the staged
  files selected the components, the secret scan of the staged files found nothing, the audit
  counted no violation, and every step that the components and the hook profile select was started
  with its services and exited with 0 within its timeout. No failure on the way is passed over.
\<close>

theorem hook_accepts_only_passed:
  assumes "cli_main M c w = (0, w')" and "cl_command c = HookCommand"
  shows "\<exists>p selected w1 w2 w3 w4 w5 outcome.
    discover M (cl_project_root c) (cl_config c) w = Inr p \<and> prepare p w = (Inr (), w1) \<and>
    detect M p Staged w1 = (Inr selected, w2) \<and> scope_write_reports M p selected w2 = (Inr (), w3) \<and>
    secrets_scan M p SecretStaged (w3\<lparr>w_clock := w_clock w3 + 1\<rparr>) = (Inr [], w4) \<and>
    audit_run M (pj_root p) (pj_audit_config p) (pj_reports p) (w4\<lparr>w_clock := w_clock w4 + 2\<rparr>) =
      (Inr outcome, w5) \<and> ao_total_violations outcome = 0 \<and>
    (\<forall>s \<in> set (selected_steps p selected (pc_hook_profile (fc_project (pj_config p))) None).
       step_ran M p (w_commands w') s)"
proof -
  have "cli_run M c w = (Inr True, w')"
    using assms(1) by (auto simp: cli_main_def split: prod.splits sum.splits if_splits)
  then obtain p w1 where start: "discover M (cl_project_root c) (cl_config c) w = Inr p"
    "prepare p w = (Inr (), w1)" "hook_command M p w1 = (Inr True, w')"
    by (auto simp: cli_run_def assms(2) run_project_command_def ok_iff)
  let ?profile = "pc_hook_profile (fc_project (pj_config p))"
  from start(3) obtain selected w2 report where hook: "detect M p Staged w1 = (Inr selected, w2)"
    "run_selected M p selected ?profile True None w2 = (Inr report, w')" "rep_passed report"
    by (auto simp: hook_command_def verify_run_def ok_iff)
  from run_selected_passed [OF hook(2,3)] start(1,2) hook(1) show ?thesis by auto
qed

text \<open>A repository for the witness: \<open>git\<close> names one staged file, and every command exits with 0.\<close>

definition hook_machine :: preset_machine where
  "hook_machine =
     demo_machine\<lparr>m_spawn := \<lambda>_ c. Some ((demo_child c)
       \<lparr>ch_stdout := if ''rev-parse'' \<in> set (cm_args c) then ''true'' @ [CHR 0x0A]
                    else ch_stdout (demo_child c)\<rparr>)\<rparr>"

definition hook_world :: world where
  "hook_world = demo_world\<lparr>w_fs := demo_fs([''r'', ''flow''] \<mapsto> File ''flow'')\<rparr>"

definition hook_cli :: cli where
  "hook_cli =
     \<lparr>cl_project_root = Some (absolute [''r'']), cl_config = Some (components ''flow''),
      cl_command = HookCommand\<rparr>"

lemma hook_discover:
  "discover hook_machine (Some (absolute [''r''])) (Some (components ''flow'')) hook_world = Inr demo_project"
  by code_simp

lemma hook_run:
  "(case prepare demo_project hook_world of
      (Inr _, w) \<Rightarrow> (case hook_command hook_machine demo_project w of (Inr b, _) \<Rightarrow> b | _ \<Rightarrow> False)
    | _ \<Rightarrow> False)"
  by code_simp

lemma hook_exit: "fst (cli_main hook_machine hook_cli hook_world) = 0"
  using hook_run
  by (simp add: cli_main_def cli_run_def hook_cli_def gets_def bind_def lift_def hook_discover
      map_err_def run_project_command_def split: prod.splits sum.splits)

lemma hook_accepts_only_passed_witness:
  "\<exists>w' p selected w1 w2. cli_main hook_machine hook_cli hook_world = (0, w') \<and>
     discover hook_machine (cl_project_root hook_cli) (cl_config hook_cli) hook_world = Inr p \<and>
     prepare p hook_world = (Inr (), w1) \<and> detect hook_machine p Staged w1 = (Inr selected, w2) \<and>
     (\<forall>s \<in> set (selected_steps p selected (pc_hook_profile (fc_project (pj_config p))) None).
        step_ran hook_machine p (w_commands w') s)"
proof -
  obtain w' where "cli_main hook_machine hook_cli hook_world = (0, w')"
    using hook_exit by (metis prod.collapse)
  moreover have "cl_command hook_cli = HookCommand" by (simp add: hook_cli_def)
  ultimately show ?thesis
    using hook_accepts_only_passed [of hook_machine hook_cli hook_world w'] by blast
qed

end
