(* ===== verification/Spec2Isabelle.thy ===== *)
theory Spec2Isabelle
  imports Inv_Logout Thm_Atomic Thm_Users Thm_Roles Thm_Throttle Thm_Session Thm_Access Thm_Mfa Thm_Departments Thm_Queries Grants
    Thm_Config Thm_Api Thm_Retention Thm_Flow_Paths Thm_Flow_Audit Thm_Flow_Exit
begin

text \<open>
  A model of arc-admin: the administration backend (\<open>src/backend\<close>, Rust over PostgreSQL: users,
  roles, permissions and departments with row-level data scopes, cookie sessions, second factors
  and an append-only audit log) and the verification tool \<open>arc-flow\<close> that guards the repository
  (\<open>src/codex-audit-pipeline/tools/arc-flow\<close>: secret scan, architecture audit, configured steps).

  The backend. An HTTP request passes the middleware (\<open>telemetry.rs\<close>) and reaches a handler
  (\<open>handlers\<close>), whose extractor authenticates it from its session cookie (\<open>auth.rs\<close>) and checks a
  permission; the handler may further consume a short-lived step-up grant or require a module
  unlock, and calls a service (\<open>services\<close>). The service validates its input, runs guards, and calls
  repository functions (\<open>repositories\<close>), each of which is one or a few SQL statements, mostly inside
  one transaction. All state is in the database; every component communicates through it. The
  process is built from environment variables (\<open>config.rs\<close>); a separate binary archives and deletes
  old audit entries (\<open>bin/archive_audit_logs.rs\<close>).

  The tool. A command (\<open>main.rs\<close>) discovers the project (\<open>project.rs\<close>), loads and validates its
  configuration (\<open>config.rs\<close>), determines the changed files and the components they select
  (\<open>scope.rs\<close>), runs the secret scan (\<open>secrets.rs\<close>) and the architecture audit (\<open>audit.rs\<close>) as gates
  and then the selected steps (\<open>verify.rs\<close>) as child processes (\<open>process.rs\<close>) with the services they
  need (\<open>service.rs\<close>). Further commands check the machine (\<open>doctor.rs\<close>) and set a project up
  (\<open>preset.rs\<close>).

  How it is modelled. \<open>Prelude\<close> gives the type of computations: a function from the state to a
  result (\<open>Inl\<close> the error, \<open>Inr\<close> the value) and the state afterwards, also where it fails, since
  the source commits some work before it reports an error. \<open>bind\<close> is the question mark operator,
  \<open>transaction\<close> drops the changes of a body that fails, \<open>ensure\<close> and \<open>ok_or\<close> are early returns; code
  without state uses the sum type alone (\<open>Std\<close>: \<open>and_then\<close>, \<open>require\<close>, \<open>checks\<close>). The state of the
  backend is the database; that of the tool is a file system with links, the current directory,
  the commands started so far, and how often the clock and the signal flag were read. Functions
  keep their names; the repository functions carry the prefix \<open>repo_<module>_\<close>, the services
  \<open>svc_<module>_\<close> where the name alone is not unique, the handlers \<open>h_\<close>.

    \<open>Prelude\<close>, \<open>Text\<close>, \<open>Std\<close>  computations, relations between states; results, strings, maps of std
    \<open>Errors\<close>, \<open>Access\<close>        \<open>error.rs\<close>; \<open>access.rs\<close>, \<open>permissions.rs\<close>
    \<open>Database\<close>              the tables of \<open>migrations/\<close> as records and lists of rows, SQL primitives
    \<open>Hierarchy\<close>             the recursive queries over departments
    \<open>Repo_*\<close>                \<open>repositories/*.rs\<close>, with the constraints of the tables as errors
    \<open>Session\<close>               \<open>auth.rs\<close>: tokens, cookies, CSRF, client address, extractors
    \<open>Svc_*\<close>                 \<open>services/*.rs\<close>
    \<open>Handlers\<close>              \<open>handlers/*.rs\<close> and the calls of the API (\<open>api_call\<close>, \<open>serve\<close>)
    \<open>App_Config\<close>            \<open>config.rs\<close>, the pool configuration of \<open>db.rs\<close>, the construction in \<open>main.rs\<close>
    \<open>Telemetry\<close>             \<open>telemetry.rs\<close>: request identifiers, layers, log levels
    \<open>Router\<close>, \<open>Open_Api\<close>    \<open>lib.rs\<close>; the operations of \<open>openapi.rs\<close>
    \<open>Retention\<close>             \<open>bin/archive_audit_logs.rs\<close>
    \<open>Flow_Path\<close>             paths and a file system with directories, files and symbolic links
    \<open>Flow_Config\<close>, \<open>Flow_Migrate\<close>  the tool's \<open>config.rs\<close>
    \<open>Flow_Process\<close>, \<open>Flow_Project\<close>, \<open>Flow_Scope\<close>, \<open>Flow_Secrets\<close>, \<open>Flow_Service\<close>, \<open>Flow_Verify\<close>,
    \<open>Flow_Doctor\<close>, \<open>Flow_Preset\<close>, \<open>Flow_Main\<close>  the files of those names
    \<open>Flow_Lexer\<close>, \<open>Flow_Audit\<close>, \<open>Flow_Logs\<close>  \<open>audit.rs\<close>: comments, the audit, the log extraction
    \<open>System\<close>                the contract between the writing operations and \<open>serve\<close> (a locale)
    \<open>Inv_*\<close>                 the invariants, each an interpretation of that contract
    \<open>Thm_*\<close>, \<open>Grants\<close>       the properties of the components
    \<open>Demo\<close>, \<open>Flow_Demo\<close>     a small installation and a small project that exercise the theorems

  What the lemmas show. \<open>System\<close> proves once that a relation between database states
  which every writing operation respects is respected by every request; that the last super
  administrator stays (\<open>Inv_Admin\<close>), that the departments stay a forest
  (\<open>Inv_Hierarchy\<close>), that the session limit holds (\<open>Inv_Sessions\<close>), that a
  session that was logged out stays ended (\<open>Inv_Logout\<close>), that the built-in role is
  immutable (\<open>Inv_Builtin\<close>), that the audit log only grows and that challenges are
  bounded are interpretations. \<open>Thm_Access\<close>: the routes enforce permissions and step-up
  grants. \<open>Thm_Auth\<close>, \<open>Thm_Session\<close>, \<open>Thm_Login\<close>,
  \<open>Thm_Throttle\<close>: what authenticates, that a login is usable, what a password alone can
  do, and throttling. \<open>Thm_Mfa\<close>, \<open>Grants\<close>: one-time codes, grants and
  secrets. \<open>Thm_Users\<close>, \<open>Thm_Roles\<close>: no escalation of privileges.
  \<open>Thm_Atomic\<close>: what a service that fails leaves behind.
  \<open>Thm_Departments\<close>, \<open>Thm_Queries\<close>: queries end and answer exactly.
  \<open>Thm_Config\<close>: accepted configurations are well-formed, request identifiers sanitised.
  \<open>Thm_Api\<close>: routes, contract and API description agree with each other and with what
  the handlers do. \<open>Thm_Retention\<close>: nothing is deleted that is not in a published
  archive. \<open>Thm_Flow_Paths\<close>: resolved paths stay in the repository.
  \<open>Thm_Flow_Audit\<close>: the comment lexer ends and is exact, the verdict of an audit is
  that the selected files are clean. \<open>Thm_Flow_Steps\<close>: the command a step starts;
  \<open>Thm_Flow_Exit\<close>: what exit code 0 of the hook means. This theory composes requests,
  the bootstrap binary and the retention of the audit log into runs (\<open>step\<close>) and states
  the invariants over them.

  Bounds. Identifiers, counts and times are integers; the places where the code multiplies or adds
  client-supplied numbers are computed in 64 bits with wrap-around (\<open>wrap_i64\<close>), and parsers of
  numbers have the range of their type. Times are microseconds in the backend and milliseconds in
  the tool. Text is a list of bytes (UTF-8). The recursive query with \<open>UNION ALL\<close>, the loops that
  wait for a process or a container and the retention loop are partial functions: \<open>None\<close> stands for
  a loop that does not end (in the first case for the statement timeout). The query is shown total
  on a well-formed hierarchy, the retention loop on every database, and the waiting loop for every
  clock that reaches the timeout. The lexer is a \<open>while_option\<close>, shown total for accepted syntax.
  Links are followed \<open>max_links\<close> times, as by the kernel. No other definition uses fuel, except the
  specification \<open>follow\<close> of a client that walks the audit log, for which the length of the log is
  enough.

  Parameters. \<open>env\<close> holds what a request reads from outside: the clock of the database and of the
  process, the trace id, random bytes, SHA-256, Argon2 and the collation of the database;
  \<open>mfa_config\<close> the AES-GCM, TOTP and WebAuthn crates; \<open>app_state\<close> the test of a trusted network
  (ipnet) and the timestamp constructor of chrono; \<open>config_crates\<close> and \<open>retention_env\<close> the decoders,
  encoders and the calendar they use. The tool's \<open>machine\<close> records hold the environment variables,
  the behaviour of started commands at each poll, the clock, the cancellation flag, and the crates
  for TOML, JSON, regular expressions, globs, URLs and directory walks. Theorems that need a law of
  one of them state it.

  Not modelled. Requests run one after the other: the interleaving of concurrent transactions is
  not modelled (row locks therefore have no effect), nor are HTTP framing, JSON decoding of requests,
  the text of the metrics, spans and exporters, connecting and migrating the database, and the
  concurrency limit of the hashing tasks; message texts are constructors. Of the tool, printing,
  argument parsing, signal handlers, process groups and the embedded preset files are not modelled,
  and a file system that somebody else changes at the same time.
\<close>

section \<open>Runs of the installation\<close>

inductive step :: "'net app_state \<Rightarrow> db \<Rightarrow> db \<Rightarrow> bool" for st :: "'net app_state" where
  request: "step st s (snd (serve E st rq call s))"
| bootstrap: "step st s (snd (bootstrap_super_admin E username password display_name email s))"
| archive: "step st s (snd (delete_archived ids cutoff s))"

lemma archive_frame:
  assumes "\<And>g. R s (audit_logs_update g s)" and "R s s"
  shows "R s (snd (delete_archived ids cutoff s))"
  using assms(2) assms(1) [of "delete_where (\<lambda>a. al_id a \<in> set ids \<and> al_created_at a < cutoff)"]
  by (auto simp: delete_archived_def transaction_def bind_def gets_def modify_def ensure_def ret_def
      throw_def)

lemma run_keeps:
  assumes "(step st)\<^sup>*\<^sup>* s t" and "P s" and "\<And>s t. P s \<Longrightarrow> step st s t \<Longrightarrow> P t"
  shows "P t"
  using assms by (induction rule: rtranclp_induct) auto

lemma step_keeps:
  assumes "\<And>E rq call. within (keeping P) (serve E st rq call)"
    and "\<And>E u p d e. within (keeping P) (bootstrap_super_admin E u p d e)"
    and "\<And>g s. P s \<Longrightarrow> P (audit_logs_update g s)"
    and "P s" and "step st s t"
  shows "P t"
  using assms(5)
proof (cases rule: step.cases)
  case (request E rq call)
  with assms(1) [of E rq call] assms(4) show ?thesis by (simp add: within_def keeping_def)
next
  case (bootstrap E u p d e)
  with assms(2) [of E u p d e] assms(4) show ?thesis by (simp add: within_def keeping_def)
next
  case (archive ids cutoff)
  with archive_frame [of "keeping P" s ids cutoff] assms(3,4) show ?thesis by (simp add: keeping_def)
qed

lemma step_admin: "admin_ok s \<Longrightarrow> step st s t \<Longrightarrow> admin_ok t"
  by (rule step_keeps [OF admin.within_serve [OF refl] bootstrap_admin])
    (auto simp: admin_ok_def adm_def keys_ok_def super_admin_role_def active_members_def)

lemma step_hierarchy: "hierarchy_ok s \<Longrightarrow> step st s t \<Longrightarrow> hierarchy_ok t"
  by (rule step_keeps [OF hierarchy.within_serve [OF refl] bootstrap_hierarchy])
    (auto simp: hierarchy_ok_def)

lemma step_sessions:
  "sessions_ok (nat (max_sessions_per_user (app_auth st))) s \<Longrightarrow> step st s t \<Longrightarrow>
     sessions_ok (nat (max_sessions_per_user (app_auth st))) t"
  by (rule step_keeps [OF sessions.within_serve [OF refl] bootstrap_sessions])
    (auto simp: sessions_ok_def limited_def unrevoked_sessions_def)

lemma step_builtin: "builtin A s \<Longrightarrow> step st s t \<Longrightarrow> builtin A t"
  by (rule step_keeps [OF builtin.within_serve [OF refl] bootstrap_builtin])
    (auto simp: builtin_def builtin_except_def)

lemma step_challenges: "challenges_ok s \<Longrightarrow> step st s t \<Longrightarrow> challenges_ok t"
  by (rule step_keeps [OF challenges.within_serve [OF refl] bootstrap_challenges])
    (auto simp: challenges_ok_def)

lemma step_ended: "ended n h i s \<Longrightarrow> step st s t \<Longrightarrow> ended n h i t"
  by (rule step_keeps [OF ended.within_serve [OF refl] bootstrap_ended]) (auto simp: ended_def)

lemma one_request: "(step st)\<^sup>*\<^sup>* s (snd (serve E st rq call s))"
  by (rule r_into_rtranclp) (rule step.request)

lemma demo_admin: "admin_ok demo_db"
  by (simp add: admin_ok_def adm_def keys_ok_def primary_key_def super_admin_role_def
      active_members_def demo_db_def demo_user_def demo_role_def active_user_def)

section \<open>System-wide properties\<close>

text \<open>
  C1. Whatever requests are served, the installation never loses its last active super
  administrator: some user that is active and not deleted keeps the built-in role.
\<close>

theorem last_super_admin_kept:
  assumes "admin_ok s" and "(step st)\<^sup>*\<^sup>* s t"
  shows "\<exists>rid. super_admin_role t = Some rid \<and> active_members t rid \<noteq> {}"
proof -
  have "admin_ok t" using assms(2,1) by (rule run_keeps) (rule step_admin)
  then show ?thesis by (auto simp: admin_ok_def adm_def)
qed

theorem last_super_admin_kept_witness:
  "\<exists>rid. super_admin_role (snd (serve demo_env demo_app (demo_request CHR ''b'') (UsersDelete 1) demo_db))
        = Some rid \<and>
      active_members (snd (serve demo_env demo_app (demo_request CHR ''b'') (UsersDelete 1) demo_db)) rid \<noteq> {}"
  using last_super_admin_kept [OF demo_admin one_request] .

text \<open>
  C4. The department hierarchy stays a forest whose parents exist in the same organization.
\<close>

theorem department_forest_kept:
  assumes "hierarchy_ok s" and "(step st)\<^sup>*\<^sup>* s t"
  shows "forest (departments t) \<and> parents_exist (departments t) \<and> distinct (map d_id (departments t))"
proof -
  have "hierarchy_ok t" using assms(2,1) by (rule run_keeps) (rule step_hierarchy)
  then show ?thesis by (simp add: hierarchy_okD)
qed

theorem department_forest_kept_witness:
  "forest (departments (snd (serve demo_env demo_app (demo_request CHR ''b'')
     (DepartmentsDelete 3) demo_db)))"
  using department_forest_kept [OF demo_forest one_request] by blast

text \<open>
  C10. What was logged out stays logged out. Whatever requests, bootstraps and archive runs follow
  the logout, in the state they lead to no request at any time authenticates as the session that
  was logged out, and a request with its token is answered with Unauthorized and changes nothing.
  The one exception is stated: a session opened after the logout was given a random token with the
  same hash.
\<close>

theorem logout_invalidates_token:
  assumes ok: "sessions_ok n s" and auth: "authenticate E secure rq s = (Inr actor, s1)"
    and out: "logout E (user_id actor) (session_id actor) s1 = (Inr (), t)"
    and run: "(step st)\<^sup>*\<^sup>* t u"
    and token: "cookie_token rq (session_cookie_name secure) = Some token"
  shows "(\<forall>E' secure' rq' actor' v. authenticate E' secure' rq' u = (Inr actor', v) \<longrightarrow>
      session_id actor' \<noteq> session_id actor) \<and>
    (\<forall>E' rq'. sha256 E' = sha256 E \<longrightarrow> cookie_token rq' (session_cookie_name secure) = Some token \<longrightarrow>
      authenticate E' secure rq' u = (Inl Unauthorized, u) \<or>
      (\<exists>x \<in> set (auth_sessions u). s_session_token_hash x = token_hash E token \<and> sessions_seq t \<le> s_id x))"
proof -
  note ends = logout_ends [OF ok auth out token]
  have u: "ended (sessions_seq t) (token_hash E token) (session_id actor) u"
    using run conjunct1 [OF ends] by (rule run_keeps) (rule step_ended)
  have "token_hash E' token = token_hash E token" if "sha256 E' = sha256 E" for E'
    using that by (simp add: token_hash_def)
  with u ended_refused [OF u] ended_session [OF u conjunct2 [OF ends]] show ?thesis by blast
qed

text \<open>A logout, then a request that still presents the token, then another one.\<close>

theorem logout_invalidates_token_witness:
  "\<exists>actor s1 t. authenticate demo_env False (demo_request CHR ''b'') demo_db = (Inr actor, s1) \<and>
     logout demo_env (user_id actor) (session_id actor) s1 = (Inr (), t) \<and>
     (let u = snd (serve demo_env demo_app (demo_request CHR ''b'') (UsersDelete 3) t)
      in authenticate demo_env False (demo_request CHR ''b'') u = (Inl Unauthorized, u) \<or>
         (\<exists>x \<in> set (auth_sessions u). sessions_seq t \<le> s_id x))"
proof -
  have ok: "sessions_ok 2 demo_db"
    by (simp add: sessions_ok_def limited_def primary_key_def unrevoked_sessions_def demo_db_def
        demo_session_def) code_simp
  have "\<not> isl (fst (bind (authenticate demo_env False (demo_request CHR ''b''))
      (\<lambda>actor. logout demo_env (user_id actor) (session_id actor)) demo_db))" by code_simp
  then obtain actor s1 t where a: "authenticate demo_env False (demo_request CHR ''b'') demo_db = (Inr actor, s1)"
    and l: "logout demo_env (user_id actor) (session_id actor) s1 = (Inr (), t)"
    unfolding not_isl_ok by (auto simp: bind_ok)
  from a obtain token where c: "cookie_token (demo_request CHR ''b'') (session_cookie_name False) = Some token"
    by (rule authenticate_context)
  let ?u = "snd (serve demo_env demo_app (demo_request CHR ''b'') (UsersDelete 3) t)"
  note refused = logout_invalidates_token [OF ok a l one_request [where st = demo_app and E = demo_env
      and rq = "demo_request CHR ''b''" and call = "UsersDelete 3"] c]
  have "authenticate demo_env False (demo_request CHR ''b'') ?u = (Inl Unauthorized, ?u) \<or>
      (\<exists>x \<in> set (auth_sessions ?u). sessions_seq t \<le> s_id x)"
    using conjunct2 [OF refused] c by blast
  with a l show ?thesis unfolding Let_def by blast
qed

text \<open>
  C6. The session limit of the configuration holds for every user after any run: no user has more
  unrevoked sessions than \<open>max_sessions_per_user\<close>, however logins, rotations, password changes and
  administrative changes are interleaved.
\<close>

theorem session_limit_kept:
  assumes "sessions_ok (nat (max_sessions_per_user (app_auth st))) s" and "(step st)\<^sup>*\<^sup>* s t"
  shows "length (unrevoked_sessions t uid) \<le> nat (max_sessions_per_user (app_auth st))"
proof -
  have "sessions_ok (nat (max_sessions_per_user (app_auth st))) t"
    using assms(2,1) by (rule run_keeps) (rule step_sessions)
  then show ?thesis by (simp add: sessions_ok_def limited_def)
qed

lemma demo_tokens:
  "distinct (map (\<lambda>c. token_hash demo_env (demo_token c)) [CHR ''a'', CHR ''b'', CHR ''c''])"
  by code_simp

lemma demo_sessions: "sessions_ok (nat (max_sessions_per_user (app_auth demo_app))) demo_db"
  using demo_tokens
  by (simp add: sessions_ok_def limited_def primary_key_def unrevoked_sessions_def demo_db_def
      demo_session_def demo_app_def demo_auth_def)

theorem session_limit_kept_witness:
  "length (unrevoked_sessions (snd (serve demo_env demo_app (demo_request CHR ''b'') Logout demo_db)) 1)
     \<le> nat (max_sessions_per_user (app_auth demo_app))"
  using session_limit_kept [OF demo_sessions one_request] .

text \<open>
  C7. The built-in super administrator role cannot be weakened or widened from inside: after any run
  the role with the code \<open>super_admin\<close> still exists, is active, has the data scope \<open>all\<close> and
  carries exactly the permissions it carried before.
\<close>

theorem builtin_role_kept:
  assumes "builtin A s" and "(step st)\<^sup>*\<^sup>* s t"
  shows "\<exists>r \<in> set (roles t). r_code r = ''super_admin'' \<and> r_is_active r \<and> r_data_scope r = ''all'' \<and>
    {p. (r_id r, p) \<in> set (role_permissions t)} = A"
proof -
  have "builtin A t" using assms(2,1) by (rule run_keeps) (rule step_builtin)
  then show ?thesis by (auto simp: builtin_def builtin_except_def)
qed

lemma demo_builtin: "builtin {p. (1, p) \<in> set (role_permissions demo_db)} demo_db"
  by (simp add: builtin_def builtin_except_def primary_key_def demo_db_def demo_role_def)

theorem builtin_role_kept_witness:
  "\<exists>r \<in> set (roles (snd (serve demo_env demo_app (demo_request CHR ''b'') (RolesDelete 1) demo_db))).
     r_code r = ''super_admin'' \<and> r_is_active r \<and> r_data_scope r = ''all'' \<and>
     {p. (r_id r, p) \<in> set (role_permissions (snd (serve demo_env demo_app
        (demo_request CHR ''b'') (RolesDelete 1) demo_db)))}
       = {p. (1, p) \<in> set (role_permissions demo_db)}"
  using builtin_role_kept [OF demo_builtin one_request] .

text \<open>
  A second factor cannot be guessed without bound: over every run each challenge that is still
  open has taken fewer than five wrong answers, so a challenge is closed by the fifth.
\<close>

theorem challenge_attempts_bounded:
  assumes "challenges_ok s" and "(step st)\<^sup>*\<^sup>* s t"
    and "c \<in> set (auth_mfa_challenges t)" and "c_consumed_at c = None"
  shows "0 \<le> c_attempt_count c \<and> c_attempt_count c < 5"
proof -
  have "challenges_ok t" using assms(2,1) by (rule run_keeps) (rule step_challenges)
  with assms(3,4) show ?thesis by (auto simp: challenges_ok_def)
qed

theorem challenge_attempts_bounded_witness:
  "\<exists>t c. (step demo_app)\<^sup>*\<^sup>* demo_waiting t \<and> c \<in> set (auth_mfa_challenges t) \<and> c_consumed_at c = None \<and>
     c_attempt_count c < 5"
proof -
  obtain c where c: "c \<in> set (auth_mfa_challenges demo_waiting)" "c_consumed_at c = None"
    by (simp add: demo_waiting_def)
  have "challenges_ok demo_waiting" by (simp add: challenges_ok_def demo_waiting_def)
  from challenge_attempts_bounded [OF this rtranclp.rtrancl_refl [of "step demo_app"] c] c show ?thesis by blast
qed

text \<open>
  The bootstrap binary establishes the administration: where it succeeds, an active user with
  the built-in role exists, and by the first property this stays so in every later run.
\<close>

theorem bootstrap_then_run:
  assumes "keys_ok s" and "bootstrap_super_admin E u p d e s = (Inr r, t)" and "(step st)\<^sup>*\<^sup>* t v"
  shows "\<exists>rid. super_admin_role v = Some rid \<and> active_members v rid \<noteq> {}"
proof -
  have "admin_ok t" using assms(1,2) by (rule bootstrap_establishes)
  with assms(3) have "admin_ok v" by (rule run_keeps) (rule step_admin)
  then show ?thesis by (auto simp: admin_ok_def adm_def)
qed

theorem bootstrap_then_run_witness:
  "\<exists>r t rid. bootstrap_super_admin demo_env ''root'' ''correct horse battery'' ''Root'' None demo_db = (Inr r, t) \<and>
     super_admin_role t = Some rid \<and> active_members t rid \<noteq> {}"
proof -
  have keys: "keys_ok demo_db" using demo_admin by (simp add: admin_ok_def adm_def)
  have "\<not> isl (fst (bootstrap_super_admin demo_env ''root'' ''correct horse battery'' ''Root'' None demo_db))"
    by code_simp
  then obtain r t where b: "bootstrap_super_admin demo_env ''root'' ''correct horse battery'' ''Root'' None demo_db = (Inr r, t)"
    unfolding not_isl_ok by blast
  from bootstrap_then_run [OF keys b rtranclp.rtrancl_refl [of "step demo_app"]] b show ?thesis by blast
qed

text \<open>
  C15. A request only appends to the audit log.
\<close>

theorem audit_log_appends:
  "\<exists>es. audit_logs (snd (serve E st rq call s)) = audit_logs s @ es"
  using grows.within_serve [OF refl, of E st rq call] by (simp add: within_def audit_grows_def)

end
